(* ===== verification/Prelude.thy ===== *)
theory Prelude
  imports Main "HOL-Library.List_Lexorder" "HOL-Library.Char_ord"
begin

text \<open>
  Shared vocabulary of the development: JavaScript values that travel as JSON, the errors the
  services throw, the two result shapes (a database statement or transaction, which has no
  effect when it fails; a service call, whose earlier effects stay when it fails later), and
  the generic lemmas on rows and tables that every component uses.
\<close>

section \<open>Hint collections\<close>

named_theorems result_simps \<open>unfolding of the sequencing operators\<close>
named_theorems frame \<open>which parts of the state an operation leaves alone\<close>

section \<open>JavaScript values\<close>

text \<open>
  A dynamically typed value of the source (\<open>Record<string, unknown>\<close>, job data, request
  bodies). An object is its list of own properties in insertion order. \<open>JDate\<close> is an instant
  in milliseconds, written as an ISO text when it is serialised.
\<close>

datatype json =
    JUndefined
  | JNull
  | JBool bool
  | JNum int
  | JStr string
  | JDate nat
  | JArr "json list"
  | JObj "(string \<times> json) list"

text \<open>Property access \<open>v.k\<close> on an object; a missing property is \<open>undefined\<close>.\<close>

definition jget :: "json \<Rightarrow> string \<Rightarrow> json" where
  "jget v k = (case v of JObj ps \<Rightarrow> (case map_of ps k of Some x \<Rightarrow> x | None \<Rightarrow> JUndefined)
               | _ \<Rightarrow> JUndefined)"

text \<open>\<open>{...o, k: v}\<close>: the property is overwritten in place or added at the end.\<close>

fun set_prop :: "string \<Rightarrow> json \<Rightarrow> (string \<times> json) list \<Rightarrow> (string \<times> json) list" where
  "set_prop k v [] = [(k, v)]"
| "set_prop k v (p # ps) = (if fst p = k then (k, v) # ps else p # set_prop k v ps)"

definition jset :: "string \<Rightarrow> json \<Rightarrow> json \<Rightarrow> json" where
  "jset k v obj = (case obj of JObj ps \<Rightarrow> JObj (set_prop k v ps) | _ \<Rightarrow> JObj [(k, v)])"

text \<open>
  What a JSON column, a Redis value or a queue keeps of a value: members that are
  \<open>undefined\<close> are dropped from objects and become \<open>null\<close> in arrays.
\<close>

fun json_clone :: "json \<Rightarrow> json" where
  "json_clone (JObj ps) =
     JObj (map (\<lambda>p. (fst p, json_clone (snd p))) (filter (\<lambda>p. snd p \<noteq> JUndefined) ps))"
| "json_clone (JArr xs) = JArr (map (\<lambda>x. if x = JUndefined then JNull else json_clone x) xs)"
| "json_clone v = v"

definition jopt :: "string option \<Rightarrow> json" where
  "jopt x = (case x of Some s \<Rightarrow> JStr s | None \<Rightarrow> JUndefined)"

section \<open>Errors\<close>

text \<open>What MySQL answers when it refuses a statement.\<close>

datatype db_error = DuplicateEntry | DataTooLong | OutOfRange | ForeignKeyViolation

text \<open>
  The exceptions of the program: the HTTP exceptions of NestJS it throws, with their message;
  \<open>BadRequestObj\<close>, the \<open>BadRequestException\<close> whose body is an object; \<open>QueryFailed\<close>, a
  refused statement; \<open>TypeError\<close>, a property read on \<open>null\<close>; \<open>ProviderError\<close>, an error
  raised by a third party (Stripe, opossum, SendGrid, the queue); \<open>PlainError\<close>, \<open>new Error\<close>.
\<close>

datatype error =
    BadRequest string
  | BadRequestObj json
  | Unauthorized string
  | Forbidden string
  | NotFound string
  | Conflict string
  | UnsupportedMediaType string
  | QueryFailed db_error
  | TypeError
  | ProviderError string
  | PlainError string

section \<open>Sequencing\<close>

text \<open>
  A statement or a transaction: \<open>error + 'a\<close>, where the new database is part of the value.
  When it fails nothing is returned, so nothing of it is kept: this is the rollback.
\<close>

definition bindR :: "('e + 'a) \<Rightarrow> ('a \<Rightarrow> 'e + 'b) \<Rightarrow> 'e + 'b" where
  "bindR m f = (case m of Inl e \<Rightarrow> Inl e | Inr x \<Rightarrow> f x)"

text \<open>
  A service call: the outcome and the state it leaves. A later failure keeps the state reached
  so far, as a rejected promise does after an awaited write.
\<close>

type_synonym ('a, 's) outcome = "(error + 'a) \<times> 's"

definition bindS :: "('a, 's) outcome \<Rightarrow> ('a \<Rightarrow> 's \<Rightarrow> ('b, 's) outcome) \<Rightarrow> ('b, 's) outcome" where
  "bindS m f = (case m of (Inl e, s) \<Rightarrow> (Inl e, s) | (Inr x, s) \<Rightarrow> f x s)"

lemma bindR_simps [simp, result_simps]:
  "bindR (Inl e) f = Inl e" "bindR (Inr x) f = f x"
  by (simp_all add: bindR_def)

lemma bindR_Inr_iff: "bindR m f = Inr y \<longleftrightarrow> (\<exists>x. m = Inr x \<and> f x = Inr y)"
  by (cases m) (auto simp: bindR_def)

lemma bindR_Inl_iff: "bindR m f = Inl e \<longleftrightarrow> m = Inl e \<or> (\<exists>x. m = Inr x \<and> f x = Inl e)"
  by (cases m) (auto simp: bindR_def)

lemma bindS_simps [simp, result_simps]:
  "bindS (Inl e, s) f = (Inl e, s)" "bindS (Inr x, s) f = f x s"
  by (simp_all add: bindS_def)

lemma bindS_snd:
  assumes "P (snd m)" "\<And>x s. m = (Inr x, s) \<Longrightarrow> P (snd (f x s))"
  shows "P (snd (bindS m f))"
  using assms by (cases m) (auto simp: bindS_def split: sum.splits)

section \<open>Rows and tables\<close>

text \<open>
  A table is the list of its rows. \<open>insert_row\<close> refuses a row that conflicts with a stored one
  (the unique indexes); \<open>update_where\<close> rewrites the rows that match.
\<close>

definition insert_row :: "('r \<Rightarrow> 'r \<Rightarrow> bool) \<Rightarrow> 'r \<Rightarrow> 'r list \<Rightarrow> error + 'r list" where
  "insert_row conflict r rows =
     (if list_ex (\<lambda>x. conflict x r) rows then Inl (QueryFailed DuplicateEntry)
      else Inr (rows @ [r]))"

definition update_where :: "('r \<Rightarrow> bool) \<Rightarrow> ('r \<Rightarrow> 'r) \<Rightarrow> 'r list \<Rightarrow> 'r list" where
  "update_where P f rows = map (\<lambda>r. if P r then f r else r) rows"

definition unique_rows :: "('r \<Rightarrow> 'r \<Rightarrow> bool) \<Rightarrow> 'r list \<Rightarrow> bool" where
  "unique_rows conflict rows = sorted_wrt (\<lambda>x y. \<not> conflict x y) rows"

lemma unique_rows_Nil [simp]: "unique_rows C []"
  by (simp add: unique_rows_def)

lemma insert_row_Inr:
  "insert_row C r rows = Inr rows' \<longleftrightarrow> rows' = rows @ [r] \<and> (\<forall>x\<in>set rows. \<not> C x r)"
  by (auto simp: insert_row_def list_ex_iff)

lemma insert_row_unique:
  "insert_row C r rows = Inr rows' \<Longrightarrow> unique_rows C rows \<Longrightarrow> unique_rows C rows'"
  by (auto simp: insert_row_Inr unique_rows_def sorted_wrt_append)

lemma unique_rows_filter: "unique_rows C rows \<Longrightarrow> unique_rows C (filter P rows)"
  by (simp add: unique_rows_def sorted_wrt_filter)

lemma unique_rows_map:
  assumes "\<And>x y. C (f x) (f y) = C x y"
  shows "unique_rows C (map f rows) = unique_rows C rows"
  by (simp add: unique_rows_def sorted_wrt_map assms)

lemma unique_rows_update_where:
  assumes "\<And>x y. C (f x) y = C x y" "\<And>x y. C x (f y) = C x y"
  shows "unique_rows C (update_where P f rows) = unique_rows C rows"
  unfolding update_where_def by (rule unique_rows_map) (simp add: assms)

lemma unique_rows_eq:
  assumes "unique_rows C rows" "x \<in> set rows" "y \<in> set rows"
    and "C x y" "\<And>a b. C a b = C b a"
  shows "x = y"
proof (rule ccontr)
  assume "x \<noteq> y"
  from assms(2,3) obtain i j where ij: "i < length rows" "j < length rows" "rows ! i = x" "rows ! j = y"
    by (metis in_set_conv_nth)
  with \<open>x \<noteq> y\<close> have "i < j \<or> j < i" by (metis linorder_neqE_nat)
  with assms(1) ij show False
    unfolding unique_rows_def using assms(4,5) sorted_wrt_nth_less by fastforce
qed

lemma length_update_where [simp]: "length (update_where P f rows) = length rows"
  by (simp add: update_where_def)

lemma set_update_where: "set (update_where P f rows) = (\<lambda>r. if P r then f r else r) ` set rows"
  by (simp add: update_where_def)

lemma map_update_where:
  "(\<And>r. g (f r) = g r) \<Longrightarrow> map g (update_where P f rows) = map g rows"
  by (simp add: update_where_def)

lemma update_where_none: "(\<And>r. r \<in> set rows \<Longrightarrow> \<not> P r) \<Longrightarrow> update_where P f rows = rows"
  by (simp add: update_where_def map_idI)

lemma find_update_where:
  assumes "\<And>r. Q (f r) = Q r"
  shows "find Q (update_where P f rows) = map_option (\<lambda>r. if P r then f r else r) (find Q rows)"
  by (induction rows) (auto simp: update_where_def assms)

lemma find_append: "find P (xs @ ys) = (case find P xs of Some x \<Rightarrow> Some x | None \<Rightarrow> find P ys)"
  by (induction xs) auto

lemma find_SomeD: "find P xs = Some x \<Longrightarrow> x \<in> set xs \<and> P x"
  by (induction xs) (auto split: if_splits)

lemma find_None: "find P xs = None \<longleftrightarrow> (\<forall>x\<in>set xs. \<not> P x)"
  by (induction xs) auto

lemma find_unique:
  assumes "x \<in> set xs" "P x" "\<And>y. y \<in> set xs \<Longrightarrow> P y \<Longrightarrow> y = x"
  shows "find P xs = Some x"
  using assms
proof (cases "find P xs")
  case None
  with assms(1,2) show ?thesis by (auto simp: find_None)
next
  case (Some y)
  with assms(3) show ?thesis by (auto dest: find_SomeD)
qed

text \<open>Sums over a table when one row changes: the row's contribution is replaced.\<close>

lemma sum_list_update_where:
  fixes g :: "'r \<Rightarrow> int"
  assumes "r \<in> set rows" "P r" "distinct rows" "\<And>x. x \<in> set rows \<Longrightarrow> P x \<Longrightarrow> x = r"
  shows "sum_list (map g (update_where P f rows)) = sum_list (map g rows) - g r + g (f r)"
  using assms
proof (induction rows)
  case Nil
  then show ?case by simp
next
  case (Cons x xs)
  show ?case
  proof (cases "x = r")
    case True
    have "\<not> P y" if "y \<in> set xs" for y
      using Cons.prems(3,4) True that by (metis distinct.simps(2) list.set_intros(2))
    then have "update_where P f xs = xs" by (rule update_where_none)
    with True Cons.prems(2) show ?thesis by (simp add: update_where_def)
  next
    case False
    then have "\<not> P x" using Cons.prems(4) by (meson list.set_intros(1))
    moreover have "r \<in> set xs" using Cons.prems(1) False by simp
    moreover have "distinct xs" using Cons.prems(3) by simp
    moreover have "y = r" if "y \<in> set xs" "P y" for y
      using Cons.prems(4) that by (meson list.set_intros(2))
    ultimately show ?thesis
      using Cons.IH [OF _ Cons.prems(2)] by (simp add: update_where_def)
  qed
qed

lemma unique_rows_distinct:
  assumes "unique_rows C rows" "\<And>x. C x x"
  shows "distinct rows"
  using assms unfolding unique_rows_def by (induction rows) auto

section \<open>Reachable states\<close>

inductive reach :: "('s \<Rightarrow> bool) \<Rightarrow> ('s \<Rightarrow> 's \<Rightarrow> bool) \<Rightarrow> 's \<Rightarrow> bool" for init step where
  reach_init: "init s \<Longrightarrow> reach init step s"
| reach_step: "reach init step s \<Longrightarrow> step s t \<Longrightarrow> reach init step t"

text \<open>The contract of an invariant: it holds at the start and every step keeps it.\<close>

locale invariant_system =
  fixes init :: "'s \<Rightarrow> bool"
    and step :: "'s \<Rightarrow> 's \<Rightarrow> bool"
    and inv :: "'s \<Rightarrow> bool"
  assumes inv_init: "init s \<Longrightarrow> inv s"
    and inv_step: "inv s \<Longrightarrow> step s t \<Longrightarrow> inv t"
begin

lemma always: "reach init step s \<Longrightarrow> inv s"
  by (induction rule: reach.induct) (auto intro: inv_init inv_step)

lemma along: "step\<^sup>*\<^sup>* s t \<Longrightarrow> inv s \<Longrightarrow> inv t"
  by (induction rule: rtranclp_induct) (auto intro: inv_step)

end

end
