(* ===== verification/JsNumber.thy ===== *)
theory JsNumber
  imports Prelude
begin

text \<open>
  JavaScript numbers where the code does arithmetic on money. Amounts and balances are whole
  cents held in a \<open>bigint\<close> column, read with \<open>Number(...)\<close> and added as IEEE doubles. An int
  of the model is the exact value of a double that is a whole number; \<open>to_double\<close> is the
  rounding (to 53 significant bits, ties to even) that \<open>Number\<close> and every \<open>+\<close> and \<open>-\<close> apply.
\<close>

section \<open>Rounding to a double\<close>

fun bit_length :: "nat \<Rightarrow> nat" where
  "bit_length n = (if n = 0 then 0 else Suc (bit_length (n div 2)))"

declare bit_length.simps [simp del]

definition round_half_even :: "nat \<Rightarrow> nat \<Rightarrow> nat" where
  "round_half_even n d =
     (let q = n div d; r = n mod d
      in if 2 * r < d then q else if d < 2 * r then q + 1 else if even q then q else q + 1)"

definition to_double :: "int \<Rightarrow> int" where
  "to_double n =
     (let a = nat \<bar>n\<bar>; e = bit_length a - 53
      in sgn n * int (round_half_even a (2 ^ e) * 2 ^ e))"

definition js_add :: "int \<Rightarrow> int \<Rightarrow> int" where
  "js_add a b = to_double (a + b)"

definition js_sub :: "int \<Rightarrow> int \<Rightarrow> int" where
  "js_sub a b = to_double (a - b)"

text \<open>\<open>Number.MAX_SAFE_INTEGER\<close> and the range of a MySQL \<open>bigint\<close>.\<close>

definition max_safe :: int where
  "max_safe = 2 ^ 53 - 1"

definition bigint_ok :: "int \<Rightarrow> bool" where
  "bigint_ok n \<longleftrightarrow> - (2 ^ 63) \<le> n \<and> n < 2 ^ 63"

section \<open>Where the rounding is exact\<close>

lemma bit_length_bounds: "0 < n \<Longrightarrow> 2 ^ (bit_length n - 1) \<le> n \<and> n < 2 ^ bit_length n"
proof (induction n rule: bit_length.induct)
  case (1 n)
  show ?case
  proof (cases "n div 2 = 0")
    case True
    with 1 have "n = 1" by auto
    then show ?thesis by (simp add: bit_length.simps)
  next
    case False
    with 1 have IH: "2 ^ (bit_length (n div 2) - 1) \<le> n div 2" "n div 2 < 2 ^ bit_length (n div 2)"
      by auto
    obtain k where k: "bit_length (n div 2) = Suc k"
      using False by (simp add: bit_length.simps [of "n div 2"])
    have "bit_length n = Suc (Suc k)"
      using 1 k by (simp add: bit_length.simps [of n])
    moreover have "2 * 2 ^ k \<le> n" "n < 2 * (2 * 2 ^ k)"
      using IH k by simp_all
    ultimately show ?thesis by simp
  qed
qed

lemma bit_length_le: "n < 2 ^ k \<Longrightarrow> bit_length n \<le> k"
proof (cases "n = 0")
  case False
  assume "n < 2 ^ k"
  with False have "2 ^ (bit_length n - 1) < (2::nat) ^ k"
    using bit_length_bounds [of n] by linarith
  then have "bit_length n - 1 < k" by (simp add: power_strict_increasing_iff)
  then show ?thesis by simp
qed (simp add: bit_length.simps)

lemma bit_length_ge: "2 ^ k \<le> n \<Longrightarrow> k < bit_length n"
proof -
  assume a: "2 ^ k \<le> n"
  have "0 < (2::nat) ^ k" by simp
  with a have "0 < n" by linarith
  then have "n < 2 ^ bit_length n" using bit_length_bounds by blast
  with a have "(2::nat) ^ k < 2 ^ bit_length n" by linarith
  then show ?thesis by (simp add: power_strict_increasing_iff)
qed

lemma to_double_0 [simp]: "to_double 0 = 0"
  by (simp add: to_double_def)

lemma to_double_exact: "\<bar>n\<bar> < 2 ^ 53 \<Longrightarrow> to_double n = n"
proof -
  assume "\<bar>n\<bar> < 2 ^ 53"
  then have "nat \<bar>n\<bar> < 2 ^ 53" by (simp add: nat_less_iff)
  then have "bit_length (nat \<bar>n\<bar>) - 53 = 0" using bit_length_le by fastforce
  then show ?thesis
    by (simp add: to_double_def round_half_even_def Let_def sgn_mult_abs abs_mult_sgn mult.commute)
qed

lemma round_half_even_ge: "d * q \<le> n \<Longrightarrow> 0 < d \<Longrightarrow> q \<le> round_half_even n d"
proof -
  assume "d * q \<le> n" "0 < d"
  then have "q \<le> n div d" by (metis div_le_mono nonzero_mult_div_cancel_left not_less0)
  then show ?thesis by (auto simp: round_half_even_def Let_def)
qed

lemma to_double_large: "2 ^ 53 \<le> \<bar>n\<bar> \<Longrightarrow> 2 ^ 53 \<le> \<bar>to_double n\<bar>"
proof -
  assume a: "2 ^ 53 \<le> \<bar>n\<bar>"
  define m where "m = nat \<bar>n\<bar>"
  from a have m: "2 ^ 53 \<le> m" by (simp add: m_def)
  then have m0: "0 < m" using zero_less_power [of "2::nat" 53] by simp
  define e where "e = bit_length m - 53"
  from m have "53 < bit_length m" by (rule bit_length_ge)
  then have len: "bit_length m - 1 = 52 + e" and e0: "0 < e" by (auto simp: e_def)
  from m0 have "2 ^ (bit_length m - 1) \<le> m" using bit_length_bounds by blast
  with len have "2 ^ e * 2 ^ 52 \<le> m" by (simp add: power_add mult.commute)
  then have q: "2 ^ 52 \<le> round_half_even m (2 ^ e)" by (rule round_half_even_ge) simp
  have "(2::nat) ^ 1 \<le> 2 ^ e" using e0 by (intro power_increasing) auto
  with q have "2 ^ 52 * 2 ^ 1 \<le> round_half_even m (2 ^ e) * 2 ^ e" by (intro mult_mono) auto
  then have "int (2 ^ 53) \<le> int (round_half_even m (2 ^ e) * 2 ^ e)"
    unfolding zle_int by simp
  moreover have "\<bar>sgn n\<bar> = 1" using a by (auto simp: abs_sgn_eq)
  ultimately show ?thesis
    unfolding to_double_def Let_def m_def [symmetric] e_def [symmetric] abs_mult by simp
qed

lemma to_double_sgn: "sgn (to_double n) = sgn n"
proof (cases "\<bar>n\<bar> < 2 ^ 53")
  case True
  then show ?thesis by (simp add: to_double_exact)
next
  case False
  then have "to_double n \<noteq> 0" using to_double_large [of n] by auto
  then show ?thesis
    unfolding to_double_def Let_def by (auto simp: sgn_mult)
qed

lemma to_double_neg_iff: "to_double n < 0 \<longleftrightarrow> n < 0"
  using to_double_sgn [of n] by (metis sgn_less)

lemma to_double_nonneg_iff: "0 \<le> to_double n \<longleftrightarrow> 0 \<le> n"
  using to_double_neg_iff [of n] by linarith

text \<open>A result in the safe range was computed exactly, whatever the operands were.\<close>

lemma to_double_safe: "\<bar>to_double n\<bar> \<le> max_safe \<Longrightarrow> to_double n = n"
  using to_double_exact [of n] to_double_large [of n] by (fastforce simp: max_safe_def)

lemma to_double_id: "0 \<le> n \<Longrightarrow> n \<le> max_safe \<Longrightarrow> to_double n = n"
  by (rule to_double_exact) (simp add: max_safe_def)

end
