(* ===== verification/Entities.thy ===== *)
theory Entities
  imports JsNumber
begin

text \<open>
  The data of the program: the enumerations of \<open>shared/constants\<close>, \<open>shared/events\<close> and the
  entity files with the texts they are stored under, and one record per TypeORM entity. Every
  entity record extends \<open>base_entity\<close>, as every entity class extends \<open>BaseEntity\<close>.
\<close>

section \<open>Enumerations\<close>

datatype UserRole = Admin | User

datatype SupportedCurrency = EUR | USD | GBP | NGN

datatype LedgerEntryType = LedgerDeposit | TransferOut | TransferIn

datatype TransactionStatus = TxnPending | TxnCompleted | TxnFailed

datatype TransactionType = TxnDeposit

datatype TransferStatus = TransferPending | TransferDone | TransferFailed

datatype DomainEventName =
  UserRegistered | DepositSucceeded | TransferCompleted | TransferSent | TransferReceived

text \<open>The string values of the enum members.\<close>

fun role_text :: "UserRole \<Rightarrow> string" where
  "role_text Admin = ''ADMIN''"
| "role_text User = ''USER''"

fun currency_text :: "SupportedCurrency \<Rightarrow> string" where
  "currency_text EUR = ''EUR''"
| "currency_text USD = ''USD''"
| "currency_text GBP = ''GBP''"
| "currency_text NGN = ''NGN''"

fun event_text :: "DomainEventName \<Rightarrow> string" where
  "event_text UserRegistered = ''UserRegistered''"
| "event_text DepositSucceeded = ''DepositSucceeded''"
| "event_text TransferCompleted = ''TransferCompleted''"
| "event_text TransferSent = ''TransferSent''"
| "event_text TransferReceived = ''TransferReceived''"

definition DEFAULT_CURRENCY :: SupportedCurrency where
  "DEFAULT_CURRENCY = EUR"

text \<open>\<open>@IsEnum(SupportedCurrency)\<close> and \<open>z.nativeEnum(UserRole)\<close> on a string.\<close>

definition is_currency :: "string \<Rightarrow> bool" where
  "is_currency s = (s \<in> set (map currency_text [EUR, USD, GBP, NGN]))"

fun parse_role :: "string \<Rightarrow> UserRole option" where
  "parse_role s = (if s = ''ADMIN'' then Some Admin else if s = ''USER'' then Some User else None)"

lemma event_text_inject [simp]: "event_text a = event_text b \<longleftrightarrow> a = b"
  by (cases a; cases b) simp_all

lemma parse_role_text [simp]: "parse_role (role_text r) = Some r"
  by (cases r) simp_all

lemma currency_text_is_currency [simp]: "is_currency (currency_text c)"
  by (cases c) (simp_all add: is_currency_def)

text \<open>
  The life cycle of a deposit as an order: \<open>PENDING\<close> is below the two final states, which are
  not comparable.
\<close>

instantiation TransactionStatus :: order
begin

definition less_eq_TransactionStatus :: "TransactionStatus \<Rightarrow> TransactionStatus \<Rightarrow> bool" where
  "less_eq_TransactionStatus a b \<longleftrightarrow> a = TxnPending \<or> a = b"

definition less_TransactionStatus :: "TransactionStatus \<Rightarrow> TransactionStatus \<Rightarrow> bool" where
  "less_TransactionStatus a b \<longleftrightarrow> a = TxnPending \<and> b \<noteq> TxnPending"

instance
  by standard (auto simp: less_eq_TransactionStatus_def less_TransactionStatus_def)

end

section \<open>Entities\<close>

record base_entity =
  entity_id :: string
  created_at :: nat
  updated_at :: nat

record users_row = base_entity +
  user_name :: string
  user_email :: string
  user_password :: string
  user_role :: UserRole

record wallet = base_entity +
  wallet_user_id :: string
  wallet_balance :: int
  wallet_currency :: string
  wallet_tag :: string

record ledger_entry = base_entity +
  ledger_wallet_id :: string
  ledger_type :: LedgerEntryType
  ledger_amount :: int
  ledger_currency :: string
  ledger_balance_after :: int
  ledger_key :: string

record transaction = base_entity +
  txn_user_id :: string
  txn_type :: TransactionType
  txn_amount :: int
  txn_currency :: string
  txn_payment_method :: string
  txn_status :: TransactionStatus
  txn_key :: string
  txn_provider_ref :: "string option"
  txn_failure_reason :: "string option"

record transfer = base_entity +
  transfer_from_user_id :: string
  transfer_to_user_id :: string
  transfer_amount :: int
  transfer_currency :: string
  transfer_status :: TransferStatus
  transfer_key :: string
  transfer_failure_reason :: "string option"

record outbox_event = base_entity +
  outbox_event_name :: string
  outbox_aggregate_id :: string
  outbox_payload_json :: json
  outbox_occurred_at :: nat
  outbox_processed_at :: "nat option"
  outbox_retry_count :: nat

text \<open>
  What the code takes from its surroundings during one call: the clock (\<open>new Date()\<close>, in
  milliseconds; the readings of one call are taken as equal), the UUIDs drawn for the rows it
  inserts, and the two bytes of \<open>randomBytes(2)\<close>.
\<close>

record ambient =
  clock :: nat
  uuid :: "nat \<Rightarrow> string"
  random_bytes :: "nat \<times> nat"

text \<open>What a ledger entry does to the balance of its wallet.\<close>

definition signed_amount :: "ledger_entry \<Rightarrow> int" where
  "signed_amount e =
     (case ledger_type e of TransferOut \<Rightarrow> - ledger_amount e | _ \<Rightarrow> ledger_amount e)"

end
