(* ===== verification/Database.thy ===== *)
theory Database
  imports Entities
begin

text \<open>
  The MySQL database as the source declares it: six tables, the unique indexes and the column
  sizes of the entity classes. A table is the list of its rows; an insertion is refused as the
  schema says. \<open>db_coll\<close> is the collation of the string columns, a parameter of the database
  the program runs on: two texts are equal for MySQL when their collation keys are equal (the
  default collation ignores case, a binary one compares bytes). It is the identity or coarser,
  and nothing else is assumed of it.
\<close>

section \<open>The tables\<close>

record db =
  db_coll :: "string \<Rightarrow> string"
  db_users :: "users_row list"
  db_wallets :: "wallet list"
  db_transactions :: "transaction list"
  db_ledger :: "ledger_entry list"
  db_transfers :: "transfer list"
  db_outbox :: "outbox_event list"

definition same :: "db \<Rightarrow> string \<Rightarrow> string \<Rightarrow> bool" where
  "same d a b \<longleftrightarrow> db_coll d a = db_coll d b"

definition has_id :: "db \<Rightarrow> string \<Rightarrow> 'a base_entity_scheme \<Rightarrow> bool" where
  "has_id d i r \<longleftrightarrow> same d (entity_id r) i"

text \<open>\<open>varchar(n)\<close> in strict mode.\<close>

definition fits :: "nat \<Rightarrow> string \<Rightarrow> bool" where
  "fits n s \<longleftrightarrow> length s \<le> n"

section \<open>Unique indexes\<close>

text \<open>Two rows conflict when the primary key or a unique index does not admit both.\<close>

definition user_conflict :: "(string \<Rightarrow> string) \<Rightarrow> users_row \<Rightarrow> users_row \<Rightarrow> bool" where
  "user_conflict c x y \<longleftrightarrow>
     c (entity_id x) = c (entity_id y) \<or> c (user_email x) = c (user_email y)"

definition wallet_conflict :: "(string \<Rightarrow> string) \<Rightarrow> wallet \<Rightarrow> wallet \<Rightarrow> bool" where
  "wallet_conflict c x y \<longleftrightarrow>
     c (entity_id x) = c (entity_id y)
     \<or> (c (wallet_user_id x) = c (wallet_user_id y) \<and> c (wallet_currency x) = c (wallet_currency y))
     \<or> c (wallet_tag x) = c (wallet_tag y)"

definition transaction_conflict :: "(string \<Rightarrow> string) \<Rightarrow> transaction \<Rightarrow> transaction \<Rightarrow> bool" where
  "transaction_conflict c x y \<longleftrightarrow>
     c (entity_id x) = c (entity_id y) \<or> c (txn_key x) = c (txn_key y)"

definition ledger_conflict :: "(string \<Rightarrow> string) \<Rightarrow> ledger_entry \<Rightarrow> ledger_entry \<Rightarrow> bool" where
  "ledger_conflict c x y \<longleftrightarrow>
     c (entity_id x) = c (entity_id y) \<or> c (ledger_key x) = c (ledger_key y)"

definition transfer_conflict :: "(string \<Rightarrow> string) \<Rightarrow> transfer \<Rightarrow> transfer \<Rightarrow> bool" where
  "transfer_conflict c x y \<longleftrightarrow>
     c (entity_id x) = c (entity_id y) \<or> c (transfer_key x) = c (transfer_key y)"

definition outbox_conflict :: "(string \<Rightarrow> string) \<Rightarrow> outbox_event \<Rightarrow> outbox_event \<Rightarrow> bool" where
  "outbox_conflict c x y \<longleftrightarrow> c (entity_id x) = c (entity_id y)"

lemmas conflict_defs =
  user_conflict_def wallet_conflict_def transaction_conflict_def ledger_conflict_def
  transfer_conflict_def outbox_conflict_def

text \<open>
  The contract of a table with unique indexes: conflict is reflexive and symmetric, equal
  primary keys conflict. From it: rows are distinct and determined by any key they share.
\<close>

locale keyed_table =
  fixes coll :: "string \<Rightarrow> string"
    and conflict :: "'a base_entity_scheme \<Rightarrow> 'a base_entity_scheme \<Rightarrow> bool"
  assumes conflict_sym: "conflict x y = conflict y x"
    and conflict_id: "coll (entity_id x) = coll (entity_id y) \<Longrightarrow> conflict x y"
begin

lemma rows_distinct: "unique_rows conflict rows \<Longrightarrow> distinct rows"
  by (rule unique_rows_distinct [where C = conflict]) (auto intro: conflict_id)

lemma row_eq:
  "unique_rows conflict rows \<Longrightarrow> x \<in> set rows \<Longrightarrow> y \<in> set rows \<Longrightarrow> conflict x y \<Longrightarrow> x = y"
  by (rule unique_rows_eq [OF _ _ _ _ conflict_sym])

lemma row_eq_id:
  "unique_rows conflict rows \<Longrightarrow> x \<in> set rows \<Longrightarrow> y \<in> set rows
   \<Longrightarrow> coll (entity_id x) = coll (entity_id y) \<Longrightarrow> x = y"
  by (rule row_eq) (simp_all add: conflict_id)

lemma find_id:
  "unique_rows conflict rows \<Longrightarrow> x \<in> set rows
   \<Longrightarrow> find (\<lambda>r. coll (entity_id r) = coll (entity_id x)) rows = Some x"
  by (rule find_unique) (auto intro: row_eq_id)

lemma sum_update_id:
  fixes g :: "'a base_entity_scheme \<Rightarrow> int"
  assumes "unique_rows conflict rows" "x \<in> set rows" "coll (entity_id x) = coll i"
  shows "sum_list (map g (update_where (\<lambda>r. coll (entity_id r) = coll i) f rows))
         = sum_list (map g rows) - g x + g (f x)"
  using assms by (intro sum_list_update_where) (auto intro: rows_distinct row_eq_id)

end

interpretation user_table: keyed_table c "user_conflict c" for c
  by unfold_locales (auto simp: conflict_defs)

interpretation wallet_table: keyed_table c "wallet_conflict c" for c
  by unfold_locales (auto simp: conflict_defs)

interpretation transaction_table: keyed_table c "transaction_conflict c" for c
  by unfold_locales (auto simp: conflict_defs)

interpretation ledger_table: keyed_table c "ledger_conflict c" for c
  by unfold_locales (auto simp: conflict_defs)

interpretation transfer_table: keyed_table c "transfer_conflict c" for c
  by unfold_locales (auto simp: conflict_defs)

interpretation outbox_table: keyed_table c "outbox_conflict c" for c
  by unfold_locales (auto simp: conflict_defs)

section \<open>Insertions\<close>

definition insert_user :: "db \<Rightarrow> users_row \<Rightarrow> error + db" where
  "insert_user d u =
     (if \<not> (fits 255 (user_name u) \<and> fits 255 (user_email u) \<and> fits 255 (user_password u))
      then Inl (QueryFailed DataTooLong)
      else bindR (insert_row (user_conflict (db_coll d)) u (db_users d)) (\<lambda>rows.
           Inr (d\<lparr>db_users := rows\<rparr>)))"

definition insert_wallet :: "db \<Rightarrow> wallet \<Rightarrow> error + db" where
  "insert_wallet d w =
     (if \<not> (fits 255 (wallet_user_id w) \<and> fits 3 (wallet_currency w) \<and> fits 15 (wallet_tag w))
      then Inl (QueryFailed DataTooLong)
      else if \<not> bigint_ok (wallet_balance w) then Inl (QueryFailed OutOfRange)
      else if \<not> list_ex (\<lambda>u. same d (entity_id u) (wallet_user_id w)) (db_users d)
      then Inl (QueryFailed ForeignKeyViolation)
      else bindR (insert_row (wallet_conflict (db_coll d)) w (db_wallets d)) (\<lambda>rows.
           Inr (d\<lparr>db_wallets := rows\<rparr>)))"

definition insert_transaction :: "db \<Rightarrow> transaction \<Rightarrow> error + db" where
  "insert_transaction d t =
     (if \<not> (fits 255 (txn_user_id t) \<and> fits 3 (txn_currency t) \<and> fits 255 (txn_payment_method t)
             \<and> fits 255 (txn_key t) \<and> (\<forall>r\<in>set_option (txn_provider_ref t). fits 255 r))
      then Inl (QueryFailed DataTooLong)
      else if \<not> bigint_ok (txn_amount t) then Inl (QueryFailed OutOfRange)
      else bindR (insert_row (transaction_conflict (db_coll d)) t (db_transactions d)) (\<lambda>rows.
           Inr (d\<lparr>db_transactions := rows\<rparr>)))"

definition insert_ledger :: "db \<Rightarrow> ledger_entry \<Rightarrow> error + db" where
  "insert_ledger d e =
     (if \<not> (fits 255 (ledger_wallet_id e) \<and> fits 3 (ledger_currency e) \<and> fits 255 (ledger_key e))
      then Inl (QueryFailed DataTooLong)
      else if \<not> (bigint_ok (ledger_amount e) \<and> bigint_ok (ledger_balance_after e))
      then Inl (QueryFailed OutOfRange)
      else bindR (insert_row (ledger_conflict (db_coll d)) e (db_ledger d)) (\<lambda>rows.
           Inr (d\<lparr>db_ledger := rows\<rparr>)))"

definition insert_transfer :: "db \<Rightarrow> transfer \<Rightarrow> error + db" where
  "insert_transfer d t =
     (if \<not> (fits 255 (transfer_from_user_id t) \<and> fits 255 (transfer_to_user_id t)
             \<and> fits 3 (transfer_currency t) \<and> fits 255 (transfer_key t))
      then Inl (QueryFailed DataTooLong)
      else if \<not> bigint_ok (transfer_amount t) then Inl (QueryFailed OutOfRange)
      else bindR (insert_row (transfer_conflict (db_coll d)) t (db_transfers d)) (\<lambda>rows.
           Inr (d\<lparr>db_transfers := rows\<rparr>)))"

definition insert_outbox :: "db \<Rightarrow> outbox_event \<Rightarrow> error + db" where
  "insert_outbox d e =
     (if \<not> (fits 255 (outbox_event_name e) \<and> fits 255 (outbox_aggregate_id e))
      then Inl (QueryFailed DataTooLong)
      else bindR (insert_row (outbox_conflict (db_coll d)) e (db_outbox d)) (\<lambda>rows.
           Inr (d\<lparr>db_outbox := rows\<rparr>)))"

lemmas insert_defs =
  insert_user_def insert_wallet_def insert_transaction_def insert_ledger_def
  insert_transfer_def insert_outbox_def

section \<open>The schema invariant\<close>

text \<open>Every unique index holds and every wallet belongs to a stored user.\<close>

definition db_ok :: "db \<Rightarrow> bool" where
  "db_ok d \<longleftrightarrow>
     unique_rows (user_conflict (db_coll d)) (db_users d)
     \<and> unique_rows (wallet_conflict (db_coll d)) (db_wallets d)
     \<and> unique_rows (transaction_conflict (db_coll d)) (db_transactions d)
     \<and> unique_rows (ledger_conflict (db_coll d)) (db_ledger d)
     \<and> unique_rows (transfer_conflict (db_coll d)) (db_transfers d)
     \<and> unique_rows (outbox_conflict (db_coll d)) (db_outbox d)
     \<and> (\<forall>w\<in>set (db_wallets d). \<exists>u\<in>set (db_users d). same d (entity_id u) (wallet_user_id w))"

lemma insert_user_Inr:
  "insert_user d u = Inr d' \<Longrightarrow>
   d' = d\<lparr>db_users := db_users d @ [u]\<rparr> \<and> (\<forall>x\<in>set (db_users d). \<not> user_conflict (db_coll d) x u)"
  by (auto simp: insert_user_def bindR_Inr_iff insert_row_Inr split: if_splits)

lemma insert_wallet_Inr:
  "insert_wallet d w = Inr d' \<Longrightarrow>
   d' = d\<lparr>db_wallets := db_wallets d @ [w]\<rparr>
   \<and> (\<forall>x\<in>set (db_wallets d). \<not> wallet_conflict (db_coll d) x w)
   \<and> (\<exists>u\<in>set (db_users d). same d (entity_id u) (wallet_user_id w))"
  by (auto simp: insert_wallet_def bindR_Inr_iff insert_row_Inr list_ex_iff split: if_splits)

lemma insert_transaction_Inr:
  "insert_transaction d t = Inr d' \<Longrightarrow>
   d' = d\<lparr>db_transactions := db_transactions d @ [t]\<rparr>
   \<and> (\<forall>x\<in>set (db_transactions d). \<not> transaction_conflict (db_coll d) x t)"
  by (auto simp: insert_transaction_def bindR_Inr_iff insert_row_Inr split: if_splits)

lemma insert_ledger_Inr:
  "insert_ledger d e = Inr d' \<Longrightarrow>
   d' = d\<lparr>db_ledger := db_ledger d @ [e]\<rparr>
   \<and> (\<forall>x\<in>set (db_ledger d). \<not> ledger_conflict (db_coll d) x e)"
  by (auto simp: insert_ledger_def bindR_Inr_iff insert_row_Inr split: if_splits)

lemma insert_transfer_Inr:
  "insert_transfer d t = Inr d' \<Longrightarrow>
   d' = d\<lparr>db_transfers := db_transfers d @ [t]\<rparr>
   \<and> (\<forall>x\<in>set (db_transfers d). \<not> transfer_conflict (db_coll d) x t)"
  by (auto simp: insert_transfer_def bindR_Inr_iff insert_row_Inr split: if_splits)

lemma insert_outbox_Inr:
  "insert_outbox d e = Inr d' \<Longrightarrow>
   d' = d\<lparr>db_outbox := db_outbox d @ [e]\<rparr>
   \<and> (\<forall>x\<in>set (db_outbox d). \<not> outbox_conflict (db_coll d) x e)"
  by (auto simp: insert_outbox_def bindR_Inr_iff insert_row_Inr split: if_splits)

lemmas insert_Inr =
  insert_user_Inr insert_wallet_Inr insert_transaction_Inr insert_ledger_Inr
  insert_transfer_Inr insert_outbox_Inr

lemma unique_rows_snoc:
  "unique_rows C (rows @ [r]) \<longleftrightarrow> unique_rows C rows \<and> (\<forall>x\<in>set rows. \<not> C x r)"
  by (auto simp: unique_rows_def sorted_wrt_append)

lemma insert_user_ok: "insert_user d u = Inr d' \<Longrightarrow> db_ok d \<Longrightarrow> db_ok d'"
  by (drule insert_user_Inr) (auto simp: db_ok_def unique_rows_snoc same_def)

lemma insert_wallet_ok: "insert_wallet d w = Inr d' \<Longrightarrow> db_ok d \<Longrightarrow> db_ok d'"
  by (drule insert_wallet_Inr) (auto simp: db_ok_def unique_rows_snoc same_def)

lemma insert_transaction_ok: "insert_transaction d t = Inr d' \<Longrightarrow> db_ok d \<Longrightarrow> db_ok d'"
  by (drule insert_transaction_Inr) (auto simp: db_ok_def unique_rows_snoc same_def)

lemma insert_ledger_ok: "insert_ledger d e = Inr d' \<Longrightarrow> db_ok d \<Longrightarrow> db_ok d'"
  by (drule insert_ledger_Inr) (auto simp: db_ok_def unique_rows_snoc same_def)

lemma insert_transfer_ok: "insert_transfer d t = Inr d' \<Longrightarrow> db_ok d \<Longrightarrow> db_ok d'"
  by (drule insert_transfer_Inr) (auto simp: db_ok_def unique_rows_snoc same_def)

lemma insert_outbox_ok: "insert_outbox d e = Inr d' \<Longrightarrow> db_ok d \<Longrightarrow> db_ok d'"
  by (drule insert_outbox_Inr) (auto simp: db_ok_def unique_rows_snoc same_def)

lemmas insert_ok =
  insert_user_ok insert_wallet_ok insert_transaction_ok insert_ledger_ok
  insert_transfer_ok insert_outbox_ok

end
