(* ===== verification/AppState.thy ===== *)
theory AppState
  imports Database
begin

text \<open>
  The state the running application keeps outside its own memory: the MySQL tables, the Redis
  cache of balances, the three BullMQ queues, and, in memory, the re-entrancy flag of the outbox
  publisher and the domain events that were emitted and not yet handled.
\<close>

section \<open>BullMQ queues\<close>

text \<open>
  A job carries a name, its data (a JSON clone), the number of attempts of its options
  (\<open>None\<close> when the option is absent) and how many attempts were made. A queue is the list of
  its waiting jobs; \<open>queue_add\<close> is what a successful \<open>queue.add(name, data)\<close> does.
\<close>

record job =
  job_id :: nat
  job_name :: string
  job_data :: json
  job_attempts :: "nat option"
  job_attemptsMade :: nat

record queue =
  queue_attempts :: "nat option"
  queue_next_id :: nat
  queue_jobs :: "job list"

definition queue_add :: "queue \<Rightarrow> string \<Rightarrow> json \<Rightarrow> queue" where
  "queue_add q name data = q\<lparr>
     queue_next_id := Suc (queue_next_id q),
     queue_jobs := queue_jobs q @ [\<lparr>job_id = queue_next_id q, job_name = name,
       job_data = json_clone data, job_attempts = queue_attempts q, job_attemptsMade = 0\<rparr>]\<rparr>"

text \<open>\<open>QUEUE_NAMES\<close>, and the queues with their default job options as \<open>QueueModule\<close> registers them.\<close>

definition DOMAIN_EVENTS :: string where "DOMAIN_EVENTS = ''domain-events''"

definition NOTIFICATIONS :: string where "NOTIFICATIONS = ''notifications''"

definition DEAD_LETTER :: string where "DEAD_LETTER = ''dead-letter''"

record retention =
  keep_age :: nat
  keep_count :: nat

record job_options =
  opt_attempts :: "nat option"
  opt_backoff :: "(string \<times> nat) option"
  opt_removeOnComplete :: "retention option"
  opt_removeOnFail :: "retention option"

definition delivery_options :: job_options where
  "delivery_options = \<lparr>opt_attempts = Some 3, opt_backoff = Some (''exponential'', 1000),
     opt_removeOnComplete = Some \<lparr>keep_age = 86400, keep_count = 200\<rparr>,
     opt_removeOnFail = Some \<lparr>keep_age = 604800, keep_count = 500\<rparr>\<rparr>"

definition registered_queues :: "(string \<times> job_options) list" where
  "registered_queues = [(DOMAIN_EVENTS, delivery_options), (NOTIFICATIONS, delivery_options),
     (DEAD_LETTER, \<lparr>opt_attempts = None, opt_backoff = None,
        opt_removeOnComplete = Some \<lparr>keep_age = 604800, keep_count = 1000\<rparr>, opt_removeOnFail = None\<rparr>)]"

definition init_queue :: "string \<Rightarrow> queue" where
  "init_queue name = \<lparr>queue_attempts = Option.bind (map_of registered_queues name) opt_attempts,
     queue_next_id = 1, queue_jobs = []\<rparr>"

lemma init_queue [simp]:
  "init_queue DOMAIN_EVENTS = \<lparr>queue_attempts = Some 3, queue_next_id = 1, queue_jobs = []\<rparr>"
  "init_queue NOTIFICATIONS = \<lparr>queue_attempts = Some 3, queue_next_id = 1, queue_jobs = []\<rparr>"
  "init_queue DEAD_LETTER = \<lparr>queue_attempts = None, queue_next_id = 1, queue_jobs = []\<rparr>"
  by (simp_all add: init_queue_def registered_queues_def delivery_options_def
      DOMAIN_EVENTS_def NOTIFICATIONS_def DEAD_LETTER_def)

section \<open>The balance cache\<close>

text \<open>
  The Redis cache as the wallet service uses it: a key holds a value until its expiry time.
\<close>

type_synonym cache = "string \<Rightarrow> (wallet \<times> nat) option"

definition cache_get :: "cache \<Rightarrow> nat \<Rightarrow> string \<Rightarrow> wallet option" where
  "cache_get c now k =
     (case c k of None \<Rightarrow> None | Some (w, expiry) \<Rightarrow> if now < expiry then Some w else None)"

definition cache_set :: "cache \<Rightarrow> nat \<Rightarrow> string \<Rightarrow> wallet \<Rightarrow> nat \<Rightarrow> cache" where
  "cache_set c now k w ttl = c(k := Some (w, now + ttl))"

definition cache_del :: "cache \<Rightarrow> string \<Rightarrow> cache" where
  "cache_del c k = c(k := None)"

text \<open>
  What the wallet service relies on: a stored value is read back until its time to live has
  passed and not after, other keys are not touched, a deleted key is not found.
\<close>

locale ttl_cache =
  fixes get :: "'c \<Rightarrow> nat \<Rightarrow> 'k \<Rightarrow> 'v option"
    and put :: "'c \<Rightarrow> nat \<Rightarrow> 'k \<Rightarrow> 'v \<Rightarrow> nat \<Rightarrow> 'c"
    and del :: "'c \<Rightarrow> 'k \<Rightarrow> 'c"
  assumes get_put: "get (put c t k v ttl) t' k' =
                      (if k' = k then (if t' < t + ttl then Some v else None) else get c t' k')"
    and get_del: "get (del c k) t k' = (if k' = k then None else get c t k')"
begin

lemma hit_before_expiry: "t' < t + ttl \<Longrightarrow> get (put c t k v ttl) t' k = Some v"
  by (simp add: get_put)

lemma miss_after_expiry: "t + ttl \<le> t' \<Longrightarrow> get (put c t k v ttl) t' k = None"
  by (simp add: get_put)

lemma miss_after_del: "get (del (put c t k v ttl) k) t' k = None"
  by (simp add: get_del)

text \<open>
  A value predicate that holds of everything the cache can serve is kept by storing a value
  that satisfies it and by deleting.
\<close>

lemma serve_put:
  assumes "\<And>k v t. get c t k = Some v \<Longrightarrow> P k v" "P k0 v0"
  shows "get (put c t0 k0 v0 ttl) t k = Some v \<Longrightarrow> P k v"
  using assms by (auto simp: get_put split: if_splits)

lemma serve_del:
  assumes "\<And>k v t. k \<noteq> k0 \<Longrightarrow> get c t k = Some v \<Longrightarrow> P k v"
  shows "get (del c k0) t k = Some v \<Longrightarrow> P k v"
  using assms by (auto simp: get_del split: if_splits)

end

interpretation balance_cache: ttl_cache cache_get cache_set cache_del
  by unfold_locales (auto simp: cache_get_def cache_set_def cache_del_def)

section \<open>The application state\<close>

text \<open>The payload of \<open>UserRegistered\<close> (\<open>UserRegisteredPayload\<close>).\<close>

record user_registered =
  reg_userId :: string
  reg_email :: string
  reg_name :: string

record mail =
  mail_to :: string
  mail_from :: string
  mail_subject :: string
  mail_text :: string

record app =
  app_db :: db
  app_cache :: cache
  app_domain_events :: queue
  app_notifications :: queue
  app_dead_letter :: queue
  app_publisher_busy :: bool
  app_emitted :: "user_registered list"
  app_mails :: "mail list"

text \<open>Awaiting one statement or one transaction: its effect is kept only when it succeeds.\<close>

definition run_db :: "(db \<Rightarrow> error + ('a \<times> db)) \<Rightarrow> app \<Rightarrow> ('a, app) outcome" where
  "run_db m s = (case m (app_db s) of Inl e \<Rightarrow> (Inl e, s)
                 | Inr (x, d) \<Rightarrow> (Inr x, s\<lparr>app_db := d\<rparr>))"

text \<open>Awaiting an unconditional update.\<close>

definition update_db :: "(db \<Rightarrow> db) \<Rightarrow> app \<Rightarrow> (unit, app) outcome" where
  "update_db f s = (Inr (), s\<lparr>app_db := f (app_db s)\<rparr>)"

lemma run_db_Inl [simp]: "m (app_db s) = Inl e \<Longrightarrow> run_db m s = (Inl e, s)"
  by (simp add: run_db_def)

lemma run_db_Inr [simp]: "m (app_db s) = Inr (x, d) \<Longrightarrow> run_db m s = (Inr x, s\<lparr>app_db := d\<rparr>)"
  by (simp add: run_db_def)

lemma update_db_bind [simp]: "bindS (update_db f s) k = k () (s\<lparr>app_db := f (app_db s)\<rparr>)"
  by (simp add: update_db_def)

end
