(* ===== verification/WalletTags.thy ===== *)
theory WalletTags
  imports AppState
begin

text \<open>
  The pure helpers of \<open>shared/utils\<close>: the wallet tag generator and the two string functions it
  uses. A char stands for a UTF-16 unit below 256; any other unit is a separator in a slug (but for
  U+212A and U+0130, which lower-case to a latin letter and are not modelled).
\<close>

section \<open>String functions of the language\<close>

definition lower_char :: "char \<Rightarrow> char" where
  "lower_char ch = (let n = of_char ch :: nat in if 65 \<le> n \<and> n \<le> 90 then char_of (n + 32) else ch)"

definition upper_char :: "char \<Rightarrow> char" where
  "upper_char ch = (let n = of_char ch :: nat in if 97 \<le> n \<and> n \<le> 122 then char_of (n - 32) else ch)"

definition toLowerCase :: "string \<Rightarrow> string" where
  "toLowerCase s = map lower_char s"

definition toUpperCase :: "string \<Rightarrow> string" where
  "toUpperCase s = map upper_char s"

definition slug_char :: "char \<Rightarrow> bool" where
  "slug_char ch = (let n = of_char ch :: nat in (97 \<le> n \<and> n \<le> 122) \<or> (48 \<le> n \<and> n \<le> 57))"

text \<open>\<open>replaceAll(/[^a-z0-9]+/g, '-')\<close>: every maximal run of other characters becomes one dash.\<close>

function dash_runs :: "string \<Rightarrow> string" where
  "dash_runs [] = []"
| "dash_runs (ch # cs) =
     (if slug_char ch then ch # dash_runs cs
      else CHR ''-'' # dash_runs (dropWhile (\<lambda>x. \<not> slug_char x) cs))"
  by pat_completeness auto
termination
  by (relation "measure length") (auto simp: le_imp_less_Suc length_dropWhile_le)

text \<open>\<open>replaceAll(/^-|-$/g, '')\<close>: one dash at the start and one at the end are removed.\<close>

definition trim_dashes :: "string \<Rightarrow> string" where
  "trim_dashes s =
     (let t = (case s of [] \<Rightarrow> [] | ch # cs \<Rightarrow> if ch = CHR ''-'' then cs else s)
      in if t \<noteq> [] \<and> last t = CHR ''-'' then butlast t else t)"

text \<open>\<open>toString('hex')\<close> of a byte.\<close>

definition hex_digit :: "nat \<Rightarrow> char" where
  "hex_digit n = ''0123456789abcdef'' ! (n mod 16)"

definition hex_byte :: "nat \<Rightarrow> string" where
  "hex_byte n = [hex_digit (n div 16), hex_digit n]"

section \<open>The wallet tag\<close>

definition generateWalletTag :: "nat \<times> nat \<Rightarrow> string \<Rightarrow> string" where
  "generateWalletTag bytes name =
     (let slug = take 4 (trim_dashes (dash_runs (toLowerCase name)));
          suffix = hex_byte (fst bytes) @ hex_byte (snd bytes)
      in slug @ ''-'' @ suffix)"

definition tag_char :: "char \<Rightarrow> bool" where
  "tag_char ch \<longleftrightarrow> slug_char ch \<or> ch = CHR ''-''"

lemma dash_runs_chars: "\<forall>ch\<in>set (dash_runs s). tag_char ch"
  by (induction s rule: dash_runs.induct) (auto simp: tag_char_def)

lemma trim_dashes_subset: "set (trim_dashes s) \<subseteq> set s"
  by (auto simp: trim_dashes_def Let_def split: list.splits if_splits dest: in_set_butlastD)

lemma hex_digit_slug: "slug_char (hex_digit n)"
proof -
  have "list_all slug_char ''0123456789abcdef''" by code_simp
  then have "slug_char (''0123456789abcdef'' ! k)" if "k < 16" for k
    using that unfolding list_all_length by simp
  then show ?thesis by (simp add: hex_digit_def)
qed

lemma generateWalletTag_length: "length (generateWalletTag b name) \<le> 9"
  by (simp add: generateWalletTag_def Let_def hex_byte_def)

lemma generateWalletTag_chars: "\<forall>ch\<in>set (generateWalletTag b name). tag_char ch"
proof -
  have "set (take 4 (trim_dashes (dash_runs s))) \<subseteq> set (dash_runs s)" for s
    using trim_dashes_subset [of "dash_runs s"] set_take_subset [of 4 "trim_dashes (dash_runs s)"]
    by blast
  then show ?thesis
    using dash_runs_chars [of "toLowerCase name"]
    by (auto simp: generateWalletTag_def Let_def hex_byte_def tag_char_def hex_digit_slug)
qed

end
