(* ===== verification/Payments.thy ===== *)
theory Payments
  imports WalletTags
begin

text \<open>
  \<open>features/payments\<close>: the gateway interface, the registry that resolves a payment method and
  the Stripe gateway behind its circuit breaker. Stripe's \<open>checkout.sessions.create\<close> and
  opossum's \<open>fire\<close> are third-party code: they are parameters.
\<close>

section \<open>The gateway interface\<close>

text \<open>\<open>PaymentGatewayResult\<close>; an absent flag is \<open>None\<close>.\<close>

record gateway_result =
  gw_success :: bool
  gw_providerRef :: "string option"
  gw_checkoutUrl :: "string option"
  gw_requiresWebhook :: "bool option"
  gw_failureReason :: "string option"

text \<open>
  \<open>PaymentGateway\<close>: \<open>processDeposit\<close> takes the amount, the currency, the payment method and the
  metadata; it resolves to a result or rejects.
\<close>

record payment_gateway =
  supportedMethods :: "string list"
  processDeposit :: "int \<Rightarrow> string \<Rightarrow> string \<Rightarrow> (string \<times> string) list \<Rightarrow> error + gateway_result"

section \<open>The registry\<close>

type_synonym registry = "string \<rightharpoonup> payment_gateway"

text \<open>The constructor: every method of every gateway in order, a later gateway replacing an earlier.\<close>

definition PaymentGatewayRegistry :: "payment_gateway list \<Rightarrow> registry" where
  "PaymentGatewayRegistry gateways =
     fold (\<lambda>gateway m. fold (\<lambda>method m. m(method \<mapsto> gateway)) (supportedMethods gateway) m)
       gateways Map.empty"

definition resolve :: "registry \<Rightarrow> string \<Rightarrow> error + payment_gateway" where
  "resolve reg paymentMethod =
     (case reg paymentMethod of
        None \<Rightarrow> Inl (BadRequest (''Unsupported payment method: '' @ paymentMethod))
      | Some gateway \<Rightarrow> Inr gateway)"

lemma fold_methods:
  "fold (\<lambda>method m. m(method \<mapsto> gateway)) ms m k = (if k \<in> set ms then Some gateway else m k)"
  by (induction ms arbitrary: m) auto

lemma fold_gateways:
  "fold (\<lambda>gateway m. fold (\<lambda>method m. m(method \<mapsto> gateway)) (supportedMethods gateway) m) gs m k
   = (case find (\<lambda>gw. k \<in> set (supportedMethods gw)) (rev gs) of Some gw \<Rightarrow> Some gw | None \<Rightarrow> m k)"
  by (induction gs arbitrary: m) (auto simp: fold_methods find_append split: option.splits)

text \<open>A method resolves to the last registered gateway that supports it.\<close>

lemma registry_lookup:
  "PaymentGatewayRegistry gs k = find (\<lambda>gw. k \<in> set (supportedMethods gw)) (rev gs)"
  unfolding PaymentGatewayRegistry_def by (auto simp: fold_gateways split: option.splits)

lemma resolve_Inr:
  "resolve (PaymentGatewayRegistry gs) k = Inr gw \<Longrightarrow> gw \<in> set gs \<and> k \<in> set (supportedMethods gw)"
  by (auto simp: resolve_def registry_lookup split: option.splits dest: find_SomeD)

section \<open>The Stripe gateway\<close>

text \<open>The request the gateway builds for \<open>checkout.sessions.create\<close>, and what a session has.\<close>

record line_item =
  li_currency :: string
  li_unit_amount :: int
  li_product_name :: string
  li_quantity :: nat

record session_request =
  sr_mode :: string
  sr_line_items :: "line_item list"
  sr_metadata :: "(string \<times> string) list"
  sr_success_url :: "string option"
  sr_cancel_url :: "string option"

record checkout_session =
  session_id :: string
  session_url :: "string option"

text \<open>
  \<open>CircuitBreakerOptions\<close>: the options a caller gives; \<open>None\<close> is an option left out. What opossum is
  given has all of them and the name.
\<close>

record breaker_options =
  errorThresholdPercentage :: "nat option"
  resetTimeout :: "nat option"
  rollingCountTimeout :: "nat option"
  rollingCountBuckets :: "nat option"
  volumeThreshold :: "nat option"
  breaker_timeout :: "nat option"

record opossum_options =
  op_errorThresholdPercentage :: nat
  op_resetTimeout :: nat
  op_rollingCountTimeout :: nat
  op_rollingCountBuckets :: nat
  op_volumeThreshold :: nat
  op_timeout :: nat
  op_name :: "string option"

text \<open>\<open>DEFAULTS\<close>, which has no name, and the spread of the given options and the name over them.\<close>

definition breaker_defaults :: opossum_options where
  "breaker_defaults = \<lparr>op_errorThresholdPercentage = 50, op_resetTimeout = 30000,
     op_rollingCountTimeout = 10000, op_rollingCountBuckets = 10, op_volumeThreshold = 5,
     op_timeout = 10000, op_name = None\<rparr>"

definition given :: "'a option \<Rightarrow> 'a \<Rightarrow> 'a" where
  "given v other = (case v of Some x \<Rightarrow> x | None \<Rightarrow> other)"

definition circuit_options :: "string \<Rightarrow> breaker_options \<Rightarrow> opossum_options" where
  "circuit_options name options = \<lparr>
     op_errorThresholdPercentage = given (errorThresholdPercentage options) (op_errorThresholdPercentage breaker_defaults),
     op_resetTimeout = given (resetTimeout options) (op_resetTimeout breaker_defaults),
     op_rollingCountTimeout = given (rollingCountTimeout options) (op_rollingCountTimeout breaker_defaults),
     op_rollingCountBuckets = given (rollingCountBuckets options) (op_rollingCountBuckets breaker_defaults),
     op_volumeThreshold = given (volumeThreshold options) (op_volumeThreshold breaker_defaults),
     op_timeout = given (breaker_timeout options) (op_timeout breaker_defaults),
     op_name = Some name\<rparr>"

text \<open>
  \<open>CircuitBreaker.fire\<close>: opossum is a parameter, a function of its options and of the call it runs,
  times out or rejects. The wrapped function passes the call through.
\<close>

definition passthrough :: "(unit \<Rightarrow> 'a) \<Rightarrow> 'a" where
  "passthrough fn = fn ()"

definition CircuitBreaker_fire :: "(opossum_options \<Rightarrow> (unit \<Rightarrow> 'a) \<Rightarrow> 'a) \<Rightarrow> string \<Rightarrow> breaker_options
    \<Rightarrow> (unit \<Rightarrow> 'a) \<Rightarrow> 'a" where
  "CircuitBreaker_fire opossum name options fn = opossum (circuit_options name options) (\<lambda>_. passthrough fn)"

lemma CircuitBreaker_fire [simp]:
  "CircuitBreaker_fire opossum name options fn = opossum (circuit_options name options) fn"
  by (simp add: CircuitBreaker_fire_def passthrough_def)

text \<open>
  The level and the line the breaker logs for each event of opossum it listens to (the dash between
  the two parts of a line is written as a hyphen), and what its getters pass on of opossum.
\<close>

datatype breaker_event = BreakerOpen | BreakerHalfOpen | BreakerClose | BreakerFallback

fun breaker_line :: "string \<Rightarrow> breaker_event \<Rightarrow> string \<times> string" where
  "breaker_line name BreakerOpen = (''warn'', ''Circuit OPENED - '' @ name @ '' is temporarily unavailable'')"
| "breaker_line name BreakerHalfOpen = (''log'', ''Circuit HALF-OPEN - probing '' @ name)"
| "breaker_line name BreakerClose = (''log'', ''Circuit CLOSED - '' @ name @ '' recovered'')"
| "breaker_line name BreakerFallback = (''warn'', ''Fallback triggered for '' @ name)"

record opossum_view =
  opossum_opened :: bool
  opossum_stats :: json
  opossum_status :: json

definition CircuitBreaker_getters :: "opossum_view \<Rightarrow> bool \<times> json \<times> json" where
  "CircuitBreaker_getters breaker = (opossum_opened breaker, opossum_stats breaker, opossum_status breaker)"

text \<open>The options of the Stripe gateway.\<close>

definition stripe_breaker_options :: breaker_options where
  "stripe_breaker_options = \<lparr>errorThresholdPercentage = Some 50, resetTimeout = Some 30000,
     rollingCountTimeout = None, rollingCountBuckets = None, volumeThreshold = Some 5,
     breaker_timeout = Some 10000\<rparr>"

definition stripe_request :: "string option \<Rightarrow> string option \<Rightarrow> int \<Rightarrow> string
    \<Rightarrow> (string \<times> string) list \<Rightarrow> session_request" where
  "stripe_request successUrl cancelUrl amount currency metadata = \<lparr>
     sr_mode = ''payment'',
     sr_line_items = [\<lparr>li_currency = toLowerCase currency, li_unit_amount = amount,
       li_product_name = ''Wallet Deposit ('' @ currency @ '')'', li_quantity = 1\<rparr>],
     sr_metadata = metadata,
     sr_success_url = successUrl,
     sr_cancel_url = cancelUrl\<rparr>"

text \<open>
  \<open>fire\<close> is opossum, \<open>create\<close> the Stripe call.
\<close>

definition StripePaymentGateway ::
    "(opossum_options \<Rightarrow> (unit \<Rightarrow> error + gateway_result) \<Rightarrow> error + gateway_result)
     \<Rightarrow> (session_request \<Rightarrow> error + checkout_session)
     \<Rightarrow> string option \<Rightarrow> string option \<Rightarrow> payment_gateway" where
  "StripePaymentGateway fire create successUrl cancelUrl = \<lparr>
     supportedMethods = [''stripe''],
     processDeposit = (\<lambda>amount currency _ metadata.
       CircuitBreaker_fire fire ''Stripe'' stripe_breaker_options (\<lambda>_.
         bindR (create (stripe_request successUrl cancelUrl amount currency metadata)) (\<lambda>session.
         Inr \<lparr>gw_success = True, gw_providerRef = Some (session_id session),
              gw_checkoutUrl = session_url session, gw_requiresWebhook = Some True,
              gw_failureReason = None\<rparr>)))\<rparr>"

text \<open>
  What opossum documents of a breaker without a fallback: a call that succeeds has the value the
  wrapped function resolved to.
\<close>

definition transparent_breaker ::
    "(opossum_options \<Rightarrow> (unit \<Rightarrow> error + gateway_result) \<Rightarrow> error + gateway_result) \<Rightarrow> bool" where
  "transparent_breaker fire \<longleftrightarrow> (\<forall>opts f r. fire opts f = Inr r \<longrightarrow> f () = Inr r)"

text \<open>
  The contract the deposit handler has with a gateway whose payments are confirmed later: a
  result is a success that carries the provider's reference and asks for the webhook.
\<close>

locale webhook_gateway =
  fixes process :: "int \<Rightarrow> string \<Rightarrow> string \<Rightarrow> (string \<times> string) list \<Rightarrow> error + gateway_result"
  assumes result: "process a c m md = Inr r \<Longrightarrow>
    gw_success r \<and> gw_requiresWebhook r = Some True \<and> (\<exists>ref. gw_providerRef r = Some ref)"
begin

lemma not_declined: "process a c m md = Inr r \<Longrightarrow> gw_success r"
  by (simp add: result)

lemma has_ref: "process a c m md = Inr r \<Longrightarrow> gw_providerRef r \<noteq> None"
  using result by force

end

lemma stripe_webhook_gateway:
  "transparent_breaker fire \<Longrightarrow>
   webhook_gateway (processDeposit (StripePaymentGateway fire create su cu))"
proof unfold_locales
  fix a c m md r
  assume "transparent_breaker fire"
    and "processDeposit (StripePaymentGateway fire create su cu) a c m md = Inr r"
  then have "bindR (create (stripe_request su cu a c md)) (\<lambda>session.
       Inr \<lparr>gw_success = True, gw_providerRef = Some (session_id session),
            gw_checkoutUrl = session_url session, gw_requiresWebhook = Some True,
            gw_failureReason = None\<rparr>) = Inr r"
    unfolding StripePaymentGateway_def transparent_breaker_def by fastforce
  then show "gw_success r \<and> gw_requiresWebhook r = Some True \<and> (\<exists>ref. gw_providerRef r = Some ref)"
    by (auto simp: bindR_Inr_iff)
qed

text \<open>The breaker that is closed: every call goes through.\<close>

definition closed_breaker ::
    "opossum_options \<Rightarrow> (unit \<Rightarrow> error + gateway_result) \<Rightarrow> error + gateway_result" where
  "closed_breaker opts f = f ()"

lemma closed_breaker_transparent: "transparent_breaker closed_breaker"
  by (simp add: transparent_breaker_def closed_breaker_def)

interpretation stripe_closed:
  webhook_gateway "processDeposit (StripePaymentGateway closed_breaker create su cu)" for create su cu
  by (rule stripe_webhook_gateway [OF closed_breaker_transparent])

end
