(* ===== verification/WalletRepository.thy ===== *)
theory WalletRepository
  imports Payments
begin

text \<open>
  \<open>features/wallet/wallet.repository.ts\<close>: the queries and writes on wallets, deposits and the
  ledger. \<open>settleTransaction\<close> runs in one database transaction: it is a value of
  \<open>error + (result \<times> db)\<close>, so an error keeps nothing of it.
\<close>

section \<open>Queries\<close>

definition findByUserIdAndCurrency :: "db \<Rightarrow> string \<Rightarrow> string \<Rightarrow> wallet option" where
  "findByUserIdAndCurrency d userId currency =
     find (\<lambda>w. same d (wallet_user_id w) userId \<and> same d (wallet_currency w) currency) (db_wallets d)"

definition findByWalletTag :: "db \<Rightarrow> string \<Rightarrow> wallet option" where
  "findByWalletTag d walletTag = find (\<lambda>w. same d (wallet_tag w) walletTag) (db_wallets d)"

definition findTransactionByIdempotencyKey :: "db \<Rightarrow> string \<Rightarrow> transaction option" where
  "findTransactionByIdempotencyKey d key = find (\<lambda>t. same d (txn_key t) key) (db_transactions d)"

text \<open>A \<open>NULL\<close> reference matches nothing.\<close>

definition findTransactionByProviderRef :: "db \<Rightarrow> string \<Rightarrow> transaction option" where
  "findTransactionByProviderRef d providerRef =
     find (\<lambda>t. case txn_provider_ref t of Some r \<Rightarrow> same d r providerRef | None \<Rightarrow> False)
       (db_transactions d)"

section \<open>Single statements\<close>

definition updateTransactionProviderRef :: "ambient \<Rightarrow> db \<Rightarrow> string \<Rightarrow> string \<Rightarrow> error + (unit \<times> db)" where
  "updateTransactionProviderRef g d transactionId providerRef =
     (if \<not> fits 255 providerRef then Inl (QueryFailed DataTooLong)
      else Inr ((), d\<lparr>db_transactions := update_where (has_id d transactionId)
             (\<lambda>t. t\<lparr>txn_provider_ref := Some providerRef, updated_at := clock g\<rparr>) (db_transactions d)\<rparr>))"

definition ensureWallet :: "ambient \<Rightarrow> db \<Rightarrow> string \<Rightarrow> string \<Rightarrow> string \<Rightarrow> error + (wallet \<times> db)" where
  "ensureWallet g d userId currency userName =
     (case findByUserIdAndCurrency d userId currency of
        Some existing \<Rightarrow> Inr (existing, d)
      | None \<Rightarrow>
          (let w = \<lparr>entity_id = uuid g 0, created_at = clock g, updated_at = clock g,
                    wallet_user_id = userId, wallet_balance = 0, wallet_currency = currency,
                    wallet_tag = generateWalletTag (random_bytes g) userName\<rparr>
           in bindR (insert_wallet d w) (\<lambda>d'. Inr (w, d'))))"

text \<open>The fields of the \<open>Partial<Transaction>\<close> the service passes; the others have their defaults.\<close>

definition createTransaction :: "ambient \<Rightarrow> db \<Rightarrow> string \<Rightarrow> TransactionType \<Rightarrow> int \<Rightarrow> string
    \<Rightarrow> string \<Rightarrow> string \<Rightarrow> error + (transaction \<times> db)" where
  "createTransaction g d userId type amount currency paymentMethod key =
     (let t = \<lparr>entity_id = uuid g 0, created_at = clock g, updated_at = clock g,
               txn_user_id = userId, txn_type = type, txn_amount = amount,
               txn_currency = currency, txn_payment_method = paymentMethod,
               txn_status = TxnPending, txn_key = key,
               txn_provider_ref = None, txn_failure_reason = None\<rparr>
      in bindR (insert_transaction d t) (\<lambda>d'. Inr (t, d')))"

definition failTransaction :: "ambient \<Rightarrow> transaction \<Rightarrow> string \<Rightarrow> db \<Rightarrow> db" where
  "failTransaction g transaction reason d = d\<lparr>db_transactions :=
     update_where (has_id d (entity_id transaction))
       (\<lambda>t. t\<lparr>txn_status := TxnFailed, txn_failure_reason := Some reason, updated_at := clock g\<rparr>)
       (db_transactions d)\<rparr>"

text \<open>\<open>manager.update(Wallet, id, { balance })\<close>: the column is a \<open>bigint\<close>.\<close>

definition update_wallet_balance :: "ambient \<Rightarrow> db \<Rightarrow> string \<Rightarrow> int \<Rightarrow> error + db" where
  "update_wallet_balance g d walletId newBalance =
     (if \<not> bigint_ok newBalance then Inl (QueryFailed OutOfRange)
      else Inr (d\<lparr>db_wallets := update_where (has_id d walletId)
             (\<lambda>w. w\<lparr>wallet_balance := newBalance, updated_at := clock g\<rparr>) (db_wallets d)\<rparr>))"

text \<open>\<open>manager.update(Transaction, id, { status: Completed })\<close>.\<close>

definition complete_transaction :: "ambient \<Rightarrow> db \<Rightarrow> string \<Rightarrow> db" where
  "complete_transaction g d transactionId = d\<lparr>db_transactions :=
     update_where (has_id d transactionId)
       (\<lambda>t. t\<lparr>txn_status := TxnCompleted, updated_at := clock g\<rparr>) (db_transactions d)\<rparr>"

text \<open>The object the services build for the outbox, and the row \<open>manager.create\<close> makes of it.\<close>

record outbox_payload =
  op_event_name :: DomainEventName
  op_aggregate_id :: string
  op_payload_json :: json
  op_occurred_at :: nat

definition outbox_row :: "ambient \<Rightarrow> nat \<Rightarrow> outbox_payload \<Rightarrow> outbox_event" where
  "outbox_row g i p = \<lparr>entity_id = uuid g i, created_at = clock g, updated_at = clock g,
     outbox_event_name = event_text (op_event_name p), outbox_aggregate_id = op_aggregate_id p,
     outbox_payload_json = json_clone (op_payload_json p), outbox_occurred_at = op_occurred_at p,
     outbox_processed_at = None, outbox_retry_count = 0\<rparr>"

section \<open>The settlement transaction\<close>

definition settleTransaction :: "ambient \<Rightarrow> string \<Rightarrow> transaction \<Rightarrow> LedgerEntryType \<Rightarrow> int
    \<Rightarrow> outbox_payload \<Rightarrow> db \<Rightarrow> error + (ledger_entry \<times> db)" where
  "settleTransaction g walletId transaction entryType balanceChange outboxPayload d =
     (case find (has_id d walletId) (db_wallets d) of
        None \<Rightarrow> Inl TypeError
      | Some wallet \<Rightarrow>
          (let newBalance = js_add (to_double (wallet_balance wallet)) balanceChange
           in if newBalance < 0 then Inl (BadRequest ''Insufficient balance'')
              else bindR (update_wallet_balance g d walletId newBalance) (\<lambda>d1.
                let entry = \<lparr>entity_id = uuid g 0, created_at = clock g, updated_at = clock g,
                      ledger_wallet_id = walletId, ledger_type = entryType,
                      ledger_amount = txn_amount transaction, ledger_currency = wallet_currency wallet,
                      ledger_balance_after = newBalance, ledger_key = txn_key transaction\<rparr>
                in bindR (insert_ledger d1 entry) (\<lambda>d2.
                   bindR (insert_outbox (complete_transaction g d2 (entity_id transaction))
                            (outbox_row g 1 outboxPayload)) (\<lambda>d4.
                   Inr (entry, d4))))))"

section \<open>What a settlement does\<close>

lemma has_id_db [simp]:
  "has_id (d\<lparr>db_wallets := ws\<rparr>) = has_id d" "has_id (d\<lparr>db_ledger := es\<rparr>) = has_id d"
  "has_id (d\<lparr>db_transactions := ts\<rparr>) = has_id d" "has_id (d\<lparr>db_outbox := os\<rparr>) = has_id d"
  "has_id (d\<lparr>db_transfers := rs\<rparr>) = has_id d" "has_id (d\<lparr>db_users := us\<rparr>) = has_id d"
  by (auto simp: has_id_def same_def fun_eq_iff)

definition settled_entry :: "ambient \<Rightarrow> string \<Rightarrow> transaction \<Rightarrow> LedgerEntryType \<Rightarrow> wallet \<Rightarrow> int
    \<Rightarrow> ledger_entry" where
  "settled_entry g walletId transaction entryType w newBalance =
     \<lparr>entity_id = uuid g 0, created_at = clock g, updated_at = clock g,
      ledger_wallet_id = walletId, ledger_type = entryType,
      ledger_amount = txn_amount transaction, ledger_currency = wallet_currency w,
      ledger_balance_after = newBalance, ledger_key = txn_key transaction\<rparr>"

lemma settleTransaction_Inr:
  assumes "settleTransaction g wid t ty change p d = Inr (e, d')"
  obtains w nb where
    "find (has_id d wid) (db_wallets d) = Some w"
    "nb = js_add (to_double (wallet_balance w)) change" "0 \<le> nb"
    "e = settled_entry g wid t ty w nb"
    "\<forall>x\<in>set (db_ledger d). \<not> ledger_conflict (db_coll d) x e"
    "\<forall>x\<in>set (db_outbox d). \<not> outbox_conflict (db_coll d) x (outbox_row g 1 p)"
    "d' = d\<lparr>db_wallets := update_where (has_id d wid)
               (\<lambda>w. w\<lparr>wallet_balance := nb, updated_at := clock g\<rparr>) (db_wallets d),
            db_ledger := db_ledger d @ [e],
            db_transactions := update_where (has_id d (entity_id t))
               (\<lambda>t. t\<lparr>txn_status := TxnCompleted, updated_at := clock g\<rparr>) (db_transactions d),
            db_outbox := db_outbox d @ [outbox_row g 1 p]\<rparr>"
  using assms
  by (fastforce simp: settleTransaction_def settled_entry_def Let_def bindR_Inr_iff
        update_wallet_balance_def complete_transaction_def
        split: option.splits if_splits dest!: insert_ledger_Inr insert_outbox_Inr)

end
