(* ===== verification/Users.thy ===== *)
theory Users
  imports AppState
begin

text \<open>
  \<open>features/users\<close>: the repository over the user table, the authorization policy and the user
  service, with the result mapper of \<open>shared/mapper\<close>. The \<open>try/catch\<close> blocks of the service
  log and rethrow; an operation is modelled by its outcome.
\<close>

section \<open>Results and the mapper\<close>

text \<open>\<open>UserResultDto\<close>; \<open>None\<close> is \<open>undefined\<close>. There is no password field.\<close>

record user_result =
  result_id :: string
  result_name :: string
  result_email :: string
  result_role :: UserRole
  result_access_token :: "string option"
  result_wallets :: "wallet list option"
  result_created_at :: nat
  result_updated_at :: nat

text \<open>
  \<open>accessToken || undefined\<close>: an empty token is dropped. The wallets are present when the
  relation was loaded.
\<close>

definition mapResult :: "users_row \<Rightarrow> wallet list option \<Rightarrow> string option \<Rightarrow> user_result" where
  "mapResult u ws accessToken = \<lparr>
     result_id = entity_id u, result_name = user_name u, result_email = user_email u,
     result_role = user_role u,
     result_access_token = (case accessToken of Some t \<Rightarrow> if t = [] then None else Some t | None \<Rightarrow> None),
     result_wallets = ws, result_created_at = created_at u, result_updated_at = updated_at u\<rparr>"

section \<open>The repository\<close>

text \<open>\<open>Partial<Users>\<close>: the fields that are present.\<close>

record user_patch =
  patch_name :: "string option"
  patch_email :: "string option"
  patch_password :: "string option"
  patch_role :: "UserRole option"

text \<open>A creation: \<open>role\<close> has the column default when it is absent.\<close>

definition createUser :: "ambient \<Rightarrow> db \<Rightarrow> string \<Rightarrow> string \<Rightarrow> string \<Rightarrow> UserRole option
    \<Rightarrow> error + (users_row \<times> db)" where
  "createUser g d name email password role =
     (let u = \<lparr>entity_id = uuid g 0, created_at = clock g, updated_at = clock g,
               user_name = name, user_email = email, user_password = password,
               user_role = (case role of Some r \<Rightarrow> r | None \<Rightarrow> User)\<rparr>
      in bindR (insert_user d u) (\<lambda>d'. Inr (u, d')))"

definition findUserByEmail :: "db \<Rightarrow> string \<Rightarrow> users_row option" where
  "findUserByEmail d email = find (\<lambda>u. same d (user_email u) email) (db_users d)"

definition findUserById :: "db \<Rightarrow> string \<Rightarrow> users_row option" where
  "findUserById d userId = find (has_id d userId) (db_users d)"

definition findUserByIdWithWallets :: "db \<Rightarrow> string \<Rightarrow> (users_row \<times> wallet list) option" where
  "findUserByIdWithWallets d userId =
     (case find (has_id d userId) (db_users d) of None \<Rightarrow> None
      | Some u \<Rightarrow> Some (u, filter (\<lambda>w. same d (wallet_user_id w) (entity_id u)) (db_wallets d)))"

text \<open>
  \<open>findAndCount\<close> with \<open>skip\<close> and \<open>take\<close>; the selection of columns leaves the password out, as
  \<open>mapResult\<close> does.
\<close>

definition findAll :: "db \<Rightarrow> nat \<Rightarrow> nat \<Rightarrow> user_result list \<times> nat" where
  "findAll d page limit =
     (map (\<lambda>u. mapResult u None None) (take limit (drop ((page - 1) * limit) (db_users d))),
      length (db_users d))"

text \<open>\<open>Object.assign(user, updateData)\<close>.\<close>

definition apply_patch :: "user_patch \<Rightarrow> users_row \<Rightarrow> users_row" where
  "apply_patch p u = u\<lparr>
     user_name := (case patch_name p of Some x \<Rightarrow> x | None \<Rightarrow> user_name u),
     user_email := (case patch_email p of Some x \<Rightarrow> x | None \<Rightarrow> user_email u),
     user_password := (case patch_password p of Some x \<Rightarrow> x | None \<Rightarrow> user_password u),
     user_role := (case patch_role p of Some x \<Rightarrow> x | None \<Rightarrow> user_role u)\<rparr>"

text \<open>
  \<open>save\<close> of a loaded user: an update of the changed columns, with \<open>updated_at\<close> set when there
  are any; the unique index on the email is checked against the other rows.
\<close>

definition save_user :: "ambient \<Rightarrow> db \<Rightarrow> users_row \<Rightarrow> users_row \<Rightarrow> error + (users_row \<times> db)" where
  "save_user g d old u =
     (let u' = (if u = old then old else u\<lparr>updated_at := clock g\<rparr>)
      in if \<not> (fits 255 (user_name u') \<and> fits 255 (user_email u') \<and> fits 255 (user_password u'))
         then Inl (QueryFailed DataTooLong)
         else if list_ex (\<lambda>x. \<not> has_id d (entity_id u') x \<and> same d (user_email x) (user_email u')) (db_users d)
         then Inl (QueryFailed DuplicateEntry)
         else Inr (u', d\<lparr>db_users := update_where (has_id d (entity_id u')) (\<lambda>_. u') (db_users d)\<rparr>))"

text \<open>
  Before \<open>save\<close> writes, it reads the row again. If it is still there, the columns in which the object
  differs from what is now stored are updated, whatever they were when the object was loaded.
\<close>

definition write_changed :: "nat \<Rightarrow> users_row \<Rightarrow> users_row \<Rightarrow> users_row \<Rightarrow> users_row" where
  "write_changed now stored u x = x\<lparr>
     user_name := (if user_name u = user_name stored then user_name x else user_name u),
     user_email := (if user_email u = user_email stored then user_email x else user_email u),
     user_password := (if user_password u = user_password stored then user_password x else user_password u),
     user_role := (if user_role u = user_role stored then user_role x else user_role u),
     updated_at := now\<rparr>"

definition save_columns :: "ambient \<Rightarrow> db \<Rightarrow> users_row \<Rightarrow> users_row \<Rightarrow> error + (users_row \<times> db)" where
  "save_columns g d stored u =
     (let row = write_changed (clock g) stored u; mine = has_id d (entity_id u);
          hit = filter mine (db_users d); rest = filter (\<lambda>x. \<not> mine x) (db_users d)
      in if u = stored then Inr (u, d)
         else if list_ex (\<lambda>x. \<not> (fits 255 (user_name (row x)) \<and> fits 255 (user_email (row x))
                               \<and> fits 255 (user_password (row x)))) hit
         then Inl (QueryFailed DataTooLong)
         else if list_ex (\<lambda>x. list_ex (\<lambda>y. same d (user_email y) (user_email (row x))) rest) hit
         then Inl (QueryFailed DuplicateEntry)
         else Inr (u\<lparr>updated_at := clock g\<rparr>, d\<lparr>db_users := update_where mine row (db_users d)\<rparr>))"

definition repo_updateUserDetails :: "ambient \<Rightarrow> db \<Rightarrow> string \<Rightarrow> user_patch
    \<Rightarrow> error + (users_row \<times> db)" where
  "repo_updateUserDetails g d userId updateData =
     (case findUserById d userId of None \<Rightarrow> Inl TypeError
      | Some user \<Rightarrow> save_user g d user (apply_patch updateData user))"

text \<open>\<open>DELETE\<close> on the user; the wallets go with it (\<open>onDelete: 'CASCADE'\<close>).\<close>

definition repo_deleteUser :: "db \<Rightarrow> string \<Rightarrow> db" where
  "repo_deleteUser d userId = d\<lparr>
     db_users := filter (\<lambda>u. \<not> has_id d userId u) (db_users d),
     db_wallets := filter (\<lambda>w. \<not> same d (wallet_user_id w) userId) (db_wallets d)\<rparr>"

section \<open>The policy\<close>

definition ensureCanUpdateUser :: "string \<Rightarrow> string \<Rightarrow> UserRole \<Rightarrow> error + unit" where
  "ensureCanUpdateUser requestingUserId targetUserId role =
     (let isSelf = (requestingUserId = targetUserId); isAdmin = (role = Admin)
      in if isSelf \<or> isAdmin then Inr ()
         else Inl (Forbidden ''You do not have permission to update user''))"

definition ensureCanUpdateRole :: "UserRole \<Rightarrow> error + unit" where
  "ensureCanUpdateRole role =
     (if role = Admin then Inr ()
      else Inl (Forbidden ''You do not have permission to update role''))"

definition ensureCanDeleteUser :: "string \<Rightarrow> string \<Rightarrow> UserRole \<Rightarrow> error + unit" where
  "ensureCanDeleteUser requestingUserId targetUserId role =
     (if requestingUserId = targetUserId then Inl (Forbidden ''You cannot delete yourself'')
      else if role \<noteq> Admin then Inl (Forbidden ''You do not have permission to delete users'')
      else Inr ())"

definition sanitizeUpdateData :: "user_patch \<Rightarrow> UserRole \<Rightarrow> user_patch" where
  "sanitizeUpdateData updateData role =
     (let sanitized = updateData\<lparr>patch_password := None, patch_email := None\<rparr>
      in if role \<noteq> Admin then sanitized\<lparr>patch_role := None\<rparr> else sanitized)"

section \<open>The service\<close>

definition svc_createUser :: "ambient \<Rightarrow> app \<Rightarrow> string \<Rightarrow> string \<Rightarrow> string \<Rightarrow> UserRole option
    \<Rightarrow> (users_row, app) outcome" where
  "svc_createUser g s name email password role =
     run_db (\<lambda>d. createUser g d name email password role) s"

definition svc_findUserByEmail :: "app \<Rightarrow> string \<Rightarrow> users_row option" where
  "svc_findUserByEmail s email = findUserByEmail (app_db s) email"

definition svc_findAll :: "app \<Rightarrow> nat \<Rightarrow> nat \<Rightarrow> user_result list \<times> nat" where
  "svc_findAll s page limit = findAll (app_db s) page limit"

definition userMe :: "app \<Rightarrow> string \<Rightarrow> error + user_result" where
  "userMe s userId =
     (case findUserByIdWithWallets (app_db s) userId of None \<Rightarrow> Inl TypeError
      | Some (u, ws) \<Rightarrow> Inr (mapResult u (Some ws) None))"

definition svc_updateUserPassword :: "ambient \<Rightarrow> app \<Rightarrow> string \<Rightarrow> string \<Rightarrow> (users_row, app) outcome" where
  "svc_updateUserPassword g s userId password =
     run_db (\<lambda>d. repo_updateUserDetails g d userId
       \<lparr>patch_name = None, patch_email = None, patch_password = Some password, patch_role = None\<rparr>) s"

definition svc_findById :: "app \<Rightarrow> string \<Rightarrow> error + users_row" where
  "svc_findById s userId =
     (case findUserById (app_db s) userId of
        None \<Rightarrow> Inl (NotFound (''User with ID '' @ userId @ '' not found''))
      | Some u \<Rightarrow> Inr u)"

definition svc_findUserById :: "app \<Rightarrow> string \<Rightarrow> error + user_result" where
  "svc_findUserById s userId =
     (case findUserByIdWithWallets (app_db s) userId of
        None \<Rightarrow> Inl (NotFound (''User with ID '' @ userId @ '' not found''))
      | Some (u, ws) \<Rightarrow> Inr (mapResult u (Some ws) None))"

definition svc_updateUserDetails :: "ambient \<Rightarrow> app \<Rightarrow> string \<Rightarrow> string \<Rightarrow> user_patch \<Rightarrow> UserRole
    \<Rightarrow> (user_result, app) outcome" where
  "svc_updateUserDetails g s requestingUserId targetUserId updateData role =
     (case findUserById (app_db s) targetUserId of
        None \<Rightarrow> (Inl (NotFound (''User with ID '' @ targetUserId @ '' not found'')), s)
      | Some _ \<Rightarrow>
          (case bindR (ensureCanUpdateUser requestingUserId targetUserId role) (\<lambda>_.
                  if patch_role updateData \<noteq> None then ensureCanUpdateRole role else Inr ()) of
             Inl e \<Rightarrow> (Inl e, s)
           | Inr _ \<Rightarrow>
               bindS (run_db (\<lambda>d. repo_updateUserDetails g d targetUserId
                                    (sanitizeUpdateData updateData role)) s) (\<lambda>updatedUser s1.
               (Inr (mapResult updatedUser None None), s1))))"

definition svc_deleteUser :: "app \<Rightarrow> string \<Rightarrow> string \<Rightarrow> UserRole \<Rightarrow> (unit, app) outcome" where
  "svc_deleteUser s requestingUserId targetUserId role =
     (case findUserById (app_db s) targetUserId of
        None \<Rightarrow> (Inl (NotFound (''User with ID '' @ targetUserId @ '' not found'')), s)
      | Some _ \<Rightarrow>
          (case ensureCanDeleteUser requestingUserId targetUserId role of
             Inl e \<Rightarrow> (Inl e, s)
           | Inr _ \<Rightarrow> update_db (\<lambda>d. repo_deleteUser d targetUserId) s))"

end
