(* ===== verification/WalletService.thy ===== *)
theory WalletService
  imports WalletRepository Users
begin

text \<open>
  \<open>features/wallet/wallet.service.ts\<close>, the event listener and the Stripe webhook controller.
  A service call returns its outcome and the application state; writes made before an error
  stay. Log calls are left out.
\<close>

section \<open>The balance cache of the service\<close>

definition BALANCE_CACHE_TTL_MS :: nat where
  "BALANCE_CACHE_TTL_MS = 60000"

definition balance_cache_key :: "string \<Rightarrow> string \<Rightarrow> string" where
  "balance_cache_key userId currency = ''wallet:balance:'' @ userId @ '':'' @ currency"

definition invalidateBalanceCache :: "app \<Rightarrow> string \<Rightarrow> string \<Rightarrow> app" where
  "invalidateBalanceCache s userId currency =
     s\<lparr>app_cache := cache_del (app_cache s) (balance_cache_key userId currency)\<rparr>"

section \<open>Wallets\<close>

definition createWallet :: "ambient \<Rightarrow> app \<Rightarrow> string \<Rightarrow> string \<Rightarrow> string \<Rightarrow> (wallet, app) outcome" where
  "createWallet g s userId userName currency =
     (case findByUserIdAndCurrency (app_db s) userId currency of
        Some _ \<Rightarrow> (Inl (Conflict (''Wallet already exists for currency '' @ currency)), s)
      | None \<Rightarrow> run_db (\<lambda>d. ensureWallet g d userId currency userName) s)"

definition getBalance :: "ambient \<Rightarrow> app \<Rightarrow> string \<Rightarrow> string \<Rightarrow> (wallet, app) outcome" where
  "getBalance g s userId currency =
     (let cacheKey = balance_cache_key userId currency
      in case cache_get (app_cache s) (clock g) cacheKey of
           Some cached \<Rightarrow> (Inr cached, s)
         | None \<Rightarrow>
             (case findByUserIdAndCurrency (app_db s) userId currency of
                None \<Rightarrow> (Inl (NotFound ''Wallet not found''), s)
              | Some wallet \<Rightarrow>
                  (Inr wallet,
                   s\<lparr>app_cache := cache_set (app_cache s) (clock g) cacheKey wallet BALANCE_CACHE_TTL_MS\<rparr>)))"

section \<open>Deposits\<close>

text \<open>\<open>DepositDto\<close>, with its validators.\<close>

record deposit_input =
  dep_amount :: int
  dep_currency :: string
  dep_paymentMethod :: string
  dep_idempotencyKey :: string

definition valid_deposit :: "deposit_input \<Rightarrow> bool" where
  "valid_deposit i \<longleftrightarrow> 1 \<le> dep_amount i \<and> is_currency (dep_currency i)
     \<and> dep_paymentMethod i \<noteq> [] \<and> dep_idempotencyKey i \<noteq> []"

definition deposit :: "ambient \<Rightarrow> registry \<Rightarrow> app \<Rightarrow> string \<Rightarrow> deposit_input
    \<Rightarrow> (string option, app) outcome" where
  "deposit g reg s userId input =
     (case findTransactionByIdempotencyKey (app_db s) (dep_idempotencyKey input) of
        Some _ \<Rightarrow> (Inr None, s)
      | None \<Rightarrow>
     (case findByUserIdAndCurrency (app_db s) userId (dep_currency input) of
        None \<Rightarrow> (Inl (NotFound ''Wallet not found''), s)
      | Some wallet \<Rightarrow>
     bindS (run_db (\<lambda>d. createTransaction g d userId TxnDeposit (dep_amount input)
              (dep_currency input) (dep_paymentMethod input) (dep_idempotencyKey input)) s)
       (\<lambda>transaction s1.
     (case resolve reg (dep_paymentMethod input) of
        Inl e \<Rightarrow> (Inl e, s1)
      | Inr gateway \<Rightarrow>
     (case processDeposit gateway (dep_amount input) (dep_currency input) (dep_paymentMethod input)
             [(''transactionId'', entity_id transaction), (''userId'', userId)] of
        Inl e \<Rightarrow> (Inl e, s1)
      | Inr gatewayResult \<Rightarrow>
     if \<not> gw_success gatewayResult then
       bindS (update_db (failTransaction g transaction
                (case gw_failureReason gatewayResult of Some r \<Rightarrow> r
                 | None \<Rightarrow> ''Payment provider declined'')) s1)
         (\<lambda>_ s2. (Inl (BadRequest ''Deposit declined by payment provider''), s2))
     else
       bindS (case gw_providerRef gatewayResult of
                Some ref \<Rightarrow>
                  if ref \<noteq> [] then
                    run_db (\<lambda>d. updateTransactionProviderRef g d (entity_id transaction) ref) s1
                  else (Inr (), s1)
              | None \<Rightarrow> (Inr (), s1))
         (\<lambda>_ s2.
          if gw_requiresWebhook gatewayResult = Some True
          then (Inr (gw_checkoutUrl gatewayResult), s2)
          else (Inl (BadRequest ''No settlement path available for gateway''), s2)))))))"

section \<open>Settlement by the webhook\<close>

definition getUserEmail :: "db \<Rightarrow> string \<Rightarrow> string option" where
  "getUserEmail d userId = map_option user_email (findUserById d userId)"

definition buildOutboxPayload :: "ambient \<Rightarrow> DomainEventName \<Rightarrow> string \<Rightarrow> string \<Rightarrow> int \<Rightarrow> string
    \<Rightarrow> string option \<Rightarrow> outbox_payload" where
  "buildOutboxPayload g eventName walletId userId amount currency userEmail = \<lparr>
     op_event_name = eventName,
     op_aggregate_id = walletId,
     op_payload_json = JObj [(''userId'', JStr userId), (''walletId'', JStr walletId),
       (''amount'', JNum amount), (''currency'', JStr currency), (''userEmail'', jopt userEmail)],
     op_occurred_at = clock g\<rparr>"

definition settleByProviderRef :: "ambient \<Rightarrow> app \<Rightarrow> string \<Rightarrow> (unit, app) outcome" where
  "settleByProviderRef g s providerRef =
     (case findTransactionByProviderRef (app_db s) providerRef of
        None \<Rightarrow> (Inr (), s)
      | Some transaction \<Rightarrow>
     if txn_status transaction \<noteq> TxnPending then (Inr (), s)
     else
     (case findByUserIdAndCurrency (app_db s) (txn_user_id transaction) (txn_currency transaction) of
        None \<Rightarrow> (Inr (), s)
      | Some wallet \<Rightarrow>
     (let outboxPayload = buildOutboxPayload g DepositSucceeded (entity_id wallet)
            (txn_user_id transaction) (to_double (txn_amount transaction)) (txn_currency transaction)
            (getUserEmail (app_db s) (txn_user_id transaction))
      in bindS (run_db (settleTransaction g (entity_id wallet) transaction LedgerDeposit
                  (to_double (txn_amount transaction)) outboxPayload) s)
           (\<lambda>_ s1. (Inr (), invalidateBalanceCache s1 (txn_user_id transaction)
                              (txn_currency transaction))))))"

definition failByProviderRef :: "ambient \<Rightarrow> app \<Rightarrow> string \<Rightarrow> string \<Rightarrow> (unit, app) outcome" where
  "failByProviderRef g s providerRef reason =
     (case findTransactionByProviderRef (app_db s) providerRef of
        None \<Rightarrow> (Inr (), s)
      | Some transaction \<Rightarrow>
     if txn_status transaction \<noteq> TxnPending then (Inr (), s)
     else update_db (failTransaction g transaction reason) s)"

section \<open>The event listener\<close>

definition handleUserRegistered :: "ambient \<Rightarrow> app \<Rightarrow> user_registered \<Rightarrow> (unit, app) outcome" where
  "handleUserRegistered g s payload =
     bindS (run_db (\<lambda>d. ensureWallet g d (reg_userId payload) (currency_text DEFAULT_CURRENCY)
              (reg_name payload)) s)
       (\<lambda>_ s1. (Inr (), s1))"

section \<open>The webhook controller\<close>

text \<open>
  \<open>StripeWebhookEvent\<close>; \<open>constructEvent\<close> is Stripe's signature check, here a function of payload,
  signature and secret: the age of a signature is not looked at.
\<close>

record stripe_event =
  ev_id :: string
  ev_type :: string
  ev_object_id :: string
  ev_payment_status :: "string option"

definition handleWebhook :: "(string \<Rightarrow> string \<Rightarrow> string \<Rightarrow> error + stripe_event) \<Rightarrow> string \<Rightarrow> ambient
    \<Rightarrow> app \<Rightarrow> string \<Rightarrow> string option \<Rightarrow> (bool, app) outcome" where
  "handleWebhook constructEvent webhookSecret g s body signature =
     (case signature of
        None \<Rightarrow> (Inl (BadRequest ''Missing stripe-signature header''), s)
      | Some sig \<Rightarrow>
     if sig = [] then (Inl (BadRequest ''Missing stripe-signature header''), s)
     else
     (case constructEvent body sig webhookSecret of
        Inl _ \<Rightarrow> (Inl (BadRequest ''Invalid webhook signature''), s)
      | Inr event \<Rightarrow>
     bindS (if ev_type event = ''checkout.session.completed'' then
              if ev_payment_status event = Some ''paid''
              then settleByProviderRef g s (ev_object_id event)
              else (Inr (), s)
            else if ev_type event = ''checkout.session.expired'' then
              failByProviderRef g s (ev_object_id event) ''Checkout session expired''
            else (Inr (), s))
       (\<lambda>_ s1. (Inr True, s1))))"

end
