(* ===== verification/Transfers.thy ===== *)
theory Transfers
  imports WalletService
begin

text \<open>
  \<open>features/transfers\<close>: the repository, whose \<open>executeTransfer\<close> is one database transaction
  with two row locks, and the service that checks a request and runs it.
\<close>

section \<open>The repository\<close>

definition findTransferByIdempotencyKey :: "db \<Rightarrow> string \<Rightarrow> transfer option" where
  "findTransferByIdempotencyKey d key = find (\<lambda>t. same d (transfer_key t) key) (db_transfers d)"

definition createTransfer :: "ambient \<Rightarrow> db \<Rightarrow> string \<Rightarrow> string \<Rightarrow> int \<Rightarrow> string \<Rightarrow> string
    \<Rightarrow> error + (transfer \<times> db)" where
  "createTransfer g d fromUserId toUserId amount currency key =
     (let t = \<lparr>entity_id = uuid g 0, created_at = clock g, updated_at = clock g,
               transfer_from_user_id = fromUserId, transfer_to_user_id = toUserId,
               transfer_amount = amount, transfer_currency = currency,
               transfer_status = TransferPending, transfer_key = key,
               transfer_failure_reason = None\<rparr>
      in bindR (insert_transfer d t) (\<lambda>d'. Inr (t, d')))"

definition failTransfer :: "ambient \<Rightarrow> transfer \<Rightarrow> string \<Rightarrow> db \<Rightarrow> db" where
  "failTransfer g transfer reason d = d\<lparr>db_transfers :=
     update_where (has_id d (entity_id transfer))
       (\<lambda>t. t\<lparr>transfer_status := TransferFailed, transfer_failure_reason := Some reason,
              updated_at := clock g\<rparr>) (db_transfers d)\<rparr>"

text \<open>\<open>manager.update(Transfer, id, { status: Completed })\<close>.\<close>

definition complete_transfer :: "ambient \<Rightarrow> db \<Rightarrow> string \<Rightarrow> db" where
  "complete_transfer g d transferId = d\<lparr>db_transfers :=
     update_where (has_id d transferId)
       (\<lambda>t. t\<lparr>transfer_status := TransferDone, updated_at := clock g\<rparr>) (db_transfers d)\<rparr>"

text \<open>
  The order in which the two wallet rows are locked. JavaScript compares strings by code units,
  which is the lexicographic order of \<open>List_Lexorder\<close> over \<open>Char_ord\<close>.
\<close>

definition lock_order :: "string \<Rightarrow> string \<Rightarrow> string \<times> string" where
  "lock_order fromWalletId toWalletId =
     (if fromWalletId < toWalletId then (fromWalletId, toWalletId) else (toWalletId, fromWalletId))"

definition transfer_entry :: "ambient \<Rightarrow> nat \<Rightarrow> transfer \<Rightarrow> string \<Rightarrow> LedgerEntryType \<Rightarrow> int \<Rightarrow> string
    \<Rightarrow> ledger_entry" where
  "transfer_entry g i transfer walletId type newBalance suffix = \<lparr>
     entity_id = uuid g i, created_at = clock g, updated_at = clock g,
     ledger_wallet_id = walletId, ledger_type = type, ledger_amount = transfer_amount transfer,
     ledger_currency = transfer_currency transfer, ledger_balance_after = newBalance,
     ledger_key = transfer_key transfer @ suffix\<rparr>"

definition executeTransfer :: "ambient \<Rightarrow> transfer \<Rightarrow> string \<Rightarrow> string \<Rightarrow> outbox_payload \<Rightarrow> db
    \<Rightarrow> error + (unit \<times> db)" where
  "executeTransfer g transfer fromWalletId toWalletId outboxPayload d =
     (let (walletIdFirst, walletIdSecond) = lock_order fromWalletId toWalletId;
          secondWallet = find (has_id d walletIdSecond) (db_wallets d)
      in case find (has_id d walletIdFirst) (db_wallets d) of
           None \<Rightarrow> Inl TypeError
         | Some firstWallet \<Rightarrow>
      (let fromRow = (if entity_id firstWallet = fromWalletId then Some firstWallet else secondWallet);
           toRow = (if entity_id firstWallet = toWalletId then Some firstWallet else secondWallet)
       in case fromRow of
            None \<Rightarrow> Inl TypeError
          | Some fromWallet \<Rightarrow>
      (let senderNewBalance = js_sub (to_double (wallet_balance fromWallet)) (transfer_amount transfer)
       in if senderNewBalance < 0 then Inl (BadRequest ''Insufficient balance'')
       else case toRow of
            None \<Rightarrow> Inl TypeError
          | Some toWallet \<Rightarrow>
      (let receiverNewBalance = js_add (to_double (wallet_balance toWallet)) (transfer_amount transfer);
           debitEntry = transfer_entry g 0 transfer (entity_id fromWallet) TransferOut
                          senderNewBalance '':out'';
           creditEntry = transfer_entry g 1 transfer (entity_id toWallet) TransferIn
                          receiverNewBalance '':in''
       in bindR (update_wallet_balance g d (entity_id fromWallet) senderNewBalance) (\<lambda>d1.
          bindR (update_wallet_balance g d1 (entity_id toWallet) receiverNewBalance) (\<lambda>d2.
          bindR (insert_ledger d2 debitEntry) (\<lambda>d3.
          bindR (insert_ledger d3 creditEntry) (\<lambda>d4.
          bindR (insert_outbox (complete_transfer g d4 (entity_id transfer))
                   (outbox_row g 2 outboxPayload)) (\<lambda>d5.
          Inr ((), d5))))))))))"

section \<open>The service\<close>

text \<open>\<open>InitiateTransferDto\<close>, with its validators.\<close>

record transfer_input =
  ti_toWalletTag :: string
  ti_amount :: int
  ti_currency :: string
  ti_idempotencyKey :: string

definition valid_transfer :: "transfer_input \<Rightarrow> bool" where
  "valid_transfer i \<longleftrightarrow> ti_toWalletTag i \<noteq> [] \<and> 1 \<le> ti_amount i \<and> is_currency (ti_currency i)
     \<and> ti_idempotencyKey i \<noteq> []"

definition getUserName :: "db \<Rightarrow> string \<Rightarrow> string option" where
  "getUserName d userId = map_option user_name (findUserById d userId)"

definition transfer_payload :: "ambient \<Rightarrow> db \<Rightarrow> transfer \<Rightarrow> string \<Rightarrow> string \<Rightarrow> wallet
    \<Rightarrow> transfer_input \<Rightarrow> outbox_payload" where
  "transfer_payload g d transfer fromUserId fromUserEmail toWallet input = \<lparr>
     op_event_name = TransferCompleted,
     op_aggregate_id = entity_id transfer,
     op_payload_json = JObj
       [(''transferId'', JStr (entity_id transfer)),
        (''fromUserId'', JStr fromUserId),
        (''toUserId'', JStr (wallet_user_id toWallet)),
        (''amount'', JNum (ti_amount input)),
        (''currency'', JStr (ti_currency input)),
        (''fromUserEmail'', JStr fromUserEmail),
        (''fromUserName'', JStr (case getUserName d fromUserId of Some n \<Rightarrow> n | None \<Rightarrow> ''Unknown'')),
        (''toUserEmail'', jopt (map_option user_email (findUserById d (wallet_user_id toWallet)))),
        (''toUserName'', JStr (case getUserName d (wallet_user_id toWallet) of
           Some n \<Rightarrow> n | None \<Rightarrow> ''Unknown''))],
     op_occurred_at = clock g\<rparr>"

text \<open>
  The UUIDs of the rows: number 0 of the call is the transfer, the transaction that follows draws
  its own from number 1 on.
\<close>

definition later :: "ambient \<Rightarrow> ambient" where
  "later g = g\<lparr>uuid := (\<lambda>i. uuid g (Suc i))\<rparr>"

definition initiateTransfer :: "ambient \<Rightarrow> app \<Rightarrow> string \<Rightarrow> string \<Rightarrow> transfer_input
    \<Rightarrow> (unit, app) outcome" where
  "initiateTransfer g s fromUserId fromUserEmail input =
     (case findByWalletTag (app_db s) (ti_toWalletTag input) of
        None \<Rightarrow> (Inl (NotFound ''Recipient wallet not found''), s)
      | Some toWallet \<Rightarrow>
     if wallet_currency toWallet \<noteq> ti_currency input
     then (Inl (BadRequest ''Recipient wallet currency does not match transfer currency''), s)
     else if fromUserId = wallet_user_id toWallet
     then (Inl (BadRequest ''Cannot transfer to yourself''), s)
     else
     (case findTransferByIdempotencyKey (app_db s) (ti_idempotencyKey input) of
        Some _ \<Rightarrow> (Inr (), s)
      | None \<Rightarrow>
     (case findByUserIdAndCurrency (app_db s) fromUserId (ti_currency input) of
        None \<Rightarrow> (Inl (NotFound ''Sender wallet not found''), s)
      | Some fromWallet \<Rightarrow>
     bindS (run_db (\<lambda>d. createTransfer g d fromUserId (wallet_user_id toWallet) (ti_amount input)
              (ti_currency input) (ti_idempotencyKey input)) s)
       (\<lambda>transfer s1.
     bindS (run_db (executeTransfer (later g) transfer (entity_id fromWallet) (entity_id toWallet)
              (transfer_payload g (app_db s) transfer fromUserId fromUserEmail toWallet input)) s1)
       (\<lambda>_ s2.
        (Inr (), invalidateBalanceCache
                   (invalidateBalanceCache s2 fromUserId (ti_currency input))
                   (wallet_user_id toWallet) (ti_currency input)))))))"

section \<open>What an executed transfer does\<close>

lemma lock_order_sym: "lock_order a b = lock_order b a"
  by (auto simp: lock_order_def not_less)

lemma lock_order_sorted: "a \<noteq> b \<Longrightarrow> fst (lock_order a b) < snd (lock_order a b)"
  by (auto simp: lock_order_def not_less)

lemma lock_order_set: "{fst (lock_order a b), snd (lock_order a b)} = {a, b}"
  by (auto simp: lock_order_def)

text \<open>
  When the two wallets exist under the ids the service read, the roles come out right whatever
  the lock order was.
\<close>

definition transfer_result :: "ambient \<Rightarrow> transfer \<Rightarrow> wallet \<Rightarrow> wallet \<Rightarrow> outbox_payload \<Rightarrow> db \<Rightarrow> db" where
  "transfer_result g t fw tw p d =
     (let sb = js_sub (to_double (wallet_balance fw)) (transfer_amount t);
          rb = js_add (to_double (wallet_balance tw)) (transfer_amount t)
      in d\<lparr>db_wallets :=
             update_where (has_id d (entity_id tw)) (\<lambda>w. w\<lparr>wallet_balance := rb, updated_at := clock g\<rparr>)
               (update_where (has_id d (entity_id fw))
                  (\<lambda>w. w\<lparr>wallet_balance := sb, updated_at := clock g\<rparr>) (db_wallets d)),
           db_ledger := db_ledger d @ [transfer_entry g 0 t (entity_id fw) TransferOut sb '':out'',
                                       transfer_entry g 1 t (entity_id tw) TransferIn rb '':in''],
           db_transfers := update_where (has_id d (entity_id t))
             (\<lambda>t. t\<lparr>transfer_status := TransferDone, updated_at := clock g\<rparr>) (db_transfers d),
           db_outbox := db_outbox d @ [outbox_row g 2 p]\<rparr>)"

lemma executeTransfer_cases:
  assumes "find (has_id d a) (db_wallets d) = Some fw" "entity_id fw = a"
    and "find (has_id d b) (db_wallets d) = Some tw" "entity_id tw = b"
  shows "executeTransfer g t a b p d =
    (let sb = js_sub (to_double (wallet_balance fw)) (transfer_amount t);
         rb = js_add (to_double (wallet_balance tw)) (transfer_amount t)
     in if sb < 0 then Inl (BadRequest ''Insufficient balance'')
        else bindR (update_wallet_balance g d a sb) (\<lambda>d1.
          bindR (update_wallet_balance g d1 b rb) (\<lambda>d2.
          bindR (insert_ledger d2 (transfer_entry g 0 t a TransferOut sb '':out'')) (\<lambda>d3.
          bindR (insert_ledger d3 (transfer_entry g 1 t b TransferIn rb '':in'')) (\<lambda>d4.
          bindR (insert_outbox (complete_transfer g d4 (entity_id t)) (outbox_row g 2 p)) (\<lambda>d5.
          Inr ((), d5)))))))"
proof (cases "a < b")
  case True
  then have "a \<noteq> b" by auto
  with True assms show ?thesis
    unfolding executeTransfer_def lock_order_def Let_def by simp
next
  case False
  with assms show ?thesis
    unfolding executeTransfer_def lock_order_def Let_def by (cases "a = b") simp_all
qed

end
