(* ===== verification/Outbox.thy ===== *)
theory Outbox
  imports Transfers
begin

text \<open>
  \<open>infrastructure/outbox\<close>: the outbox service over the table of events and the publisher that a
  cron tick runs. Which calls fail during a tick is a parameter (\<open>faults\<close>): reading the batch,
  adding to the queue, marking an event as processed and counting a failed attempt can each be
  refused by Redis or MySQL, and the publisher handles each.
\<close>

section \<open>The service\<close>

definition MAX_RETRIES :: nat where
  "MAX_RETRIES = 5"

definition is_unprocessed :: "outbox_event \<Rightarrow> bool" where
  "is_unprocessed e \<longleftrightarrow> outbox_processed_at e = None \<and> outbox_retry_count e < MAX_RETRIES"

text \<open>The default of \<open>limit\<close> is 50; rows with the same \<open>created_at\<close> come in table order.\<close>

definition findUnprocessed :: "nat \<Rightarrow> db \<Rightarrow> outbox_event list" where
  "findUnprocessed limit d = take limit (sort_key created_at (filter is_unprocessed (db_outbox d)))"

definition markProcessed :: "ambient \<Rightarrow> string \<Rightarrow> db \<Rightarrow> db" where
  "markProcessed g i d = d\<lparr>db_outbox := update_where (has_id d i)
     (\<lambda>e. e\<lparr>outbox_processed_at := Some (clock g), updated_at := clock g\<rparr>) (db_outbox d)\<rparr>"

definition markFailedAttempt :: "ambient \<Rightarrow> string \<Rightarrow> db \<Rightarrow> db" where
  "markFailedAttempt g i d = d\<lparr>db_outbox := update_where (has_id d i)
     (\<lambda>e. e\<lparr>outbox_retry_count := Suc (outbox_retry_count e), updated_at := clock g\<rparr>) (db_outbox d)\<rparr>"

section \<open>The publisher\<close>

record faults =
  find_fails :: bool
  add_fails :: "string \<Rightarrow> bool"
  mark_fails :: "string \<Rightarrow> bool"
  retry_fails :: "string \<Rightarrow> bool"

definition event_job :: "outbox_event \<Rightarrow> json" where
  "event_job e = JObj
     [(''outboxId'', JStr (entity_id e)), (''eventName'', JStr (outbox_event_name e)),
      (''aggregateId'', JStr (outbox_aggregate_id e)), (''payload'', outbox_payload_json e),
      (''occurredAt'', JDate (outbox_occurred_at e))]"

definition enqueue_event :: "outbox_event \<Rightarrow> app \<Rightarrow> app" where
  "enqueue_event e s = s\<lparr>app_domain_events :=
     queue_add (app_domain_events s) (outbox_event_name e) (event_job e)\<rparr>"

definition on_db :: "(db \<Rightarrow> db) \<Rightarrow> app \<Rightarrow> app" where
  "on_db f s = s\<lparr>app_db := f (app_db s)\<rparr>"

text \<open>
  One turn of the loop: add, then mark; an exception of either goes to the \<open>catch\<close>, which
  counts the attempt, and an exception there leaves the loop.
\<close>

fun publish_loop :: "faults \<Rightarrow> ambient \<Rightarrow> outbox_event list \<Rightarrow> app \<Rightarrow> (unit, app) outcome" where
  "publish_loop f g [] s = (Inr (), s)"
| "publish_loop f g (event # events) s =
     (let i = entity_id event;
          s1 = (if add_fails f i then s else enqueue_event event s)
      in if \<not> add_fails f i \<and> \<not> mark_fails f i
         then publish_loop f g events (on_db (markProcessed g i) s1)
         else if retry_fails f i then (Inl (ProviderError ''database''), s1)
         else publish_loop f g events (on_db (markFailedAttempt g i) s1))"

text \<open>
  The tick: the batch cannot be read, it is empty, or the loop runs; \<open>finally\<close> releases the flag
  on every way out.
\<close>

definition publishPendingEvents :: "faults \<Rightarrow> ambient \<Rightarrow> app \<Rightarrow> (unit, app) outcome" where
  "publishPendingEvents f g s =
     (if app_publisher_busy s then (Inr (), s)
      else
        (let s1 = s\<lparr>app_publisher_busy := True\<rparr>;
             events = findUnprocessed 50 (app_db s1);
             (r, s2) = (if find_fails f then (Inl (ProviderError ''database''), s1)
                        else if events = [] then (Inr (), s1)
                        else publish_loop f g events s1)
         in (r, s2\<lparr>app_publisher_busy := False\<rparr>)))"

section \<open>The batch\<close>

lemma findUnprocessed_length: "length (findUnprocessed limit d) \<le> limit"
  by (simp add: findUnprocessed_def)

lemma findUnprocessed_set:
  "e \<in> set (findUnprocessed limit d) \<Longrightarrow> e \<in> set (db_outbox d) \<and> is_unprocessed e"
  by (auto simp: findUnprocessed_def dest: in_set_takeD)

lemma findUnprocessed_sorted: "sorted (map created_at (findUnprocessed limit d))"
  by (simp add: findUnprocessed_def take_map [symmetric] sorted_wrt_take)

lemma findUnprocessed_all:
  "length (filter is_unprocessed (db_outbox d)) \<le> limit \<Longrightarrow>
   set (findUnprocessed limit d) = {e \<in> set (db_outbox d). is_unprocessed e}"
  by (simp add: findUnprocessed_def)

text \<open>What is left out of a full batch is not older than what is in it.\<close>

lemma findUnprocessed_oldest:
  assumes "e \<in> set (findUnprocessed limit d)" "x \<in> set (db_outbox d)" "is_unprocessed x"
    and "x \<notin> set (findUnprocessed limit d)"
  shows "created_at e \<le> created_at x"
proof -
  let ?ys = "sort_key created_at (filter is_unprocessed (db_outbox d))"
  have "x \<in> set ?ys" using assms(2,3) by simp
  then have "x \<in> set (drop limit ?ys)"
    using assms(4) by (metis Un_iff append_take_drop_id findUnprocessed_def set_append)
  moreover have "sorted (map created_at (take limit ?ys) @ map created_at (drop limit ?ys))"
    unfolding map_append [symmetric] append_take_drop_id by simp
  then have "\<forall>a\<in>set (take limit ?ys). \<forall>b\<in>set (drop limit ?ys). created_at a \<le> created_at b"
    by (simp only: sorted_append) simp
  ultimately show ?thesis
    using assms(1) unfolding findUnprocessed_def by blast
qed

lemma on_db_simps [simp]:
  "app_db (on_db f s) = f (app_db s)" "app_domain_events (on_db f s) = app_domain_events s"
  "app_cache (on_db f s) = app_cache s" "app_notifications (on_db f s) = app_notifications s"
  "app_publisher_busy (on_db f s) = app_publisher_busy s"
  by (simp_all add: on_db_def)

lemma enqueue_event_simps [simp]:
  "app_db (enqueue_event e s) = app_db s"
  "app_cache (enqueue_event e s) = app_cache s"
  "app_publisher_busy (enqueue_event e s) = app_publisher_busy s"
  by (simp_all add: enqueue_event_def)

end
