(* ===== verification/Ledger.thy ===== *)
theory Ledger
  imports Outbox
begin

text \<open>
  The money laws. Every change of a balance posts one ledger entry; \<open>post_entry\<close> is the common
  effect of a settlement and of each half of a transfer. Predicates: \<open>audited\<close> (a balance is the
  sum of the entries of its wallet), \<open>solvent\<close> (no negative balance), \<open>in_range\<close> (balances are
  safe JavaScript integers).
\<close>

section \<open>Predicates on the tables\<close>

definition entries_of :: "db \<Rightarrow> wallet \<Rightarrow> ledger_entry list" where
  "entries_of d w = filter (\<lambda>e. same d (ledger_wallet_id e) (entity_id w)) (db_ledger d)"

definition audited :: "db \<Rightarrow> bool" where
  "audited d \<longleftrightarrow> (\<forall>w\<in>set (db_wallets d). wallet_balance w = sum_list (map signed_amount (entries_of d w)))"

definition solvent :: "db \<Rightarrow> bool" where
  "solvent d \<longleftrightarrow> (\<forall>w\<in>set (db_wallets d). 0 \<le> wallet_balance w)"

definition in_range :: "db \<Rightarrow> bool" where
  "in_range d \<longleftrightarrow> (\<forall>w\<in>set (db_wallets d). wallet_balance w \<le> max_safe)"

definition total_balance :: "db \<Rightarrow> int" where
  "total_balance d = sum_list (map wallet_balance (db_wallets d))"

text \<open>Every wallet names its owner exactly as the user row does.\<close>

definition owners_ok :: "db \<Rightarrow> bool" where
  "owners_ok d \<longleftrightarrow> (\<forall>w\<in>set (db_wallets d). \<exists>u\<in>set (db_users d). entity_id u = wallet_user_id w)"

definition positive :: "db \<Rightarrow> bool" where
  "positive d \<longleftrightarrow> (\<forall>t\<in>set (db_transactions d). 0 < txn_amount t)
                  \<and> (\<forall>t\<in>set (db_transfers d). 0 < transfer_amount t)"

text \<open>A completed deposit is in the ledger.\<close>

definition deposits_booked :: "db \<Rightarrow> bool" where
  "deposits_booked d \<longleftrightarrow> (\<forall>t\<in>set (db_transactions d). txn_status t = TxnCompleted \<longrightarrow>
     (\<exists>e\<in>set (db_ledger d). ledger_type e = LedgerDeposit \<and> ledger_key e = txn_key t
        \<and> ledger_amount e = txn_amount t))"

lemmas money_defs = audited_def solvent_def in_range_def owners_ok_def positive_def deposits_booked_def

section \<open>Posting one entry\<close>

definition set_balance :: "nat \<Rightarrow> int \<Rightarrow> wallet \<Rightarrow> wallet" where
  "set_balance now b w = w\<lparr>wallet_balance := b, updated_at := now\<rparr>"

definition post_entry :: "nat \<Rightarrow> string \<Rightarrow> int \<Rightarrow> ledger_entry \<Rightarrow> db \<Rightarrow> db" where
  "post_entry now i b e d = d\<lparr>
     db_wallets := update_where (has_id d i) (set_balance now b) (db_wallets d),
     db_ledger := db_ledger d @ [e]\<rparr>"

lemma set_balance_simps [simp]:
  "entity_id (set_balance now b w) = entity_id w"
  "wallet_user_id (set_balance now b w) = wallet_user_id w"
  "wallet_currency (set_balance now b w) = wallet_currency w"
  "wallet_tag (set_balance now b w) = wallet_tag w"
  "wallet_balance (set_balance now b w) = b"
  by (simp_all add: set_balance_def)

lemma has_id_set_balance [simp]: "has_id d i (set_balance now b w) = has_id d i w"
  by (simp add: has_id_def)

lemma wallet_conflict_set_balance [simp]:
  "wallet_conflict c (set_balance now b x) y = wallet_conflict c x y"
  "wallet_conflict c x (set_balance now b y) = wallet_conflict c x y"
  by (simp_all add: wallet_conflict_def)

lemma post_entry_simps [simp]:
  "db_coll (post_entry now i b e d) = db_coll d"
  "db_users (post_entry now i b e d) = db_users d"
  "db_wallets (post_entry now i b e d) = update_where (has_id d i) (set_balance now b) (db_wallets d)"
  "db_ledger (post_entry now i b e d) = db_ledger d @ [e]"
  "db_transactions (post_entry now i b e d) = db_transactions d"
  "db_transfers (post_entry now i b e d) = db_transfers d"
  "db_outbox (post_entry now i b e d) = db_outbox d"
  "same (post_entry now i b e d) = same d"
  "has_id (post_entry now i b e d) = has_id d"
  by (simp_all add: post_entry_def same_def has_id_def fun_eq_iff)

lemma db_ok_wallets [intro]: "db_ok d \<Longrightarrow> unique_rows (wallet_conflict (db_coll d)) (db_wallets d)"
  by (simp add: db_ok_def)

lemma wallet_id_unique:
  assumes "unique_rows (wallet_conflict (db_coll d)) (db_wallets d)" "x \<in> set (db_wallets d)" "y \<in> set (db_wallets d)" "has_id d i x" "has_id d i y"
  shows "x = y"
  using assms wallet_table.row_eq_id [of "db_coll d" "db_wallets d" x y]
  by (simp add: has_id_def same_def)

lemma post_entry_wallets:
  "unique_rows (wallet_conflict (db_coll d)) (db_wallets d) \<Longrightarrow>
   unique_rows (wallet_conflict (db_coll d)) (db_wallets (post_entry now i b e d))"
  by (simp add: unique_rows_update_where)

lemma post_entry_audited:
  assumes "unique_rows (wallet_conflict (db_coll d)) (db_wallets d)" "audited d" "w \<in> set (db_wallets d)" "has_id d i w"
    and "same d (ledger_wallet_id e) i" "b = wallet_balance w + signed_amount e"
  shows "audited (post_entry now i b e d)"
  unfolding audited_def
proof
  fix w' assume "w' \<in> set (db_wallets (post_entry now i b e d))"
  then obtain x where x: "x \<in> set (db_wallets d)"
      and w': "w' = (if has_id d i x then set_balance now b x else x)"
    by (auto simp: set_update_where)
  from assms(2) x have bal: "wallet_balance x = sum_list (map signed_amount (entries_of d x))"
    by (simp add: audited_def)
  show "wallet_balance w' = sum_list (map signed_amount (entries_of (post_entry now i b e d) w'))"
  proof (cases "has_id d i x")
    case True
    with assms(1,3,4) x have "x = w" by (blast intro: wallet_id_unique)
    moreover have "same d (ledger_wallet_id e) (entity_id x)"
      using assms(5) True by (simp add: same_def has_id_def)
    ultimately show ?thesis
      using True bal assms(6) w' by (simp add: entries_of_def)
  next
    case False
    then have "\<not> same d (ledger_wallet_id e) (entity_id x)"
      using assms(5) by (simp add: same_def has_id_def)
    with False bal w' show ?thesis by (simp add: entries_of_def)
  qed
qed

lemma post_entry_solvent: "solvent d \<Longrightarrow> 0 \<le> b \<Longrightarrow> solvent (post_entry now i b e d)"
  by (auto simp: solvent_def set_update_where)

lemma post_entry_total:
  assumes "unique_rows (wallet_conflict (db_coll d)) (db_wallets d)" "w \<in> set (db_wallets d)" "has_id d i w"
  shows "total_balance (post_entry now i b e d) = total_balance d - wallet_balance w + b"
  using assms wallet_table.sum_update_id [of "db_coll d" "db_wallets d" w i wallet_balance]
  by (simp add: total_balance_def has_id_def [abs_def] same_def)

lemma post_entry_find:
  "find (has_id d j) (db_wallets (post_entry now i b e d))
   = map_option (\<lambda>w. if has_id d i w then set_balance now b w else w) (find (has_id d j) (db_wallets d))"
  by (simp add: find_update_where)

text \<open>The laws read only the wallets and the ledger.\<close>

lemma money_cong:
  assumes "db_coll d' = db_coll d" "db_wallets d' = db_wallets d" "db_ledger d' = db_ledger d"
  shows "audited d' = audited d" "solvent d' = solvent d" "in_range d' = in_range d"
    "total_balance d' = total_balance d"
  using assms
  by (auto simp: audited_def solvent_def in_range_def total_balance_def entries_of_def same_def)

section \<open>The settlement as a posting\<close>

lemma settleTransaction_post:
  assumes "settleTransaction g wid t ty change p d = Inr (e, d')"
  obtains w nb where
    "w \<in> set (db_wallets d)" "has_id d wid w"
    "nb = to_double (to_double (wallet_balance w) + change)" "0 \<le> nb"
    "e = settled_entry g wid t ty w nb"
    "\<forall>x\<in>set (db_ledger d). \<not> ledger_conflict (db_coll d) x e"
    "\<forall>x\<in>set (db_outbox d). \<not> outbox_conflict (db_coll d) x (outbox_row g 1 p)"
    "d' = (post_entry (clock g) wid nb e d)\<lparr>
       db_transactions := update_where (has_id d (entity_id t))
         (\<lambda>t. t\<lparr>txn_status := TxnCompleted, updated_at := clock g\<rparr>) (db_transactions d),
       db_outbox := db_outbox d @ [outbox_row g 1 p]\<rparr>"
proof (rule settleTransaction_Inr [OF assms])
  fix w nb
  assume a: "find (has_id d wid) (db_wallets d) = Some w"
    "nb = js_add (to_double (wallet_balance w)) change" "0 \<le> nb" "e = settled_entry g wid t ty w nb"
    "\<forall>x\<in>set (db_ledger d). \<not> ledger_conflict (db_coll d) x e"
    "\<forall>x\<in>set (db_outbox d). \<not> outbox_conflict (db_coll d) x (outbox_row g 1 p)"
    "d' = d\<lparr>db_wallets := update_where (has_id d wid)
               (\<lambda>w. w\<lparr>wallet_balance := nb, updated_at := clock g\<rparr>) (db_wallets d),
            db_ledger := db_ledger d @ [e],
            db_transactions := update_where (has_id d (entity_id t))
               (\<lambda>t. t\<lparr>txn_status := TxnCompleted, updated_at := clock g\<rparr>) (db_transactions d),
            db_outbox := db_outbox d @ [outbox_row g 1 p]\<rparr>"
  have "set_balance (clock g) nb = (\<lambda>w. w\<lparr>wallet_balance := nb, updated_at := clock g\<rparr>)"
    by (simp add: set_balance_def fun_eq_iff)
  with a show ?thesis
    by (intro that [of w nb]) (auto simp: post_entry_def js_add_def dest: find_SomeD)
qed

text \<open>Sums of two non-negative amounts that come out safe were computed exactly.\<close>

lemma safe_sum_exact:
  assumes "0 \<le> a" "0 \<le> b" "to_double (to_double a + to_double b) \<le> max_safe"
  shows "to_double (to_double a + to_double b) = a + b"
proof -
  have nn: "0 \<le> to_double a" "0 \<le> to_double b" using assms by (simp_all add: to_double_nonneg_iff)
  then have "to_double (to_double a + to_double b) = to_double a + to_double b"
    using assms(3) by (intro to_double_safe) (auto simp: to_double_nonneg_iff)
  with assms(3) nn have "to_double a \<le> max_safe" "to_double b \<le> max_safe" by auto
  with nn have "to_double a = a" "to_double b = b" by (auto intro: to_double_safe)
  with \<open>to_double (to_double a + to_double b) = to_double a + to_double b\<close> show ?thesis by simp
qed

lemma settleTransaction_db_ok:
  assumes "settleTransaction g wid t ty change p d = Inr (e, d')" "db_ok d"
  shows "db_ok d'"
proof (rule settleTransaction_post [OF assms(1)])
  fix w nb
  assume "\<forall>x\<in>set (db_ledger d). \<not> ledger_conflict (db_coll d) x e"
    and "\<forall>x\<in>set (db_outbox d). \<not> outbox_conflict (db_coll d) x (outbox_row g 1 p)"
    and "d' = (post_entry (clock g) wid nb e d)\<lparr>
       db_transactions := update_where (has_id d (entity_id t))
         (\<lambda>t. t\<lparr>txn_status := TxnCompleted, updated_at := clock g\<rparr>) (db_transactions d),
       db_outbox := db_outbox d @ [outbox_row g 1 p]\<rparr>"
  with assms(2) show ?thesis
    by (auto simp: db_ok_def unique_rows_snoc unique_rows_update_where transaction_conflict_def
          set_update_where same_def)
qed

lemma settleTransaction_audited:
  assumes "settleTransaction g wid t LedgerDeposit (to_double (txn_amount t)) p d = Inr (e, d')"
    and "db_ok d" "audited d" "solvent d" "0 \<le> txn_amount t" "in_range d'"
  shows "audited d'"
proof (rule settleTransaction_post [OF assms(1)])
  fix w nb
  assume a: "w \<in> set (db_wallets d)" "has_id d wid w"
    "nb = to_double (to_double (wallet_balance w) + to_double (txn_amount t))"
    "e = settled_entry g wid t LedgerDeposit w nb"
    and d': "d' = (post_entry (clock g) wid nb e d)\<lparr>
       db_transactions := update_where (has_id d (entity_id t))
         (\<lambda>t. t\<lparr>txn_status := TxnCompleted, updated_at := clock g\<rparr>) (db_transactions d),
       db_outbox := db_outbox d @ [outbox_row g 1 p]\<rparr>"
  have "set_balance (clock g) nb w \<in> set (db_wallets d')"
    using a d' by (auto simp: set_update_where intro!: image_eqI [of _ _ w])
  with assms(6) have "nb \<le> max_safe" by (auto simp: in_range_def)
  moreover have "0 \<le> wallet_balance w" using assms(4) a by (simp add: solvent_def)
  ultimately have "nb = wallet_balance w + txn_amount t"
    using a assms(5) safe_sum_exact by simp
  then have "nb = wallet_balance w + signed_amount e"
    using a by (simp add: signed_amount_def settled_entry_def)
  then have "audited (post_entry (clock g) wid nb e d)"
    using a assms by (intro post_entry_audited [of d w]) (auto simp: settled_entry_def same_def)
  then show ?thesis using money_cong(1) [of d' "post_entry (clock g) wid nb e d"] by (simp add: d')
qed

end
