(* ===== verification/TransferLaws.thy ===== *)
theory TransferLaws
  imports Ledger
begin

text \<open>
  What an executed transfer does, as two postings: a debit of the sender's wallet and a credit of
  the receiver's. From it: the schema invariant, solvency, the audit law and conservation.
\<close>

section \<open>The transfer as two postings\<close>

text \<open>An id is literal when the row it selects carries it letter for letter.\<close>

definition literal :: "db \<Rightarrow> string \<Rightarrow> bool" where
  "literal d i \<longleftrightarrow> (\<forall>w\<in>set (db_wallets d). has_id d i w \<longrightarrow> entity_id w = i)"

lemma executeTransfer_found:
  assumes "executeTransfer g t a b p d = Inr r" "a \<noteq> b" "literal d a" "literal d b"
  obtains fw tw where "find (has_id d a) (db_wallets d) = Some fw" "entity_id fw = a"
    "find (has_id d b) (db_wallets d) = Some tw" "entity_id tw = b"
proof -
  have lit: "entity_id w = i" if "find (has_id d i) (db_wallets d) = Some w" "i \<in> {a, b}" for i w
    using that assms(3,4) by (auto simp: literal_def dest!: find_SomeD)
  have "\<exists>fw. find (has_id d a) (db_wallets d) = Some fw"
    using assms(1,2) lit [of b]
    by (auto simp: executeTransfer_def lock_order_def Let_def split: option.splits if_splits)
  moreover have "\<exists>tw. find (has_id d b) (db_wallets d) = Some tw"
    using assms(1,2) lit [of a]
    by (auto simp: executeTransfer_def lock_order_def Let_def split: option.splits if_splits)
  ultimately show ?thesis using that lit by blast
qed

definition sender_balance :: "wallet \<Rightarrow> transfer \<Rightarrow> int" where
  "sender_balance w t = to_double (to_double (wallet_balance w) - transfer_amount t)"

definition receiver_balance :: "wallet \<Rightarrow> transfer \<Rightarrow> int" where
  "receiver_balance w t = to_double (to_double (wallet_balance w) + transfer_amount t)"

text \<open>The two postings on the wallets and the ledger.\<close>

definition transfer_posts :: "ambient \<Rightarrow> transfer \<Rightarrow> wallet \<Rightarrow> wallet \<Rightarrow> db \<Rightarrow> db" where
  "transfer_posts g t fw tw d =
     post_entry (clock g) (entity_id tw) (receiver_balance tw t)
       (transfer_entry g 1 t (entity_id tw) TransferIn (receiver_balance tw t) '':in'')
       (post_entry (clock g) (entity_id fw) (sender_balance fw t)
         (transfer_entry g 0 t (entity_id fw) TransferOut (sender_balance fw t) '':out'') d)"

lemma update_wallet_balance_Inr:
  "update_wallet_balance g d i b = Inr d' \<longleftrightarrow>
   bigint_ok b \<and> d' = d\<lparr>db_wallets := update_where (has_id d i) (set_balance (clock g) b) (db_wallets d)\<rparr>"
proof -
  have "set_balance (clock g) b = (\<lambda>w. w\<lparr>wallet_balance := b, updated_at := clock g\<rparr>)"
    by (simp add: set_balance_def fun_eq_iff)
  then show ?thesis by (auto simp: update_wallet_balance_def)
qed

lemma executeTransfer_posts:
  assumes "executeTransfer g t a b p d = Inr r" "a \<noteq> b" "literal d a" "literal d b"
  obtains fw tw where
    "fw \<in> set (db_wallets d)" "entity_id fw = a" "tw \<in> set (db_wallets d)" "entity_id tw = b"
    "0 \<le> sender_balance fw t"
    "\<forall>x\<in>set (db_ledger d). \<not> ledger_conflict (db_coll d) x
       (transfer_entry g 0 t a TransferOut (sender_balance fw t) '':out'')"
    "\<forall>x\<in>set (db_ledger d @ [transfer_entry g 0 t a TransferOut (sender_balance fw t) '':out'']).
       \<not> ledger_conflict (db_coll d) x (transfer_entry g 1 t b TransferIn (receiver_balance tw t) '':in'')"
    "\<forall>x\<in>set (db_outbox d). \<not> outbox_conflict (db_coll d) x (outbox_row g 2 p)"
    "r = ((), (transfer_posts g t fw tw d)\<lparr>
       db_transfers := update_where (has_id d (entity_id t))
         (\<lambda>t. t\<lparr>transfer_status := TransferDone, updated_at := clock g\<rparr>) (db_transfers d),
       db_outbox := db_outbox d @ [outbox_row g 2 p]\<rparr>)"
proof (rule executeTransfer_found [OF assms])
  fix fw tw
  assume f: "find (has_id d a) (db_wallets d) = Some fw" "entity_id fw = a"
    "find (has_id d b) (db_wallets d) = Some tw" "entity_id tw = b"
  note ex = assms(1) [unfolded executeTransfer_cases [OF f] Let_def js_sub_def js_add_def]
  define sb where "sb = sender_balance fw t"
  define rb where "rb = receiver_balance tw t"
  define e1 where "e1 = transfer_entry g 0 t a TransferOut sb '':out''"
  define e2 where "e2 = transfer_entry g 1 t b TransferIn rb '':in''"
  note ex2 = ex [folded sender_balance_def receiver_balance_def, folded sb_def rb_def,
      folded e1_def e2_def]
  from ex2 have sb: "\<not> sb < 0" by (auto split: if_splits)
  with ex2 obtain d1 d2 d3 d4 d5 where s:
    "update_wallet_balance g d a sb = Inr d1" "update_wallet_balance g d1 b rb = Inr d2"
    "insert_ledger d2 e1 = Inr d3" "insert_ledger d3 e2 = Inr d4"
    "insert_outbox (complete_transfer g d4 (entity_id t)) (outbox_row g 2 p) = Inr d5" "r = ((), d5)"
    by (auto simp: bindR_Inr_iff)
  from s(1,2) have d2: "d2 = d\<lparr>db_wallets := update_where (has_id d b) (set_balance (clock g) rb)
      (update_where (has_id d a) (set_balance (clock g) sb) (db_wallets d))\<rparr>"
    by (auto simp: update_wallet_balance_Inr)
  note l1 = insert_ledger_Inr [OF s(3)] and l2 = insert_ledger_Inr [OF s(4)]
  note o5 = insert_outbox_Inr [OF s(5)]
  have d4: "d4 = transfer_posts g t fw tw d"
    using l1 l2 d2 f
    by (simp add: transfer_posts_def post_entry_def sb_def rb_def e1_def e2_def)
  have r: "r = ((), (transfer_posts g t fw tw d)\<lparr>
       db_transfers := update_where (has_id d (entity_id t))
         (\<lambda>t. t\<lparr>transfer_status := TransferDone, updated_at := clock g\<rparr>) (db_transfers d),
       db_outbox := db_outbox d @ [outbox_row g 2 p]\<rparr>)"
    using o5 s(6) d4 by (simp add: complete_transfer_def transfer_posts_def)
  have c1: "\<forall>x\<in>set (db_ledger d). \<not> ledger_conflict (db_coll d) x e1"
    using l1 d2 by simp
  have c2: "\<forall>x\<in>set (db_ledger d @ [e1]). \<not> ledger_conflict (db_coll d) x e2"
    using l1 l2 d2 by simp
  have c3: "\<forall>x\<in>set (db_outbox d). \<not> outbox_conflict (db_coll d) x (outbox_row g 2 p)"
    using o5 d4 by (simp add: complete_transfer_def transfer_posts_def)
  show ?thesis
    using f sb c1 c2 c3 r
    by (intro that [of fw tw]) (auto simp: e1_def e2_def sb_def rb_def dest: find_SomeD)
qed

section \<open>Laws\<close>

lemma transfer_posts_frame [simp]:
  "db_coll (transfer_posts g t fw tw d) = db_coll d"
  "db_users (transfer_posts g t fw tw d) = db_users d"
  "db_transactions (transfer_posts g t fw tw d) = db_transactions d"
  "db_transfers (transfer_posts g t fw tw d) = db_transfers d"
  "db_outbox (transfer_posts g t fw tw d) = db_outbox d"
  "db_ledger (transfer_posts g t fw tw d) = db_ledger d @
     [transfer_entry g 0 t (entity_id fw) TransferOut (sender_balance fw t) '':out'',
      transfer_entry g 1 t (entity_id tw) TransferIn (receiver_balance tw t) '':in'']"
  by (simp_all add: transfer_posts_def)

lemma post_entry_db_ok:
  assumes "db_ok d" "\<forall>x\<in>set (db_ledger d). \<not> ledger_conflict (db_coll d) x e"
  shows "db_ok (post_entry now i b e d)"
  using assms by (auto simp: db_ok_def unique_rows_snoc unique_rows_update_where set_update_where)

lemma transfer_posts_db_ok:
  assumes "db_ok d"
    and "\<forall>x\<in>set (db_ledger d). \<not> ledger_conflict (db_coll d) x
       (transfer_entry g 0 t (entity_id fw) TransferOut (sender_balance fw t) '':out'')"
    and "\<forall>x\<in>set (db_ledger d @ [transfer_entry g 0 t (entity_id fw) TransferOut (sender_balance fw t) '':out'']).
       \<not> ledger_conflict (db_coll d) x
         (transfer_entry g 1 t (entity_id tw) TransferIn (receiver_balance tw t) '':in'')"
  shows "db_ok (transfer_posts g t fw tw d)"
  unfolding transfer_posts_def using assms by (intro post_entry_db_ok) auto

lemma executeTransfer_db_ok:
  assumes "executeTransfer g t a b p d = Inr ((), d')" "a \<noteq> b" "literal d a" "literal d b" "db_ok d"
  shows "db_ok d'"
proof (rule executeTransfer_posts [OF assms(1-4)])
  fix fw tw
  assume a: "entity_id fw = a" "entity_id tw = b"
    "\<forall>x\<in>set (db_ledger d). \<not> ledger_conflict (db_coll d) x
       (transfer_entry g 0 t a TransferOut (sender_balance fw t) '':out'')"
    "\<forall>x\<in>set (db_ledger d @ [transfer_entry g 0 t a TransferOut (sender_balance fw t) '':out'']).
       \<not> ledger_conflict (db_coll d) x (transfer_entry g 1 t b TransferIn (receiver_balance tw t) '':in'')"
    "\<forall>x\<in>set (db_outbox d). \<not> outbox_conflict (db_coll d) x (outbox_row g 2 p)"
    "((), d') = ((), (transfer_posts g t fw tw d)\<lparr>
       db_transfers := update_where (has_id d (entity_id t))
         (\<lambda>t. t\<lparr>transfer_status := TransferDone, updated_at := clock g\<rparr>) (db_transfers d),
       db_outbox := db_outbox d @ [outbox_row g 2 p]\<rparr>)"
  have "db_ok (transfer_posts g t fw tw d)"
    using a assms(5) by (intro transfer_posts_db_ok) auto
  with a show ?thesis
    by (auto simp: db_ok_def unique_rows_snoc unique_rows_update_where transfer_conflict_def same_def)
qed

text \<open>Neither posting rounds when both balances it leaves are safe.\<close>

lemma transfer_exact:
  assumes "0 \<le> wallet_balance fw" "wallet_balance fw \<le> max_safe" "0 \<le> wallet_balance tw"
    and "0 \<le> transfer_amount t"
    and "0 \<le> sender_balance fw t" "sender_balance fw t \<le> max_safe" "receiver_balance tw t \<le> max_safe"
  shows "sender_balance fw t = wallet_balance fw - transfer_amount t"
    and "receiver_balance tw t = wallet_balance tw + transfer_amount t"
proof -
  have f: "sender_balance fw t = to_double (wallet_balance fw) - transfer_amount t"
    using assms(5,6) unfolding sender_balance_def by (intro to_double_safe) auto
  have r: "receiver_balance tw t = to_double (wallet_balance tw) + transfer_amount t"
    unfolding receiver_balance_def using assms(3,4,7)
    by (intro to_double_safe) (auto simp: receiver_balance_def to_double_nonneg_iff)
  have "0 \<le> to_double (wallet_balance tw)" using assms(3) by (simp add: to_double_nonneg_iff)
  with r assms(7) assms(4) have "to_double (wallet_balance tw) \<le> max_safe" "transfer_amount t \<le> max_safe"
    by auto
  then have "to_double (wallet_balance tw) = wallet_balance tw"
    using \<open>0 \<le> to_double (wallet_balance tw)\<close> by (auto intro: to_double_safe)
  with r show "receiver_balance tw t = wallet_balance tw + transfer_amount t" by simp
  have "to_double (wallet_balance fw) = wallet_balance fw"
    using assms(1,2) by (rule to_double_id)
  with f show "sender_balance fw t = wallet_balance fw - transfer_amount t" by simp
qed

lemma transfer_posts_balances:
  assumes "db_ok d" "fw \<in> set (db_wallets d)" "tw \<in> set (db_wallets d)"
    and ne: "\<not> same d (entity_id fw) (entity_id tw)"
  shows "set_balance (clock g) (sender_balance fw t) fw \<in> set (db_wallets (transfer_posts g t fw tw d))"
    and "set_balance (clock g) (receiver_balance tw t) tw \<in> set (db_wallets (transfer_posts g t fw tw d))"
proof -
  have ids: "has_id d (entity_id fw) fw" "has_id d (entity_id tw) tw" "\<not> has_id d (entity_id tw) fw"
    "\<not> has_id d (entity_id fw) tw"
    using ne by (simp_all add: has_id_def same_def)
  show "set_balance (clock g) (sender_balance fw t) fw \<in> set (db_wallets (transfer_posts g t fw tw d))"
    using assms(2) ids unfolding transfer_posts_def post_entry_simps set_update_where
    by (force intro!: image_eqI [of _ _ "set_balance (clock g) (sender_balance fw t) fw"])
  show "set_balance (clock g) (receiver_balance tw t) tw \<in> set (db_wallets (transfer_posts g t fw tw d))"
    using assms(3) ids unfolding transfer_posts_def post_entry_simps set_update_where
    by (force intro!: image_eqI [of _ _ tw])
qed

text \<open>The laws of an executed transfer, for two distinct wallets in the safe range.\<close>

lemma transfer_posts_laws:
  assumes "db_ok d" "fw \<in> set (db_wallets d)" "tw \<in> set (db_wallets d)"
    and ne: "\<not> same d (entity_id fw) (entity_id tw)"
    and "solvent d" "in_range d" "0 \<le> transfer_amount t" "0 \<le> sender_balance fw t"
    and "in_range (transfer_posts g t fw tw d)"
  shows "sender_balance fw t = wallet_balance fw - transfer_amount t"
    and "receiver_balance tw t = wallet_balance tw + transfer_amount t"
    and "total_balance (transfer_posts g t fw tw d) = total_balance d"
    and "audited d \<Longrightarrow> audited (transfer_posts g t fw tw d)"
proof -
  have bal: "0 \<le> wallet_balance fw" "wallet_balance fw \<le> max_safe" "0 \<le> wallet_balance tw"
    using assms by (auto simp: solvent_def in_range_def)
  have le: "sender_balance fw t \<le> max_safe" "receiver_balance tw t \<le> max_safe"
    using transfer_posts_balances [OF assms(1-4), of g t] assms(9) unfolding in_range_def by fastforce+
  note ex = transfer_exact [OF bal assms(7) assms(8) le]
  show s: "sender_balance fw t = wallet_balance fw - transfer_amount t" by (rule ex)
  show r: "receiver_balance tw t = wallet_balance tw + transfer_amount t" by (rule ex)
  define e1 where "e1 = transfer_entry g 0 t (entity_id fw) TransferOut (sender_balance fw t) '':out''"
  define e2 where "e2 = transfer_entry g 1 t (entity_id tw) TransferIn (receiver_balance tw t) '':in''"
  define d1 where "d1 = post_entry (clock g) (entity_id fw) (sender_balance fw t) e1 d"
  have posts: "transfer_posts g t fw tw d = post_entry (clock g) (entity_id tw) (receiver_balance tw t) e2 d1"
    by (simp add: transfer_posts_def d1_def e1_def e2_def)
  have ids: "has_id d (entity_id fw) fw" "has_id d (entity_id tw) tw" "\<not> has_id d (entity_id fw) tw"
    using ne by (simp_all add: has_id_def same_def)
  have tw1: "tw \<in> set (db_wallets d1)"
    using assms(3) ids by (force simp: d1_def set_update_where)
  have ids1: "has_id d1 (entity_id tw) tw" "same d1 = same d" by (simp_all add: d1_def has_id_def same_def)
  have ok1: "unique_rows (wallet_conflict (db_coll d1)) (db_wallets d1)"
    using post_entry_wallets [OF db_ok_wallets [OF assms(1)]] by (simp add: d1_def)
  have "total_balance d1 = total_balance d - wallet_balance fw + sender_balance fw t"
    unfolding d1_def using assms(1,2) ids by (intro post_entry_total) auto
  then show "total_balance (transfer_posts g t fw tw d) = total_balance d"
    unfolding posts post_entry_total [OF ok1 tw1 ids1(1)] using s r by simp
  assume "audited d"
  then have "audited d1"
    unfolding d1_def using assms(1,2) ids s
    by (intro post_entry_audited [of d fw])
      (auto simp: e1_def transfer_entry_def signed_amount_def same_def)
  then show "audited (transfer_posts g t fw tw d)"
    unfolding posts using ok1 tw1 ids1 r
    by (intro post_entry_audited [of d1 tw])
      (auto simp: e2_def transfer_entry_def signed_amount_def same_def)
qed

end
