(* ===== verification/Interleaving.thy ===== *)
theory Interleaving
  imports TransferLaws
begin

text \<open>
  Every write the program sends to the database, as the steps of one relation. A request is a
  sequence of such steps with other requests in between; what it read before may be stale, so a
  step takes any snapshot of a stored row: the columns that no statement changes are those of the
  stored row, the others (the status above all) are not. The invariants proved here hold in
  every interleaving of any number of requests, webhooks and cron ticks.
\<close>

section \<open>Snapshots\<close>

definition deposit_snapshot :: "db \<Rightarrow> transaction \<Rightarrow> bool" where
  "deposit_snapshot d t \<longleftrightarrow> (\<exists>r\<in>set (db_transactions d). entity_id r = entity_id t
     \<and> txn_key r = txn_key t \<and> txn_amount r = txn_amount t
     \<and> txn_user_id r = txn_user_id t \<and> txn_currency r = txn_currency t)"

definition transfer_snapshot :: "db \<Rightarrow> transfer \<Rightarrow> bool" where
  "transfer_snapshot d t \<longleftrightarrow> (\<exists>r\<in>set (db_transfers d). entity_id r = entity_id t
     \<and> transfer_key r = transfer_key t \<and> transfer_amount r = transfer_amount t)"

definition literal_user :: "db \<Rightarrow> string \<Rightarrow> bool" where
  "literal_user d i \<longleftrightarrow> (\<forall>u\<in>set (db_users d). has_id d i u \<longrightarrow> entity_id u = i)"

text \<open>The UUID of a new wallet was never used in the ledger.\<close>

definition fresh_wallet :: "db \<Rightarrow> string \<Rightarrow> bool" where
  "fresh_wallet d i \<longleftrightarrow> (\<forall>e\<in>set (db_ledger d). \<not> same d (ledger_wallet_id e) i)"

section \<open>The steps\<close>

inductive db_step :: "db \<Rightarrow> db \<Rightarrow> bool" where
  user_inserted: "insert_user d u = Inr d' \<Longrightarrow> db_step d d'"
| user_saved: "save_columns g d stored u = Inr (v, d') \<Longrightarrow> db_step d d'"
| user_deleted: "db_step d (repo_deleteUser d i)"
| wallet_ensured: "ensureWallet g d userId currency name = Inr (w, d') \<Longrightarrow> literal_user d userId
    \<Longrightarrow> fresh_wallet d (uuid g 0) \<Longrightarrow> db_step d d'"
| deposit_created: "createTransaction g d userId type amount currency method key = Inr (t, d')
    \<Longrightarrow> 0 < amount \<Longrightarrow> db_step d d'"
| deposit_referenced: "updateTransactionProviderRef g d i ref = Inr ((), d') \<Longrightarrow> db_step d d'"
| deposit_failed: "db_step d (failTransaction g t reason d)"
| deposit_settled: "settleTransaction g walletId t LedgerDeposit (to_double (txn_amount t)) p d = Inr (e, d')
    \<Longrightarrow> deposit_snapshot d t \<Longrightarrow> db_step d d'"
| transfer_created: "createTransfer g d fromUser toUser amount currency key = Inr (r, d')
    \<Longrightarrow> 0 < amount \<Longrightarrow> db_step d d'"
| transfer_failed: "db_step d (failTransfer g r reason d)"
| transfer_executed: "executeTransfer g r a b p d = Inr ((), d') \<Longrightarrow> transfer_snapshot d r
    \<Longrightarrow> literal d a \<Longrightarrow> literal d b \<Longrightarrow> \<not> same d a b \<Longrightarrow> db_step d d'"
| event_processed: "db_step d (markProcessed g i d)"
| event_retried: "db_step d (markFailedAttempt g i d)"

section \<open>Effects of the single statements\<close>

lemma createUser_Inr:
  "createUser g d name email password role = Inr (u, d') \<Longrightarrow> insert_user d u = Inr d'"
  by (auto simp: createUser_def Let_def bindR_Inr_iff)

lemma createTransaction_Inr:
  "createTransaction g d uid ty a cur pm key = Inr (t, d') \<Longrightarrow>
   insert_transaction d t = Inr d' \<and> txn_status t = TxnPending \<and> txn_amount t = a \<and> txn_key t = key
   \<and> txn_user_id t = uid \<and> txn_currency t = cur \<and> entity_id t = uuid g 0"
  by (auto simp: createTransaction_def Let_def bindR_Inr_iff)

lemma createTransfer_Inr:
  "createTransfer g d a b n cur key = Inr (t, d') \<Longrightarrow>
   insert_transfer d t = Inr d' \<and> transfer_amount t = n \<and> transfer_key t = key
   \<and> transfer_status t = TransferPending \<and> entity_id t = uuid g 0
   \<and> transfer_from_user_id t = a \<and> transfer_to_user_id t = b \<and> transfer_currency t = cur"
  by (auto simp: createTransfer_def Let_def bindR_Inr_iff)

lemma ensureWallet_Inr:
  "ensureWallet g d uid cur name = Inr (w, d') \<Longrightarrow>
   (d' = d \<and> w \<in> set (db_wallets d)) \<or>
   (insert_wallet d w = Inr d' \<and> wallet_balance w = 0 \<and> wallet_user_id w = uid \<and> wallet_currency w = cur
    \<and> entity_id w = uuid g 0)"
  by (auto simp: ensureWallet_def findByUserIdAndCurrency_def Let_def bindR_Inr_iff
      split: option.splits dest: find_SomeD)

lemma apply_patch_id [simp]: "entity_id (apply_patch p u) = entity_id u"
  by (simp add: apply_patch_def)

lemma save_user_Inr:
  assumes "save_user g d old v = Inr (u, d')"
  shows "u = old \<and> v = old \<or> u = v\<lparr>updated_at := clock g\<rparr>"
    and "\<forall>x\<in>set (db_users d). has_id d (entity_id u) x \<or> \<not> same d (user_email x) (user_email u)"
    and "d' = d\<lparr>db_users := update_where (has_id d (entity_id u)) (\<lambda>_. u) (db_users d)\<rparr>"
proof -
  define u' where "u' = (if v = old then old else v\<lparr>updated_at := clock g\<rparr>)"
  have "u = u'"
    and a: "\<not> list_ex (\<lambda>x. \<not> has_id d (entity_id u') x \<and> same d (user_email x) (user_email u')) (db_users d)"
    and d': "d' = d\<lparr>db_users := update_where (has_id d (entity_id u')) (\<lambda>_. u') (db_users d)\<rparr>"
    using assms unfolding save_user_def u'_def [symmetric] Let_def by (auto split: if_splits)
  then show "u = old \<and> v = old \<or> u = v\<lparr>updated_at := clock g\<rparr>"
    and "\<forall>x\<in>set (db_users d). has_id d (entity_id u) x \<or> \<not> same d (user_email x) (user_email u)"
    and "d' = d\<lparr>db_users := update_where (has_id d (entity_id u)) (\<lambda>_. u) (db_users d)\<rparr>"
    by (auto simp: u'_def list_ex_iff)
qed

lemma repo_updateUserDetails_Inr:
  assumes "repo_updateUserDetails g d i patch = Inr (u, d')"
  obtains old where "findUserById d i = Some old" "entity_id u = entity_id old"
    "u = old \<and> apply_patch patch old = old \<or> u = (apply_patch patch old)\<lparr>updated_at := clock g\<rparr>"
    "\<forall>x\<in>set (db_users d). has_id d (entity_id u) x \<or> \<not> same d (user_email x) (user_email u)"
    "d' = d\<lparr>db_users := update_where (has_id d (entity_id u)) (\<lambda>_. u) (db_users d)\<rparr>"
proof (cases "findUserById d i")
  case None
  with assms show ?thesis by (simp add: repo_updateUserDetails_def)
next
  case (Some old)
  with assms have sv: "save_user g d old (apply_patch patch old) = Inr (u, d')"
    by (simp add: repo_updateUserDetails_def)
  note s = save_user_Inr [OF sv]
  from s(1) have "entity_id u = entity_id old" by auto
  with s Some show ?thesis by (intro that [of old]) auto
qed

text \<open>A save keeps the ids of all rows, changes nothing but users and leaves the e-mails unique.\<close>

lemma write_changed_id [simp]: "entity_id (write_changed n stored u x) = entity_id x"
  by (simp add: write_changed_def)

lemma save_columns_Inr:
  assumes "save_columns g d stored u = Inr (v, d')"
  obtains f where "d' = d\<lparr>db_users := update_where (has_id d (entity_id u)) f (db_users d)\<rparr>"
    "\<And>x. entity_id (f x) = entity_id x"
    "\<And>x y. x \<in> set (db_users d) \<Longrightarrow> y \<in> set (db_users d) \<Longrightarrow> has_id d (entity_id u) x \<Longrightarrow>
       \<not> has_id d (entity_id u) y \<Longrightarrow> f x \<noteq> x \<Longrightarrow> \<not> same d (user_email y) (user_email (f x))"
proof (cases "u = stored")
  case True
  then show thesis using assms by (intro that [of "\<lambda>x. x"]) (simp_all add: save_columns_def update_where_def)
next
  case False
  then show thesis using assms
    by (intro that [of "write_changed (clock g) stored u"])
      (auto simp: save_columns_def Let_def list_ex_iff split: if_splits)
qed

lemma save_columns_frame:
  assumes "save_columns g d stored u = Inr (v, d')"
  shows "db_coll d' = db_coll d" "db_wallets d' = db_wallets d" "db_transactions d' = db_transactions d"
    "db_ledger d' = db_ledger d" "db_transfers d' = db_transfers d" "db_outbox d' = db_outbox d"
    "map entity_id (db_users d') = map entity_id (db_users d)"
  using assms by (auto elim!: save_columns_Inr simp: update_where_def)

text \<open>A save that no other request disturbs is a save of the columns.\<close>

lemma write_changed_all:
  assumes "entity_id u = entity_id old" "created_at u = created_at old"
  shows "write_changed n old u old = u\<lparr>updated_at := n\<rparr>"
  using assms by (simp add: write_changed_def)

lemma stored_once:
  assumes "db_ok d" "old \<in> set (db_users d)"
  shows "set (filter (has_id d (entity_id old)) (db_users d)) = {old}"
    and "f old = h old \<Longrightarrow> update_where (has_id d (entity_id old)) f (db_users d)
      = update_where (has_id d (entity_id old)) h (db_users d)"
proof -
  have only: "x = old" if "x \<in> set (db_users d)" "has_id d (entity_id old) x" for x
    using that user_table.row_eq_id [of "db_coll d" "db_users d" x old] assms
    by (simp add: db_ok_def has_id_def same_def)
  show "set (filter (has_id d (entity_id old)) (db_users d)) = {old}"
    using only assms(2) by (auto simp: has_id_def same_def)
  show "update_where (has_id d (entity_id old)) f (db_users d) = update_where (has_id d (entity_id old)) h (db_users d)"
    if "f old = h old"
    unfolding update_where_def by (rule map_cong [OF refl]) (auto simp: that dest: only)
qed

lemma save_columns_differs:
  assumes "db_ok d" "old \<in> set (db_users d)" "entity_id u = entity_id old" "created_at u = created_at old" "u \<noteq> old"
  shows "save_columns g d old u = save_user g d old u"
proof -
  let ?mine = "has_id d (entity_id old)" and ?v = "u\<lparr>updated_at := clock g\<rparr>"
  note hit = stored_once(1) [OF assms(1,2)]
  have row: "write_changed (clock g) old u old = ?v" by (rule write_changed_all [OF assms(3,4)])
  have rows: "update_where ?mine (write_changed (clock g) old u) (db_users d) = update_where ?mine (\<lambda>_. ?v) (db_users d)"
    by (rule stored_once(2) [OF assms(1,2)]) (simp add: row)
  have rest: "list_ex (\<lambda>y. same d (user_email y) e) (filter (\<lambda>x. \<not> ?mine x) (db_users d))
      \<longleftrightarrow> list_ex (\<lambda>x. \<not> ?mine x \<and> same d (user_email x) e) (db_users d)" for e
    by (auto simp: list_ex_iff)
  have one: "list_ex P (filter ?mine (db_users d)) \<longleftrightarrow> P old" for P
    unfolding list_ex_iff hit by simp
  show ?thesis
    by (simp add: save_columns_def save_user_def Let_def assms(3,5) one row rows rest)
qed

lemma save_user_columns:
  assumes "save_user g d old u = Inr (v, d')" "db_ok d" "old \<in> set (db_users d)"
    and "entity_id u = entity_id old" "created_at u = created_at old"
  shows "save_columns g d old u = Inr (v, d')"
proof (cases "u = old")
  case True
  with assms(1) have "v = old" by (auto simp: save_user_def Let_def split: if_splits)
  moreover have "d' = d"
    using save_user_Inr(3) [OF assms(1)] stored_once(2) [OF assms(2,3), of "\<lambda>_. old" "\<lambda>x. x"] \<open>v = old\<close>
    by (simp add: update_where_def)
  ultimately show ?thesis by (simp add: save_columns_def True)
next
  case False
  then show ?thesis using save_columns_differs [OF assms(2-5)] assms(1) by simp
qed

lemma frames [frame]:
  "db_coll (failTransaction g t r d) = db_coll d" "db_ledger (failTransaction g t r d) = db_ledger d"
  "db_wallets (failTransaction g t r d) = db_wallets d" "db_users (failTransaction g t r d) = db_users d"
  "db_transfers (failTransaction g t r d) = db_transfers d" "db_outbox (failTransaction g t r d) = db_outbox d"
  "db_coll (failTransfer g tr r d) = db_coll d" "db_ledger (failTransfer g tr r d) = db_ledger d"
  "db_wallets (failTransfer g tr r d) = db_wallets d" "db_users (failTransfer g tr r d) = db_users d"
  "db_transactions (failTransfer g tr r d) = db_transactions d" "db_outbox (failTransfer g tr r d) = db_outbox d"
  "db_coll (markProcessed g i d) = db_coll d" "db_ledger (markProcessed g i d) = db_ledger d"
  "db_wallets (markProcessed g i d) = db_wallets d" "db_users (markProcessed g i d) = db_users d"
  "db_transactions (markProcessed g i d) = db_transactions d"
  "db_transfers (markProcessed g i d) = db_transfers d"
  "db_coll (markFailedAttempt g i d) = db_coll d" "db_ledger (markFailedAttempt g i d) = db_ledger d"
  "db_wallets (markFailedAttempt g i d) = db_wallets d" "db_users (markFailedAttempt g i d) = db_users d"
  "db_transactions (markFailedAttempt g i d) = db_transactions d"
  "db_transfers (markFailedAttempt g i d) = db_transfers d"
  "db_coll (repo_deleteUser d i) = db_coll d" "db_ledger (repo_deleteUser d i) = db_ledger d"
  "db_transactions (repo_deleteUser d i) = db_transactions d"
  "db_transfers (repo_deleteUser d i) = db_transfers d" "db_outbox (repo_deleteUser d i) = db_outbox d"
  by (simp_all add: failTransaction_def failTransfer_def markProcessed_def markFailedAttempt_def
      repo_deleteUser_def)

lemma updateTransactionProviderRef_Inr:
  "updateTransactionProviderRef g d i ref = Inr (x, d') \<Longrightarrow>
   d' = d\<lparr>db_transactions := update_where (has_id d i)
             (\<lambda>t. t\<lparr>txn_provider_ref := Some ref, updated_at := clock g\<rparr>) (db_transactions d)\<rparr>"
  by (auto simp: updateTransactionProviderRef_def split: if_splits)

section \<open>The schema\<close>

lemma deleteUser_db_ok:
  assumes "db_ok d" shows "db_ok (repo_deleteUser d i)"
proof -
  have "\<exists>u\<in>set (db_users (repo_deleteUser d i)). same d (entity_id u) (wallet_user_id w)"
    if "w \<in> set (db_wallets (repo_deleteUser d i))" for w
  proof -
    from that have w: "w \<in> set (db_wallets d)" "\<not> same d (wallet_user_id w) i"
      by (auto simp: repo_deleteUser_def)
    with assms obtain u where "u \<in> set (db_users d)" "same d (entity_id u) (wallet_user_id w)"
      by (auto simp: db_ok_def)
    with w show ?thesis by (auto simp: repo_deleteUser_def has_id_def same_def)
  qed
  with assms show ?thesis
    by (simp add: db_ok_def repo_deleteUser_def unique_rows_filter same_def)
qed

lemma save_columns_unique:
  assumes "save_columns g d stored u = Inr (v, d')" "unique_rows (user_conflict (db_coll d)) (db_users d)"
  shows "unique_rows (user_conflict (db_coll d)) (db_users d')"
proof (rule save_columns_Inr [OF assms(1)])
  fix f :: "users_row \<Rightarrow> users_row"
  let ?mine = "has_id d (entity_id u) :: users_row \<Rightarrow> bool" and ?C = "user_conflict (db_coll d)"
  let ?h = "\<lambda>x. if ?mine x then f x else x"
  assume d': "d' = d\<lparr>db_users := update_where ?mine f (db_users d)\<rparr>" and id: "\<And>x :: users_row. entity_id (f x) = entity_id x"
    and new: "\<And>x y. x \<in> set (db_users d) \<Longrightarrow> y \<in> set (db_users d) \<Longrightarrow> ?mine x \<Longrightarrow> \<not> ?mine y \<Longrightarrow> f x \<noteq> x \<Longrightarrow>
       \<not> same d (user_email y) (user_email (f x))"
  have apart: "\<not> ?C (?h x) (?h y)" if xy: "x \<in> set (db_users d)" "y \<in> set (db_users d)" "\<not> ?C x y" for x y
  proof -
    have "?mine x \<Longrightarrow> \<not> ?mine y \<Longrightarrow> f x = x \<or> \<not> same d (user_email y) (user_email (f x))"
      "?mine y \<Longrightarrow> \<not> ?mine x \<Longrightarrow> f y = y \<or> \<not> same d (user_email x) (user_email (f y))"
      using new [OF xy(1,2)] new [OF xy(2,1)] by blast+
    then show ?thesis using id xy(3) by (auto simp: user_conflict_def has_id_def same_def split: if_splits)
  qed
  have "sorted_wrt (\<lambda>x y. \<not> ?C (?h x) (?h y)) (db_users d)"
    by (rule sorted_wrt_mono_rel [OF apart assms(2) [unfolded unique_rows_def]])
  then show "unique_rows ?C (db_users d')" by (simp add: d' update_where_def unique_rows_def sorted_wrt_map)
qed

lemma save_columns_db_ok: "save_columns g d stored u = Inr (v, d') \<Longrightarrow> db_ok d \<Longrightarrow> db_ok d'"
proof -
  assume save: "save_columns g d stored u = Inr (v, d')" and ok: "db_ok d"
  have owner: "\<exists>x\<in>set (db_users d'). same d (entity_id x) k" if "\<exists>x\<in>set (db_users d). same d (entity_id x) k" for k
  proof -
    have "entity_id ` set (db_users d') = entity_id ` set (db_users d)"
      using save_columns_frame(7) [OF save] by (metis set_map)
    then show ?thesis using that by (metis (no_types, lifting) image_iff)
  qed
  have "unique_rows (user_conflict (db_coll d)) (db_users d')"
    using save_columns_unique [OF save] ok by (simp add: db_ok_def)
  then show "db_ok d'"
    using ok owner by (simp add: db_ok_def save_columns_frame(1-6) [OF save] same_def)
qed

lemma db_step_db_ok: "db_step d d' \<Longrightarrow> db_ok d \<Longrightarrow> db_ok d'"
proof (induction rule: db_step.induct)
  case (user_saved g d stored u v d')
  then show ?case by (rule save_columns_db_ok)
next
  case (transfer_executed g r a b p d d')
  then show ?case
    using executeTransfer_db_ok [of g r a b p d d'] by (auto simp: same_def)
next
  case (wallet_ensured g d userId currency name w d')
  then show ?case by (auto dest!: ensureWallet_Inr intro: insert_ok)
next
  case (deposit_failed d g t reason)
  then show ?case
    by (simp add: db_ok_def failTransaction_def unique_rows_update_where transaction_conflict_def same_def)
next
  case (transfer_failed d g r reason)
  then show ?case
    by (simp add: db_ok_def failTransfer_def unique_rows_update_where transfer_conflict_def same_def)
next
  case (event_processed d g i)
  then show ?case
    by (simp add: db_ok_def markProcessed_def unique_rows_update_where outbox_conflict_def same_def)
next
  case (event_retried d g i)
  then show ?case
    by (simp add: db_ok_def markFailedAttempt_def unique_rows_update_where outbox_conflict_def same_def)
next
  case (deposit_referenced g d i ref d')
  then show ?case
    by (auto simp: db_ok_def unique_rows_update_where transaction_conflict_def same_def
        dest!: updateTransactionProviderRef_Inr)
qed (auto intro: insert_ok settleTransaction_db_ok deleteUser_db_ok
      dest: createTransaction_Inr createTransfer_Inr)

end
