(* ===== verification/Invariants.thy ===== *)
theory Invariants
  imports Interleaving
begin

text \<open>
  The invariants of the database under every interleaving of writes: ownership, positive amounts,
  solvency, the booking of completed deposits, the append-only ledger, and, as long as balances
  stay safe integers, the audit law. They are packaged as instances of the locale
  \<open>invariant_system\<close> over the states reachable from an empty database.
\<close>

section \<open>The ledger only grows\<close>

lemma db_step_ledger: "db_step d d' \<Longrightarrow> \<exists>es. db_ledger d' = db_ledger d @ es"
proof (induction rule: db_step.induct)
  case (deposit_settled g wid t p d e d')
  then show ?case by (auto elim!: settleTransaction_post)
next
  case (transfer_executed g r a b p d d')
  then have "a \<noteq> b" by (auto simp: same_def)
  with transfer_executed show ?case by (auto elim!: executeTransfer_posts)
next
  case (user_saved g d stored u v d')
  then show ?case by (simp add: save_columns_frame)
qed (auto simp: frame dest!: createTransaction_Inr createTransfer_Inr ensureWallet_Inr
      insert_Inr updateTransactionProviderRef_Inr)

lemma db_step_coll: "db_step d d' \<Longrightarrow> db_coll d' = db_coll d"
proof (induction rule: db_step.induct)
  case (deposit_settled g wid t p d e d')
  then show ?case by (auto elim!: settleTransaction_post)
next
  case (transfer_executed g r a b p d d')
  then have "a \<noteq> b" by (auto simp: same_def)
  with transfer_executed show ?case by (auto elim!: executeTransfer_posts)
next
  case (user_saved g d stored u v d')
  then show ?case by (simp add: save_columns_frame)
qed (auto simp: frame dest!: createTransaction_Inr createTransfer_Inr ensureWallet_Inr
      insert_Inr updateTransactionProviderRef_Inr)

lemma db_steps_ledger:
  "db_step\<^sup>*\<^sup>* d d' \<Longrightarrow> db_coll d' = db_coll d \<and> (\<exists>es. db_ledger d' = db_ledger d @ es)"
proof (induction rule: rtranclp_induct)
  case (step y z)
  then show ?case using db_step_ledger [of y z] db_step_coll [of y z] by force
qed simp

section \<open>Ownership\<close>

lemma owners_mono:
  assumes "owners_ok d" "db_wallets d' = db_wallets d"
    and "entity_id ` set (db_users d) \<subseteq> entity_id ` set (db_users d')"
  shows "owners_ok d'"
  unfolding owners_ok_def
proof
  fix w assume "w \<in> set (db_wallets d')"
  then obtain u where "u \<in> set (db_users d)" "entity_id u = wallet_user_id w"
    using assms(1,2) by (auto simp: owners_ok_def)
  with assms(3) have "wallet_user_id w \<in> entity_id ` set (db_users d')" by (metis image_subset_iff)
  then show "\<exists>u\<in>set (db_users d'). entity_id u = wallet_user_id w" by (metis imageE)
qed

lemma owners_wallets:
  assumes "owners_ok d" "db_users d' = db_users d"
    and "wallet_user_id ` set (db_wallets d') \<subseteq> wallet_user_id ` set (db_wallets d)"
  shows "owners_ok d'"
  unfolding owners_ok_def
proof
  fix w assume "w \<in> set (db_wallets d')"
  then have "wallet_user_id w \<in> wallet_user_id ` set (db_wallets d)" using assms(3) by blast
  then show "\<exists>u\<in>set (db_users d'). entity_id u = wallet_user_id w"
    using assms(1,2) by (auto simp: owners_ok_def)
qed

lemma owners_same:
  "owners_ok d \<Longrightarrow> db_users d' = db_users d \<Longrightarrow> db_wallets d' = db_wallets d \<Longrightarrow> owners_ok d'"
  by (simp add: owners_ok_def)

lemma post_entry_owners: "owners_ok d \<Longrightarrow> owners_ok (post_entry now i b e d)"
  by (rule owners_wallets) (auto simp: set_update_where)

lemma deleteUser_owners: "owners_ok d \<Longrightarrow> owners_ok (repo_deleteUser d i)"
  by (fastforce simp: owners_ok_def repo_deleteUser_def has_id_def same_def)

lemma save_columns_owners:
  assumes "save_columns g d stored u = Inr (v, d')" "owners_ok d"
  shows "owners_ok d'"
proof -
  have "entity_id ` set (db_users d') = entity_id ` set (db_users d)"
    using save_columns_frame(7) [OF assms(1)] by (metis set_map)
  then show ?thesis using owners_mono [OF assms(2) save_columns_frame(2) [OF assms(1)]] by simp
qed

lemma ensureWallet_owners:
  assumes "ensureWallet g d uid cur name = Inr (w, d')" "literal_user d uid" "owners_ok d"
  shows "owners_ok d'"
proof (cases "d' = d")
  case False
  with assms(1) have i: "insert_wallet d w = Inr d'" and "wallet_user_id w = uid"
    by (auto dest: ensureWallet_Inr)
  with insert_wallet_Inr [OF i] assms(2,3) show ?thesis
    by (fastforce simp: owners_ok_def literal_user_def has_id_def)
qed (use assms in simp)

lemma db_step_owners: "db_step d d' \<Longrightarrow> db_ok d \<Longrightarrow> owners_ok d \<Longrightarrow> owners_ok d'"
proof (induction rule: db_step.induct)
  case (user_inserted d u d')
  then show ?case by (auto dest!: insert_user_Inr intro: owners_mono [of d])
next
  case (deposit_settled g wid t p d e d')
  show ?case
  proof (rule settleTransaction_post [OF deposit_settled(1)])
    fix w nb
    assume "d' = (post_entry (clock g) wid nb e d)\<lparr>
       db_transactions := update_where (has_id d (entity_id t))
         (\<lambda>t. t\<lparr>txn_status := TxnCompleted, updated_at := clock g\<rparr>) (db_transactions d),
       db_outbox := db_outbox d @ [outbox_row g 1 p]\<rparr>"
    then have "db_users d' = db_users (post_entry (clock g) wid nb e d)"
      and "db_wallets d' = db_wallets (post_entry (clock g) wid nb e d)" by simp_all
    with post_entry_owners [OF deposit_settled(4)] show "owners_ok d'" by (rule owners_same)
  qed
next
  case (transfer_executed g r a b p d d')
  then have "a \<noteq> b" by (auto simp: same_def)
  show ?case
  proof (rule executeTransfer_posts [OF transfer_executed(1) \<open>a \<noteq> b\<close> transfer_executed(3,4)])
    fix fw tw
    assume "((), d') = ((), (transfer_posts g r fw tw d)\<lparr>
       db_transfers := update_where (has_id d (entity_id r))
         (\<lambda>t. t\<lparr>transfer_status := TransferDone, updated_at := clock g\<rparr>) (db_transfers d),
       db_outbox := db_outbox d @ [outbox_row g 2 p]\<rparr>)"
    then have eq: "db_users d' = db_users (transfer_posts g r fw tw d)"
        "db_wallets d' = db_wallets (transfer_posts g r fw tw d)" by simp_all
    have "owners_ok (transfer_posts g r fw tw d)"
      unfolding transfer_posts_def
      by (rule post_entry_owners [OF post_entry_owners [OF transfer_executed(7)]])
    then show "owners_ok d'" using eq by (rule owners_same)
  qed
next
  case (user_saved g d stored u v d')
  then show ?case using save_columns_owners by blast
next
  case (wallet_ensured g d userId currency name w d')
  then show ?case using ensureWallet_owners by blast
qed (auto intro: owners_same deleteUser_owners simp: frame
      dest!: createTransaction_Inr createTransfer_Inr insert_Inr updateTransactionProviderRef_Inr)

section \<open>Amounts, balances and bookings\<close>

lemma db_step_positive: "db_step d d' \<Longrightarrow> positive d \<Longrightarrow> positive d'"
proof (induction rule: db_step.induct)
  case (deposit_settled g wid t p d e d')
  then show ?case by (auto elim!: settleTransaction_post simp: positive_def set_update_where)
next
  case (transfer_executed g r a b p d d')
  then have "a \<noteq> b" by (auto simp: same_def)
  with transfer_executed show ?case
    by (auto elim!: executeTransfer_posts simp: positive_def set_update_where)
next
  case (user_saved g d stored u v d')
  then show ?case by (simp add: save_columns_frame positive_def)
qed (auto simp: positive_def frame failTransaction_def failTransfer_def set_update_where
      dest!: createTransaction_Inr createTransfer_Inr ensureWallet_Inr insert_Inr
      updateTransactionProviderRef_Inr)

lemma settle_solvent:
  assumes "settleTransaction g wid t ty change p d = Inr (e, d')" "solvent d"
  shows "solvent d'"
proof (rule settleTransaction_post [OF assms(1)])
  fix w nb
  assume "0 \<le> nb" and d': "d' = (post_entry (clock g) wid nb e d)\<lparr>
       db_transactions := update_where (has_id d (entity_id t))
         (\<lambda>t. t\<lparr>txn_status := TxnCompleted, updated_at := clock g\<rparr>) (db_transactions d),
       db_outbox := db_outbox d @ [outbox_row g 1 p]\<rparr>"
  then have "solvent (post_entry (clock g) wid nb e d)"
    using assms(2) by (intro post_entry_solvent)
  then show ?thesis using money_cong(2) [of d' "post_entry (clock g) wid nb e d"] by (simp add: d')
qed

lemma receiver_balance_nonneg:
  "0 \<le> wallet_balance w \<Longrightarrow> 0 \<le> transfer_amount t \<Longrightarrow> 0 \<le> receiver_balance w t"
  by (simp add: receiver_balance_def to_double_nonneg_iff)

lemma execute_solvent:
  assumes "executeTransfer g r a b p d = Inr ((), d')" "a \<noteq> b" "literal d a" "literal d b"
    and "solvent d" "0 \<le> transfer_amount r"
  shows "solvent d'"
proof (rule executeTransfer_posts [OF assms(1-4)])
  fix fw tw
  assume a: "fw \<in> set (db_wallets d)" "tw \<in> set (db_wallets d)" "0 \<le> sender_balance fw r"
    and d': "((), d') = ((), (transfer_posts g r fw tw d)\<lparr>
       db_transfers := update_where (has_id d (entity_id r))
         (\<lambda>t. t\<lparr>transfer_status := TransferDone, updated_at := clock g\<rparr>) (db_transfers d),
       db_outbox := db_outbox d @ [outbox_row g 2 p]\<rparr>)"
  have "0 \<le> receiver_balance tw r"
    using a assms by (intro receiver_balance_nonneg) (auto simp: solvent_def)
  with a assms(5) have "solvent (transfer_posts g r fw tw d)"
    unfolding transfer_posts_def by (intro post_entry_solvent)
  then show ?thesis using money_cong(2) [of d' "transfer_posts g r fw tw d"] d' by simp
qed

lemma transfer_snapshot_positive: "transfer_snapshot d r \<Longrightarrow> positive d \<Longrightarrow> 0 < transfer_amount r"
  by (auto simp: transfer_snapshot_def positive_def)

lemma deposit_snapshot_positive: "deposit_snapshot d t \<Longrightarrow> positive d \<Longrightarrow> 0 < txn_amount t"
  by (auto simp: deposit_snapshot_def positive_def)

lemma db_step_solvent: "db_step d d' \<Longrightarrow> positive d \<Longrightarrow> solvent d \<Longrightarrow> solvent d'"
proof (induction rule: db_step.induct)
  case (deposit_settled g wid t p d e d')
  then show ?case by (blast intro: settle_solvent)
next
  case (transfer_executed g r a b p d d')
  then have "a \<noteq> b" by (auto simp: same_def)
  moreover have "0 \<le> transfer_amount r"
    using transfer_snapshot_positive transfer_executed by fastforce
  ultimately show ?case using transfer_executed execute_solvent by blast
next
  case (user_saved g d stored u v d')
  then show ?case by (simp add: save_columns_frame solvent_def)
qed (auto simp: solvent_def frame repo_deleteUser_def
      dest!: createTransaction_Inr createTransfer_Inr ensureWallet_Inr insert_Inr
      updateTransactionProviderRef_Inr)

text \<open>Only a settlement completes a deposit, and it books it.\<close>

lemma settle_books:
  assumes "settleTransaction g wid t LedgerDeposit change p d = Inr (e, d')"
    and "deposit_snapshot d t" "db_ok d" "deposits_booked d"
  shows "deposits_booked d'"
proof (rule settleTransaction_post [OF assms(1)])
  fix w nb
  assume e: "e = settled_entry g wid t LedgerDeposit w nb"
    and d': "d' = (post_entry (clock g) wid nb e d)\<lparr>
       db_transactions := update_where (has_id d (entity_id t))
         (\<lambda>t. t\<lparr>txn_status := TxnCompleted, updated_at := clock g\<rparr>) (db_transactions d),
       db_outbox := db_outbox d @ [outbox_row g 1 p]\<rparr>"
  from assms(2) obtain r where r: "r \<in> set (db_transactions d)" "entity_id r = entity_id t"
      "txn_key r = txn_key t" "txn_amount r = txn_amount t"
    by (auto simp: deposit_snapshot_def)
  have eq: "x = r" if "x \<in> set (db_transactions d)" "has_id d (entity_id t) x" for x
    using transaction_table.row_eq_id [of "db_coll d" "db_transactions d" x r] that r assms(3)
    by (simp add: db_ok_def has_id_def same_def)
  have e_fields: "ledger_type e = LedgerDeposit" "ledger_key e = txn_key r" "ledger_amount e = txn_amount r"
    using e r by (simp_all add: settled_entry_def)
  show ?thesis
    unfolding deposits_booked_def
  proof (intro ballI impI)
    fix x assume "x \<in> set (db_transactions d')" and st: "txn_status x = TxnCompleted"
    then obtain y where y: "y \<in> set (db_transactions d)"
        and x: "x = (if has_id d (entity_id t) y then y\<lparr>txn_status := TxnCompleted, updated_at := clock g\<rparr> else y)"
      unfolding d' by (auto simp: set_update_where)
    show "\<exists>z\<in>set (db_ledger d'). ledger_type z = LedgerDeposit \<and> ledger_key z = txn_key x \<and> ledger_amount z = txn_amount x"
    proof (cases "has_id d (entity_id t) y")
      case True
      with eq y x e_fields d' show ?thesis by auto
    next
      case False
      with x st have "txn_status y = TxnCompleted" by simp
      with False y x assms(4) show ?thesis unfolding deposits_booked_def d' by fastforce
    qed
  qed
qed

lemma db_step_booked: "db_step d d' \<Longrightarrow> db_ok d \<Longrightarrow> deposits_booked d \<Longrightarrow> deposits_booked d'"
proof (induction rule: db_step.induct)
  case (deposit_settled g wid t p d e d')
  then show ?case by (blast intro: settle_books)
next
  case (transfer_executed g r a b p d d')
  then have "a \<noteq> b" by (auto simp: same_def)
  then show ?case
    using transfer_executed
    by - (erule executeTransfer_posts, assumption+, fastforce simp: deposits_booked_def)
next
  case (user_saved g d stored u v d')
  then show ?case by (simp add: save_columns_frame deposits_booked_def)
qed (auto simp: deposits_booked_def frame failTransaction_def set_update_where
      dest!: createTransaction_Inr createTransfer_Inr ensureWallet_Inr insert_Inr
      updateTransactionProviderRef_Inr)

end
