(* ===== verification/Scenario.thy ===== *)
theory Scenario
  imports Invariants
begin

text \<open>
  A small concrete database the closed examples of the development are evaluated on: Alice and
  Bob, each with a EUR wallet, a settled and a pending deposit of Alice. The collation is the
  identity (a binary collation).
\<close>

section \<open>Users, wallets and a ledger\<close>

definition alice :: users_row where
  "alice = \<lparr>entity_id = ''u1'', created_at = 1, updated_at = 1, user_name = ''Alice'',
     user_email = ''alice@x.io'', user_password = ''h1'', user_role = User\<rparr>"

definition bob :: users_row where
  "bob = \<lparr>entity_id = ''u2'', created_at = 1, updated_at = 1, user_name = ''Bob'',
     user_email = ''bob@x.io'', user_password = ''h2'', user_role = Admin\<rparr>"

definition alice_wallet :: wallet where
  "alice_wallet = \<lparr>entity_id = ''w1'', created_at = 2, updated_at = 3, wallet_user_id = ''u1'',
     wallet_balance = 10000, wallet_currency = ''EUR'', wallet_tag = ''alic-0001''\<rparr>"

definition bob_wallet :: wallet where
  "bob_wallet = \<lparr>entity_id = ''w2'', created_at = 2, updated_at = 2, wallet_user_id = ''u2'',
     wallet_balance = 0, wallet_currency = ''EUR'', wallet_tag = ''bob-0002''\<rparr>"

definition paid_deposit :: transaction where
  "paid_deposit = \<lparr>entity_id = ''t1'', created_at = 3, updated_at = 3, txn_user_id = ''u1'',
     txn_type = TxnDeposit, txn_amount = 10000, txn_currency = ''EUR'', txn_payment_method = ''stripe'',
     txn_status = TxnCompleted, txn_key = ''dep-1'', txn_provider_ref = Some ''cs_1'',
     txn_failure_reason = None\<rparr>"

definition open_deposit :: transaction where
  "open_deposit = \<lparr>entity_id = ''t2'', created_at = 4, updated_at = 4, txn_user_id = ''u1'',
     txn_type = TxnDeposit, txn_amount = 5000, txn_currency = ''EUR'', txn_payment_method = ''stripe'',
     txn_status = TxnPending, txn_key = ''dep-2'', txn_provider_ref = Some ''cs_2'',
     txn_failure_reason = None\<rparr>"

definition paid_entry :: ledger_entry where
  "paid_entry = \<lparr>entity_id = ''l1'', created_at = 3, updated_at = 3, ledger_wallet_id = ''w1'',
     ledger_type = LedgerDeposit, ledger_amount = 10000, ledger_currency = ''EUR'',
     ledger_balance_after = 10000, ledger_key = ''dep-1''\<rparr>"

definition paid_event :: outbox_event where
  "paid_event = \<lparr>entity_id = ''o1'', created_at = 3, updated_at = 3,
     outbox_event_name = ''DepositSucceeded'', outbox_aggregate_id = ''w1'',
     outbox_payload_json = JObj [(''userId'', JStr ''u1''), (''walletId'', JStr ''w1''),
       (''amount'', JNum 10000), (''currency'', JStr ''EUR''), (''userEmail'', JStr ''alice@x.io'')],
     outbox_occurred_at = 3, outbox_processed_at = None, outbox_retry_count = 0\<rparr>"

definition demo_db :: db where
  "demo_db = \<lparr>db_coll = (\<lambda>s. s), db_users = [alice, bob], db_wallets = [alice_wallet, bob_wallet],
     db_transactions = [paid_deposit, open_deposit], db_ledger = [paid_entry], db_transfers = [],
     db_outbox = [paid_event]\<rparr>"

definition demo_app :: app where
  "demo_app = \<lparr>app_db = demo_db, app_cache = (\<lambda>_. None), app_domain_events = init_queue DOMAIN_EVENTS,
     app_notifications = init_queue NOTIFICATIONS, app_dead_letter = init_queue DEAD_LETTER,
     app_publisher_busy = False, app_emitted = [], app_mails = []\<rparr>"

text \<open>UUIDs are drawn as \<open>p\<close>, \<open>pa\<close>, \<open>paa\<close> and so on for a prefix \<open>p\<close>.\<close>

definition demo_ambient :: "string \<Rightarrow> nat \<Rightarrow> ambient" where
  "demo_ambient p now = \<lparr>clock = now, uuid = (\<lambda>i. p @ replicate i (CHR ''a'')), random_bytes = (18, 52)\<rparr>"

lemmas demo_rows = alice_def bob_def alice_wallet_def bob_wallet_def paid_deposit_def
  open_deposit_def paid_entry_def paid_event_def

lemma demo_coll [simp]: "db_coll demo_db = (\<lambda>s. s)" "same demo_db = (=)"
  by (simp_all add: demo_db_def same_def fun_eq_iff)

lemma demo_users [simp]: "db_users demo_db = [alice, bob]" by (simp add: demo_db_def)
lemma demo_wallets [simp]: "db_wallets demo_db = [alice_wallet, bob_wallet]" by (simp add: demo_db_def)
lemma demo_transactions [simp]: "db_transactions demo_db = [paid_deposit, open_deposit]"
  by (simp add: demo_db_def)
lemma demo_ledger [simp]: "db_ledger demo_db = [paid_entry]" by (simp add: demo_db_def)
lemma demo_transfers [simp]: "db_transfers demo_db = []" by (simp add: demo_db_def)
lemma demo_outbox [simp]: "db_outbox demo_db = [paid_event]" by (simp add: demo_db_def)

lemma demo_app_db [simp]: "app_db demo_app = demo_db"
  by (simp add: demo_app_def)

lemma demo_has_id [simp]: "has_id demo_db i r \<longleftrightarrow> entity_id r = i"
  by (simp add: has_id_def)

lemma demo_db_ok: "db_ok demo_db"
  by (simp add: db_ok_def unique_rows_def conflict_defs demo_rows)

lemma demo_money:
  "solvent demo_db" "in_range demo_db" "owners_ok demo_db" "positive demo_db" "audited demo_db"
  "deposits_booked demo_db" "total_balance demo_db = 10000"
  by (simp_all add: money_defs demo_rows max_safe_def total_balance_def entries_of_def signed_amount_def)

end
