(* ===== verification/Money.thy ===== *)
theory Money
  imports Scenario
begin

text \<open>
  The properties of the money tables over all interleavings: the invariants as instances of
  \<open>invariant_system\<close>, the append-only ledger and the single credit of a deposit.
\<close>

section \<open>Reachable databases\<close>

definition empty_db :: "(string \<Rightarrow> string) \<Rightarrow> db" where
  "empty_db coll = \<lparr>db_coll = coll, db_users = [], db_wallets = [], db_transactions = [],
     db_ledger = [], db_transfers = [], db_outbox = []\<rparr>"

definition fresh_db :: "db \<Rightarrow> bool" where
  "fresh_db d \<longleftrightarrow> db_users d = [] \<and> db_wallets d = [] \<and> db_transactions d = [] \<and> db_ledger d = []
     \<and> db_transfers d = [] \<and> db_outbox d = []"

definition money_ok :: "db \<Rightarrow> bool" where
  "money_ok d \<longleftrightarrow> db_ok d \<and> owners_ok d \<and> positive d \<and> solvent d \<and> deposits_booked d"

text \<open>A step after which every balance is still a safe integer.\<close>

definition safe_step :: "db \<Rightarrow> db \<Rightarrow> bool" where
  "safe_step d d' \<longleftrightarrow> db_step d d' \<and> in_range d'"

interpretation money: invariant_system fresh_db db_step money_ok
proof unfold_locales
  show "money_ok d" if "fresh_db d" for d
    using that by (simp add: fresh_db_def money_ok_def db_ok_def money_defs)
  show "money_ok d'" if "money_ok d" "db_step d d'" for d d'
    using that unfolding money_ok_def
    by (blast intro: db_step_db_ok db_step_owners db_step_positive db_step_solvent db_step_booked)
qed

lemma db_step_audited:
  assumes "db_step d d'" "money_ok d" "audited d" "in_range d" "in_range d'"
  shows "audited d'"
  using assms
proof (induction rule: db_step.induct)
  case (deposit_settled g wid t p d e d')
  moreover have "0 \<le> txn_amount t"
    using deposit_settled by (fastforce simp: money_ok_def dest: deposit_snapshot_positive)
  ultimately show ?case by (auto simp: money_ok_def intro: settleTransaction_audited)
next
  case (transfer_executed g r a b p d d')
  then have ne: "a \<noteq> b" by (auto simp: same_def)
  have pos: "0 \<le> transfer_amount r"
    using transfer_executed by (fastforce simp: money_ok_def dest: transfer_snapshot_positive)
  show ?case
  proof (rule executeTransfer_posts [OF transfer_executed(1) ne transfer_executed(3,4)])
    fix fw tw
    assume f: "fw \<in> set (db_wallets d)" "entity_id fw = a" "tw \<in> set (db_wallets d)"
      "entity_id tw = b" "0 \<le> sender_balance fw r"
      and d': "((), d') = ((), (transfer_posts g r fw tw d)\<lparr>
         db_transfers := update_where (has_id d (entity_id r))
           (\<lambda>t. t\<lparr>transfer_status := TransferDone, updated_at := clock g\<rparr>) (db_transfers d),
         db_outbox := db_outbox d @ [outbox_row g 2 p]\<rparr>)"
    note cong = money_cong [of d' "transfer_posts g r fw tw d"]
    have "in_range (transfer_posts g r fw tw d)"
      using cong(3) transfer_executed.prems(4) d' by simp
    then have "audited (transfer_posts g r fw tw d)"
      using f pos transfer_executed by (intro transfer_posts_laws) (auto simp: money_ok_def)
    then show ?thesis using cong(1) d' by simp
  qed
next
  case (wallet_ensured g d userId currency name w d')
  show ?case
  proof (cases "d' = d")
    case False
    then have i: "insert_wallet d w = Inr d'" and w: "wallet_balance w = 0" "entity_id w = uuid g 0"
      using wallet_ensured(1) by (auto dest: ensureWallet_Inr)
    have "filter (\<lambda>e. same d (ledger_wallet_id e) (entity_id w)) (db_ledger d) = []"
      using wallet_ensured(3) w by (simp add: fresh_wallet_def filter_empty_conv)
    with insert_wallet_Inr [OF i] wallet_ensured.prems(2) w show ?thesis
      by (auto simp: audited_def entries_of_def same_def)
  qed (use wallet_ensured in simp)
next
  case (user_saved g d stored u v d')
  then show ?case by (simp add: save_columns_frame audited_def entries_of_def same_def)
qed (auto simp: audited_def entries_of_def same_def frame repo_deleteUser_def
      dest!: createTransaction_Inr createTransfer_Inr insert_Inr
      updateTransactionProviderRef_Inr)

interpretation books: invariant_system fresh_db safe_step "\<lambda>d. money_ok d \<and> in_range d \<and> audited d"
proof unfold_locales
  show "money_ok d \<and> in_range d \<and> audited d" if "fresh_db d" for d
    using that money.inv_init by (auto simp: fresh_db_def audited_def in_range_def)
  show "money_ok d' \<and> in_range d' \<and> audited d'"
    if "money_ok d \<and> in_range d \<and> audited d" "safe_step d d'" for d d'
    using that money.inv_step db_step_audited unfolding safe_step_def by blast
qed

section \<open>A concrete run\<close>

text \<open>Alice registers, gets her wallet, opens a deposit of 100 EUR and pays it.\<close>

definition run_user :: users_row where
  "run_user = \<lparr>entity_id = ''u'', created_at = 1, updated_at = 1, user_name = ''Alice'',
     user_email = ''alice@x.io'', user_password = ''h1'', user_role = User\<rparr>"

definition run_wallet :: wallet where
  "run_wallet = \<lparr>entity_id = ''w'', created_at = 2, updated_at = 2, wallet_user_id = ''u'',
     wallet_balance = 0, wallet_currency = ''EUR'', wallet_tag = ''alic-1234''\<rparr>"

definition run_deposit :: transaction where
  "run_deposit = \<lparr>entity_id = ''t'', created_at = 3, updated_at = 3, txn_user_id = ''u'',
     txn_type = TxnDeposit, txn_amount = 10000, txn_currency = ''EUR'', txn_payment_method = ''stripe'',
     txn_status = TxnPending, txn_key = ''dep-1'', txn_provider_ref = None, txn_failure_reason = None\<rparr>"

definition run_payload :: outbox_payload where
  "run_payload = buildOutboxPayload (demo_ambient ''l'' 4) DepositSucceeded ''w'' ''u'' 10000 ''EUR''
     (Some ''alice@x.io'')"

definition run1 :: db where "run1 = (empty_db (\<lambda>s. s))\<lparr>db_users := [run_user]\<rparr>"

definition run2 :: db where "run2 = run1\<lparr>db_wallets := [run_wallet]\<rparr>"

definition run3 :: db where "run3 = run2\<lparr>db_transactions := [run_deposit]\<rparr>"

definition run4 :: db where
  "run4 = (post_entry 4 ''w'' 10000
       (settled_entry (demo_ambient ''l'' 4) ''w'' run_deposit LedgerDeposit run_wallet 10000) run3)\<lparr>
     db_transactions := [run_deposit\<lparr>txn_status := TxnCompleted, updated_at := 4\<rparr>],
     db_outbox := [outbox_row (demo_ambient ''l'' 4) 1 run_payload]\<rparr>"

lemmas run_defs = run1_def run2_def run3_def empty_db_def run_user_def run_wallet_def run_deposit_def

lemma alice_tag: "generateWalletTag (18, 52) ''Alice'' = ''alic-1234''"
  by code_simp

lemma run_create_user:
  "createUser (demo_ambient ''u'' 1) (empty_db (\<lambda>s. s)) ''Alice'' ''alice@x.io'' ''h1'' None
   = Inr (run_user, run1)"
  by (simp add: Let_def createUser_def insert_user_def insert_row_def fits_def run_defs demo_ambient_def)

lemma run_create_wallet:
  "ensureWallet (demo_ambient ''w'' 2) run1 ''u'' ''EUR'' ''Alice'' = Inr (run_wallet, run2)"
  by (simp add: Let_def ensureWallet_def findByUserIdAndCurrency_def insert_wallet_def insert_row_def fits_def
      bigint_ok_def same_def alice_tag run_defs demo_ambient_def)

lemma run_create_deposit:
  "createTransaction (demo_ambient ''t'' 3) run2 ''u'' TxnDeposit 10000 ''EUR'' ''stripe'' ''dep-1''
   = Inr (run_deposit, run3)"
  by (simp add: Let_def createTransaction_def insert_transaction_def insert_row_def fits_def bigint_ok_def
      run_defs demo_ambient_def)

lemma run_settle:
  "settleTransaction (demo_ambient ''l'' 4) ''w'' run_deposit LedgerDeposit
     (to_double (txn_amount run_deposit)) run_payload run3
   = Inr (settled_entry (demo_ambient ''l'' 4) ''w'' run_deposit LedgerDeposit run_wallet 10000, run4)"
  by (simp add: Let_def jopt_def settleTransaction_def settled_entry_def run4_def run_defs has_id_def same_def js_add_def
      to_double_exact update_wallet_balance_def bigint_ok_def insert_ledger_def insert_outbox_def
      insert_row_def fits_def complete_transaction_def update_where_def post_entry_def set_balance_def
      run_payload_def buildOutboxPayload_def outbox_row_def demo_ambient_def)

lemma run_steps:
  "db_step (empty_db (\<lambda>s. s)) run1" "db_step run1 run2" "db_step run2 run3" "db_step run3 run4"
proof -
  show "db_step (empty_db (\<lambda>s. s)) run1" by (rule db_step.user_inserted [OF createUser_Inr [OF run_create_user]])
  show "db_step run1 run2"
    by (rule db_step.wallet_ensured [OF run_create_wallet])
      (simp_all add: literal_user_def fresh_wallet_def run_defs)
  show "db_step run2 run3" by (rule db_step.deposit_created [OF run_create_deposit]) simp
  show "db_step run3 run4"
    by (rule db_step.deposit_settled [OF run_settle]) (simp add: deposit_snapshot_def run3_def)
qed

lemma run_in_range: "in_range run1" "in_range run2" "in_range run3" "in_range run4"
  by (simp_all add: in_range_def run4_def run_defs max_safe_def update_where_def has_id_def same_def)

lemma reach_four:
  assumes "init s0" "step s0 s1" "step s1 s2" "step s2 s3" "step s3 s4"
  shows "reach init step s4"
proof -
  from assms(1) have "reach init step s0" by (rule reach_init)
  then have "reach init step s1" using assms(2) by (rule reach_step)
  then have "reach init step s2" using assms(3) by (rule reach_step)
  then have "reach init step s3" using assms(4) by (rule reach_step)
  then show ?thesis using assms(5) by (rule reach_step)
qed

lemma run4_reachable: "reach fresh_db db_step run4" "reach fresh_db safe_step run4"
proof -
  have init: "fresh_db (empty_db (\<lambda>s. s))" by (simp add: fresh_db_def empty_db_def)
  have safe: "safe_step (empty_db (\<lambda>s. s)) run1" "safe_step run1 run2" "safe_step run2 run3"
    "safe_step run3 run4"
    by (simp_all add: safe_step_def run_steps run_in_range)
  show "reach fresh_db db_step run4"
    using init run_steps by (rule reach_four)
  show "reach fresh_db safe_step run4"
    using init safe by (rule reach_four)
qed

section \<open>Properties\<close>

text \<open>
  C1: in every database the program can reach from an empty one, whatever the interleaving of
  requests, webhooks and ticks, the unique indexes hold, every wallet has its owner, no balance
  is negative and every completed deposit is booked in the ledger with its key and amount.
\<close>

theorem reachable_money_ok:
  assumes "reach fresh_db db_step d"
  shows "db_ok d \<and> owners_ok d \<and> solvent d \<and> deposits_booked d"
  using money.always [OF assms] by (simp add: money_ok_def)

theorem reachable_money_ok_witness:
  "db_ok run4 \<and> owners_ok run4 \<and> solvent run4 \<and> deposits_booked run4"
  using reachable_money_ok [OF run4_reachable(1)] .

text \<open>
  C2: double-entry consistency. As long as every balance is a safe JavaScript integer, the
  balance of each wallet is the signed sum of its ledger entries after any interleaving.
\<close>

theorem reachable_audited:
  assumes "reach fresh_db safe_step d" "w \<in> set (db_wallets d)"
  shows "wallet_balance w = sum_list (map signed_amount (entries_of d w)) \<and> 0 \<le> wallet_balance w"
proof -
  from books.always [OF assms(1)] have "audited d" "solvent d" by (auto simp: money_ok_def)
  with assms(2) show ?thesis unfolding audited_def solvent_def by blast
qed

lemma run4_wallet: "set_balance 4 10000 run_wallet \<in> set (db_wallets run4)"
  by (simp add: run4_def run3_def run2_def run1_def empty_db_def has_id_def same_def run_wallet_def
      update_where_def)

theorem reachable_audited_witness:
  "10000 = sum_list (map signed_amount (entries_of run4 (set_balance 4 10000 run_wallet)))"
  using reachable_audited [OF run4_reachable(2) run4_wallet] by simp

text \<open>
  C8: the ledger is append-only. No write of the program removes, reorders or changes a ledger
  entry: what was booked stays a prefix of the ledger.
\<close>

theorem ledger_append_only:
  assumes "db_step\<^sup>*\<^sup>* d d'"
  shows "\<exists>es. db_ledger d' = db_ledger d @ es"
  using db_steps_ledger [OF assms] by blast

theorem ledger_append_only_witness: "\<exists>es. db_ledger run4 = db_ledger run3 @ es"
  by (rule ledger_append_only, rule r_into_rtranclp, rule run_steps(4))

text \<open>
  C9: a deposit is credited at most once. After one settlement, and whatever writes happen in
  between, a second settlement under the same idempotency key (a webhook that was delivered
  twice and read the status while it was still PENDING) is refused by the database, so it
  changes nothing.
\<close>

theorem settled_at_most_once:
  assumes "settleTransaction g wid t ty change p d = Inr (e, d1)"
    and "db_step\<^sup>*\<^sup>* d1 d2" "same d (txn_key t') (txn_key t)"
  shows "\<exists>err. settleTransaction g' wid' t' ty' change' p' d2 = Inl err"
proof (rule ccontr)
  assume "\<not> ?thesis"
  then obtain e' d3 where s2: "settleTransaction g' wid' t' ty' change' p' d2 = Inr (e', d3)"
    by (metis obj_sumE surj_pair)
  from assms(1) have e: "e \<in> set (db_ledger d1)" "ledger_key e = txn_key t" "db_coll d1 = db_coll d"
    by (auto elim!: settleTransaction_post simp: settled_entry_def)
  with db_steps_ledger [OF assms(2)] have "e \<in> set (db_ledger d2)" "db_coll d2 = db_coll d" by auto
  moreover from s2 have "\<forall>x\<in>set (db_ledger d2). \<not> ledger_conflict (db_coll d2) x e'" "ledger_key e' = txn_key t'"
    by (auto elim!: settleTransaction_post simp: settled_entry_def)
  ultimately show False using e assms(3) by (auto simp: ledger_conflict_def same_def)
qed

theorem settled_at_most_once_witness:
  "\<exists>err. settleTransaction (demo_ambient ''m'' 9) ''w'' run_deposit LedgerDeposit
     (to_double (txn_amount run_deposit)) run_payload run4 = Inl err"
  by (rule settled_at_most_once [OF run_settle rtranclp.rtrancl_refl]) (simp add: same_def)

end
