(* ===== verification/WalletProperties.thy ===== *)
theory WalletProperties
  imports Money
begin

text \<open>
  The properties of deposits and their settlement by the Stripe webhook: the exact effect of a
  settlement, redelivery, the life cycle of the status, which events can change anything, and
  the balance cache.
\<close>

section \<open>The settlement call\<close>

lemma settleByProviderRef_split:
  assumes "settleByProviderRef g s ref = (r, s')"
  obtains (skip) "s' = s"
      "r = Inr () \<Longrightarrow> (\<forall>t. findTransactionByProviderRef (app_db s) ref = Some t \<longrightarrow> txn_status t = TxnPending
         \<longrightarrow> findByUserIdAndCurrency (app_db s) (txn_user_id t) (txn_currency t) = None)"
  | (settled) t w e d' where "r = Inr ()"
      "findTransactionByProviderRef (app_db s) ref = Some t" "txn_status t = TxnPending"
      "findByUserIdAndCurrency (app_db s) (txn_user_id t) (txn_currency t) = Some w"
      "settleTransaction g (entity_id w) t LedgerDeposit (to_double (txn_amount t))
         (buildOutboxPayload g DepositSucceeded (entity_id w) (txn_user_id t) (to_double (txn_amount t))
            (txn_currency t) (getUserEmail (app_db s) (txn_user_id t))) (app_db s) = Inr (e, d')"
      "s' = invalidateBalanceCache (s\<lparr>app_db := d'\<rparr>) (txn_user_id t) (txn_currency t)"
proof (cases "findTransactionByProviderRef (app_db s) ref")
  case None
  with assms show ?thesis by (intro skip) (auto simp: settleByProviderRef_def)
next
  case (Some t)
  note t = Some
  show ?thesis
  proof (cases "txn_status t = TxnPending")
    case False
    with assms t show ?thesis by (intro skip) (auto simp: settleByProviderRef_def)
  next
    case True
    note pend = True
    show ?thesis
    proof (cases "findByUserIdAndCurrency (app_db s) (txn_user_id t) (txn_currency t)")
      case None
      with assms t pend show ?thesis by (intro skip) (auto simp: settleByProviderRef_def)
    next
      case (Some w)
      show ?thesis
      proof (cases "settleTransaction g (entity_id w) t LedgerDeposit (to_double (txn_amount t))
         (buildOutboxPayload g DepositSucceeded (entity_id w) (txn_user_id t) (to_double (txn_amount t))
            (txn_currency t) (getUserEmail (app_db s) (txn_user_id t))) (app_db s)")
        case (Inl e)
        with assms t pend Some show ?thesis
          by (intro skip) (auto simp: settleByProviderRef_def Let_def run_db_def)
      next
        case (Inr x)
        obtain e d' where x: "x = (e, d')" by (cases x)
        with assms t pend Some Inr show ?thesis
          by (intro settled [of t w e d']) (auto simp: settleByProviderRef_def Let_def run_db_def)
      qed
    qed
  qed
qed

lemma ref_found:
  assumes "findTransactionByProviderRef d ref = Some t"
  shows "t \<in> set (db_transactions d)" "\<exists>x. txn_provider_ref t = Some x \<and> same d x ref"
  using find_SomeD [OF assms [unfolded findTransactionByProviderRef_def]]
  by (auto split: option.splits)

lemma owner_wallet_found:
  "findByUserIdAndCurrency d uid cur = Some w \<Longrightarrow> w \<in> set (db_wallets d)"
  by (auto simp: findByUserIdAndCurrency_def dest: find_SomeD)

text \<open>The rows a settlement changes, when both rows are stored.\<close>

definition credited :: "ambient \<Rightarrow> wallet \<Rightarrow> int \<Rightarrow> wallet list \<Rightarrow> wallet list" where
  "credited g w n ws = map (\<lambda>x. if x = w then set_balance (clock g) (wallet_balance w + n) x else x) ws"

definition with_status :: "ambient \<Rightarrow> transaction \<Rightarrow> TransactionStatus \<Rightarrow> transaction list \<Rightarrow> transaction list" where
  "with_status g t st ts = map (\<lambda>x. if x = t then x\<lparr>txn_status := st, updated_at := clock g\<rparr> else x) ts"

lemma credited_find:
  assumes "findByUserIdAndCurrency d uid cur = Some w" "db_wallets d' = credited g w n (db_wallets d)"
    and "db_coll d' = db_coll d"
  shows "findByUserIdAndCurrency d' uid cur = Some (set_balance (clock g) (wallet_balance w + n) w)"
proof -
  let ?f = "\<lambda>x. if x = w then set_balance (clock g) (wallet_balance w + n) x else x"
  have "find P (map ?f ws) = map_option ?f (find (P \<circ> ?f) ws)" for P ws
    by (induction ws) auto
  moreover have "(\<lambda>w. same d' (wallet_user_id w) uid \<and> same d' (wallet_currency w) cur) \<circ> ?f
      = (\<lambda>w. same d (wallet_user_id w) uid \<and> same d (wallet_currency w) cur)"
    using assms(3) by (simp add: fun_eq_iff same_def)
  ultimately show ?thesis
    using assms(1,2) by (simp add: findByUserIdAndCurrency_def credited_def)
qed

lemma settle_effect:
  assumes "settleTransaction g (entity_id w) t LedgerDeposit (to_double (txn_amount t)) p d = Inr (e, d')"
    and "money_ok d" "in_range d'" "w \<in> set (db_wallets d)" "t \<in> set (db_transactions d)"
  shows "db_wallets d' = credited g w (txn_amount t) (db_wallets d)"
    and "db_ledger d' = db_ledger d @ [settled_entry g (entity_id w) t LedgerDeposit w (wallet_balance w + txn_amount t)]"
    and "db_transactions d' = with_status g t TxnCompleted (db_transactions d)"
    and "db_outbox d' = db_outbox d @ [outbox_row g 1 p]"
    and "total_balance d' = total_balance d + txn_amount t"
    and "db_coll d' = db_coll d"
proof -
  from assms(2) have ok: "db_ok d" "solvent d" "positive d" by (simp_all add: money_ok_def)
  note wu = wallet_id_unique [OF db_ok_wallets [OF ok(1)]]
  have self: "has_id d (entity_id w) w" by (simp add: has_id_def same_def)
  have tu: "x = t" if "x \<in> set (db_transactions d)" "has_id d (entity_id t) x" for x
    using that assms(5) ok(1) transaction_table.row_eq_id [of "db_coll d" "db_transactions d" x t]
    by (simp add: db_ok_def has_id_def same_def)
  obtain w' nb where f: "w' \<in> set (db_wallets d)" "has_id d (entity_id w) w'"
    "nb = to_double (to_double (wallet_balance w') + to_double (txn_amount t))"
    "e = settled_entry g (entity_id w) t LedgerDeposit w' nb"
    and d': "d' = (post_entry (clock g) (entity_id w) nb e d)\<lparr>
       db_transactions := update_where (has_id d (entity_id t))
         (\<lambda>t. t\<lparr>txn_status := TxnCompleted, updated_at := clock g\<rparr>) (db_transactions d),
       db_outbox := db_outbox d @ [outbox_row g 1 p]\<rparr>"
    by (rule settleTransaction_post [OF assms(1)])
  have ww: "w' = w" using wu [OF f(1) assms(4) f(2) self] .
  have "set_balance (clock g) nb w \<in> set (db_wallets d')"
    using assms(4) self by (auto simp: d' set_update_where intro!: image_eqI [of _ _ w])
  with assms(3) have "nb \<le> max_safe" by (auto simp: in_range_def)
  moreover have "0 \<le> wallet_balance w" "0 \<le> txn_amount t"
    using ok assms(4,5) by (auto simp: solvent_def positive_def less_imp_le)
  ultimately have nb: "nb = wallet_balance w + txn_amount t"
    using f(3) ww safe_sum_exact by simp
  show "db_wallets d' = credited g w (txn_amount t) (db_wallets d)"
    using wu [OF _ assms(4) _ self] self
    by (auto simp: d' credited_def update_where_def nb)
  show "db_ledger d' = db_ledger d @ [settled_entry g (entity_id w) t LedgerDeposit w (wallet_balance w + txn_amount t)]"
    using f(4) ww nb by (simp add: d')
  show "db_transactions d' = with_status g t TxnCompleted (db_transactions d)"
    using tu by (auto simp: d' with_status_def update_where_def has_id_def same_def)
  show "db_outbox d' = db_outbox d @ [outbox_row g 1 p]" "db_coll d' = db_coll d" by (simp_all add: d')
  have "total_balance d' = total_balance (post_entry (clock g) (entity_id w) nb e d)"
    by (simp add: d' total_balance_def)
  also have "\<dots> = total_balance d - wallet_balance w + nb"
    using ok(1) assms(4) self by (intro post_entry_total) auto
  finally show "total_balance d' = total_balance d + txn_amount t" using nb by simp
qed

section \<open>A concrete settlement\<close>

text \<open>Stripe confirms the open deposit of Alice (\<open>cs_2\<close>, 50 EUR).\<close>

definition demo_paid_payload :: outbox_payload where
  "demo_paid_payload = buildOutboxPayload (demo_ambient ''s'' 9) DepositSucceeded ''w1'' ''u1'' 5000
     ''EUR'' (Some ''alice@x.io'')"

definition demo_settled_db :: db where
  "demo_settled_db = demo_db\<lparr>
     db_wallets := [set_balance 9 15000 alice_wallet, bob_wallet],
     db_ledger := [paid_entry, settled_entry (demo_ambient ''s'' 9) ''w1'' open_deposit LedgerDeposit alice_wallet 15000],
     db_transactions := [paid_deposit, open_deposit\<lparr>txn_status := TxnCompleted, updated_at := 9\<rparr>],
     db_outbox := [paid_event, outbox_row (demo_ambient ''s'' 9) 1 demo_paid_payload]\<rparr>"

definition demo_settled :: app where
  "demo_settled = demo_app\<lparr>app_db := demo_settled_db\<rparr>"

lemma demo_settleTransaction:
  "settleTransaction (demo_ambient ''s'' 9) ''w1'' open_deposit LedgerDeposit (to_double 5000)
     demo_paid_payload demo_db
   = Inr (settled_entry (demo_ambient ''s'' 9) ''w1'' open_deposit LedgerDeposit alice_wallet 15000, demo_settled_db)"
  by (simp add: Let_def jopt_def settleTransaction_def settled_entry_def demo_settled_db_def demo_db_def
      demo_rows has_id_def same_def js_add_def to_double_exact update_wallet_balance_def bigint_ok_def
      insert_ledger_def insert_outbox_def insert_row_def fits_def complete_transaction_def update_where_def
      set_balance_def demo_paid_payload_def buildOutboxPayload_def outbox_row_def demo_ambient_def
      ledger_conflict_def outbox_conflict_def)

lemma demo_refs [simp]:
  "findTransactionByProviderRef demo_db ''cs_2'' = Some open_deposit"
  "findTransactionByProviderRef demo_db ''cs_1'' = Some paid_deposit"
  "findByUserIdAndCurrency demo_db ''u1'' ''EUR'' = Some alice_wallet"
  "findUserById demo_db ''u1'' = Some alice"
  by (simp_all add: findTransactionByProviderRef_def findByUserIdAndCurrency_def findUserById_def demo_rows)

lemma open_deposit_simps [simp]:
  "txn_status open_deposit = TxnPending" "txn_user_id open_deposit = ''u1''"
  "txn_currency open_deposit = ''EUR''" "txn_amount open_deposit = 5000"
  "entity_id open_deposit = ''t2''" "txn_key open_deposit = ''dep-2''"
  by (simp_all add: open_deposit_def)

lemma demo_settle:
  "settleByProviderRef (demo_ambient ''s'' 9) demo_app ''cs_2'' = (Inr (), demo_settled)"
proof -
  have w: "entity_id alice_wallet = ''w1''" "user_email alice = ''alice@x.io''"
    by (simp_all add: alice_wallet_def alice_def)
  show ?thesis
    using demo_settleTransaction w
    by (simp add: settleByProviderRef_def getUserEmail_def run_db_def to_double_exact
        demo_paid_payload_def invalidateBalanceCache_def cache_del_def demo_settled_def demo_app_def
        fun_upd_idem)
qed

lemma demo_settled_in_range: "in_range (app_db demo_settled)"
  by (simp add: demo_settled_def demo_settled_db_def in_range_def max_safe_def alice_wallet_def bob_wallet_def)

section \<open>Settlement\<close>

lemma settle_call:
  assumes "settleByProviderRef g s ref = (Inr (), s')"
    and "findTransactionByProviderRef (app_db s) ref = Some t" "txn_status t = TxnPending"
    and "findByUserIdAndCurrency (app_db s) (txn_user_id t) (txn_currency t) = Some w"
    and "money_ok (app_db s)" "in_range (app_db s')"
  shows "db_wallets (app_db s') = credited g w (txn_amount t) (db_wallets (app_db s))
    \<and> total_balance (app_db s') = total_balance (app_db s) + txn_amount t
    \<and> (\<exists>e. db_ledger (app_db s') = db_ledger (app_db s) @ [e] \<and> ledger_key e = txn_key t
         \<and> ledger_wallet_id e = entity_id w \<and> signed_amount e = txn_amount t
         \<and> ledger_balance_after e = wallet_balance w + txn_amount t)
    \<and> db_transactions (app_db s') = with_status g t TxnCompleted (db_transactions (app_db s))
    \<and> (\<exists>ev. db_outbox (app_db s') = db_outbox (app_db s) @ [ev]
         \<and> outbox_event_name ev = ''DepositSucceeded'' \<and> outbox_aggregate_id ev = entity_id w
         \<and> jget (outbox_payload_json ev) ''amount'' = JNum (to_double (txn_amount t)))
    \<and> fst (getBalance g' s' (txn_user_id t) (txn_currency t))
        = Inr (set_balance (clock g) (wallet_balance w + txn_amount t) w)"
proof (rule settleByProviderRef_split [OF assms(1)])
  assume "Inr () = Inr () \<Longrightarrow> (\<forall>t. findTransactionByProviderRef (app_db s) ref = Some t \<longrightarrow> txn_status t = TxnPending
         \<longrightarrow> findByUserIdAndCurrency (app_db s) (txn_user_id t) (txn_currency t) = None)"
  with assms(2-4) show ?thesis by auto
next
  fix t' w' e d'
  assume "findTransactionByProviderRef (app_db s) ref = Some t'"
    and "findByUserIdAndCurrency (app_db s) (txn_user_id t') (txn_currency t') = Some w'"
    and st: "settleTransaction g (entity_id w') t' LedgerDeposit (to_double (txn_amount t'))
         (buildOutboxPayload g DepositSucceeded (entity_id w') (txn_user_id t') (to_double (txn_amount t'))
            (txn_currency t') (getUserEmail (app_db s) (txn_user_id t'))) (app_db s) = Inr (e, d')"
    and s': "s' = invalidateBalanceCache (s\<lparr>app_db := d'\<rparr>) (txn_user_id t') (txn_currency t')"
  with assms(2,4) have eq: "t' = t" "w' = w" by auto
  have db': "app_db s' = d'" by (simp add: s' invalidateBalanceCache_def)
  note eff = settle_effect [OF st [unfolded eq] assms(5) _ owner_wallet_found [OF assms(4)] ref_found(1) [OF assms(2)]]
  have r: "in_range d'" using assms(6) db' by simp
  have "findByUserIdAndCurrency d' (txn_user_id t) (txn_currency t)
      = Some (set_balance (clock g) (wallet_balance w + txn_amount t) w)"
    using credited_find [of "app_db s" "txn_user_id t" "txn_currency t" w d' g "txn_amount t"] assms(4) eff(1,6) [OF r]
    by simp
  moreover have "cache_get (app_cache s') k (balance_cache_key (txn_user_id t) (txn_currency t)) = None" for k
    by (simp add: s' eq invalidateBalanceCache_def cache_get_def cache_del_def)
  ultimately have "fst (getBalance g' s' (txn_user_id t) (txn_currency t))
        = Inr (set_balance (clock g) (wallet_balance w + txn_amount t) w)"
    by (simp add: getBalance_def Let_def db')
  then show ?thesis
    using eff [OF r]
    by (simp add: db' settled_entry_def signed_amount_def outbox_row_def buildOutboxPayload_def jget_def)
qed

text \<open>
  C16: what a paid webhook does. It credits the wallet of the depositor with exactly the amount
  of the deposit, books one ledger entry under the deposit's key with the new balance, completes
  the deposit and only it, queues one \<open>DepositSucceeded\<close> event for the wallet, and the next
  balance query of the depositor answers the new balance.
\<close>

theorem settlement_credits_deposit:
  assumes "settleByProviderRef g s ref = (Inr (), s')"
    and "findTransactionByProviderRef (app_db s) ref = Some t" "txn_status t = TxnPending"
    and "findByUserIdAndCurrency (app_db s) (txn_user_id t) (txn_currency t) = Some w"
    and "money_ok (app_db s)" "in_range (app_db s')"
  shows "db_wallets (app_db s') = credited g w (txn_amount t) (db_wallets (app_db s))
    \<and> total_balance (app_db s') = total_balance (app_db s) + txn_amount t
    \<and> (\<exists>e. db_ledger (app_db s') = db_ledger (app_db s) @ [e] \<and> ledger_key e = txn_key t
         \<and> ledger_wallet_id e = entity_id w \<and> signed_amount e = txn_amount t
         \<and> ledger_balance_after e = wallet_balance w + txn_amount t)
    \<and> db_transactions (app_db s') = with_status g t TxnCompleted (db_transactions (app_db s))
    \<and> (\<exists>ev. db_outbox (app_db s') = db_outbox (app_db s) @ [ev]
         \<and> outbox_event_name ev = ''DepositSucceeded'' \<and> outbox_aggregate_id ev = entity_id w
         \<and> jget (outbox_payload_json ev) ''amount'' = JNum (to_double (txn_amount t)))
    \<and> fst (getBalance g' s' (txn_user_id t) (txn_currency t))
        = Inr (set_balance (clock g) (wallet_balance w + txn_amount t) w)"
  by (rule settle_call [OF assms])

theorem settlement_credits_deposit_witness:
  "total_balance (app_db demo_settled) = 15000
   \<and> fst (getBalance (demo_ambient ''q'' 10) demo_settled ''u1'' ''EUR'') = Inr (set_balance 9 15000 alice_wallet)"
proof -
  have m: "money_ok (app_db demo_app)" by (simp add: money_ok_def demo_db_ok demo_money)
  have b: "wallet_balance alice_wallet = 10000" "clock (demo_ambient ''s'' 9) = 9"
    by (simp_all add: alice_wallet_def demo_ambient_def)
  show ?thesis
    using settlement_credits_deposit [of _ demo_app, OF demo_settle _ _ _ m demo_settled_in_range,
        of open_deposit alice_wallet "demo_ambient ''q'' 10"] demo_money(7) b by simp
qed

end
