(* ===== verification/Webhook.thy ===== *)
theory Webhook
  imports WalletProperties
begin

text \<open>
  The Stripe webhook as Stripe drives it: an event may come twice, at any time, and from anybody
  who does not hold the secret. Redelivery, the life cycle of a deposit, who can cause a change,
  and the two events of one session racing each other.
\<close>

section \<open>Repeating a handler\<close>

lemma same_coll: "db_coll d' = db_coll d \<Longrightarrow> same d' = same d"
  by (simp add: same_def fun_eq_iff)

lemma find_ref_update:
  assumes "findTransactionByProviderRef d ref = Some t" "db_coll d' = db_coll d"
    and "db_transactions d' = update_where (has_id d (entity_id t)) f (db_transactions d)"
    and "\<And>x. txn_provider_ref (f x) = txn_provider_ref x"
  shows "findTransactionByProviderRef d' ref = Some (f t)"
proof -
  define Q :: "transaction \<Rightarrow> bool" where "Q = (\<lambda>t. case txn_provider_ref t of Some r \<Rightarrow> same d r ref | None \<Rightarrow> False)"
  have "has_id d (entity_id t) t" by (simp add: has_id_def same_def)
  moreover have "find Q (update_where P f ts) = map_option (\<lambda>r. if P r then f r else r) (find Q ts)" for P ts
    by (rule find_update_where) (simp add: Q_def assms(4))
  moreover have "findTransactionByProviderRef d' ref = find Q (db_transactions d')"
    using same_coll [OF assms(2)] by (simp add: findTransactionByProviderRef_def Q_def cong: option.case_cong)
  ultimately show ?thesis
    using assms(1,3) by (simp add: findTransactionByProviderRef_def Q_def [symmetric])
qed

lemma settleTransaction_transactions:
  assumes "settleTransaction g wid t ty change p d = Inr (e, d')"
  shows "db_transactions d' = update_where (has_id d (entity_id t))
         (\<lambda>t. t\<lparr>txn_status := TxnCompleted, updated_at := clock g\<rparr>) (db_transactions d)"
    and "db_coll d' = db_coll d"
  using settleTransaction_post [OF assms] by fastforce+

lemma settled_found:
  assumes "settleTransaction g wid t ty change p d = Inr (e, d')" "findTransactionByProviderRef d ref = Some t"
  shows "findTransactionByProviderRef d' ref = Some (t\<lparr>txn_status := TxnCompleted, updated_at := clock g\<rparr>)"
  by (rule find_ref_update [OF assms(2) settleTransaction_transactions(2,1) [OF assms(1)]]) simp

lemma settle_again:
  assumes "settleByProviderRef g s ref = (Inr (), s')"
  shows "settleByProviderRef g' s' ref = (Inr (), s')"
proof (rule settleByProviderRef_split [OF assms])
  assume "s' = s" "Inr () = Inr () \<Longrightarrow> (\<forall>t. findTransactionByProviderRef (app_db s) ref = Some t \<longrightarrow> txn_status t = TxnPending
         \<longrightarrow> findByUserIdAndCurrency (app_db s) (txn_user_id t) (txn_currency t) = None)"
  then show ?thesis by (auto simp: settleByProviderRef_def split: option.splits)
next
  fix t w e d'
  assume f: "findTransactionByProviderRef (app_db s) ref = Some t"
    and st: "settleTransaction g (entity_id w) t LedgerDeposit (to_double (txn_amount t))
         (buildOutboxPayload g DepositSucceeded (entity_id w) (txn_user_id t) (to_double (txn_amount t))
            (txn_currency t) (getUserEmail (app_db s) (txn_user_id t))) (app_db s) = Inr (e, d')"
    and s': "s' = invalidateBalanceCache (s\<lparr>app_db := d'\<rparr>) (txn_user_id t) (txn_currency t)"
  have "findTransactionByProviderRef (app_db s') ref
      = Some (t\<lparr>txn_status := TxnCompleted, updated_at := clock g\<rparr>)"
    using find_ref_update [OF f settleTransaction_transactions(2,1) [OF st]]
    by (simp add: s' invalidateBalanceCache_def)
  then show ?thesis by (simp add: settleByProviderRef_def)
qed

lemma fail_again:
  assumes "failByProviderRef g s ref reason = (r, s')"
  shows "r = Inr ()" "failByProviderRef g' s' ref reason' = (Inr (), s')"
proof -
  have "r = Inr () \<and> failByProviderRef g' s' ref reason' = (Inr (), s')"
  proof (cases "findTransactionByProviderRef (app_db s) ref")
    case None
    with assms show ?thesis by (auto simp: failByProviderRef_def)
  next
    case (Some t)
    show ?thesis
    proof (cases "txn_status t = TxnPending")
      case False
      with assms Some show ?thesis by (auto simp: failByProviderRef_def)
    next
      case True
      with assms Some have r: "r = Inr ()" and s': "s' = s\<lparr>app_db := failTransaction g t reason (app_db s)\<rparr>"
        by (auto simp: failByProviderRef_def update_db_def)
      have "findTransactionByProviderRef (app_db s') ref
          = Some (t\<lparr>txn_status := TxnFailed, txn_failure_reason := Some reason, updated_at := clock g\<rparr>)"
        unfolding s' by (rule find_ref_update [OF Some]) (simp_all add: failTransaction_def)
      with r show ?thesis by (simp add: failByProviderRef_def)
    qed
  qed
  then show "r = Inr ()" "failByProviderRef g' s' ref reason' = (Inr (), s')" by auto
qed

text \<open>The handler of a verified event, by the kinds of event it tells apart.\<close>

lemma handleWebhook_verified:
  assumes "sig = Some sg" "sg \<noteq> []" "constructEvent body sg secret = Inr ev"
  shows "ev_type ev = ''checkout.session.completed'' \<Longrightarrow> ev_payment_status ev = Some ''paid'' \<Longrightarrow>
      handleWebhook constructEvent secret g s body sig
      = bindS (settleByProviderRef g s (ev_object_id ev)) (\<lambda>_ s1. (Inr True, s1))"
    and "ev_type ev = ''checkout.session.expired'' \<Longrightarrow>
      handleWebhook constructEvent secret g s body sig
      = bindS (failByProviderRef g s (ev_object_id ev) ''Checkout session expired'') (\<lambda>_ s1. (Inr True, s1))"
    and "ev_type ev \<noteq> ''checkout.session.expired'' \<Longrightarrow>
      ev_type ev \<noteq> ''checkout.session.completed'' \<or> ev_payment_status ev \<noteq> Some ''paid'' \<Longrightarrow>
      handleWebhook constructEvent secret g s body sig = (Inr True, s)"
  using assms by (auto simp: handleWebhook_def)

lemma handleWebhook_split:
  assumes "handleWebhook constructEvent secret g s body sig = (r, s')"
  obtains (rejected) "s' = s"
      "r \<in> {Inl (BadRequest ''Missing stripe-signature header''), Inl (BadRequest ''Invalid webhook signature'')}"
  | (paid) sg ev where "sig = Some sg" "sg \<noteq> []" "constructEvent body sg secret = Inr ev"
      "ev_type ev = ''checkout.session.completed''" "ev_payment_status ev = Some ''paid''"
      "(r, s') = bindS (settleByProviderRef g s (ev_object_id ev)) (\<lambda>_ s1. (Inr True, s1))"
  | (expired) sg ev where "sig = Some sg" "sg \<noteq> []" "constructEvent body sg secret = Inr ev"
      "ev_type ev = ''checkout.session.expired''"
      "(r, s') = bindS (failByProviderRef g s (ev_object_id ev) ''Checkout session expired'') (\<lambda>_ s1. (Inr True, s1))"
  | (other) sg ev where "sig = Some sg" "sg \<noteq> []" "constructEvent body sg secret = Inr ev"
      "ev_type ev \<noteq> ''checkout.session.expired''"
      "ev_type ev \<noteq> ''checkout.session.completed'' \<or> ev_payment_status ev \<noteq> Some ''paid''"
      "(r, s') = (Inr True, s)"
proof (cases "\<exists>sg ev. sig = Some sg \<and> sg \<noteq> [] \<and> constructEvent body sg secret = Inr ev")
  case True
  then obtain sg ev where v: "sig = Some sg" "sg \<noteq> []" "constructEvent body sg secret = Inr ev" by blast
  note h = handleWebhook_verified [of sig sg constructEvent body secret ev g s, OF v]
  consider (p) "ev_type ev = ''checkout.session.completed''" "ev_payment_status ev = Some ''paid''"
    | (e) "ev_type ev = ''checkout.session.expired''"
    | (n) "ev_type ev \<noteq> ''checkout.session.expired''"
      "ev_type ev \<noteq> ''checkout.session.completed'' \<or> ev_payment_status ev \<noteq> Some ''paid''" by blast
  then show ?thesis
  proof cases
    case p
    with h(1) assms v show ?thesis by (intro paid [of sg ev]) simp_all
  next
    case e
    with h(2) assms v show ?thesis by (intro expired [of sg ev]) simp_all
  next
    case n
    show ?thesis
      using h(3) [OF n] assms v n by (intro other [of sg ev]) simp_all
  qed
next
  case False
  with assms show ?thesis
    by (intro rejected) (auto simp: handleWebhook_def split: option.splits sum.splits if_splits)
qed

section \<open>Life cycle\<close>

text \<open>A deposit keeps its identity and its status only moves up.\<close>

definition advances :: "transaction \<Rightarrow> transaction \<Rightarrow> bool" where
  "advances t t' \<longleftrightarrow> entity_id t' = entity_id t \<and> txn_key t' = txn_key t \<and> txn_amount t' = txn_amount t
     \<and> txn_status t \<le> txn_status t'"

lemma advances_refl [simp]: "list_all2 advances ts ts"
  by (rule list.rel_refl) (simp add: advances_def)

lemma advances_update:
  assumes "db_ok d" "t \<in> set (db_transactions d)" "txn_status t = TxnPending"
    and "\<And>x. entity_id (f x) = entity_id x \<and> txn_key (f x) = txn_key x \<and> txn_amount (f x) = txn_amount x"
  shows "list_all2 advances (db_transactions d) (update_where (has_id d (entity_id t)) f (db_transactions d))"
proof -
  have eq: "x = t" if "x \<in> set (db_transactions d)" "has_id d (entity_id t) x" for x
    using that assms(1,2) transaction_table.row_eq_id [of "db_coll d" "db_transactions d" x t]
    by (simp add: db_ok_def has_id_def same_def)
  have "advances x (if has_id d (entity_id t) x then f x else x)" if "x \<in> set (db_transactions d)" for x
  proof (cases "has_id d (entity_id t) x")
    case True
    with eq [OF that] assms(3,4) show ?thesis by (simp add: advances_def less_eq_TransactionStatus_def)
  qed (simp add: advances_def)
  then show ?thesis by (simp add: update_where_def list_all2_map2 list.rel_refl_strong)
qed

section \<open>Properties\<close>

text \<open>
  C17: webhooks are idempotent. Stripe delivers an event at least once; a second delivery after
  a successful one is acknowledged and leaves the whole state as it was, whatever the event is.
\<close>

theorem webhook_redelivery:
  assumes "handleWebhook constructEvent secret g s body sig = (Inr True, s')"
  shows "handleWebhook constructEvent secret g' s' body sig = (Inr True, s')"
proof (rule handleWebhook_split [OF assms])
  fix sg ev
  assume v: "sig = Some sg" "sg \<noteq> []" "constructEvent body sg secret = Inr ev"
    and e: "ev_type ev = ''checkout.session.completed''" "ev_payment_status ev = Some ''paid''"
      "(Inr True, s') = bindS (settleByProviderRef g s (ev_object_id ev)) (\<lambda>_ s1. (Inr True, s1))"
  from e(3) have "settleByProviderRef g s (ev_object_id ev) = (Inr (), s')"
    by (cases "settleByProviderRef g s (ev_object_id ev)") (auto simp: bindS_def split: sum.splits)
  then have "settleByProviderRef g' s' (ev_object_id ev) = (Inr (), s')" by (rule settle_again)
  then show ?thesis using v e(1,2) by (simp add: handleWebhook_def)
next
  fix sg ev
  assume v: "sig = Some sg" "sg \<noteq> []" "constructEvent body sg secret = Inr ev"
    and e: "ev_type ev = ''checkout.session.expired''"
      "(Inr True, s') = bindS (failByProviderRef g s (ev_object_id ev) ''Checkout session expired'') (\<lambda>_ s1. (Inr True, s1))"
  from e(2) have "failByProviderRef g s (ev_object_id ev) ''Checkout session expired'' = (Inr (), s')"
    by (cases "failByProviderRef g s (ev_object_id ev) ''Checkout session expired''")
      (auto simp: bindS_def split: sum.splits)
  then have "failByProviderRef g' s' (ev_object_id ev) ''Checkout session expired'' = (Inr (), s')"
    by (rule fail_again(2))
  then show ?thesis using v e(1) by (simp add: handleWebhook_def)
next
  assume "Inr True \<in> {Inl (BadRequest ''Missing stripe-signature header''), Inl (BadRequest ''Invalid webhook signature'')}"
  then show ?thesis by simp
next
  fix sg ev
  assume "sig = Some sg" "sg \<noteq> []" "constructEvent body sg secret = Inr ev"
    "ev_type ev \<noteq> ''checkout.session.expired''"
    "ev_type ev \<noteq> ''checkout.session.completed'' \<or> ev_payment_status ev \<noteq> Some ''paid''"
  then show ?thesis using assms handleWebhook_verified(3) [of sig sg constructEvent body secret ev] by simp
qed

text \<open>
  C18: only a genuine event changes anything. When the state after the call differs, the request
  carried a signature that Stripe's check accepts for this body under the configured secret, and
  the event was a paid checkout or an expired one; what changes is then confined to deposits,
  and to wallets, ledger, outbox and cache in the paid case.
\<close>

theorem webhook_needs_signature:
  assumes "handleWebhook constructEvent secret g s body sig = (r, s')" "s' \<noteq> s"
  shows "\<exists>sg ev. sig = Some sg \<and> sg \<noteq> [] \<and> constructEvent body sg secret = Inr ev
    \<and> (ev_type ev = ''checkout.session.completed'' \<and> ev_payment_status ev = Some ''paid''
       \<or> ev_type ev = ''checkout.session.expired''
         \<and> s' = s\<lparr>app_db := (app_db s)\<lparr>db_transactions := db_transactions (app_db s')\<rparr>\<rparr>)"
proof (rule handleWebhook_split [OF assms(1)])
  fix sg ev
  assume v: "sig = Some sg" "sg \<noteq> []" "constructEvent body sg secret = Inr ev"
    and e: "ev_type ev = ''checkout.session.expired''"
      "(r, s') = bindS (failByProviderRef g s (ev_object_id ev) ''Checkout session expired'') (\<lambda>_ s1. (Inr True, s1))"
  obtain x where x: "failByProviderRef g s (ev_object_id ev) ''Checkout session expired'' = (x, s')"
    using e(2) by (cases "failByProviderRef g s (ev_object_id ev) ''Checkout session expired''")
      (auto simp: bindS_def split: sum.splits)
  have "s' = s\<lparr>app_db := (app_db s)\<lparr>db_transactions := db_transactions (app_db s')\<rparr>\<rparr>"
    using x assms(2)
    by (auto simp: failByProviderRef_def update_db_def failTransaction_def split: option.splits if_splits)
  with v e(1) show ?thesis by blast
qed (use assms(2) in auto)

text \<open>
  The life cycle of a deposit. A webhook call never removes or reorders deposits, never
  changes the key or amount of one, and moves its status only from \<open>PENDING\<close> to a final state.
\<close>

theorem webhook_status_advances:
  assumes "db_ok (app_db s)"
  shows "list_all2 advances (db_transactions (app_db s))
    (db_transactions (app_db (snd (handleWebhook constructEvent secret g s body sig))))"
proof -
  obtain r s' where h: "handleWebhook constructEvent secret g s body sig = (r, s')" by (rule prod.exhaust)
  have "list_all2 advances (db_transactions (app_db s)) (db_transactions (app_db s'))"
  proof (rule handleWebhook_split [OF h])
    fix sg ev
    assume "(r, s') = bindS (settleByProviderRef g s (ev_object_id ev)) (\<lambda>_ s1. (Inr True, s1))"
    then obtain x where x: "settleByProviderRef g s (ev_object_id ev) = (x, s')"
      by (cases "settleByProviderRef g s (ev_object_id ev)") (auto simp: bindS_def split: sum.splits)
    show ?thesis
    proof (rule settleByProviderRef_split [OF x])
      fix t w e d'
      assume t: "findTransactionByProviderRef (app_db s) (ev_object_id ev) = Some t" "txn_status t = TxnPending"
        and st: "settleTransaction g (entity_id w) t LedgerDeposit (to_double (txn_amount t))
         (buildOutboxPayload g DepositSucceeded (entity_id w) (txn_user_id t) (to_double (txn_amount t))
            (txn_currency t) (getUserEmail (app_db s) (txn_user_id t))) (app_db s) = Inr (e, d')"
        and s': "s' = invalidateBalanceCache (s\<lparr>app_db := d'\<rparr>) (txn_user_id t) (txn_currency t)"
      have "app_db s' = d'" by (simp add: s' invalidateBalanceCache_def)
      then show ?thesis
        unfolding settleTransaction_transactions(1) [OF st] using ref_found(1) [OF t(1)] t(2) assms
        by (simp add: settleTransaction_transactions(1) [OF st] advances_update)
    qed simp
  next
    fix sg ev
    assume "(r, s') = bindS (failByProviderRef g s (ev_object_id ev) ''Checkout session expired'') (\<lambda>_ s1. (Inr True, s1))"
    then obtain x where x: "failByProviderRef g s (ev_object_id ev) ''Checkout session expired'' = (x, s')"
      by (cases "failByProviderRef g s (ev_object_id ev) ''Checkout session expired''")
        (auto simp: bindS_def split: sum.splits)
    show ?thesis
    proof (cases "s' = s")
      case False
      with x obtain t where t: "findTransactionByProviderRef (app_db s) (ev_object_id ev) = Some t"
          "txn_status t = TxnPending" "s' = s\<lparr>app_db := failTransaction g t ''Checkout session expired'' (app_db s)\<rparr>"
        by (auto simp: failByProviderRef_def update_db_def split: option.splits if_splits)
      then show ?thesis
        using ref_found(1) [OF t(1)] assms by (simp add: failTransaction_def advances_update)
    qed simp
  qed auto
  then show ?thesis by (simp add: h)
qed

section \<open>A concrete event\<close>

text \<open>A secret and a check that accepts one signature, for the closed examples.\<close>

definition demo_check :: "string \<Rightarrow> string \<Rightarrow> string \<Rightarrow> error + stripe_event" where
  "demo_check body sg secret =
     (if sg = ''good'' then Inr \<lparr>ev_id = ''evt'', ev_type = ''checkout.session.completed'',
        ev_object_id = ''cs_2'', ev_payment_status = Some ''paid''\<rparr>
      else Inl (ProviderError ''signature''))"

lemma demo_webhook:
  "handleWebhook demo_check ''whsec'' (demo_ambient ''s'' 9) demo_app ''{}'' (Some ''good'') = (Inr True, demo_settled)"
  by (simp add: handleWebhook_def demo_check_def demo_settle)

theorem webhook_redelivery_witness:
  "handleWebhook demo_check ''whsec'' (demo_ambient ''r'' 11) demo_settled ''{}'' (Some ''good'')
   = (Inr True, demo_settled)"
  by (rule webhook_redelivery [OF demo_webhook])

lemma demo_settled_differs: "demo_settled \<noteq> demo_app"
proof
  assume "demo_settled = demo_app"
  from arg_cong [OF this, of "\<lambda>s. length (db_ledger (app_db s))"] show False
    by (simp add: demo_settled_def demo_settled_db_def)
qed

theorem webhook_needs_signature_witness:
  "\<exists>sg ev. demo_check ''{}'' sg ''whsec'' = Inr ev"
  using webhook_needs_signature [OF demo_webhook demo_settled_differs] by auto

theorem webhook_status_advances_witness:
  "list_all2 advances [paid_deposit, open_deposit] (db_transactions (app_db demo_settled))"
  using webhook_status_advances [of demo_app demo_check "''whsec''" "demo_ambient ''s'' 9" "''{}''" "Some ''good''"]
    demo_db_ok demo_webhook by simp

section \<open>Two events of one session\<close>

text \<open>
  The status check and the write of the expiry handler are two statements. When a session
  is paid between them, the handler, which still holds the row as it read it, marks the paid
  deposit as failed: the wallet stays credited and the ledger keeps the entry.
\<close>

theorem late_expiry_fails_paid_deposit:
  assumes "findTransactionByProviderRef (app_db s) ref = Some t" "txn_status t = TxnPending"
    and "findByUserIdAndCurrency (app_db s) (txn_user_id t) (txn_currency t) = Some w"
    and "settleByProviderRef g s ref = (Inr (), s')" "money_ok (app_db s)" "in_range (app_db s')"
  shows "failByProviderRef g' s ref reason = update_db (failTransaction g' t reason) s
    \<and> total_balance (failTransaction g' t reason (app_db s')) = total_balance (app_db s) + txn_amount t
    \<and> (\<exists>x. findTransactionByProviderRef (failTransaction g' t reason (app_db s')) ref = Some x
           \<and> txn_status x = TxnFailed)"
proof (rule settleByProviderRef_split [OF assms(4)])
  assume "Inr () = Inr () \<Longrightarrow> (\<forall>t. findTransactionByProviderRef (app_db s) ref = Some t \<longrightarrow> txn_status t = TxnPending
         \<longrightarrow> findByUserIdAndCurrency (app_db s) (txn_user_id t) (txn_currency t) = None)"
  with assms(1-3) show ?thesis by auto
next
  fix t' w' e d'
  assume "findTransactionByProviderRef (app_db s) ref = Some t'"
    and "findByUserIdAndCurrency (app_db s) (txn_user_id t') (txn_currency t') = Some w'"
    and st: "settleTransaction g (entity_id w') t' LedgerDeposit (to_double (txn_amount t'))
         (buildOutboxPayload g DepositSucceeded (entity_id w') (txn_user_id t') (to_double (txn_amount t'))
            (txn_currency t') (getUserEmail (app_db s) (txn_user_id t'))) (app_db s) = Inr (e, d')"
    and s': "s' = invalidateBalanceCache (s\<lparr>app_db := d'\<rparr>) (txn_user_id t') (txn_currency t')"
  with assms(1,3) have eq: "t' = t" "w' = w" by auto
  have db': "app_db s' = d'" by (simp add: s' invalidateBalanceCache_def)
  have "total_balance d' = total_balance (app_db s) + txn_amount t"
    using settle_effect(5) [OF st [unfolded eq] assms(5) _ owner_wallet_found [OF assms(3)] ref_found(1) [OF assms(1)]]
      assms(6) db' by simp
  then have total: "total_balance (failTransaction g' t reason d') = total_balance (app_db s) + txn_amount t"
    by (simp add: failTransaction_def total_balance_def)
  note upd = settleTransaction_transactions [OF st [unfolded eq]]
  let ?t = "t\<lparr>txn_status := TxnCompleted, updated_at := clock g\<rparr>"
  have "findTransactionByProviderRef d' ref = Some ?t"
    by (rule find_ref_update [OF assms(1) upd(2,1)]) simp
  then have "findTransactionByProviderRef (failTransaction g' t reason d') ref
      = Some ((\<lambda>x. x\<lparr>txn_status := TxnFailed, txn_failure_reason := Some reason, updated_at := clock g'\<rparr>) ?t)"
    by (rule find_ref_update) (simp_all add: failTransaction_def)
  with total assms(1,2) show ?thesis by (simp add: db' failByProviderRef_def)
qed

theorem late_expiry_fails_paid_deposit_witness:
  "total_balance (failTransaction (demo_ambient ''f'' 12) open_deposit ''Checkout session expired'' (app_db demo_settled))
   = 15000"
  using late_expiry_fails_paid_deposit [of demo_app, OF _ _ _ demo_settle _ demo_settled_in_range,
      of open_deposit alice_wallet] demo_money(7)
  by (simp add: money_ok_def demo_db_ok demo_money)

end
