(* ===== verification/Deposits.thy ===== *)
theory Deposits
  imports Webhook
begin

text \<open>
  The deposit handler: what it records on every way out, with any gateway and with the Stripe
  gateway behind a breaker, what a repeated request gets, and the way from a request over the
  payment to the credited wallet.
\<close>

section \<open>The rows of the handler\<close>

lemma createTransaction_frame:
  "createTransaction g d uid ty a cur pm key = Inr (t, d') \<Longrightarrow>
   d' = d\<lparr>db_transactions := db_transactions d @ [t]\<rparr>
   \<and> (\<forall>x\<in>set (db_transactions d). \<not> transaction_conflict (db_coll d) x t)"
  by (auto dest!: createTransaction_Inr insert_transaction_Inr)

text \<open>An update of the row just inserted touches no other row.\<close>

lemma update_new_transaction:
  assumes "createTransaction g d uid ty a cur pm key = Inr (t, d1)"
  shows "update_where (has_id d1 (entity_id t)) f (db_transactions d1) = db_transactions d @ [f t]"
proof -
  from createTransaction_frame [OF assms] have d1: "d1 = d\<lparr>db_transactions := db_transactions d @ [t]\<rparr>"
    and nc: "\<forall>x\<in>set (db_transactions d). \<not> transaction_conflict (db_coll d) x t" by auto
  from nc have "\<forall>x\<in>set (db_transactions d). \<not> has_id d1 (entity_id t) x"
    by (auto simp: transaction_conflict_def has_id_def same_def d1)
  then have "update_where (has_id d1 (entity_id t)) f (db_transactions d) = db_transactions d"
    by (intro update_where_none) simp
  moreover have "has_id d1 (entity_id t) t" by (simp add: has_id_def same_def)
  ultimately show ?thesis by (simp add: d1 update_where_def)
qed

definition with_deposit :: "app \<Rightarrow> transaction \<Rightarrow> app" where
  "with_deposit s t = s\<lparr>app_db := (app_db s)\<lparr>db_transactions := db_transactions (app_db s) @ [t]\<rparr>\<rparr>"

text \<open>The deposit row of a request, before the gateway was asked.\<close>

definition new_deposit :: "ambient \<Rightarrow> string \<Rightarrow> deposit_input \<Rightarrow> transaction" where
  "new_deposit g uid inp = \<lparr>entity_id = uuid g 0, created_at = clock g, updated_at = clock g,
     txn_user_id = uid, txn_type = TxnDeposit, txn_amount = dep_amount inp,
     txn_currency = dep_currency inp, txn_payment_method = dep_paymentMethod inp,
     txn_status = TxnPending, txn_key = dep_idempotencyKey inp, txn_provider_ref = None,
     txn_failure_reason = None\<rparr>"

lemma new_deposit_simps [simp]:
  "entity_id (new_deposit g uid inp) = uuid g 0" "txn_status (new_deposit g uid inp) = TxnPending"
  "txn_key (new_deposit g uid inp) = dep_idempotencyKey inp"
  "txn_amount (new_deposit g uid inp) = dep_amount inp" "txn_user_id (new_deposit g uid inp) = uid"
  "txn_currency (new_deposit g uid inp) = dep_currency inp"
  "txn_provider_ref (new_deposit g uid inp) = None"
  by (simp_all add: new_deposit_def)

lemma createTransaction_new:
  "createTransaction g d uid TxnDeposit (dep_amount inp) (dep_currency inp) (dep_paymentMethod inp)
     (dep_idempotencyKey inp) = Inr (t, d1) \<Longrightarrow> t = new_deposit g uid inp"
  by (auto simp: createTransaction_def Let_def bindR_Inr_iff new_deposit_def)

lemma createTransaction_Inl:
  "createTransaction g d uid ty a cur pm key = Inl e \<Longrightarrow> \<exists>x. e = QueryFailed x"
  by (auto simp: createTransaction_def Let_def bindR_Inl_iff insert_transaction_def insert_row_def
      split: if_splits)

text \<open>The handler, by what the gateway answers.\<close>

lemma deposit_split:
  assumes "deposit g reg s uid inp = (r, s')"
  obtains (early) "s' = s"
      "(\<exists>x. findTransactionByIdempotencyKey (app_db s) (dep_idempotencyKey inp) = Some x \<and> r = Inr None)
       \<or> findTransactionByIdempotencyKey (app_db s) (dep_idempotencyKey inp) = None
         \<and> (findByUserIdAndCurrency (app_db s) uid (dep_currency inp) = None
              \<and> r = Inl (NotFound ''Wallet not found'')
            \<or> (\<exists>e. r = Inl (QueryFailed e)))"
  | (unsupported) e where "s' = with_deposit s (new_deposit g uid inp)"
      "resolve reg (dep_paymentMethod inp) = Inl e" "r = Inl e"
  | (rejected) gw e where "s' = with_deposit s (new_deposit g uid inp)"
      "resolve reg (dep_paymentMethod inp) = Inr gw" "r = Inl e"
      "processDeposit gw (dep_amount inp) (dep_currency inp) (dep_paymentMethod inp)
         [(''transactionId'', uuid g 0), (''userId'', uid)] = Inl e"
  | (declined) gw res t where "s' = with_deposit s t" "resolve reg (dep_paymentMethod inp) = Inr gw"
      "processDeposit gw (dep_amount inp) (dep_currency inp) (dep_paymentMethod inp)
         [(''transactionId'', uuid g 0), (''userId'', uid)] = Inr res"
      "\<not> gw_success res" "r = Inl (BadRequest ''Deposit declined by payment provider'')"
      "t = (new_deposit g uid inp)\<lparr>txn_status := TxnFailed, txn_failure_reason := Some
         (case gw_failureReason res of Some x \<Rightarrow> x | None \<Rightarrow> ''Payment provider declined''), updated_at := clock g\<rparr>"
  | (asked) gw res t where "s' = with_deposit s t" "resolve reg (dep_paymentMethod inp) = Inr gw"
      "processDeposit gw (dep_amount inp) (dep_currency inp) (dep_paymentMethod inp)
         [(''transactionId'', uuid g 0), (''userId'', uid)] = Inr res"
      "gw_success res"
      "t = new_deposit g uid inp \<and> (gw_providerRef res \<in> {None, Some []} \<or> r = Inl (QueryFailed DataTooLong))
       \<or> (\<exists>ref. gw_providerRef res = Some ref \<and> ref \<noteq> []
           \<and> t = (new_deposit g uid inp)\<lparr>txn_provider_ref := Some ref, updated_at := clock g\<rparr>)"
      "r = (if gw_requiresWebhook res = Some True then Inr (gw_checkoutUrl res)
            else Inl (BadRequest ''No settlement path available for gateway''))
       \<or> r = Inl (QueryFailed DataTooLong)"
proof (cases "findTransactionByIdempotencyKey (app_db s) (dep_idempotencyKey inp)")
  case (Some x)
  with assms show ?thesis by (intro early) (auto simp: deposit_def)
next
  case None
  note new = None
  show ?thesis
  proof (cases "findByUserIdAndCurrency (app_db s) uid (dep_currency inp)")
    case None
    with assms new show ?thesis by (intro early) (auto simp: deposit_def)
  next
    case (Some w)
    note w = Some
    show ?thesis
    proof (cases "createTransaction g (app_db s) uid TxnDeposit (dep_amount inp) (dep_currency inp)
        (dep_paymentMethod inp) (dep_idempotencyKey inp)")
      case (Inl e)
      with assms new w createTransaction_Inl [OF Inl] show ?thesis
        by (intro early) (auto simp: deposit_def run_db_def)
    next
      case (Inr x)
      obtain t d1 where x: "x = (t, d1)" by (cases x)
      note cr = Inr [unfolded x]
      have t: "t = new_deposit g uid inp" using createTransaction_new [OF cr] .
      let ?n = "new_deposit g uid inp"
      have d1: "d1 = (app_db s)\<lparr>db_transactions := db_transactions (app_db s) @ [?n]\<rparr>"
        using createTransaction_frame [OF cr] t by simp
      then have s1: "s\<lparr>app_db := d1\<rparr> = with_deposit s ?n" by (simp add: with_deposit_def)
      have upd: "s\<lparr>app_db := d1\<lparr>db_transactions := update_where (has_id d1 (uuid g 0)) f (db_transactions d1)\<rparr>\<rparr>
          = with_deposit s (f ?n)" for f
        using update_new_transaction [OF cr, of f] t d1 by (simp add: with_deposit_def)
      have rd: "run_db (\<lambda>d. createTransaction g d uid TxnDeposit (dep_amount inp) (dep_currency inp)
          (dep_paymentMethod inp) (dep_idempotencyKey inp)) s = (Inr t, s\<lparr>app_db := d1\<rparr>)"
        by (rule run_db_Inr) (rule cr)
      note run = assms [unfolded deposit_def new w option.case rd bindS_simps t]
      show ?thesis
      proof (cases "resolve reg (dep_paymentMethod inp)")
        case (Inl e)
        with run s1 show ?thesis by (intro unsupported [of e]) simp_all
      next
        case (Inr gw)
        note gw = Inr
        show ?thesis
        proof (cases "processDeposit gw (dep_amount inp) (dep_currency inp) (dep_paymentMethod inp)
            [(''transactionId'', uuid g 0), (''userId'', uid)]")
          case (Inl e)
          with run s1 gw show ?thesis by (intro rejected [of gw e]) simp_all
        next
          case (Inr res)
          note res = Inr
          show ?thesis
          proof (cases "gw_success res")
            case False
            with run gw res show ?thesis
              by (intro declined [of _ gw res, OF _ _ _ _ _ refl])
                (simp_all add: failTransaction_def upd)
          next
            case True
            show ?thesis
            proof (cases "\<exists>ref. gw_providerRef res = Some ref \<and> ref \<noteq> []")
              case True
              then obtain ref where ref: "gw_providerRef res = Some ref" "ref \<noteq> []" by blast
              show ?thesis
              proof (cases "fits 255 ref")
                case True
                with run gw res \<open>gw_success res\<close> ref show ?thesis
                  by (intro asked [of _ gw res])
                    (auto simp: updateTransactionProviderRef_def run_db_def upd split: if_splits)
              next
                case False
                with run gw res \<open>gw_success res\<close> ref s1 show ?thesis
                  by (intro asked [of ?n gw res])
                    (auto simp: updateTransactionProviderRef_def run_db_def split: if_splits)
              qed
            next
              case False
              with run gw res \<open>gw_success res\<close> s1 show ?thesis
                by (intro asked [of ?n gw res]) (auto split: if_splits option.splits)
            qed
          qed
        qed
      qed
    qed
  qed
qed

section \<open>What a request records\<close>

lemma with_deposit_simps [simp]:
  "app_db (with_deposit s t) = (app_db s)\<lparr>db_transactions := db_transactions (app_db s) @ [t]\<rparr>"
  "app_cache (with_deposit s t) = app_cache s"
  by (simp_all add: with_deposit_def)

lemma with_deposit_differs: "with_deposit s t \<noteq> s"
proof
  assume "with_deposit s t = s"
  from arg_cong [OF this, of "\<lambda>s. length (db_transactions (app_db s))"] show False by simp
qed

text \<open>The columns of a row that come from the request.\<close>

definition deposit_row :: "ambient \<Rightarrow> string \<Rightarrow> deposit_input \<Rightarrow> transaction \<Rightarrow> bool" where
  "deposit_row g uid inp t \<longleftrightarrow>
     entity_id t = uuid g 0 \<and> created_at t = clock g \<and> txn_user_id t = uid \<and> txn_type t = TxnDeposit
     \<and> txn_amount t = dep_amount inp \<and> txn_currency t = dep_currency inp
     \<and> txn_payment_method t = dep_paymentMethod inp \<and> txn_key t = dep_idempotencyKey inp"

text \<open>The gateway of the request's payment method and its answer to this deposit.\<close>

definition gateway_answer :: "registry \<Rightarrow> string \<Rightarrow> deposit_input \<Rightarrow> transaction \<Rightarrow> gateway_result \<Rightarrow> bool" where
  "gateway_answer reg uid inp t res \<longleftrightarrow>
     (\<exists>gw. resolve reg (dep_paymentMethod inp) = Inr gw
        \<and> processDeposit gw (dep_amount inp) (dep_currency inp) (dep_paymentMethod inp)
            [(''transactionId'', entity_id t), (''userId'', uid)] = Inr res)"

text \<open>There is no gateway for the method, or asking it fails.\<close>

definition gateway_fails :: "registry \<Rightarrow> string \<Rightarrow> deposit_input \<Rightarrow> transaction \<Rightarrow> error \<Rightarrow> bool" where
  "gateway_fails reg uid inp t e \<longleftrightarrow> resolve reg (dep_paymentMethod inp) = Inl e
     \<or> (\<exists>gw. resolve reg (dep_paymentMethod inp) = Inr gw
        \<and> processDeposit gw (dep_amount inp) (dep_currency inp) (dep_paymentMethod inp)
            [(''transactionId'', entity_id t), (''userId'', uid)] = Inl e)"

text \<open>
  C19: a deposit request never moves money. On every way out, with any gateway, it leaves the
  whole state as it was except for at most one new row. No row is written only when the key is
  known already, and the answer is then the one of an accepted request without a URL, or when the
  request is refused. A row written is a deposit with exactly the request's owner, amount, currency,
  payment method and key. It is failed, with a reason, when the gateway of that method declined.
  Otherwise it is pending without a reason. Either there is no gateway or asking it failed, and that
  error is the answer; or the gateway, asked for this amount, currency and method under the id of
  the row, took it, and the answer is its checkout URL or an error. A provider reference on the row
  is the gateway's own.
\<close>

theorem deposit_only_records:
  "(snd (deposit g reg s uid inp) = s
      \<and> (findTransactionByIdempotencyKey (app_db s) (dep_idempotencyKey inp) \<noteq> None
           \<and> fst (deposit g reg s uid inp) = Inr None
         \<or> (\<exists>e. fst (deposit g reg s uid inp) = Inl e)))
   \<or> (\<exists>t. snd (deposit g reg s uid inp) = with_deposit s t \<and> deposit_row g uid inp t
        \<and> (txn_status t = TxnFailed \<and> txn_failure_reason t \<noteq> None \<and> txn_provider_ref t = None
             \<and> fst (deposit g reg s uid inp) = Inl (BadRequest ''Deposit declined by payment provider'')
             \<and> (\<exists>res. gateway_answer reg uid inp t res \<and> gw_success res = False)
           \<or> txn_status t = TxnPending \<and> txn_failure_reason t = None
             \<and> (txn_provider_ref t = None
                  \<and> (\<exists>e. gateway_fails reg uid inp t e \<and> fst (deposit g reg s uid inp) = Inl e)
                \<or> (\<exists>res. gateway_answer reg uid inp t res \<and> gw_success res
                     \<and> txn_provider_ref t \<in> {None, gw_providerRef res}
                     \<and> (fst (deposit g reg s uid inp) = Inr (gw_checkoutUrl res)
                        \<or> (\<exists>e. fst (deposit g reg s uid inp) = Inl e))))))"
proof -
  obtain r s' where d: "deposit g reg s uid inp = (r, s')" by (rule prod.exhaust)
  then have f: "fst (deposit g reg s uid inp) = r" "snd (deposit g reg s uid inp) = s'" by simp_all
  have n: "deposit_row g uid inp (new_deposit g uid inp)" "txn_failure_reason (new_deposit g uid inp) = None"
    by (simp_all add: deposit_row_def new_deposit_def)
  show ?thesis
  proof (rule deposit_split [OF d])
    assume "s' = s"
      "(\<exists>x. findTransactionByIdempotencyKey (app_db s) (dep_idempotencyKey inp) = Some x \<and> r = Inr None)
       \<or> findTransactionByIdempotencyKey (app_db s) (dep_idempotencyKey inp) = None
         \<and> (findByUserIdAndCurrency (app_db s) uid (dep_currency inp) = None
              \<and> r = Inl (NotFound ''Wallet not found'') \<or> (\<exists>e. r = Inl (QueryFailed e)))"
    then show ?thesis using f by (intro disjI1) auto
  next
    fix e
    assume a: "s' = with_deposit s (new_deposit g uid inp)" "resolve reg (dep_paymentMethod inp) = Inl e" "r = Inl e"
    then have "gateway_fails reg uid inp (new_deposit g uid inp) e" by (simp add: gateway_fails_def)
    then show ?thesis using a f n by (intro disjI2 exI [of _ "new_deposit g uid inp"]) simp
  next
    fix gw e
    assume a: "s' = with_deposit s (new_deposit g uid inp)" "resolve reg (dep_paymentMethod inp) = Inr gw"
      "r = Inl e" "processDeposit gw (dep_amount inp) (dep_currency inp) (dep_paymentMethod inp)
         [(''transactionId'', uuid g 0), (''userId'', uid)] = Inl e"
    then have "gateway_fails reg uid inp (new_deposit g uid inp) e" by (simp add: gateway_fails_def)
    then show ?thesis using a f n by (intro disjI2 exI [of _ "new_deposit g uid inp"]) simp
  next
    fix gw res t
    assume a: "s' = with_deposit s t" "resolve reg (dep_paymentMethod inp) = Inr gw"
      "processDeposit gw (dep_amount inp) (dep_currency inp) (dep_paymentMethod inp)
         [(''transactionId'', uuid g 0), (''userId'', uid)] = Inr res"
      "\<not> gw_success res" "r = Inl (BadRequest ''Deposit declined by payment provider'')"
      "t = (new_deposit g uid inp)\<lparr>txn_status := TxnFailed, txn_failure_reason := Some
         (case gw_failureReason res of Some x \<Rightarrow> x | None \<Rightarrow> ''Payment provider declined''), updated_at := clock g\<rparr>"
    then have "gateway_answer reg uid inp t res" by (simp add: gateway_answer_def)
    then show ?thesis using a f n(1) by (intro disjI2 exI [of _ t]) (auto simp: deposit_row_def)
  next
    fix gw res t
    assume a: "s' = with_deposit s t" "resolve reg (dep_paymentMethod inp) = Inr gw"
      "processDeposit gw (dep_amount inp) (dep_currency inp) (dep_paymentMethod inp)
         [(''transactionId'', uuid g 0), (''userId'', uid)] = Inr res"
      "gw_success res"
      "t = new_deposit g uid inp \<and> (gw_providerRef res \<in> {None, Some []} \<or> r = Inl (QueryFailed DataTooLong))
       \<or> (\<exists>ref. gw_providerRef res = Some ref \<and> ref \<noteq> []
           \<and> t = (new_deposit g uid inp)\<lparr>txn_provider_ref := Some ref, updated_at := clock g\<rparr>)"
      "r = (if gw_requiresWebhook res = Some True then Inr (gw_checkoutUrl res)
            else Inl (BadRequest ''No settlement path available for gateway''))
       \<or> r = Inl (QueryFailed DataTooLong)"
    from a(5) have t: "deposit_row g uid inp t" "txn_failure_reason t = None" "txn_status t = TxnPending"
        "txn_provider_ref t \<in> {None, gw_providerRef res}"
      using n by (auto simp: deposit_row_def)
    moreover from t(1) a(2,3) have "gateway_answer reg uid inp t res"
      by (auto simp: gateway_answer_def deposit_row_def)
    moreover have "r = Inr (gw_checkoutUrl res) \<or> (\<exists>e. r = Inl e)" using a(6) by (auto split: if_splits)
    ultimately show ?thesis using a(1,4) f by (intro disjI2 exI [of _ t]) blast
  qed
qed

text \<open>A key that was stored is found again.\<close>

lemma recorded_key_found:
  assumes "same (app_db s) (txn_key t) k"
  shows "findTransactionByIdempotencyKey (app_db (with_deposit s t)) k \<noteq> None"
  using assms by (auto simp: findTransactionByIdempotencyKey_def find_None same_def)

text \<open>
  What becomes of a deposit that was refused. Whenever a request failed after its row was
  stored (an unknown payment method, Stripe or the breaker refusing, a declined payment), the
  same request sent again is answered as accepted without a checkout URL, and nothing happens:
  the gateway is not asked again.
\<close>

theorem refused_deposit_replay_accepted:
  assumes "deposit g reg s uid inp = (Inl e, s')" "s' \<noteq> s"
    and "dep_idempotencyKey inp' = dep_idempotencyKey inp"
  shows "deposit g' reg' s' uid' inp' = (Inr None, s')"
proof -
  obtain t where t: "s' = with_deposit s t" "txn_key t = dep_idempotencyKey inp"
    by (rule deposit_split [OF assms(1)]) (use assms(2) in auto)
  have "findTransactionByIdempotencyKey (app_db s') (dep_idempotencyKey inp') \<noteq> None"
    unfolding t(1) by (rule recorded_key_found) (simp add: t assms(3) same_def)
  then show ?thesis by (auto simp: deposit_def)
qed

section \<open>Deposits through Stripe\<close>

definition stripe_registry ::
    "(opossum_options \<Rightarrow> (unit \<Rightarrow> error + gateway_result) \<Rightarrow> error + gateway_result)
     \<Rightarrow> (session_request \<Rightarrow> error + checkout_session) \<Rightarrow> string option \<Rightarrow> string option \<Rightarrow> registry" where
  "stripe_registry fire create su cu = PaymentGatewayRegistry [StripePaymentGateway fire create su cu]"

lemma stripe_resolve:
  "resolve (stripe_registry fire create su cu) m =
     (if m = ''stripe'' then Inr (StripePaymentGateway fire create su cu)
      else Inl (BadRequest (''Unsupported payment method: '' @ m)))"
  by (auto simp: stripe_registry_def resolve_def registry_lookup StripePaymentGateway_def)

text \<open>A result of the gateway is the session Stripe created for this request.\<close>

lemma stripe_result:
  assumes "transparent_breaker fire"
    and "processDeposit (StripePaymentGateway fire create su cu) n cur m md = Inr res"
  obtains ses where "create (stripe_request su cu n cur md) = Inr ses"
    "gw_success res" "gw_requiresWebhook res = Some True" "gw_providerRef res = Some (session_id ses)"
    "gw_checkoutUrl res = session_url ses"
proof -
  have "bindR (create (stripe_request su cu n cur md)) (\<lambda>session.
       Inr \<lparr>gw_success = True, gw_providerRef = Some (session_id session),
            gw_checkoutUrl = session_url session, gw_requiresWebhook = Some True,
            gw_failureReason = None\<rparr>) = Inr res"
    using assms unfolding StripePaymentGateway_def transparent_breaker_def by fastforce
  then show ?thesis by (auto simp: bindR_Inr_iff intro: that)
qed

lemma stripe_deposit_split:
  assumes "deposit g (stripe_registry fire create su cu) s uid inp = (Inr u, s')" "transparent_breaker fire"
    and "findTransactionByIdempotencyKey (app_db s) (dep_idempotencyKey inp) = None"
  obtains ses t where
    "create (stripe_request su cu (dep_amount inp) (dep_currency inp)
        [(''transactionId'', uuid g 0), (''userId'', uid)]) = Inr ses"
    "u = session_url ses" "s' = with_deposit s t"
    "session_id ses = [] \<Longrightarrow> t = new_deposit g uid inp"
    "session_id ses \<noteq> [] \<Longrightarrow>
       t = (new_deposit g uid inp)\<lparr>txn_provider_ref := Some (session_id ses), updated_at := clock g\<rparr>"
proof (rule deposit_split [OF assms(1)])
  assume "(\<exists>x. findTransactionByIdempotencyKey (app_db s) (dep_idempotencyKey inp) = Some x \<and> Inr u = Inr None)
       \<or> findTransactionByIdempotencyKey (app_db s) (dep_idempotencyKey inp) = None
         \<and> (findByUserIdAndCurrency (app_db s) uid (dep_currency inp) = None
              \<and> Inr u = Inl (NotFound ''Wallet not found'') \<or> (\<exists>e. Inr u = Inl (QueryFailed e)))"
  with assms(3) show ?thesis by auto
next
  fix gw res t
  assume a: "s' = with_deposit s t" "resolve (stripe_registry fire create su cu) (dep_paymentMethod inp) = Inr gw"
    "processDeposit gw (dep_amount inp) (dep_currency inp) (dep_paymentMethod inp)
       [(''transactionId'', uuid g 0), (''userId'', uid)] = Inr res"
    "t = new_deposit g uid inp \<and> (gw_providerRef res \<in> {None, Some []} \<or> Inr u = Inl (QueryFailed DataTooLong))
       \<or> (\<exists>ref. gw_providerRef res = Some ref \<and> ref \<noteq> []
           \<and> t = (new_deposit g uid inp)\<lparr>txn_provider_ref := Some ref, updated_at := clock g\<rparr>)"
    "Inr u = (if gw_requiresWebhook res = Some True then Inr (gw_checkoutUrl res)
            else Inl (BadRequest ''No settlement path available for gateway'')) \<or> Inr u = Inl (QueryFailed DataTooLong)"
  from a(2) have gw: "gw = StripePaymentGateway fire create su cu"
    by (simp add: stripe_resolve split: if_splits)
  show ?thesis
  proof (rule stripe_result [OF assms(2) a(3) [unfolded gw]])
    fix ses
    assume "create (stripe_request su cu (dep_amount inp) (dep_currency inp)
        [(''transactionId'', uuid g 0), (''userId'', uid)]) = Inr ses" "gw_success res"
      "gw_requiresWebhook res = Some True" "gw_providerRef res = Some (session_id ses)"
      "gw_checkoutUrl res = session_url ses"
    with a show ?thesis by (intro that [of ses t]) auto
  qed
qed auto

lemma stripe_deposit_refused:
  assumes "deposit g (stripe_registry fire create su cu) s uid inp = (Inl e, s')" "transparent_breaker fire"
  shows "e = NotFound ''Wallet not found'' \<or> (\<exists>x. e = QueryFailed x)
    \<or> dep_paymentMethod inp \<noteq> ''stripe'' \<and> e = BadRequest (''Unsupported payment method: '' @ dep_paymentMethod inp)
    \<or> processDeposit (StripePaymentGateway fire create su cu) (dep_amount inp) (dep_currency inp) ''stripe''
        [(''transactionId'', uuid g 0), (''userId'', uid)] = Inl e"
proof (rule deposit_split [OF assms(1)])
  fix gw res t
  assume a: "resolve (stripe_registry fire create su cu) (dep_paymentMethod inp) = Inr gw"
    "processDeposit gw (dep_amount inp) (dep_currency inp) (dep_paymentMethod inp)
       [(''transactionId'', uuid g 0), (''userId'', uid)] = Inr res"
    "Inl e = (if gw_requiresWebhook res = Some True then Inr (gw_checkoutUrl res)
            else Inl (BadRequest ''No settlement path available for gateway'')) \<or> Inl e = Inl (QueryFailed DataTooLong)"
  from a(1) have "gw = StripePaymentGateway fire create su cu" by (simp add: stripe_resolve split: if_splits)
  with a(2) have "gw_requiresWebhook res = Some True"
    using webhook_gateway.result [OF stripe_webhook_gateway [OF assms(2)]] by blast
  with a(3) show ?thesis by auto
next
  fix gw res t
  assume a: "resolve (stripe_registry fire create su cu) (dep_paymentMethod inp) = Inr gw"
    "processDeposit gw (dep_amount inp) (dep_currency inp) (dep_paymentMethod inp)
       [(''transactionId'', uuid g 0), (''userId'', uid)] = Inr res" "\<not> gw_success res"
  from a(1) have "gw = StripePaymentGateway fire create su cu" by (simp add: stripe_resolve split: if_splits)
  with a(2) have "gw_success res"
    using webhook_gateway.not_declined [OF stripe_webhook_gateway [OF assms(2)]] by blast
  with a(3) show ?thesis by simp
qed (auto simp: stripe_resolve split: if_splits)

text \<open>
  A deposit under a new key with Stripe. When it is accepted, the answer carries the URL of
  the session Stripe created for exactly this amount and currency, with the id of the stored row
  in its metadata, and the row is pending and carries the session's id. When it is refused, the
  reason is a missing wallet, a refused row, another payment method or an error of the Stripe
  call: the answers ``declined'' and ``no settlement path'' never come from the handler.
\<close>

theorem stripe_deposit_outcome:
  assumes "transparent_breaker fire" "deposit g (stripe_registry fire create su cu) s uid inp = (r, s')"
    and "findTransactionByIdempotencyKey (app_db s) (dep_idempotencyKey inp) = None"
  shows "case r of
      Inr url \<Rightarrow> (\<exists>ses t. create (stripe_request su cu (dep_amount inp) (dep_currency inp)
            [(''transactionId'', entity_id t), (''userId'', uid)]) = Inr ses
          \<and> url = session_url ses \<and> s' = with_deposit s t \<and> txn_status t = TxnPending
          \<and> txn_amount t = dep_amount inp \<and> txn_key t = dep_idempotencyKey inp
          \<and> (session_id ses \<noteq> [] \<longrightarrow> txn_provider_ref t = Some (session_id ses)))
    | Inl e \<Rightarrow> e = NotFound ''Wallet not found'' \<or> (\<exists>x. e = QueryFailed x)
        \<or> dep_paymentMethod inp \<noteq> ''stripe'' \<and> e = BadRequest (''Unsupported payment method: '' @ dep_paymentMethod inp)
        \<or> processDeposit (StripePaymentGateway fire create su cu) (dep_amount inp) (dep_currency inp) ''stripe''
            [(''transactionId'', uuid g 0), (''userId'', uid)] = Inl e"
proof (cases r)
  case (Inl e)
  with stripe_deposit_refused [OF assms(2) [unfolded Inl] assms(1)] show ?thesis by simp
next
  case (Inr u)
  show ?thesis
  proof (rule stripe_deposit_split [OF assms(2) [unfolded Inr] assms(1,3)])
    fix ses t
    assume a: "create (stripe_request su cu (dep_amount inp) (dep_currency inp)
        [(''transactionId'', uuid g 0), (''userId'', uid)]) = Inr ses"
      "u = session_url ses" "s' = with_deposit s t"
      "session_id ses = [] \<Longrightarrow> t = new_deposit g uid inp"
      "session_id ses \<noteq> [] \<Longrightarrow>
         t = (new_deposit g uid inp)\<lparr>txn_provider_ref := Some (session_id ses), updated_at := clock g\<rparr>"
    show ?thesis
      unfolding Inr sum.case
      by (rule exI [of _ ses], rule exI [of _ t], cases "session_id ses = []") (use a in simp_all)
  qed
qed

section \<open>A concrete deposit\<close>

text \<open>Alice asks to deposit 30 EUR; Stripe is up, or cannot be reached.\<close>

definition demo_deposit_input :: deposit_input where
  "demo_deposit_input = \<lparr>dep_amount = 3000, dep_currency = ''EUR'', dep_paymentMethod = ''stripe'',
     dep_idempotencyKey = ''dep-3''\<rparr>"

definition demo_session :: "session_request \<Rightarrow> error + checkout_session" where
  "demo_session req = Inr \<lparr>session_id = ''cs_3'', session_url = Some ''https://pay/cs_3''\<rparr>"

definition demo_outage :: "session_request \<Rightarrow> error + checkout_session" where
  "demo_outage req = Inl (ProviderError ''StripeConnectionError'')"

definition demo_opened :: transaction where
  "demo_opened = (new_deposit (demo_ambient ''d'' 8) ''u1'' demo_deposit_input)
     \<lparr>txn_provider_ref := Some ''cs_3'', updated_at := 8\<rparr>"

lemma demo_deposit_row:
  "run_db (\<lambda>d. createTransaction (demo_ambient ''d'' 8) d ''u1'' TxnDeposit 3000 ''EUR'' ''stripe'' ''dep-3'') demo_app
   = (Inr (new_deposit (demo_ambient ''d'' 8) ''u1'' demo_deposit_input),
      with_deposit demo_app (new_deposit (demo_ambient ''d'' 8) ''u1'' demo_deposit_input))"
  by (simp add: run_db_def createTransaction_def Let_def insert_transaction_def insert_row_def fits_def
      bigint_ok_def new_deposit_def demo_deposit_input_def with_deposit_def transaction_conflict_def
      demo_rows demo_ambient_def)

lemma demo_deposit_reads: "findTransactionByIdempotencyKey demo_db ''dep-3'' = None"
  by (simp add: findTransactionByIdempotencyKey_def demo_rows)

lemma demo_deposit_open:
  "deposit (demo_ambient ''d'' 8) (stripe_registry closed_breaker demo_session None None) demo_app ''u1''
     demo_deposit_input = (Inr (Some ''https://pay/cs_3''), with_deposit demo_app demo_opened)"
proof -
  have u: "run_db (\<lambda>d. updateTransactionProviderRef (demo_ambient ''d'' 8) d ''d'' ''cs_3'')
      (with_deposit demo_app (new_deposit (demo_ambient ''d'' 8) ''u1'' demo_deposit_input))
      = (Inr (), with_deposit demo_app demo_opened)"
    by (simp add: run_db_def updateTransactionProviderRef_def fits_def with_deposit_def update_where_def
        has_id_def same_def demo_rows demo_ambient_def demo_opened_def demo_db_def new_deposit_def)
  show ?thesis
    using demo_deposit_row u demo_deposit_reads
    by (simp add: deposit_def stripe_resolve StripePaymentGateway_def closed_breaker_def demo_session_def
        demo_deposit_input_def) (simp add: demo_ambient_def)
qed

lemma demo_deposit_outage:
  "deposit (demo_ambient ''d'' 8) (stripe_registry closed_breaker demo_outage None None) demo_app ''u1''
     demo_deposit_input = (Inl (ProviderError ''StripeConnectionError''),
       with_deposit demo_app (new_deposit (demo_ambient ''d'' 8) ''u1'' demo_deposit_input))"
  using demo_deposit_row demo_deposit_reads
  by (simp add: deposit_def stripe_resolve StripePaymentGateway_def closed_breaker_def demo_outage_def
      demo_deposit_input_def)

theorem refused_deposit_replay_accepted_witness:
  "deposit (demo_ambient ''e'' 9) (stripe_registry closed_breaker demo_session None None)
     (with_deposit demo_app (new_deposit (demo_ambient ''d'' 8) ''u1'' demo_deposit_input)) ''u1'' demo_deposit_input
   = (Inr None, with_deposit demo_app (new_deposit (demo_ambient ''d'' 8) ''u1'' demo_deposit_input))"
  by (rule refused_deposit_replay_accepted [OF demo_deposit_outage with_deposit_differs refl])

theorem stripe_deposit_outcome_witness:
  "\<exists>ses t. demo_session (stripe_request None None 3000 ''EUR'' [(''transactionId'', entity_id t), (''userId'', ''u1'')])
       = Inr ses \<and> Some ''https://pay/cs_3'' = session_url ses
     \<and> with_deposit demo_app demo_opened = with_deposit demo_app t \<and> txn_provider_ref t = Some ''cs_3''"
proof -
  have new: "findTransactionByIdempotencyKey (app_db demo_app) (dep_idempotencyKey demo_deposit_input) = None"
    using demo_deposit_reads by (simp add: demo_deposit_input_def)
  have i: "dep_amount demo_deposit_input = 3000" "dep_currency demo_deposit_input = ''EUR''"
    by (simp_all add: demo_deposit_input_def)
  have s: "session_id ses = ''cs_3''" if "demo_session req = Inr ses" for req ses
    using that by (auto simp: demo_session_def)
  from stripe_deposit_outcome [OF closed_breaker_transparent demo_deposit_open new] i
  obtain ses t where c: "demo_session (stripe_request None None 3000 ''EUR''
        [(''transactionId'', entity_id t), (''userId'', ''u1'')]) = Inr ses"
      "Some ''https://pay/cs_3'' = session_url ses" "with_deposit demo_app demo_opened = with_deposit demo_app t"
      "session_id ses \<noteq> [] \<longrightarrow> txn_provider_ref t = Some (session_id ses)"
    by auto
  with s [OF c(1)] show ?thesis by (intro exI [of _ ses] exI [of _ t]) simp
qed

end
