(* ===== verification/TransferProperties.thy ===== *)
theory TransferProperties
  imports Money
begin

text \<open>
  The properties of transfers: conservation and the exact effect of an executed transfer, the
  same for the service call of an authenticated user, replay under the same idempotency key, and
  what a refused transfer leaves behind.
\<close>

section \<open>The service call\<close>

text \<open>
  Either the call returns early and changes nothing, or it inserts a pending transfer and runs
  the transaction on the two wallets it read.
\<close>

lemma initiateTransfer_split:
  assumes "initiateTransfer g s uid mail inp = (r, s')"
  obtains (early) "s' = s" "r = Inr () \<Longrightarrow> findTransferByIdempotencyKey (app_db s) (ti_idempotencyKey inp) \<noteq> None"
  | (run) tw fw t d1 where
      "findByWalletTag (app_db s) (ti_toWalletTag inp) = Some tw"
      "wallet_currency tw = ti_currency inp" "uid \<noteq> wallet_user_id tw"
      "findTransferByIdempotencyKey (app_db s) (ti_idempotencyKey inp) = None"
      "findByUserIdAndCurrency (app_db s) uid (ti_currency inp) = Some fw"
      "createTransfer g (app_db s) uid (wallet_user_id tw) (ti_amount inp) (ti_currency inp)
         (ti_idempotencyKey inp) = Inr (t, d1)"
      "(r, s') = bindS (run_db (executeTransfer (later g) t (entity_id fw) (entity_id tw)
              (transfer_payload g (app_db s) t uid mail tw inp)) (s\<lparr>app_db := d1\<rparr>))
         (\<lambda>_ s2. (Inr (), invalidateBalanceCache
                   (invalidateBalanceCache s2 uid (ti_currency inp))
                   (wallet_user_id tw) (ti_currency inp)))"
proof (cases "findByWalletTag (app_db s) (ti_toWalletTag inp)")
  case None
  with assms show ?thesis by (intro early) (simp_all add: initiateTransfer_def)
next
  case (Some tw)
  note tw = Some
  show ?thesis
  proof (cases "wallet_currency tw \<noteq> ti_currency inp \<or> uid = wallet_user_id tw")
    case True
    with assms tw show ?thesis by (intro early) (auto simp: initiateTransfer_def split: if_splits)
  next
    case False
    note ok = False
    show ?thesis
    proof (cases "findTransferByIdempotencyKey (app_db s) (ti_idempotencyKey inp)")
      case (Some x)
      with assms tw ok show ?thesis by (intro early) (simp_all add: initiateTransfer_def)
    next
      case None
      note new = None
      show ?thesis
      proof (cases "findByUserIdAndCurrency (app_db s) uid (ti_currency inp)")
        case None
        with assms tw ok new show ?thesis by (intro early) (auto simp: initiateTransfer_def)
      next
        case (Some fw)
        show ?thesis
        proof (cases "createTransfer g (app_db s) uid (wallet_user_id tw) (ti_amount inp)
            (ti_currency inp) (ti_idempotencyKey inp)")
          case (Inl e)
          with assms tw ok new Some show ?thesis
            by (intro early) (auto simp: initiateTransfer_def)
        next
          case (Inr x)
          obtain t d1 where x: "x = (t, d1)" by (cases x)
          show ?thesis
            using assms tw ok new Some Inr
            unfolding x initiateTransfer_def by (intro run [of tw fw t d1]) simp_all
        qed
      qed
    qed
  qed
qed

lemma createTransfer_frame:
  "createTransfer g d a b n cur key = Inr (t, d') \<Longrightarrow>
   d' = d\<lparr>db_transfers := db_transfers d @ [t]\<rparr> \<and> (\<forall>x\<in>set (db_transfers d). \<not> transfer_conflict (db_coll d) x t)"
  by (auto dest!: createTransfer_Inr insert_transfer_Inr)

section \<open>Conservation\<close>

lemma transfer_wallets:
  assumes "db_ok d" "fw \<in> set (db_wallets d)" "tw \<in> set (db_wallets d)"
    and "\<not> same d (entity_id fw) (entity_id tw)"
  shows "db_wallets (transfer_posts g t fw tw d) =
    map (\<lambda>w. if w = fw then set_balance (clock g) (sender_balance fw t) w
             else if w = tw then set_balance (clock g) (receiver_balance tw t) w else w) (db_wallets d)"
proof -
  have ids: "has_id d (entity_id fw) w \<longleftrightarrow> w = fw" "has_id d (entity_id tw) w \<longleftrightarrow> w = tw"
    if "w \<in> set (db_wallets d)" for w
    using that assms(1-3) wallet_id_unique [OF db_ok_wallets [OF assms(1)]]
    by (auto simp: has_id_def same_def)
  have ne: "fw \<noteq> tw" using assms(4) by (auto simp: same_def)
  show ?thesis
    unfolding transfer_posts_def post_entry_simps update_where_def map_map
    by (rule map_cong [OF refl]) (use ids ne in auto)
qed

text \<open>The exact effect of a transfer between two wallets in the safe range.\<close>

definition moved :: "ambient \<Rightarrow> wallet \<Rightarrow> wallet \<Rightarrow> int \<Rightarrow> wallet list \<Rightarrow> wallet list" where
  "moved g fw tw n ws =
     map (\<lambda>w. if w = fw then set_balance (clock g) (wallet_balance fw - n) w
              else if w = tw then set_balance (clock g) (wallet_balance tw + n) w else w) ws"

lemma executeTransfer_effect:
  assumes "executeTransfer g t a b p d = Inr ((), d')" "db_ok d" "solvent d" "in_range d" "in_range d'"
    and "0 \<le> transfer_amount t" "literal d a" "literal d b" "\<not> same d a b"
  obtains fw tw where "fw \<in> set (db_wallets d)" "tw \<in> set (db_wallets d)" "entity_id fw = a" "entity_id tw = b"
    "transfer_amount t \<le> wallet_balance fw"
    "db_wallets d' = moved g fw tw (transfer_amount t) (db_wallets d)"
    "db_ledger d' = db_ledger d @
       [transfer_entry g 0 t a TransferOut (wallet_balance fw - transfer_amount t) '':out'',
        transfer_entry g 1 t b TransferIn (wallet_balance tw + transfer_amount t) '':in'']"
    "db_transfers d' = update_where (has_id d (entity_id t))
         (\<lambda>t. t\<lparr>transfer_status := TransferDone, updated_at := clock g\<rparr>) (db_transfers d)"
    "db_outbox d' = db_outbox d @ [outbox_row g 2 p]"
    "db_users d' = db_users d" "db_transactions d' = db_transactions d"
    "total_balance d' = total_balance d"
proof -
  have "a \<noteq> b" using assms(9) by (auto simp: same_def)
  then show ?thesis
  proof (rule executeTransfer_posts [OF assms(1) _ assms(7,8)])
    fix fw tw
    assume f: "fw \<in> set (db_wallets d)" "entity_id fw = a" "tw \<in> set (db_wallets d)"
      "entity_id tw = b" "0 \<le> sender_balance fw t"
      and d': "((), d') = ((), (transfer_posts g t fw tw d)\<lparr>
         db_transfers := update_where (has_id d (entity_id t))
           (\<lambda>t. t\<lparr>transfer_status := TransferDone, updated_at := clock g\<rparr>) (db_transfers d),
         db_outbox := db_outbox d @ [outbox_row g 2 p]\<rparr>)"
    note cong = money_cong [of d' "transfer_posts g t fw tw d"]
    have ne: "\<not> same d (entity_id fw) (entity_id tw)" using assms(9) f by simp
    have r: "in_range (transfer_posts g t fw tw d)" using cong(3) assms(5) d' by simp
    note laws = transfer_posts_laws [OF assms(2) f(1,3) ne assms(3,4,6) f(5) r]
    have "db_wallets (transfer_posts g t fw tw d) = moved g fw tw (transfer_amount t) (db_wallets d)"
      using transfer_wallets [OF assms(2) f(1,3) ne, of g t] by (simp only: laws(1,2) moved_def)
    moreover have "total_balance d' = total_balance d" using laws(3) cong(4) d' by simp
    moreover have "transfer_amount t \<le> wallet_balance fw" using laws(1) f(5) by simp
    ultimately show ?thesis using d' f laws(1,2) by (intro that [of fw tw]) simp_all
  qed
qed

text \<open>
  C10: an executed transfer conserves money. The sender had the amount and loses exactly it, the
  receiver gains exactly it, every other wallet row is untouched and the total is unchanged.
\<close>

theorem executeTransfer_conserves:
  assumes "executeTransfer g t a b p d = Inr ((), d')" "db_ok d" "solvent d" "in_range d" "in_range d'"
    and "0 \<le> transfer_amount t" "literal d a" "literal d b" "\<not> same d a b"
  shows "total_balance d' = total_balance d \<and>
    (\<exists>fw\<in>set (db_wallets d). \<exists>tw\<in>set (db_wallets d).
       entity_id fw = a \<and> entity_id tw = b \<and> transfer_amount t \<le> wallet_balance fw \<and>
       db_wallets d' =
         map (\<lambda>w. if w = fw then set_balance (clock g) (wallet_balance fw - transfer_amount t) w
                  else if w = tw then set_balance (clock g) (wallet_balance tw + transfer_amount t) w
                  else w) (db_wallets d))"
  by (rule executeTransfer_effect [OF assms], unfold moved_def) blast

section \<open>The call of an authenticated user\<close>

text \<open>The user a request is authenticated as is a stored row, so its id selects only itself.\<close>

lemma stored_user_literal:
  assumes "db_ok d" "u \<in> set (db_users d)"
  shows "literal_user d (entity_id u)"
  using assms user_table.row_eq_id [of "db_coll d" "db_users d" _ u]
  by (auto simp: literal_user_def db_ok_def has_id_def same_def)

lemma stored_wallet_literal:
  assumes "db_ok d" "w \<in> set (db_wallets d)"
  shows "literal d (entity_id w)"
  using assms wallet_id_unique [OF db_ok_wallets [OF assms(1)], of _ w "entity_id w"]
  by (auto simp: literal_def has_id_def same_def)

lemma owned_wallet:
  assumes "db_ok d" "owners_ok d" "u \<in> set (db_users d)"
    and "findByUserIdAndCurrency d (entity_id u) cur = Some w"
  shows "w \<in> set (db_wallets d)" "wallet_user_id w = entity_id u"
proof -
  from assms(4) have w: "w \<in> set (db_wallets d)" "same d (wallet_user_id w) (entity_id u)"
    by (auto simp: findByUserIdAndCurrency_def dest: find_SomeD)
  then show "w \<in> set (db_wallets d)" by simp
  from assms(2) w obtain v where "v \<in> set (db_users d)" "entity_id v = wallet_user_id w"
    by (auto simp: owners_ok_def)
  with w stored_user_literal [OF assms(1,3)] show "wallet_user_id w = entity_id u"
    by (auto simp: literal_user_def has_id_def)
qed

lemma tagged_wallet:
  "findByWalletTag d tag = Some w \<Longrightarrow> w \<in> set (db_wallets d) \<and> same d (wallet_tag w) tag"
  by (auto simp: findByWalletTag_def dest: find_SomeD)

lemma distinct_owner_distinct_id:
  assumes "db_ok d" "fw \<in> set (db_wallets d)" "tw \<in> set (db_wallets d)"
    and "wallet_user_id fw \<noteq> wallet_user_id tw"
  shows "\<not> same d (entity_id fw) (entity_id tw)"
  using assms wallet_id_unique [OF db_ok_wallets [OF assms(1)], of fw tw "entity_id tw"]
  by (auto simp: has_id_def same_def)

lemma stored_wallets_eq:
  assumes "db_ok d" "x \<in> set (db_wallets d)" "y \<in> set (db_wallets d)" "entity_id x = entity_id y"
  shows "x = y"
  using assms wallet_id_unique [OF db_ok_wallets [OF assms(1)], of x y "entity_id y"]
  by (simp add: has_id_def same_def)

lemma moved_later [simp]: "moved (later g) fw tw n ws = moved g fw tw n ws"
  by (simp add: moved_def later_def)

text \<open>The row of the transfer is the last of its table and the only one the transaction completes.\<close>

lemma complete_new_transfer:
  assumes "createTransfer g d a b n cur key = Inr (t, d1)"
  shows "update_where (has_id d1 (entity_id t))
           (\<lambda>t. t\<lparr>transfer_status := TransferDone, updated_at := now\<rparr>) (db_transfers d1)
         = db_transfers d @ [t\<lparr>transfer_status := TransferDone, updated_at := now\<rparr>]"
proof -
  from createTransfer_frame [OF assms] have d1: "d1 = d\<lparr>db_transfers := db_transfers d @ [t]\<rparr>"
    and nc: "\<forall>x\<in>set (db_transfers d). \<not> transfer_conflict (db_coll d) x t" by auto
  from nc have "\<forall>x\<in>set (db_transfers d). \<not> has_id d1 (entity_id t) x"
    by (auto simp: transfer_conflict_def has_id_def same_def d1)
  then have "update_where (has_id d1 (entity_id t)) f (db_transfers d) = db_transfers d" for f
    by (intro update_where_none) simp
  moreover have "has_id d1 (entity_id t) t" by (simp add: has_id_def same_def)
  ultimately show ?thesis by (simp add: d1 update_where_def)
qed

lemma createTransfer_money:
  assumes "createTransfer g d a b n cur key = Inr (t, d1)"
  shows "db_ok d \<Longrightarrow> db_ok d1" "solvent d1 = solvent d" "in_range d1 = in_range d"
    "total_balance d1 = total_balance d" "same d1 = same d" "literal d1 = literal d"
proof -
  have d1: "d1 = d\<lparr>db_transfers := db_transfers d @ [t]\<rparr>"
    using createTransfer_frame [OF assms] by simp
  show "db_ok d \<Longrightarrow> db_ok d1" using insert_transfer_ok createTransfer_Inr [OF assms] by blast
  show "solvent d1 = solvent d" "in_range d1 = in_range d" "total_balance d1 = total_balance d"
    by (simp_all add: d1 solvent_def in_range_def total_balance_def)
  show "same d1 = same d" by (simp add: d1 same_def fun_eq_iff)
  show "literal d1 = literal d" by (simp add: d1 literal_def fun_eq_iff)
qed

text \<open>What holds when the transaction of an authenticated user's transfer is started.\<close>

lemma transfer_prepared:
  assumes "u \<in> set (db_users d)" "valid_transfer inp" "db_ok d" "owners_ok d"
    and "findByWalletTag d (ti_toWalletTag inp) = Some tw" "entity_id u \<noteq> wallet_user_id tw"
    and "findByUserIdAndCurrency d (entity_id u) (ti_currency inp) = Some fw"
    and cr: "createTransfer g d (entity_id u) (wallet_user_id tw) (ti_amount inp) (ti_currency inp)
         (ti_idempotencyKey inp) = Inr (t, d1)"
  shows "fw \<in> set (db_wallets d)" "wallet_user_id fw = entity_id u"
    and "tw \<in> set (db_wallets d)" "same d (wallet_tag tw) (ti_toWalletTag inp)"
    and "literal d1 (entity_id fw)" "literal d1 (entity_id tw)" "\<not> same d1 (entity_id fw) (entity_id tw)"
    and "0 \<le> transfer_amount t" "d1 = d\<lparr>db_transfers := db_transfers d @ [t]\<rparr>"
proof -
  note fw' = owned_wallet [OF assms(3,4,1,7)] and tw' = tagged_wallet [OF assms(5)]
  note cm = createTransfer_money [OF cr]
  show "fw \<in> set (db_wallets d)" "wallet_user_id fw = entity_id u" by (rule fw')+
  show "tw \<in> set (db_wallets d)" "same d (wallet_tag tw) (ti_toWalletTag inp)" using tw' by simp_all
  show "literal d1 (entity_id fw)" "literal d1 (entity_id tw)"
    using stored_wallet_literal [OF assms(3)] fw'(1) tw' cm(6) by simp_all
  show "\<not> same d1 (entity_id fw) (entity_id tw)"
    using distinct_owner_distinct_id [OF assms(3) fw'(1), of tw] tw' fw'(2) assms(6) cm(5) by simp
  show "0 \<le> transfer_amount t"
    using createTransfer_Inr [OF cr] assms(2) by (simp add: valid_transfer_def)
  show "d1 = d\<lparr>db_transfers := db_transfers d @ [t]\<rparr>" using createTransfer_frame [OF cr] by simp
qed

lemma transfer_committed:
  assumes "(Inr (), s') = bindS (run_db m (s\<lparr>app_db := d1\<rparr>)) (\<lambda>_ s2. (Inr (),
      invalidateBalanceCache (invalidateBalanceCache s2 a cur) b cur))"
  obtains d' where "m d1 = Inr ((), d')" "app_db s' = d'"
    "app_cache s' (balance_cache_key a cur) = None" "app_cache s' (balance_cache_key b cur) = None"
  using assms
  by (auto simp: run_db_def invalidateBalanceCache_def cache_del_def split: sum.splits)

text \<open>
  C11: the service call end to end. When \<open>POST /transfers\<close> of an authenticated user succeeds
  under a new key, exactly the amount moved from the wallet the user owns in that currency to the
  tagged wallet, which belongs to somebody else; the transfer is stored as completed, the ledger
  got the debit and the credit, the outbox one \<open>TransferCompleted\<close> event, and both cached
  balances are gone.
\<close>

theorem initiateTransfer_moves_money:
  assumes "initiateTransfer g s (entity_id u) (user_email u) inp = (Inr (), s')"
    and "u \<in> set (db_users (app_db s))" "valid_transfer inp"
    and "findTransferByIdempotencyKey (app_db s) (ti_idempotencyKey inp) = None"
    and "money_ok (app_db s)" "in_range (app_db s)" "in_range (app_db s')"
  shows "\<exists>fw\<in>set (db_wallets (app_db s)). \<exists>tw\<in>set (db_wallets (app_db s)). \<exists>t.
      wallet_user_id fw = entity_id u \<and> wallet_user_id tw \<noteq> entity_id u
    \<and> same (app_db s) (wallet_tag tw) (ti_toWalletTag inp) \<and> wallet_currency tw = ti_currency inp
    \<and> ti_amount inp \<le> wallet_balance fw
    \<and> db_wallets (app_db s') = moved g fw tw (ti_amount inp) (db_wallets (app_db s))
    \<and> total_balance (app_db s') = total_balance (app_db s)
    \<and> transfer_amount t = ti_amount inp \<and> transfer_key t = ti_idempotencyKey inp
    \<and> transfer_status t = TransferDone
    \<and> db_transfers (app_db s') = db_transfers (app_db s) @ [t]
    \<and> map signed_amount (drop (length (db_ledger (app_db s))) (db_ledger (app_db s')))
        = [- ti_amount inp, ti_amount inp]
    \<and> map outbox_event_name (drop (length (db_outbox (app_db s))) (db_outbox (app_db s')))
        = [''TransferCompleted'']
    \<and> app_cache s' (balance_cache_key (entity_id u) (ti_currency inp)) = None
    \<and> app_cache s' (balance_cache_key (wallet_user_id tw) (ti_currency inp)) = None"
proof (rule initiateTransfer_split [OF assms(1)])
  assume "Inr () = Inr () \<Longrightarrow> findTransferByIdempotencyKey (app_db s) (ti_idempotencyKey inp) \<noteq> None"
  with assms(4) show ?thesis by simp
next
  let ?d = "app_db s"
  fix tw fw t d1
  assume tw: "findByWalletTag ?d (ti_toWalletTag inp) = Some tw"
    and cur: "wallet_currency tw = ti_currency inp" and ne: "entity_id u \<noteq> wallet_user_id tw"
    and fw: "findByUserIdAndCurrency ?d (entity_id u) (ti_currency inp) = Some fw"
    and cr: "createTransfer g ?d (entity_id u) (wallet_user_id tw) (ti_amount inp) (ti_currency inp)
       (ti_idempotencyKey inp) = Inr (t, d1)"
    and run: "(Inr (), s') = bindS (run_db (executeTransfer (later g) t (entity_id fw) (entity_id tw)
            (transfer_payload g ?d t (entity_id u) (user_email u) tw inp)) (s\<lparr>app_db := d1\<rparr>))
       (\<lambda>_ s2. (Inr (), invalidateBalanceCache
                 (invalidateBalanceCache s2 (entity_id u) (ti_currency inp))
                 (wallet_user_id tw) (ti_currency inp)))"
  from assms(5) have ok: "db_ok ?d" "owners_ok ?d" "solvent ?d" by (simp_all add: money_ok_def)
  note pr = transfer_prepared [OF assms(2,3) ok(1,2) tw ne fw cr]
  note cm = createTransfer_money [OF cr] and ci = createTransfer_Inr [OF cr]
  obtain d' where ex: "executeTransfer (later g) t (entity_id fw) (entity_id tw)
        (transfer_payload g ?d t (entity_id u) (user_email u) tw inp) d1 = Inr ((), d')"
    and s': "app_db s' = d'" "app_cache s' (balance_cache_key (entity_id u) (ti_currency inp)) = None"
      "app_cache s' (balance_cache_key (wallet_user_id tw) (ti_currency inp)) = None"
    by (rule transfer_committed [OF run])
  have r: "solvent d1" "in_range d1" "in_range d'" using cm ok assms(6,7) s' by simp_all
  show ?thesis
  proof (rule executeTransfer_effect [OF ex cm(1) [OF ok(1)] r pr(8,5,6,7)])
    fix fw2 tw2
    assume e: "fw2 \<in> set (db_wallets d1)" "tw2 \<in> set (db_wallets d1)"
      "entity_id fw2 = entity_id fw" "entity_id tw2 = entity_id tw"
      "transfer_amount t \<le> wallet_balance fw2"
      "db_wallets d' = moved (later g) fw2 tw2 (transfer_amount t) (db_wallets d1)"
      "db_ledger d' = db_ledger d1 @
       [transfer_entry (later g) 0 t (entity_id fw) TransferOut (wallet_balance fw2 - transfer_amount t) '':out'',
        transfer_entry (later g) 1 t (entity_id tw) TransferIn (wallet_balance tw2 + transfer_amount t) '':in'']"
      "db_transfers d' = update_where (has_id d1 (entity_id t))
         (\<lambda>t. t\<lparr>transfer_status := TransferDone, updated_at := clock (later g)\<rparr>) (db_transfers d1)"
      "db_outbox d' = db_outbox d1 @ [outbox_row (later g) 2
         (transfer_payload g ?d t (entity_id u) (user_email u) tw inp)]"
      "total_balance d' = total_balance d1"
    have eq: "fw2 = fw" "tw2 = tw"
      using e(1-4) pr(1,3,9) stored_wallets_eq [OF ok(1)] by simp_all
    let ?t = "t\<lparr>transfer_status := TransferDone, updated_at := clock (later g)\<rparr>"
    have tr: "db_transfers d' = db_transfers ?d @ [?t]"
      unfolding e(8) by (rule complete_new_transfer [OF cr])
    show ?thesis
      using e(5-7,9,10) tr eq pr(1-4) cur ne ci cm(4) pr(9) s'
      by (intro bexI [of _ fw] bexI [of _ tw] exI [of _ ?t])
        (simp_all add: transfer_entry_def signed_amount_def outbox_row_def transfer_payload_def)
  qed
qed

section \<open>A concrete transfer\<close>

text \<open>Alice sends 25 EUR to Bob.\<close>

definition demo_request :: transfer_input where
  "demo_request = \<lparr>ti_toWalletTag = ''bob-0002'', ti_amount = 2500, ti_currency = ''EUR'',
     ti_idempotencyKey = ''xfr-1''\<rparr>"

definition demo_transfer :: transfer where
  "demo_transfer = \<lparr>entity_id = ''x'', created_at = 7, updated_at = 7, transfer_from_user_id = ''u1'',
     transfer_to_user_id = ''u2'', transfer_amount = 2500, transfer_currency = ''EUR'',
     transfer_status = TransferPending, transfer_key = ''xfr-1'', transfer_failure_reason = None\<rparr>"

definition demo_payload :: outbox_payload where
  "demo_payload = transfer_payload (demo_ambient ''x'' 7) demo_db demo_transfer ''u1'' ''alice@x.io''
     bob_wallet demo_request"

definition demo_pending :: db where
  "demo_pending = demo_db\<lparr>db_transfers := [demo_transfer]\<rparr>"

definition demo_after :: db where
  "demo_after = demo_db\<lparr>
     db_wallets := [set_balance 7 7500 alice_wallet, set_balance 7 2500 bob_wallet],
     db_ledger := [paid_entry,
       transfer_entry (later (demo_ambient ''x'' 7)) 0 demo_transfer ''w1'' TransferOut 7500 '':out'',
       transfer_entry (later (demo_ambient ''x'' 7)) 1 demo_transfer ''w2'' TransferIn 2500 '':in''],
     db_transfers := [demo_transfer\<lparr>transfer_status := TransferDone\<rparr>],
     db_outbox := [paid_event, outbox_row (later (demo_ambient ''x'' 7)) 2 demo_payload]\<rparr>"

lemma demo_create:
  "createTransfer (demo_ambient ''x'' 7) demo_db ''u1'' ''u2'' 2500 ''EUR'' ''xfr-1''
   = Inr (demo_transfer, demo_pending)"
  by (simp add: createTransfer_def Let_def insert_transfer_def insert_row_def fits_def bigint_ok_def
      demo_transfer_def demo_pending_def demo_ambient_def)

lemma demo_pending_simps [simp]:
  "db_coll demo_pending = (\<lambda>s. s)" "same demo_pending = (=)" "db_wallets demo_pending = [alice_wallet, bob_wallet]"
  "db_ledger demo_pending = [paid_entry]" "db_outbox demo_pending = [paid_event]"
  by (simp_all add: demo_pending_def same_def fun_eq_iff)

lemma demo_execute:
  "executeTransfer (later (demo_ambient ''x'' 7)) demo_transfer ''w1'' ''w2'' demo_payload demo_pending
   = Inr ((), demo_after)"
proof -
  let ?g = "later (demo_ambient ''x'' 7)"
  have "executeTransfer ?g demo_transfer ''w1'' ''w2'' demo_payload demo_pending =
    (let sb = js_sub (to_double (wallet_balance alice_wallet)) (transfer_amount demo_transfer);
         rb = js_add (to_double (wallet_balance bob_wallet)) (transfer_amount demo_transfer)
     in if sb < 0 then Inl (BadRequest ''Insufficient balance'')
        else bindR (update_wallet_balance ?g demo_pending ''w1'' sb) (\<lambda>d1.
          bindR (update_wallet_balance ?g d1 ''w2'' rb) (\<lambda>d2.
          bindR (insert_ledger d2 (transfer_entry ?g 0 demo_transfer ''w1'' TransferOut sb '':out'')) (\<lambda>d3.
          bindR (insert_ledger d3 (transfer_entry ?g 1 demo_transfer ''w2'' TransferIn rb '':in'')) (\<lambda>d4.
          bindR (insert_outbox (complete_transfer ?g d4 (entity_id demo_transfer))
              (outbox_row ?g 2 demo_payload)) (\<lambda>d5. Inr ((), d5)))))))"
    by (rule executeTransfer_cases) (simp_all add: alice_wallet_def bob_wallet_def has_id_def)
  then show ?thesis
    by (simp add: Let_def demo_after_def demo_transfer_def demo_payload_def transfer_payload_def
        js_sub_def js_add_def later_def
        to_double_exact update_wallet_balance_def bigint_ok_def insert_ledger_def insert_outbox_def
        insert_row_def fits_def complete_transfer_def update_where_def set_balance_def transfer_entry_def
        outbox_row_def demo_ambient_def ledger_conflict_def outbox_conflict_def demo_db_def demo_rows
        demo_pending_def has_id_def same_def)
qed

definition demo_transferred :: app where
  "demo_transferred = demo_app\<lparr>app_db := demo_after\<rparr>"

lemma demo_initiate:
  "initiateTransfer (demo_ambient ''x'' 7) demo_app ''u1'' ''alice@x.io'' demo_request
   = (Inr (), demo_transferred)"
proof -
  have q: "findByWalletTag demo_db ''bob-0002'' = Some bob_wallet"
    "findByUserIdAndCurrency demo_db ''u1'' ''EUR'' = Some alice_wallet"
    "findTransferByIdempotencyKey demo_db ''xfr-1'' = None"
    by (simp_all add: findByWalletTag_def findByUserIdAndCurrency_def findTransferByIdempotencyKey_def
        alice_wallet_def bob_wallet_def)
  have ids: "entity_id alice_wallet = ''w1''" "entity_id bob_wallet = ''w2''"
    "wallet_user_id bob_wallet = ''u2''" "wallet_currency bob_wallet = ''EUR''"
    by (simp_all add: alice_wallet_def bob_wallet_def)
  show ?thesis
    using q ids demo_create demo_execute
    by (simp add: initiateTransfer_def demo_request_def demo_payload_def run_db_def
        invalidateBalanceCache_def cache_del_def demo_transferred_def demo_app_def fun_upd_idem)
qed

lemma demo_after_in_range: "in_range demo_after"
  by (simp add: in_range_def demo_after_def max_safe_def)

lemma demo_money_ok: "money_ok demo_db"
  by (simp add: money_ok_def demo_db_ok demo_money)

lemma demo_pending_ok: "db_ok demo_pending" "solvent demo_pending" "in_range demo_pending"
    "literal demo_pending i"
  using createTransfer_money(1-3,6) [OF demo_create] demo_db_ok demo_money(1,2)
  by (simp_all add: literal_def)

theorem executeTransfer_conserves_witness:
  "total_balance demo_after = total_balance demo_pending"
  using executeTransfer_conserves [OF demo_execute demo_pending_ok(1-3) demo_after_in_range _
      demo_pending_ok(4,4)]
  by (simp add: demo_transfer_def)

theorem initiateTransfer_moves_money_witness:
  "total_balance (app_db demo_transferred) = total_balance demo_db
   \<and> app_cache demo_transferred (balance_cache_key ''u1'' ''EUR'') = None"
proof -
  have u: "alice \<in> set (db_users (app_db demo_app))" "entity_id alice = ''u1''" "user_email alice = ''alice@x.io''"
    by (simp_all add: alice_def)
  have v: "valid_transfer demo_request" by (simp add: valid_transfer_def demo_request_def is_currency_def)
  have k: "findTransferByIdempotencyKey (app_db demo_app) (ti_idempotencyKey demo_request) = None"
    by (simp add: findTransferByIdempotencyKey_def)
  have r: "in_range (app_db demo_transferred)" by (simp add: demo_transferred_def demo_after_in_range)
  have c: "ti_currency demo_request = ''EUR''" by (simp add: demo_request_def)
  show ?thesis
    using initiateTransfer_moves_money [of _ demo_app alice, unfolded u(2,3), OF demo_initiate u(1) v k _ _ r]
      demo_money_ok demo_money(2) c by auto
qed

end
