(* ===== verification/TransferReplay.thy ===== *)
theory TransferReplay
  imports TransferProperties
begin

text \<open>
  Transfers that fail and transfers that are sent again: a failed call moves no money, a key is
  used at most once in every interleaving, and what becomes of a transfer whose transaction was
  refused.
\<close>

section \<open>Keys stay used\<close>

text \<open>No write of the program removes a stored transfer or changes its key.\<close>

lemma keys_update:
  "(\<And>x. f (g x) = f x) \<Longrightarrow> f ` set (update_where P g ts) = f ` set ts"
  unfolding set_update_where image_image by (rule image_cong) simp_all

lemma transfer_keys_update:
  "transfer_key ` set (update_where P (\<lambda>t. t\<lparr>transfer_status := st, updated_at := n\<rparr>) ts)
     = transfer_key ` set ts"
  "transfer_key ` set (update_where P (\<lambda>t. t\<lparr>transfer_status := st, transfer_failure_reason := r,
     updated_at := n\<rparr>) ts) = transfer_key ` set ts"
  by (rule keys_update, simp)+

lemma db_step_transfer_keys:
  "db_step d d' \<Longrightarrow> transfer_key ` set (db_transfers d) \<subseteq> transfer_key ` set (db_transfers d')"
proof (induction rule: db_step.induct)
  case (deposit_settled g wid t p d e d')
  then show ?case by (auto elim!: settleTransaction_post)
next
  case (transfer_executed g r a b p d d')
  then have "a \<noteq> b" by (auto simp: same_def)
  with transfer_executed show ?case
    by (auto elim!: executeTransfer_posts simp: transfer_keys_update)
next
  case (transfer_failed d g r reason)
  then show ?case by (simp add: failTransfer_def transfer_keys_update)
next
  case (user_saved g d stored u v d')
  then show ?case by (simp add: save_columns_frame)
qed (auto simp: frame dest!: createTransaction_Inr createTransfer_Inr ensureWallet_Inr
      insert_Inr updateTransactionProviderRef_Inr)

lemma db_steps_transfer_keys:
  "db_step\<^sup>*\<^sup>* d d' \<Longrightarrow> transfer_key ` set (db_transfers d) \<subseteq> transfer_key ` set (db_transfers d')
     \<and> db_coll d' = db_coll d"
proof (induction rule: rtranclp_induct)
  case (step y z)
  have "transfer_key ` set (db_transfers d) \<subseteq> transfer_key ` set (db_transfers z)"
    using step.IH db_step_transfer_keys [OF step.hyps(2)] by (blast intro: order_trans)
  then show ?case using step.IH db_step_coll [OF step.hyps(2)] by simp
qed simp

lemma key_found:
  "findTransferByIdempotencyKey d k \<noteq> None \<longleftrightarrow> (\<exists>t\<in>set (db_transfers d). same d (transfer_key t) k)"
  by (auto simp: findTransferByIdempotencyKey_def find_None)

lemma used_key_skips:
  assumes "findTransferByIdempotencyKey (app_db s) (ti_idempotencyKey inp) \<noteq> None"
  shows "snd (initiateTransfer g s uid mail inp) = s"
    and "fst (initiateTransfer g s uid mail inp) \<in>
      {Inr (), Inl (NotFound ''Recipient wallet not found''),
       Inl (BadRequest ''Recipient wallet currency does not match transfer currency''),
       Inl (BadRequest ''Cannot transfer to yourself'')}"
  using assms by (auto simp: initiateTransfer_def split: option.splits)

lemma executeTransfer_transfers:
  assumes "executeTransfer g t a b p d = Inr ((), d')"
  shows "db_transfers d' = update_where (has_id d (entity_id t))
           (\<lambda>t. t\<lparr>transfer_status := TransferDone, updated_at := clock g\<rparr>) (db_transfers d)"
proof -
  from assms obtain i sb j rb e1 e2 d1 d2 d3 d4 where
    "update_wallet_balance g d i sb = Inr d1" "update_wallet_balance g d1 j rb = Inr d2"
    "insert_ledger d2 e1 = Inr d3" "insert_ledger d3 e2 = Inr d4"
    and o: "insert_outbox (complete_transfer g d4 (entity_id t)) (outbox_row g 2 p) = Inr d'"
    by (auto simp: executeTransfer_def Let_def bindR_Inr_iff split: prod.splits option.splits if_splits)
  then have "db_transfers d4 = db_transfers d" "same d4 = same d"
    by (auto simp: update_wallet_balance_Inr same_def fun_eq_iff dest!: insert_ledger_Inr)
  with insert_outbox_Inr [OF o] show ?thesis
    by (simp add: complete_transfer_def has_id_def [abs_def])
qed

text \<open>A call that answered \<open>202\<close> has left its key in the table.\<close>

lemma accepted_key_stored:
  assumes "initiateTransfer g s uid mail inp = (r, s')" "r = Inr () \<or> s' \<noteq> s"
  shows "(\<exists>t\<in>set (db_transfers (app_db s')). same (app_db s') (transfer_key t) (ti_idempotencyKey inp))"
proof (rule initiateTransfer_split [OF assms(1)])
  assume "s' = s" "r = Inr () \<Longrightarrow> findTransferByIdempotencyKey (app_db s) (ti_idempotencyKey inp) \<noteq> None"
  with assms(2) have "findTransferByIdempotencyKey (app_db s) (ti_idempotencyKey inp) \<noteq> None" by blast
  with \<open>s' = s\<close> show ?thesis by (simp only: key_found)
next
  fix tw fw t d1
  assume cr: "createTransfer g (app_db s) uid (wallet_user_id tw) (ti_amount inp) (ti_currency inp)
         (ti_idempotencyKey inp) = Inr (t, d1)"
    and run: "(r, s') = bindS (run_db (executeTransfer (later g) t (entity_id fw) (entity_id tw)
              (transfer_payload g (app_db s) t uid mail tw inp)) (s\<lparr>app_db := d1\<rparr>))
         (\<lambda>_ s2. (Inr (), invalidateBalanceCache
                   (invalidateBalanceCache s2 uid (ti_currency inp))
                   (wallet_user_id tw) (ti_currency inp)))"
  have t: "t \<in> set (db_transfers d1)" "transfer_key t = ti_idempotencyKey inp"
    using createTransfer_frame [OF cr] createTransfer_Inr [OF cr] by auto
  show ?thesis
  proof (cases "executeTransfer (later g) t (entity_id fw) (entity_id tw)
              (transfer_payload g (app_db s) t uid mail tw inp) d1")
    case (Inl e)
    with run have "app_db s' = d1" by (simp add: run_db_def)
    with t show ?thesis by (intro bexI [of _ t]) (simp_all add: same_def)
  next
    case (Inr x)
    then obtain d' where x: "executeTransfer (later g) t (entity_id fw) (entity_id tw)
              (transfer_payload g (app_db s) t uid mail tw inp) d1 = Inr ((), d')" by (cases x) auto
    have "transfer_key ` set (db_transfers d') = transfer_key ` set (db_transfers d1)"
      using executeTransfer_transfers [OF x] by (auto simp: transfer_keys_update)
    with t have "transfer_key t \<in> transfer_key ` set (db_transfers d')" by blast
    moreover have "app_db s' = d'" using run x by (simp add: invalidateBalanceCache_def)
    ultimately show ?thesis using t by (force simp: same_def)
  qed
qed

section \<open>Properties\<close>

text \<open>
  C12: an idempotency key moves money at most once. Once a call was accepted, every later call
  under the same key, whoever sends it and whatever was written in between, changes nothing.
\<close>

theorem transfer_key_used_once:
  assumes "initiateTransfer g s uid mail inp = (Inr (), s1)"
    and "db_step\<^sup>*\<^sup>* (app_db s1) (app_db s2)"
    and "same (app_db s2) (ti_idempotencyKey inp') (ti_idempotencyKey inp)"
  shows "snd (initiateTransfer g' s2 uid' mail' inp') = s2"
proof -
  obtain t where t: "t \<in> set (db_transfers (app_db s1))"
      "same (app_db s1) (transfer_key t) (ti_idempotencyKey inp)"
    using accepted_key_stored [OF assms(1)] by auto
  from db_steps_transfer_keys [OF assms(2)] have coll: "db_coll (app_db s2) = db_coll (app_db s1)"
    and sub: "transfer_key ` set (db_transfers (app_db s1)) \<subseteq> transfer_key ` set (db_transfers (app_db s2))"
    by auto
  from sub t(1) have "transfer_key t \<in> transfer_key ` set (db_transfers (app_db s2))" by blast
  then obtain t' where "t' \<in> set (db_transfers (app_db s2))" "transfer_key t' = transfer_key t" by auto
  with t(2) assms(3) coll have "findTransferByIdempotencyKey (app_db s2) (ti_idempotencyKey inp') \<noteq> None"
    unfolding key_found by (intro bexI [of _ t']) (simp_all add: same_def)
  then show ?thesis by (rule used_key_skips)
qed

theorem transfer_key_used_once_witness:
  "snd (initiateTransfer (demo_ambient ''z'' 9) demo_transferred ''u1'' ''alice@x.io'' demo_request)
   = demo_transferred"
  by (rule transfer_key_used_once [OF demo_initiate rtranclp.rtrancl_refl]) (simp add: same_def)

text \<open>
  C13: a refused transfer is atomic. When the call fails, no balance, no ledger entry, no event
  and no cached balance changed: nothing was written, or one transfer row that is still pending.
\<close>

theorem failed_transfer_moves_nothing:
  assumes "initiateTransfer g s uid mail inp = (Inl e, s')"
  shows "s' = s \<or> (\<exists>t. s' = s\<lparr>app_db := (app_db s)\<lparr>db_transfers := db_transfers (app_db s) @ [t]\<rparr>\<rparr>
     \<and> transfer_status t = TransferPending \<and> transfer_key t = ti_idempotencyKey inp)"
proof (rule initiateTransfer_split [OF assms])
  assume "s' = s" then show ?thesis by simp
next
  fix tw fw t d1
  assume cr: "createTransfer g (app_db s) uid (wallet_user_id tw) (ti_amount inp) (ti_currency inp)
         (ti_idempotencyKey inp) = Inr (t, d1)"
    and run: "(Inl e, s') = bindS (run_db (executeTransfer (later g) t (entity_id fw) (entity_id tw)
              (transfer_payload g (app_db s) t uid mail tw inp)) (s\<lparr>app_db := d1\<rparr>))
         (\<lambda>_ s2. (Inr (), invalidateBalanceCache
                   (invalidateBalanceCache s2 uid (ti_currency inp))
                   (wallet_user_id tw) (ti_currency inp)))"
  from run have "s' = s\<lparr>app_db := d1\<rparr>"
    by (auto simp: run_db_def split: sum.splits)
  with createTransfer_frame [OF cr] createTransfer_Inr [OF cr] show ?thesis by auto
qed

text \<open>
  What becomes of a refused transfer. When the transaction is refused after the row was
  stored (an insufficient balance, say), sending the same request again is answered as accepted
  although nothing is moved: the row blocks its key and no code takes it out of \<open>PENDING\<close>.
\<close>

theorem refused_transfer_replay_accepted:
  assumes "initiateTransfer g s uid mail inp = (Inl e, s')" "s' \<noteq> s"
  shows "initiateTransfer g' s' uid mail' inp = (Inr (), s')"
proof (rule initiateTransfer_split [OF assms(1)])
  assume "s' = s" with assms(2) show ?thesis by simp
next
  fix tw fw t d1
  assume q: "findByWalletTag (app_db s) (ti_toWalletTag inp) = Some tw"
      "wallet_currency tw = ti_currency inp" "uid \<noteq> wallet_user_id tw"
    and cr: "createTransfer g (app_db s) uid (wallet_user_id tw) (ti_amount inp) (ti_currency inp)
         (ti_idempotencyKey inp) = Inr (t, d1)"
    and run: "(Inl e, s') = bindS (run_db (executeTransfer (later g) t (entity_id fw) (entity_id tw)
              (transfer_payload g (app_db s) t uid mail tw inp)) (s\<lparr>app_db := d1\<rparr>))
         (\<lambda>_ s2. (Inr (), invalidateBalanceCache
                   (invalidateBalanceCache s2 uid (ti_currency inp))
                   (wallet_user_id tw) (ti_currency inp)))"
  from run have s': "s' = s\<lparr>app_db := d1\<rparr>"
    by (auto simp: run_db_def split: sum.splits)
  note d1 = createTransfer_frame [OF cr]
  have "findByWalletTag (app_db s') (ti_toWalletTag inp) = Some tw"
    using q(1) d1 by (simp add: s' findByWalletTag_def same_def)
  moreover have "findTransferByIdempotencyKey (app_db s') (ti_idempotencyKey inp) \<noteq> None"
    using accepted_key_stored [OF assms(1)] assms(2) by (simp only: key_found) simp
  ultimately show ?thesis using q(2,3) by (auto simp: initiateTransfer_def)
qed

text \<open>Bob has no money and tries to send 25 EUR to Alice.\<close>

definition broke_request :: transfer_input where
  "broke_request = \<lparr>ti_toWalletTag = ''alic-0001'', ti_amount = 2500, ti_currency = ''EUR'',
     ti_idempotencyKey = ''xfr-9''\<rparr>"

definition broke_transfer :: transfer where
  "broke_transfer = \<lparr>entity_id = ''x'', created_at = 7, updated_at = 7, transfer_from_user_id = ''u2'',
     transfer_to_user_id = ''u1'', transfer_amount = 2500, transfer_currency = ''EUR'',
     transfer_status = TransferPending, transfer_key = ''xfr-9'', transfer_failure_reason = None\<rparr>"

definition broke_app :: app where
  "broke_app = demo_app\<lparr>app_db := demo_db\<lparr>db_transfers := [broke_transfer]\<rparr>\<rparr>"

lemma broke_initiate:
  "initiateTransfer (demo_ambient ''x'' 7) demo_app ''u2'' ''bob@x.io'' broke_request
   = (Inl (BadRequest ''Insufficient balance''), broke_app)"
proof -
  let ?d = "demo_db\<lparr>db_transfers := [broke_transfer]\<rparr>"
  have q: "findByWalletTag demo_db ''alic-0001'' = Some alice_wallet"
    "findByUserIdAndCurrency demo_db ''u2'' ''EUR'' = Some bob_wallet"
    "findTransferByIdempotencyKey demo_db ''xfr-9'' = None"
    by (simp_all add: findByWalletTag_def findByUserIdAndCurrency_def findTransferByIdempotencyKey_def
        alice_wallet_def bob_wallet_def)
  have ids: "entity_id alice_wallet = ''w1''" "entity_id bob_wallet = ''w2''"
    "wallet_user_id alice_wallet = ''u1''" "wallet_currency alice_wallet = ''EUR''"
    by (simp_all add: alice_wallet_def bob_wallet_def)
  have cr: "createTransfer (demo_ambient ''x'' 7) demo_db ''u2'' ''u1'' 2500 ''EUR'' ''xfr-9''
      = Inr (broke_transfer, ?d)"
    by (simp add: createTransfer_def Let_def insert_transfer_def insert_row_def fits_def bigint_ok_def
        broke_transfer_def demo_ambient_def)
  have f: "find (has_id ?d ''w2'') (db_wallets ?d) = Some bob_wallet"
    "find (has_id ?d ''w1'') (db_wallets ?d) = Some alice_wallet"
    by (simp_all add: ids)
  have ex: "executeTransfer (later (demo_ambient ''x'' 7)) broke_transfer ''w2'' ''w1'' p ?d
      = Inl (BadRequest ''Insufficient balance'')" for p
    unfolding executeTransfer_cases [OF f(1) ids(2) f(2) ids(1)] Let_def
    by (simp add: js_sub_def to_double_exact bob_wallet_def broke_transfer_def)
  show ?thesis
    using q ids cr ex
    by (simp add: initiateTransfer_def broke_request_def run_db_def broke_app_def)
qed

lemma broke_differs: "broke_app \<noteq> demo_app"
proof
  assume "broke_app = demo_app"
  then have "db_transfers (app_db broke_app) = db_transfers (app_db demo_app)" by simp
  then show False by (simp add: broke_app_def)
qed

theorem failed_transfer_moves_nothing_witness:
  "db_wallets (app_db broke_app) = db_wallets demo_db \<and> db_ledger (app_db broke_app) = db_ledger demo_db"
proof -
  from failed_transfer_moves_nothing [OF broke_initiate] broke_differs
  obtain t where "broke_app = demo_app\<lparr>app_db := (app_db demo_app)\<lparr>db_transfers := db_transfers (app_db demo_app) @ [t]\<rparr>\<rparr>"
    by blast
  from arg_cong [OF this, of "\<lambda>s. db_wallets (app_db s)"] arg_cong [OF this, of "\<lambda>s. db_ledger (app_db s)"]
  show ?thesis by simp
qed

theorem refused_transfer_replay_accepted_witness:
  "initiateTransfer (demo_ambient ''y'' 8) broke_app ''u2'' ''bob@x.io'' broke_request
   = (Inr (), broke_app)"
  by (rule refused_transfer_replay_accepted [OF broke_initiate broke_differs])

end
