(* ===== verification/Refinement.thy ===== *)
theory Refinement
  imports Deposits TransferReplay
begin

text \<open>
  The handlers as sequences of the atomic writes of \<open>Interleaving\<close>: every request, webhook,
  listener call and cron tick takes the database along \<open>db_step\<close>, so what is proved of all
  interleavings of writes holds of the program's handlers.
\<close>

section \<open>Handlers\<close>

lemma run_db_steps:
  assumes "\<And>x d'. m (app_db s) = Inr (x, d') \<Longrightarrow> db_step (app_db s) d'"
  shows "db_step\<^sup>*\<^sup>* (app_db s) (app_db (snd (run_db m s)))"
  using assms by (auto simp: run_db_def split: sum.splits)

lemma steps_trans: "db_step\<^sup>*\<^sup>* d d1 \<Longrightarrow> db_step\<^sup>*\<^sup>* d1 d2 \<Longrightarrow> db_step\<^sup>*\<^sup>* d d2"
  by (rule rtranclp_trans)

lemma svc_createUser_steps:
  "db_step\<^sup>*\<^sup>* (app_db s) (app_db (snd (svc_createUser g s name email password role)))"
  unfolding svc_createUser_def by (rule run_db_steps) (blast intro: db_step.user_inserted createUser_Inr)

lemma save_user_step:
  assumes "save_user g d old u = Inr (v, d')" "db_ok d" "old \<in> set (db_users d)"
    and "entity_id u = entity_id old" "created_at u = created_at old"
  shows "db_step d d'"
  by (rule db_step.user_saved [OF save_user_columns [OF assms]])

lemma repo_updateUserDetails_step:
  assumes "repo_updateUserDetails g d i patch = Inr (u, d')" "db_ok d"
  shows "db_step d d'"
proof -
  obtain old where old: "findUserById d i = Some old" "save_user g d old (apply_patch patch old) = Inr (u, d')"
    using assms(1) by (auto simp: repo_updateUserDetails_def split: option.splits)
  show ?thesis
    by (rule save_user_step [OF old(2) assms(2)])
      (use old(1) in \<open>auto simp: findUserById_def apply_patch_def dest: find_SomeD\<close>)
qed

lemma svc_updateUserPassword_steps:
  "db_ok (app_db s) \<Longrightarrow> db_step\<^sup>*\<^sup>* (app_db s) (app_db (snd (svc_updateUserPassword g s uid password)))"
  unfolding svc_updateUserPassword_def by (rule run_db_steps) (rule repo_updateUserDetails_step)

lemma svc_updateUserDetails_steps:
  assumes "db_ok (app_db s)"
  shows "db_step\<^sup>*\<^sup>* (app_db s) (app_db (snd (svc_updateUserDetails g s req target patch role)))"
proof -
  have run: "db_step\<^sup>*\<^sup>* (app_db s) (app_db (snd (run_db (\<lambda>d. repo_updateUserDetails g d target
      (sanitizeUpdateData patch role)) s)))"
    by (rule run_db_steps) (rule repo_updateUserDetails_step [OF _ assms])
  then show ?thesis
    by (auto simp: svc_updateUserDetails_def bindS_def split: option.splits sum.splits prod.splits)
qed

lemma svc_deleteUser_steps:
  "db_step\<^sup>*\<^sup>* (app_db s) (app_db (snd (svc_deleteUser s req target role)))"
  using db_step.user_deleted [of "app_db s" target]
  by (auto simp: svc_deleteUser_def update_db_def split: option.splits sum.splits)

lemma ensureWallet_steps:
  assumes "literal_user (app_db s) uid" "fresh_wallet (app_db s) (uuid g 0)"
  shows "db_step\<^sup>*\<^sup>* (app_db s) (app_db (snd (run_db (\<lambda>d. ensureWallet g d uid cur name) s)))"
  by (rule run_db_steps) (rule db_step.wallet_ensured [OF _ assms])

lemma createWallet_steps:
  assumes "literal_user (app_db s) uid" "fresh_wallet (app_db s) (uuid g 0)"
  shows "db_step\<^sup>*\<^sup>* (app_db s) (app_db (snd (createWallet g s uid name cur)))"
  using ensureWallet_steps [OF assms] by (auto simp: createWallet_def split: option.splits)

lemma handleUserRegistered_steps:
  assumes "literal_user (app_db s) (reg_userId p)" "fresh_wallet (app_db s) (uuid g 0)"
  shows "db_step\<^sup>*\<^sup>* (app_db s) (app_db (snd (handleUserRegistered g s p)))"
proof -
  have "snd (handleUserRegistered g s p)
      = snd (run_db (\<lambda>d. ensureWallet g d (reg_userId p) (currency_text DEFAULT_CURRENCY) (reg_name p)) s)"
    by (simp add: handleUserRegistered_def bindS_def split: sum.splits prod.splits)
  then show ?thesis using ensureWallet_steps [OF assms] by simp
qed

lemma getBalance_db [simp]: "app_db (snd (getBalance g s uid cur)) = app_db s"
  by (simp add: getBalance_def Let_def split: option.splits)

lemma ref_snapshot: "findTransactionByProviderRef d ref = Some t \<Longrightarrow> deposit_snapshot d t"
  using ref_found(1) by (auto simp: deposit_snapshot_def)

lemma settleByProviderRef_steps:
  "db_step\<^sup>*\<^sup>* (app_db s) (app_db (snd (settleByProviderRef g s ref)))"
proof -
  obtain r s' where c: "settleByProviderRef g s ref = (r, s')" by (rule prod.exhaust)
  show ?thesis
  proof (rule settleByProviderRef_split [OF c])
    fix t w e d'
    assume f: "findTransactionByProviderRef (app_db s) ref = Some t"
      and st: "settleTransaction g (entity_id w) t LedgerDeposit (to_double (txn_amount t))
         (buildOutboxPayload g DepositSucceeded (entity_id w) (txn_user_id t) (to_double (txn_amount t))
            (txn_currency t) (getUserEmail (app_db s) (txn_user_id t))) (app_db s) = Inr (e, d')"
      and s': "s' = invalidateBalanceCache (s\<lparr>app_db := d'\<rparr>) (txn_user_id t) (txn_currency t)"
    from db_step.deposit_settled [OF st ref_snapshot [OF f]] show ?thesis
      by (simp add: c s' invalidateBalanceCache_def r_into_rtranclp)
  qed (simp add: c)
qed

lemma failByProviderRef_steps:
  "db_step\<^sup>*\<^sup>* (app_db s) (app_db (snd (failByProviderRef g s ref reason)))"
  by (auto simp: failByProviderRef_def update_db_def db_step.deposit_failed r_into_rtranclp split: option.splits)

lemma handleWebhook_steps:
  "db_step\<^sup>*\<^sup>* (app_db s) (app_db (snd (handleWebhook constructEvent secret g s body sig)))"
proof -
  have snd_bind: "snd (bindS m (\<lambda>_ s1. (Inr True, s1))) = snd m" for m :: "(unit, app) outcome"
    by (simp add: bindS_def split: sum.splits prod.splits)
  obtain r s' where c: "handleWebhook constructEvent secret g s body sig = (r, s')" by (rule prod.exhaust)
  show ?thesis
  proof (rule handleWebhook_split [OF c])
    fix ev
    assume "(r, s') = bindS (settleByProviderRef g s (ev_object_id ev)) (\<lambda>_ s1. (Inr True, s1))"
    from arg_cong [OF this, of snd] show ?thesis
      using settleByProviderRef_steps [of s g "ev_object_id ev"] by (simp add: c snd_bind)
  next
    fix ev
    assume "(r, s') = bindS (failByProviderRef g s (ev_object_id ev) ''Checkout session expired'') (\<lambda>_ s1. (Inr True, s1))"
    from arg_cong [OF this, of snd] show ?thesis
      using failByProviderRef_steps [of s g "ev_object_id ev"] by (simp add: c snd_bind)
  qed (use c in auto)
qed

text \<open>A deposit is stored first; its later updates are steps of their own.\<close>

lemma deposit_steps:
  assumes "0 < dep_amount inp"
  shows "db_step\<^sup>*\<^sup>* (app_db s) (app_db (snd (deposit g reg s uid inp)))"
proof (cases "findTransactionByIdempotencyKey (app_db s) (dep_idempotencyKey inp) = None
    \<and> (\<exists>w. findByUserIdAndCurrency (app_db s) uid (dep_currency inp) = Some w)")
  case False
  then have "snd (deposit g reg s uid inp) = s" by (auto simp: deposit_def split: option.splits)
  then show ?thesis by simp
next
  case True
  then obtain w where new: "findTransactionByIdempotencyKey (app_db s) (dep_idempotencyKey inp) = None"
    and w: "findByUserIdAndCurrency (app_db s) uid (dep_currency inp) = Some w" by blast
  show ?thesis
  proof (cases "createTransaction g (app_db s) uid TxnDeposit (dep_amount inp) (dep_currency inp)
        (dep_paymentMethod inp) (dep_idempotencyKey inp)")
    case (Inl e)
    with new w show ?thesis by (simp add: deposit_def run_db_def)
  next
    case (Inr x)
    obtain t d1 where x: "x = (t, d1)" by (cases x)
    note cr = Inr [unfolded x]
    have first: "db_step (app_db s) d1" using db_step.deposit_created [OF cr assms] .
    have one: "db_step\<^sup>*\<^sup>* (app_db s) d1" using first by (rule r_into_rtranclp)
    have rd: "run_db (\<lambda>d. createTransaction g d uid TxnDeposit (dep_amount inp) (dep_currency inp)
        (dep_paymentMethod inp) (dep_idempotencyKey inp)) s = (Inr t, s\<lparr>app_db := d1\<rparr>)"
      by (rule run_db_Inr) (rule cr)
    have fail: "db_step\<^sup>*\<^sup>* (app_db s) (failTransaction g t reason d1)" for reason
      using first db_step.deposit_failed [of d1 g t reason] by (simp add: rtranclp.rtrancl_into_rtrancl)
    have upd: "db_step\<^sup>*\<^sup>* (app_db s) (app_db (snd (run_db (\<lambda>d. updateTransactionProviderRef g d (entity_id t) ref)
        (s\<lparr>app_db := d1\<rparr>))))" for ref
      by (rule steps_trans [OF one])
        (use run_db_steps [of "\<lambda>d. updateTransactionProviderRef g d (entity_id t) ref" "s\<lparr>app_db := d1\<rparr>"]
          db_step.deposit_referenced in auto)
    have last_if: "snd (bindS m (\<lambda>_ s2. if b then (Inr u, s2) else (Inl e, s2))) = snd m"
      for m :: "(unit, app) outcome" and b and u :: "string option" and e
      by (simp add: bindS_def split: sum.splits prod.splits)
    show ?thesis
      unfolding deposit_def new w option.case rd bindS_simps
      using fail upd one
      by (simp add: last_if split: sum.splits option.splits)
  qed
qed

lemma initiateTransfer_steps:
  assumes "u \<in> set (db_users (app_db s))" "valid_transfer inp" "db_ok (app_db s)" "owners_ok (app_db s)"
  shows "db_step\<^sup>*\<^sup>* (app_db s) (app_db (snd (initiateTransfer g s (entity_id u) (user_email u) inp)))"
proof -
  obtain r s' where c: "initiateTransfer g s (entity_id u) (user_email u) inp = (r, s')" by (rule prod.exhaust)
  show ?thesis
  proof (rule initiateTransfer_split [OF c])
    fix tw fw t d1
    assume tw: "findByWalletTag (app_db s) (ti_toWalletTag inp) = Some tw"
      and ne: "entity_id u \<noteq> wallet_user_id tw"
      and fw: "findByUserIdAndCurrency (app_db s) (entity_id u) (ti_currency inp) = Some fw"
      and cr: "createTransfer g (app_db s) (entity_id u) (wallet_user_id tw) (ti_amount inp) (ti_currency inp)
         (ti_idempotencyKey inp) = Inr (t, d1)"
      and run: "(r, s') = bindS (run_db (executeTransfer (later g) t (entity_id fw) (entity_id tw)
              (transfer_payload g (app_db s) t (entity_id u) (user_email u) tw inp)) (s\<lparr>app_db := d1\<rparr>))
         (\<lambda>_ s2. (Inr (), invalidateBalanceCache
                   (invalidateBalanceCache s2 (entity_id u) (ti_currency inp))
                   (wallet_user_id tw) (ti_currency inp)))"
    let ?x = "executeTransfer (later g) t (entity_id fw) (entity_id tw)
              (transfer_payload g (app_db s) t (entity_id u) (user_email u) tw inp)"
    note pr = transfer_prepared [OF assms tw ne fw cr]
    have "db_step (app_db s) d1"
      using db_step.transfer_created [OF cr] assms(2) by (simp add: valid_transfer_def)
    then have one: "db_step\<^sup>*\<^sup>* (app_db s) d1" by (rule r_into_rtranclp)
    have sub: "app_db s' = app_db (snd (run_db ?x (s\<lparr>app_db := d1\<rparr>)))"
      using run by (auto simp: run_db_def invalidateBalanceCache_def split: sum.splits)
    have snap: "transfer_snapshot d1 t" by (simp add: transfer_snapshot_def pr(9))
    have "db_step\<^sup>*\<^sup>* (app_db (s\<lparr>app_db := d1\<rparr>)) (app_db (snd (run_db ?x (s\<lparr>app_db := d1\<rparr>))))"
      by (rule run_db_steps) (use db_step.transfer_executed [OF _ snap pr(5-7)] in simp)
    then have "db_step\<^sup>*\<^sup>* d1 (app_db (snd (run_db ?x (s\<lparr>app_db := d1\<rparr>))))" by simp
    from steps_trans [OF one this] show ?thesis unfolding c snd_conv sub .
  qed (simp add: c)
qed

lemma publish_loop_steps: "db_step\<^sup>*\<^sup>* (app_db s) (app_db (snd (publish_loop f g events s)))"
proof (induction events arbitrary: s)
  case (Cons e es)
  have m: "db_step\<^sup>*\<^sup>* (app_db s) (markProcessed g (entity_id e) (app_db s))"
    "db_step\<^sup>*\<^sup>* (app_db s) (markFailedAttempt g (entity_id e) (app_db s))"
    by (rule r_into_rtranclp, rule db_step.intros)+
  show ?case
    using Cons.IH [of "on_db (markProcessed g (entity_id e)) (enqueue_event e s)"]
      Cons.IH [of "on_db (markFailedAttempt g (entity_id e)) (enqueue_event e s)"]
      Cons.IH [of "on_db (markFailedAttempt g (entity_id e)) s"] m
    by (auto simp: Let_def intro: steps_trans)
qed simp

lemma publishPendingEvents_steps:
  "db_step\<^sup>*\<^sup>* (app_db s) (app_db (snd (publishPendingEvents f g s)))"
proof (cases "app_publisher_busy s \<or> findUnprocessed 50 (app_db s) = []")
  case False
  then show ?thesis
    using publish_loop_steps [of "s\<lparr>app_publisher_busy := True\<rparr>" f g "findUnprocessed 50 (app_db s)"]
    by (auto simp: publishPendingEvents_def Let_def split: prod.splits)
qed (auto simp: publishPendingEvents_def Let_def)

section \<open>The program\<close>

text \<open>
  One call of a handler. The user of a request is a stored row (as the JWT strategy reads it), a
  body has passed its validation, a fresh UUID was not used in the ledger before, and a user id
  has no colon (it is a UUID).
\<close>

inductive app_step :: "app \<Rightarrow> app \<Rightarrow> bool" where
  user: "app_step s (snd (svc_createUser g s name email password role))"
| password: "app_step s (snd (svc_updateUserPassword g s uid password))"
| details: "app_step s (snd (svc_updateUserDetails g s req target patch role))"
| delete: "app_step s (snd (svc_deleteUser s req target role))"
| wallet: "u \<in> set (db_users (app_db s)) \<Longrightarrow> fresh_wallet (app_db s) (uuid g 0) \<Longrightarrow>
    app_step s (snd (createWallet g s (entity_id u) (user_name u) currency))"
| listener: "literal_user (app_db s) (reg_userId p) \<Longrightarrow> fresh_wallet (app_db s) (uuid g 0) \<Longrightarrow>
    app_step s (snd (handleUserRegistered g s p))"
| balance: "CHR '':'' \<notin> set uid \<Longrightarrow> app_step s (snd (getBalance g s uid currency))"
| deposit: "valid_deposit inp \<Longrightarrow> app_step s (snd (deposit g reg s uid inp))"
| webhook: "app_step s (snd (handleWebhook constructEvent secret g s body sig))"
| transfer: "u \<in> set (db_users (app_db s)) \<Longrightarrow> valid_transfer inp \<Longrightarrow>
    app_step s (snd (initiateTransfer g s (entity_id u) (user_email u) inp))"
| tick: "app_step s (snd (publishPendingEvents f g s))"

lemma app_step_steps:
  "app_step s s' \<Longrightarrow> money_ok (app_db s) \<Longrightarrow> db_step\<^sup>*\<^sup>* (app_db s) (app_db s')"
proof (induction rule: app_step.induct)
  case (wallet u s g currency)
  then show ?case using createWallet_steps stored_user_literal by (simp add: money_ok_def)
next
  case (deposit inp s g reg uid)
  then show ?case using deposit_steps by (simp add: valid_deposit_def)
next
  case (transfer u s inp g)
  then show ?case using initiateTransfer_steps by (simp add: money_ok_def)
qed (simp_all add: money_ok_def svc_createUser_steps svc_updateUserPassword_steps svc_updateUserDetails_steps
      svc_deleteUser_steps handleUserRegistered_steps handleWebhook_steps publishPendingEvents_steps)

interpretation program: invariant_system "\<lambda>s. fresh_db (app_db s)" app_step "\<lambda>s. money_ok (app_db s)"
proof unfold_locales
  show "money_ok (app_db s)" if "fresh_db (app_db s)" for s
    using money.inv_init [OF that] .
  show "money_ok (app_db s')" if "money_ok (app_db s)" "app_step s s'" for s s'
    using money.along [OF app_step_steps [OF that(2,1)] that(1)] .
qed

text \<open>
  Every sequence of handler calls keeps the books. Starting from an empty database, after
  any requests, webhooks, listener calls and ticks, with any gateway, signature check and
  failures of Redis and MySQL: the unique indexes hold, every wallet has an owner, no balance is
  negative and every completed deposit is in the ledger.
\<close>

theorem handlers_keep_books:
  assumes "reach (\<lambda>s. fresh_db (app_db s)) app_step s"
  shows "db_ok (app_db s) \<and> owners_ok (app_db s) \<and> solvent (app_db s) \<and> deposits_booked (app_db s)"
  using program.always [OF assms] by (simp add: money_ok_def)

definition first_app :: app where
  "first_app = demo_app\<lparr>app_db := empty_db (\<lambda>s. s)\<rparr>"

lemma first_call:
  "snd (svc_createUser (demo_ambient ''u'' 1) first_app ''Alice'' ''alice@x.io'' ''h1'' None)
   = demo_app\<lparr>app_db := run1\<rparr>"
  using run_create_user by (simp add: svc_createUser_def run_db_def first_app_def)

theorem handlers_keep_books_witness: "db_ok run1 \<and> solvent run1"
proof -
  have "fresh_db (app_db first_app)" by (simp add: first_app_def fresh_db_def empty_db_def)
  then have "reach (\<lambda>s. fresh_db (app_db s)) app_step first_app" by (rule reach_init)
  moreover have "app_step first_app (demo_app\<lparr>app_db := run1\<rparr>)"
    unfolding first_call [symmetric] by (rule app_step.user)
  ultimately have r: "reach (\<lambda>s. fresh_db (app_db s)) app_step (demo_app\<lparr>app_db := run1\<rparr>)"
    by (rule reach_step)
  show ?thesis using handlers_keep_books [OF r] by simp
qed

end
