(* ===== verification/EndToEnd.thy ===== *)
theory EndToEnd
  imports Refinement
begin

text \<open>
  A deposit from the request to the money: the request opens a session at Stripe, the paid
  session comes back by webhook, and the wallet of the depositor is credited.
\<close>

lemma opened_deposit_found:
  assumes "findTransactionByProviderRef (app_db s) ref = None" "txn_provider_ref t = Some ref"
  shows "findTransactionByProviderRef (app_db (with_deposit s t)) ref = Some t"
  using assms
  by (simp add: findTransactionByProviderRef_def find_append same_def cong: option.case_cong)

text \<open>
  C15: the whole way of a deposit. An accepted request under a new key opened a Stripe session;
  once the paid event of that session is handled, the wallet the depositor has in that currency
  is credited with exactly the requested amount, nobody else's balance changed, and the deposit
  is completed.
\<close>

theorem paid_deposit_credits_wallet:
  assumes "transparent_breaker fire"
    and "deposit g (stripe_registry fire create su cu) s uid inp = (Inr url, s1)"
    and "findTransactionByIdempotencyKey (app_db s) (dep_idempotencyKey inp) = None"
    and "create (stripe_request su cu (dep_amount inp) (dep_currency inp)
        [(''transactionId'', uuid g 0), (''userId'', uid)]) = Inr ses" "session_id ses \<noteq> []"
    and "findTransactionByProviderRef (app_db s) (session_id ses) = None"
    and "findByUserIdAndCurrency (app_db s) uid (dep_currency inp) = Some w"
    and "valid_deposit inp" "money_ok (app_db s)"
    and "settleByProviderRef g' s1 (session_id ses) = (Inr (), s2)" "in_range (app_db s2)"
  shows "url = session_url ses
    \<and> db_wallets (app_db s2) = credited g' w (dep_amount inp) (db_wallets (app_db s))
    \<and> total_balance (app_db s2) = total_balance (app_db s) + dep_amount inp
    \<and> (\<exists>t. findTransactionByProviderRef (app_db s2) (session_id ses) = Some t
          \<and> txn_status t = TxnCompleted \<and> txn_key t = dep_idempotencyKey inp)"
proof (rule stripe_deposit_split [OF assms(2,1,3)])
  fix ses' t
  assume a: "create (stripe_request su cu (dep_amount inp) (dep_currency inp)
        [(''transactionId'', uuid g 0), (''userId'', uid)]) = Inr ses'"
    "url = session_url ses'" "s1 = with_deposit s t"
    "session_id ses' \<noteq> [] \<Longrightarrow>
       t = (new_deposit g uid inp)\<lparr>txn_provider_ref := Some (session_id ses'), updated_at := clock g\<rparr>"
  have ses: "ses' = ses" using a(1) assms(4) by simp
  with a(4) assms(5) have t: "t = (new_deposit g uid inp)\<lparr>txn_provider_ref := Some (session_id ses), updated_at := clock g\<rparr>"
    by simp
  have "0 < dep_amount inp" using assms(8) by (simp add: valid_deposit_def)
  from money.along [OF deposit_steps [OF this] assms(9)]
  have ok: "money_ok (app_db s1)" using assms(2) by (metis snd_conv)
  have f: "findTransactionByProviderRef (app_db s1) (session_id ses) = Some t"
    unfolding a(3) by (rule opened_deposit_found [OF assms(6)]) (simp add: t)
  have w: "findByUserIdAndCurrency (app_db s1) (txn_user_id t) (txn_currency t) = Some w"
    using assms(7) by (simp add: a(3) t findByUserIdAndCurrency_def same_def)
  have p: "txn_status t = TxnPending" by (simp add: t)
  note eff = settle_call [OF assms(10) f p w ok assms(11), of g]
  have "\<exists>x. findTransactionByProviderRef (app_db s2) (session_id ses) = Some x
      \<and> txn_status x = TxnCompleted \<and> txn_key x = txn_key t"
    by (rule settleByProviderRef_split [OF assms(10)]) (use f p w in \<open>auto simp: invalidateBalanceCache_def
        dest!: settled_found\<close>)
  then have st: "\<exists>x. findTransactionByProviderRef (app_db s2) (session_id ses) = Some x
      \<and> txn_status x = TxnCompleted \<and> txn_key x = dep_idempotencyKey inp" by (simp add: t)
  have u: "url = session_url ses" using a(2) ses by simp
  have before: "total_balance (app_db s1) = total_balance (app_db s)" "db_wallets (app_db s1) = db_wallets (app_db s)"
      "txn_amount t = dep_amount inp"
    by (simp_all add: a(3) t total_balance_def)
  have m: "db_wallets (app_db s2) = credited g' w (dep_amount inp) (db_wallets (app_db s))"
    "total_balance (app_db s2) = total_balance (app_db s) + dep_amount inp"
    using eff unfolding before by blast+
  show ?thesis using u m st by blast
qed

text \<open>Alice pays the session \<open>cs_3\<close> she opened.\<close>

definition demo_paid_db :: db where
  "demo_paid_db = demo_db\<lparr>
     db_wallets := [set_balance 9 13000 alice_wallet, bob_wallet],
     db_ledger := [paid_entry, settled_entry (demo_ambient ''s'' 9) ''w1'' demo_opened LedgerDeposit alice_wallet 13000],
     db_transactions := [paid_deposit, open_deposit, demo_opened\<lparr>txn_status := TxnCompleted, updated_at := 9\<rparr>],
     db_outbox := [paid_event, outbox_row (demo_ambient ''s'' 9) 1
       (buildOutboxPayload (demo_ambient ''s'' 9) DepositSucceeded ''w1'' ''u1'' 3000 ''EUR'' (Some ''alice@x.io''))]\<rparr>"

lemma demo_opened_simps [simp]:
  "txn_status demo_opened = TxnPending" "txn_user_id demo_opened = ''u1''"
  "txn_currency demo_opened = ''EUR''" "txn_amount demo_opened = 3000"
  "entity_id demo_opened = ''d''" "txn_key demo_opened = ''dep-3''" "txn_provider_ref demo_opened = Some ''cs_3''"
  by (simp_all add: demo_opened_def demo_deposit_input_def demo_ambient_def)

lemma demo_pay:
  "settleByProviderRef (demo_ambient ''s'' 9) (with_deposit demo_app demo_opened) ''cs_3''
   = (Inr (), (with_deposit demo_app demo_opened)\<lparr>app_db := demo_paid_db\<rparr>)"
proof -
  let ?s = "with_deposit demo_app demo_opened"
  let ?p = "buildOutboxPayload (demo_ambient ''s'' 9) DepositSucceeded ''w1'' ''u1'' 3000 ''EUR'' (Some ''alice@x.io'')"
  have f: "findTransactionByProviderRef (app_db demo_app) ''cs_3'' = None"
    by (simp add: findTransactionByProviderRef_def paid_deposit_def open_deposit_def)
  have t: "findTransactionByProviderRef (app_db ?s) ''cs_3'' = Some demo_opened"
    by (rule opened_deposit_found [OF f]) simp
  have r: "findByUserIdAndCurrency (app_db ?s) ''u1'' ''EUR'' = Some alice_wallet"
    "getUserEmail (app_db ?s) ''u1'' = Some ''alice@x.io''" "entity_id alice_wallet = ''w1''"
    by (simp_all add: findByUserIdAndCurrency_def getUserEmail_def findUserById_def has_id_def same_def demo_rows)
  have "settleTransaction (demo_ambient ''s'' 9) ''w1'' demo_opened LedgerDeposit (to_double 3000) ?p (app_db ?s)
      = Inr (settled_entry (demo_ambient ''s'' 9) ''w1'' demo_opened LedgerDeposit alice_wallet 13000, demo_paid_db)"
    by (simp add: Let_def jopt_def settleTransaction_def settled_entry_def demo_paid_db_def demo_db_def
      demo_rows has_id_def same_def js_add_def to_double_exact update_wallet_balance_def bigint_ok_def
      insert_ledger_def insert_outbox_def insert_row_def fits_def complete_transaction_def update_where_def
      set_balance_def buildOutboxPayload_def outbox_row_def demo_ambient_def
      ledger_conflict_def outbox_conflict_def)
  with t r show ?thesis
    by (simp add: settleByProviderRef_def run_db_def to_double_exact invalidateBalanceCache_def
        cache_del_def with_deposit_def demo_app_def fun_upd_idem del: with_deposit_simps)
qed

theorem paid_deposit_credits_wallet_witness: "total_balance demo_paid_db = 13000"
proof -
  have new: "findTransactionByIdempotencyKey (app_db demo_app) (dep_idempotencyKey demo_deposit_input) = None"
    using demo_deposit_reads by (simp add: demo_deposit_input_def)
  have ref: "findTransactionByProviderRef (app_db demo_app) ''cs_3'' = None"
    by (simp add: findTransactionByProviderRef_def paid_deposit_def open_deposit_def)
  have i: "dep_amount demo_deposit_input = 3000" "dep_currency demo_deposit_input = ''EUR''" "valid_deposit demo_deposit_input"
    by (simp_all add: demo_deposit_input_def valid_deposit_def is_currency_def)
  let ?ses = "\<lparr>session_id = ''cs_3'', session_url = Some ''https://pay/cs_3''\<rparr>"
  have c: "demo_session req = Inr ?ses" for req by (simp add: demo_session_def)
  have p: "settleByProviderRef (demo_ambient ''s'' 9) (with_deposit demo_app demo_opened) (session_id ?ses)
      = (Inr (), (with_deposit demo_app demo_opened)\<lparr>app_db := demo_paid_db\<rparr>)"
    using demo_pay by simp
  have r: "in_range (app_db ((with_deposit demo_app demo_opened)\<lparr>app_db := demo_paid_db\<rparr>))"
    by (simp add: in_range_def demo_paid_db_def max_safe_def alice_wallet_def bob_wallet_def)
  show ?thesis
    using paid_deposit_credits_wallet [OF closed_breaker_transparent demo_deposit_open new c _ _ _ i(3) _ p r,
        of alice_wallet] ref i(1,2) demo_money(7)
    by (simp add: money_ok_def demo_db_ok demo_money)
qed

end
