(* ===== verification/Locks.thy ===== *)
theory Locks
  imports Transfers
begin

text \<open>
  The row locks of the database transactions. \<open>executeTransfer\<close> locks two wallet rows one after
  the other (\<open>pessimistic_write\<close>), \<open>settleTransaction\<close> one, and all of them are kept until the
  transaction ends. The steps below run any number of such transactions at once; what is shown
  is that the order of \<open>lock_order\<close> rules out a deadlock and that all of them end.
\<close>

section \<open>Transactions that lock\<close>

text \<open>The rows a transaction has locked and those it is going to lock, in its order.\<close>

record lock_task =
  lt_held :: "string list"
  lt_wanted :: "string list"

definition transfer_task :: "string \<Rightarrow> string \<Rightarrow> lock_task" where
  "transfer_task fromWalletId toWalletId =
     (let (walletIdFirst, walletIdSecond) = lock_order fromWalletId toWalletId
      in \<lparr>lt_held = [], lt_wanted = [walletIdFirst, walletIdSecond]\<rparr>)"

definition settle_task :: "string \<Rightarrow> lock_task" where
  "settle_task walletId = \<lparr>lt_held = [], lt_wanted = [walletId]\<rparr>"

inductive lock_begin :: "lock_task list \<Rightarrow> lock_task list \<Rightarrow> bool" where
  begin_transfer: "a \<noteq> b \<Longrightarrow> lock_begin ts (ts @ [transfer_task a b])"
| begin_settle: "lock_begin ts (ts @ [settle_task w])"

text \<open>
  A transaction goes on when the next row it wants is not locked by any other; it ends when it
  has all its rows, and its locks are released.
\<close>

definition free :: "lock_task list \<Rightarrow> string \<Rightarrow> bool" where
  "free ts w \<longleftrightarrow> (\<forall>t\<in>set ts. w \<notin> set (lt_held t))"

inductive lock_run :: "lock_task list \<Rightarrow> lock_task list \<Rightarrow> bool" where
  acquire: "lt_wanted t = w # ws \<Longrightarrow> free (ts @ t # us) w \<Longrightarrow>
    lock_run (ts @ t # us) (ts @ t\<lparr>lt_held := lt_held t @ [w], lt_wanted := ws\<rparr> # us)"
| finish: "lt_wanted t = [] \<Longrightarrow> lock_run (ts @ t # us) (ts @ us)"

inductive_cases lock_runE: "lock_run ts ts'"

definition lock_step :: "lock_task list \<Rightarrow> lock_task list \<Rightarrow> bool" where
  "lock_step ts ts' \<longleftrightarrow> lock_begin ts ts' \<or> lock_run ts ts'"

section \<open>The order\<close>

text \<open>Every transaction takes its rows in ascending order of their ids.\<close>

definition ordered :: "lock_task list \<Rightarrow> bool" where
  "ordered ts \<longleftrightarrow> (\<forall>t\<in>set ts. sorted_wrt (<) (lt_held t @ lt_wanted t))"

lemma transfer_task_ordered:
  "a \<noteq> b \<Longrightarrow> sorted_wrt (<) (lt_held (transfer_task a b) @ lt_wanted (transfer_task a b))"
  using lock_order_sorted [of a b] by (auto simp: transfer_task_def split: prod.split)

lemma run_ordered: "lock_run ts ts' \<Longrightarrow> ordered ts \<Longrightarrow> ordered ts'"
  by (induction rule: lock_run.induct) (auto simp: ordered_def)

lemma begin_ordered: "lock_begin ts ts' \<Longrightarrow> ordered ts \<Longrightarrow> ordered ts'"
  by (induction rule: lock_begin.induct) (auto simp: ordered_def settle_task_def transfer_task_ordered
      simp del: sorted_wrt_append)

interpretation locks: invariant_system "\<lambda>ts. ts = []" lock_step ordered
proof unfold_locales
  show "ordered ts" if "ts = []" for ts
    using that by (simp add: ordered_def)
  show "ordered ts'" if "ordered ts" "lock_step ts ts'" for ts ts'
    using that run_ordered begin_ordered unfolding lock_step_def by blast
qed

text \<open>The transaction that waits for the greatest row is never blocked.\<close>

lemma ordered_progress:
  assumes "ordered ts" "ts \<noteq> []"
  shows "\<exists>ts'. lock_run ts ts'"
proof (cases "\<exists>t\<in>set ts. lt_wanted t = []")
  case True
  then obtain t us vs where "ts = us @ t # vs" "lt_wanted t = []" by (auto dest: split_list)
  then show ?thesis using lock_run.finish by blast
next
  case False
  define nxt where "nxt t = hd (lt_wanted t)" for t :: lock_task
  define m where "m = Max (nxt ` set ts)"
  have "m \<in> nxt ` set ts" unfolding m_def using assms(2) by (intro Max_in) auto
  then obtain t where t: "t \<in> set ts" "nxt t = m" by auto
  with False obtain ws where ws: "lt_wanted t = m # ws"
    by (metis list.collapse nxt_def)
  have "free ts m"
    unfolding free_def
  proof (intro ballI notI)
    fix u assume u: "u \<in> set ts" "m \<in> set (lt_held u)"
    from False u(1) obtain v vs where v: "lt_wanted u = v # vs" by (meson list.exhaust)
    with assms(1) u have "m < v" by (auto simp: ordered_def sorted_wrt_append)
    moreover have "nxt u \<le> m" unfolding m_def using u(1) by (intro Max_ge) auto
    ultimately show False using v by (simp add: nxt_def)
  qed
  with t ws show ?thesis using lock_run.acquire by (metis split_list)
qed

text \<open>Every step uses up something a transaction still has to do.\<close>

definition work :: "lock_task list \<Rightarrow> nat" where
  "work ts = sum_list (map (\<lambda>t. Suc (length (lt_wanted t))) ts)"

lemma run_work: "lock_run ts ts' \<Longrightarrow> work ts' < work ts"
  by (induction rule: lock_run.induct) (auto simp: work_def)

lemma ordered_all_end: "ordered ts \<Longrightarrow> lock_run\<^sup>*\<^sup>* ts []"
proof (induction "work ts" arbitrary: ts rule: less_induct)
  case less
  show ?case
  proof (cases "ts = []")
    case False
    with less.prems obtain ts' where r: "lock_run ts ts'" using ordered_progress by blast
    then have "lock_run\<^sup>*\<^sup>* ts' []"
      using less.hyps [OF run_work] run_ordered less.prems by blast
    with r show ?thesis by (rule converse_rtranclp_into_rtranclp)
  qed simp
qed

section \<open>Properties\<close>

text \<open>
  C14: no deadlock. Whatever transfers and settlements are in flight and however they were
  interleaved so far, one of them can go on, each step leaves less to do, and all of them can
  run to their end.
\<close>

theorem transfers_never_deadlock:
  assumes "reach (\<lambda>ts. ts = []) lock_step ts"
  shows "(ts \<noteq> [] \<longrightarrow> (\<exists>ts'. lock_run ts ts')) \<and> (\<forall>ts'. lock_run ts ts' \<longrightarrow> work ts' < work ts)
    \<and> lock_run\<^sup>*\<^sup>* ts []"
  using locks.always [OF assms] ordered_progress ordered_all_end run_work by blast

text \<open>Two transfers between the same two wallets in opposite directions, one lock taken.\<close>

definition crossing :: "lock_task list" where
  "crossing = [\<lparr>lt_held = [''w1''], lt_wanted = [''w2'']\<rparr>, transfer_task ''w2'' ''w1'']"

lemma crossing_reachable: "reach (\<lambda>ts. ts = []) lock_step crossing"
proof -
  have "reach (\<lambda>ts. ts = []) lock_step []" by (rule reach_init) simp
  then have "reach (\<lambda>ts. ts = []) lock_step ([] @ [transfer_task ''w1'' ''w2''])"
    by (rule reach_step) (simp only: lock_step_def, rule disjI1, rule begin_transfer, simp)
  then have "reach (\<lambda>ts. ts = []) lock_step (([] @ [transfer_task ''w1'' ''w2'']) @ [transfer_task ''w2'' ''w1''])"
    by (rule reach_step) (simp only: lock_step_def, rule disjI1, rule begin_transfer, simp)
  then have two: "reach (\<lambda>ts. ts = []) lock_step ([] @ transfer_task ''w1'' ''w2'' # [transfer_task ''w2'' ''w1''])"
    by simp
  have "lock_run ([] @ transfer_task ''w1'' ''w2'' # [transfer_task ''w2'' ''w1'']) crossing"
    using lock_run.acquire [of "transfer_task ''w1'' ''w2''" "''w1''" "[''w2'']" "[]"
        "[transfer_task ''w2'' ''w1'']"]
    by (simp add: crossing_def free_def transfer_task_def lock_order_def)
  then have "lock_step ([] @ transfer_task ''w1'' ''w2'' # [transfer_task ''w2'' ''w1'']) crossing"
    unfolding lock_step_def by (rule disjI2)
  with two show ?thesis by (rule reach_step)
qed

theorem transfers_never_deadlock_witness: "\<exists>ts'. lock_run crossing ts'"
  using transfers_never_deadlock [OF crossing_reachable] by (simp add: crossing_def)

end
