(* ===== verification/OutboxProperties.thy ===== *)
theory OutboxProperties
  imports Refinement "HOL-Library.Multiset"
begin

text \<open>
  The properties of the outbox publisher under any failures of Redis and MySQL: what one tick
  does to a row and to the queue, that an event is only marked after it was enqueued, the
  release of the re-entrancy flag, the fate of an event that failed five times, and the ticks that
  empty the outbox.
\<close>

section \<open>One tick, row by row\<close>

text \<open>What a run over \<open>es\<close> that enqueued \<open>sent\<close> may do to a row of the outbox.\<close>

definition tick_row :: "db \<Rightarrow> outbox_event list \<Rightarrow> outbox_event list \<Rightarrow> outbox_event \<Rightarrow> outbox_event \<Rightarrow> bool" where
  "tick_row d sent es x x' \<longleftrightarrow> entity_id x' = entity_id x \<and> outbox_payload_json x' = outbox_payload_json x
     \<and> (outbox_processed_at x' = outbox_processed_at x \<or> (\<exists>e\<in>set sent. has_id d (entity_id e) x))
     \<and> ((\<forall>e\<in>set es. \<not> has_id d (entity_id e) x) \<longrightarrow> x' = x)"

definition job_datas :: "app \<Rightarrow> json list" where
  "job_datas s = map job_data (queue_jobs (app_domain_events s))"

lemma job_datas_simps [simp]:
  "job_datas (on_db h s) = job_datas s"
  "job_datas (enqueue_event e s) = job_datas s @ [json_clone (event_job e)]"
  by (simp_all add: job_datas_def enqueue_event_def queue_add_def)

lemma tick_row_refl [simp]: "list_all2 (tick_row d [] es) xs xs"
  by (rule list.rel_refl) (simp add: tick_row_def)

lemma tick_row_trans:
  assumes "list_all2 (tick_row d as [e]) xs ys" "list_all2 (tick_row d bs es) ys zs"
  shows "list_all2 (tick_row d (as @ bs) (e # es)) xs zs"
proof (rule list_all2_trans [OF _ assms])
  fix x y z
  assume a: "tick_row d as [e] x y" "tick_row d bs es y z"
  then have id: "has_id d i y = has_id d i x" for i
    by (simp add: tick_row_def has_id_def)
  from a show "tick_row d (as @ bs) (e # es) x z"
    unfolding tick_row_def set_append set_simps by (auto simp: id)
qed

lemma mark_row:
  "list_all2 (tick_row d [e] [e]) (db_outbox d) (db_outbox (markProcessed g (entity_id e) d))"
  by (auto simp: markProcessed_def update_where_def list_all2_map2 tick_row_def intro: list.rel_refl_strong)

lemma retry_row:
  "list_all2 (tick_row d as [e]) (db_outbox d) (db_outbox (markFailedAttempt g (entity_id e) d))"
  by (auto simp: markFailedAttempt_def update_where_def list_all2_map2 tick_row_def intro: list.rel_refl_strong)

lemma tick_row_coll: "db_coll d' = db_coll d \<Longrightarrow> tick_row d' = tick_row d"
  by (simp add: fun_eq_iff tick_row_def has_id_def same_def)

lemma mark_frames [simp]:
  "db_coll (markProcessed g i d) = db_coll d" "db_coll (markFailedAttempt g i d) = db_coll d"
  by (simp_all add: markProcessed_def markFailedAttempt_def)

text \<open>The loop: the jobs it adds are those of \<open>sent\<close>, in order, and nothing else changes.\<close>

lemma publish_loop_effect:
  assumes "publish_loop f g es s = (r, s')"
  shows "\<exists>sent. set sent \<subseteq> set es \<and> job_datas s' = job_datas s @ map (\<lambda>e. json_clone (event_job e)) sent
    \<and> list_all2 (tick_row (app_db s) sent es) (db_outbox (app_db s)) (db_outbox (app_db s'))
    \<and> db_coll (app_db s') = db_coll (app_db s)"
  using assms
proof (induction es arbitrary: s)
  case Nil
  then show ?case by (intro exI [of _ "[]"]) auto
next
  case (Cons e es)
  define added where "added = (if add_fails f (entity_id e) then [] else [e])"
  define s1 where "s1 = (if add_fails f (entity_id e) then s else enqueue_event e s)"
  have s1: "app_db s1 = app_db s" "job_datas s1 = job_datas s @ map (\<lambda>e. json_clone (event_job e)) added"
    by (simp_all add: s1_def added_def)
  have go: ?case if run: "publish_loop f g es (on_db h s1) = (r, s')"
    and h: "list_all2 (tick_row (app_db s) added [e]) (db_outbox (app_db s)) (db_outbox (h (app_db s)))"
      "db_coll (h (app_db s)) = db_coll (app_db s)" for h
  proof -
    from Cons.IH [OF run] obtain sent where sent: "set sent \<subseteq> set es"
        "job_datas s' = job_datas s1 @ map (\<lambda>e. json_clone (event_job e)) sent"
        "list_all2 (tick_row (h (app_db s)) sent es) (db_outbox (h (app_db s))) (db_outbox (app_db s'))"
        "db_coll (app_db s') = db_coll (h (app_db s))"
      by (auto simp: s1)
    have "list_all2 (tick_row (app_db s) (added @ sent) (e # es)) (db_outbox (app_db s)) (db_outbox (app_db s'))"
      using h(1) sent(3) unfolding tick_row_coll [OF h(2)] by (rule tick_row_trans)
    then show ?thesis
      using sent s1 h(2) by (intro exI [of _ "added @ sent"]) (auto simp: added_def)
  qed
  show ?case
  proof (cases "\<not> add_fails f (entity_id e) \<and> \<not> mark_fails f (entity_id e)")
    case True
    with Cons.prems have "publish_loop f g es (on_db (markProcessed g (entity_id e)) s1) = (r, s')"
      by (simp add: Let_def s1_def)
    then show ?thesis by (rule go) (use True mark_row in \<open>simp_all add: added_def\<close>)
  next
    case False
    note failed = False
    show ?thesis
    proof (cases "retry_fails f (entity_id e)")
      case True
      with failed Cons.prems have "s' = s1" by (auto simp: Let_def s1_def)
      moreover have "list_all2 (tick_row (app_db s) added (e # es)) (db_outbox (app_db s)) (db_outbox (app_db s))"
        by (rule list.rel_refl) (simp add: tick_row_def)
      ultimately show ?thesis using s1 by (intro exI [of _ added]) (auto simp: added_def)
    next
      case False
      with failed Cons.prems have "publish_loop f g es (on_db (markFailedAttempt g (entity_id e)) s1) = (r, s')"
        by (auto simp: Let_def s1_def)
      then show ?thesis by (rule go) (use retry_row in simp_all)
    qed
  qed
qed

lemma tick_effect:
  assumes "publishPendingEvents f g s = (r, s')"
  shows "\<exists>sent. set sent \<subseteq> set (findUnprocessed 50 (app_db s))
    \<and> job_datas s' = job_datas s @ map (\<lambda>e. json_clone (event_job e)) sent
    \<and> list_all2 (tick_row (app_db s) sent (findUnprocessed 50 (app_db s))) (db_outbox (app_db s)) (db_outbox (app_db s'))
    \<and> db_coll (app_db s') = db_coll (app_db s)"
proof (cases "app_publisher_busy s \<or> find_fails f \<or> findUnprocessed 50 (app_db s) = []")
  case True
  with assms have "job_datas s' = job_datas s" "app_db s' = app_db s"
    by (auto simp: publishPendingEvents_def Let_def job_datas_def split: if_splits)
  moreover have "list_all2 (tick_row (app_db s) [] es) xs xs" for es xs by simp
  ultimately show ?thesis by (intro exI [of _ "[]"]) auto
next
  case False
  let ?s = "s\<lparr>app_publisher_busy := True\<rparr>"
  obtain r2 s2 where l: "publish_loop f g (findUnprocessed 50 (app_db s)) ?s = (r2, s2)" by (rule prod.exhaust)
  with False assms have "s' = s2\<lparr>app_publisher_busy := False\<rparr>" by (simp add: publishPendingEvents_def Let_def)
  then have "job_datas s' = job_datas s2" "app_db s' = app_db s2" "job_datas ?s = job_datas s"
    by (simp_all add: job_datas_def)
  with publish_loop_effect [OF l] show ?thesis by simp
qed

section \<open>Properties\<close>

lemma batch_row:
  assumes "db_ok d" "e \<in> set (findUnprocessed n d)" "x \<in> set (db_outbox d)" "has_id d (entity_id e) x"
  shows "e = x"
  using assms findUnprocessed_set [OF assms(2)] outbox_table.row_eq_id [of "db_coll d" "db_outbox d" e x]
  by (simp add: db_ok_def has_id_def same_def)

text \<open>
  C22: no event is lost by a tick. Whatever fails and wherever a tick stops, the outbox keeps its
  rows with their payloads, and a row that the tick marked as processed was put on the
  domain-events queue by it, with its id, name and payload.
\<close>

theorem processed_only_after_enqueue:
  assumes "publishPendingEvents f g s = (r, s')" "db_ok (app_db s)"
  shows "list_all2 (\<lambda>x x'. entity_id x' = entity_id x \<and> outbox_payload_json x' = outbox_payload_json x
      \<and> (outbox_processed_at x' \<noteq> outbox_processed_at x \<longrightarrow>
           json_clone (event_job x) \<in> set (drop (length (job_datas s)) (job_datas s'))))
    (db_outbox (app_db s)) (db_outbox (app_db s'))"
proof -
  from tick_effect [OF assms(1)] obtain sent where sent: "set sent \<subseteq> set (findUnprocessed 50 (app_db s))"
      "job_datas s' = job_datas s @ map (\<lambda>e. json_clone (event_job e)) sent"
      "list_all2 (tick_row (app_db s) sent (findUnprocessed 50 (app_db s))) (db_outbox (app_db s)) (db_outbox (app_db s'))"
    by blast
  from sent(3) show ?thesis
  proof (rule list.rel_mono_strong)
    fix x x' assume x: "x \<in> set (db_outbox (app_db s))"
      "tick_row (app_db s) sent (findUnprocessed 50 (app_db s)) x x'"
    have "json_clone (event_job x) \<in> set (drop (length (job_datas s)) (job_datas s'))"
      if "outbox_processed_at x' \<noteq> outbox_processed_at x"
    proof -
      from x(2) that obtain e where "e \<in> set sent" "has_id (app_db s) (entity_id e) x"
        by (auto simp: tick_row_def)
      with sent(1) batch_row [OF assms(2) _ x(1)] have "x \<in> set sent" by blast
      then show ?thesis by (simp add: sent(2))
    qed
    with x(2) show "entity_id x' = entity_id x \<and> outbox_payload_json x' = outbox_payload_json x
      \<and> (outbox_processed_at x' \<noteq> outbox_processed_at x \<longrightarrow>
           json_clone (event_job x) \<in> set (drop (length (job_datas s)) (job_datas s')))"
      by (simp add: tick_row_def)
  qed
qed

definition no_faults :: faults where
  "no_faults = \<lparr>find_fails = False, add_fails = (\<lambda>_. False), mark_fails = (\<lambda>_. False), retry_fails = (\<lambda>_. False)\<rparr>"

lemma publish_loop_no_faults:
  "\<exists>s'. publish_loop no_faults g es s = (Inr (), s')
     \<and> job_datas s' = job_datas s @ map (\<lambda>e. json_clone (event_job e)) es
     \<and> db_coll (app_db s') = db_coll (app_db s)
     \<and> db_outbox (app_db s') = map (\<lambda>x. if \<exists>e\<in>set es. has_id (app_db s) (entity_id e) x
          then x\<lparr>outbox_processed_at := Some (clock g), updated_at := clock g\<rparr> else x) (db_outbox (app_db s))"
proof (induction es arbitrary: s)
  case Nil
  then show ?case by simp
next
  case (Cons e es)
  let ?s = "on_db (markProcessed g (entity_id e)) (enqueue_event e s)"
  have id: "has_id (app_db ?s) i = has_id (app_db s) i" for i and x :: "outbox_event"
    by (simp add: has_id_def same_def fun_eq_iff)
  from Cons.IH [of ?s] obtain s' where s': "publish_loop no_faults g es ?s = (Inr (), s')"
      "job_datas s' = job_datas ?s @ map (\<lambda>e. json_clone (event_job e)) es"
      "db_coll (app_db s') = db_coll (app_db ?s)"
      "db_outbox (app_db s') = map (\<lambda>x. if \<exists>e\<in>set es. has_id (app_db ?s) (entity_id e) x
          then x\<lparr>outbox_processed_at := Some (clock g), updated_at := clock g\<rparr> else x) (db_outbox (app_db ?s))"
    by blast
  have "db_outbox (app_db s') = map (\<lambda>x. if \<exists>e\<in>set (e # es). has_id (app_db s) (entity_id e) x
          then x\<lparr>outbox_processed_at := Some (clock g), updated_at := clock g\<rparr> else x) (db_outbox (app_db s))"
    unfolding s'(4) by (auto simp: markProcessed_def update_where_def has_id_def same_def)
  with s' show ?case by (intro exI [of _ s']) (simp add: no_faults_def Let_def)
qed

text \<open>
  A tick that nothing disturbs delivers its batch: the 50 oldest unprocessed events (all of
  them when there are no more) go to the queue once each, oldest first, and every one of them is
  marked as processed; the call succeeds and the publisher is idle again.
\<close>

theorem undisturbed_tick_delivers:
  assumes "\<not> app_publisher_busy s" "db_ok (app_db s)"
  shows "\<exists>s'. publishPendingEvents no_faults g s = (Inr (), s') \<and> \<not> app_publisher_busy s'
    \<and> job_datas s' = job_datas s @ map (\<lambda>e. json_clone (event_job e)) (findUnprocessed 50 (app_db s))
    \<and> db_outbox (app_db s') = map (\<lambda>x. if x \<in> set (findUnprocessed 50 (app_db s))
          then x\<lparr>outbox_processed_at := Some (clock g), updated_at := clock g\<rparr> else x) (db_outbox (app_db s))"
proof -
  let ?es = "findUnprocessed 50 (app_db s)"
  let ?s = "s\<lparr>app_publisher_busy := True\<rparr>"
  obtain s' where s': "publish_loop no_faults g ?es ?s = (Inr (), s')"
      "job_datas s' = job_datas ?s @ map (\<lambda>e. json_clone (event_job e)) ?es"
      "db_outbox (app_db s') = map (\<lambda>x. if \<exists>e\<in>set ?es. has_id (app_db s) (entity_id e) x
          then x\<lparr>outbox_processed_at := Some (clock g), updated_at := clock g\<rparr> else x) (db_outbox (app_db s))"
    using publish_loop_no_faults [of g ?es ?s] by auto
  have "(\<exists>e\<in>set ?es. has_id (app_db s) (entity_id e) x) \<longleftrightarrow> x \<in> set ?es" if "x \<in> set (db_outbox (app_db s))" for x
    using batch_row [OF assms(2) _ that] by (auto simp: has_id_def same_def)
  then have out: "db_outbox (app_db s') = map (\<lambda>x. if x \<in> set ?es
          then x\<lparr>outbox_processed_at := Some (clock g), updated_at := clock g\<rparr> else x) (db_outbox (app_db s))"
    unfolding s'(3) by (intro map_cong) auto
  show ?thesis
  proof (cases "?es = []")
    case True
    then show ?thesis using assms(1)
      by (simp add: publishPendingEvents_def no_faults_def Let_def job_datas_def)
  next
    case False
    then have "publishPendingEvents no_faults g s = (Inr (), s'\<lparr>app_publisher_busy := False\<rparr>)"
      using s'(1) assms(1) by (simp add: publishPendingEvents_def Let_def) (simp add: no_faults_def)
    with s'(2) out show ?thesis by (simp add: job_datas_def)
  qed
qed

text \<open>
  The re-entrancy flag. While a tick is running another one does nothing; every tick that
  does run leaves the publisher idle, whether it ends normally or with an error, so later ticks
  run again.
\<close>

lemma publisher_flag_released:
  "app_publisher_busy (snd (publishPendingEvents f g s)) = app_publisher_busy s
   \<and> publishPendingEvents f g (s\<lparr>app_publisher_busy := True\<rparr>) = (Inr (), s\<lparr>app_publisher_busy := True\<rparr>)"
  by (simp add: publishPendingEvents_def Let_def split: prod.split)

text \<open>Any number of ticks, each with its own failures.\<close>

fun run_ticks :: "(faults \<times> ambient) list \<Rightarrow> app \<Rightarrow> app" where
  "run_ticks [] s = s"
| "run_ticks ((f, g) # fs) s = run_ticks fs (snd (publishPendingEvents f g s))"

lemma list_all2_elem: "list_all2 P xs ys \<Longrightarrow> x \<in> set xs \<Longrightarrow> \<exists>y\<in>set ys. P x y"
  by (induction rule: list_all2_induct) auto

lemma tick_keeps_exhausted:
  assumes "db_ok (app_db s)" "x \<in> set (db_outbox (app_db s))" "\<not> is_unprocessed x"
  shows "x \<in> set (db_outbox (app_db (snd (publishPendingEvents f g s))))"
    and "\<exists>sent. job_datas (snd (publishPendingEvents f g s)) = job_datas s @ map (\<lambda>e. json_clone (event_job e)) sent
           \<and> (\<forall>e\<in>set sent. entity_id e \<noteq> entity_id x)"
proof -
  obtain r s' where c: "publishPendingEvents f g s = (r, s')" by (rule prod.exhaust)
  from tick_effect [OF c] obtain sent where sent: "set sent \<subseteq> set (findUnprocessed 50 (app_db s))"
      "job_datas s' = job_datas s @ map (\<lambda>e. json_clone (event_job e)) sent"
      "list_all2 (tick_row (app_db s) sent (findUnprocessed 50 (app_db s))) (db_outbox (app_db s)) (db_outbox (app_db s'))"
    by blast
  have none: "\<not> has_id (app_db s) (entity_id e) x" if "e \<in> set (findUnprocessed 50 (app_db s))" for e
    using batch_row [OF assms(1) that assms(2)] findUnprocessed_set [OF that] assms(3) by blast
  from list_all2_elem [OF sent(3) assms(2)] obtain x' where "x' \<in> set (db_outbox (app_db s'))"
      "tick_row (app_db s) sent (findUnprocessed 50 (app_db s)) x x'"
    by blast
  moreover from this none have "x' = x" unfolding tick_row_def by blast
  ultimately show "x \<in> set (db_outbox (app_db (snd (publishPendingEvents f g s))))" by (simp add: c)
  have "\<forall>e\<in>set sent. entity_id e \<noteq> entity_id x"
    using none sent(1) by (fastforce simp: has_id_def same_def)
  with sent(2) show "\<exists>sent. job_datas (snd (publishPendingEvents f g s)) = job_datas s @ map (\<lambda>e. json_clone (event_job e)) sent
           \<and> (\<forall>e\<in>set sent. entity_id e \<noteq> entity_id x)"
    by (auto simp: c)
qed

lemma tick_db_ok: "db_ok (app_db s) \<Longrightarrow> db_ok (app_db (snd (publishPendingEvents f g s)))"
  using publishPendingEvents_steps [of s f g] by (induction rule: rtranclp_induct) (auto intro: db_step_db_ok)

lemma event_job_id: "jget (json_clone (event_job e)) ''outboxId'' = JStr (entity_id e)"
  by (simp add: event_job_def jget_def)

text \<open>
  C37: an event that failed five times is given up. Whatever ticks follow, with or without
  failures, the row stays in the outbox as it is, unprocessed, and no job for it is ever added:
  nothing in the program resets the counter or moves the row to the dead-letter queue.
\<close>

theorem exhausted_event_never_published:
  assumes "db_ok (app_db s)" "x \<in> set (db_outbox (app_db s))" "MAX_RETRIES \<le> outbox_retry_count x"
  shows "x \<in> set (db_outbox (app_db (run_ticks fs s)))
    \<and> (\<forall>j\<in>set (drop (length (job_datas s)) (job_datas (run_ticks fs s))). jget j ''outboxId'' \<noteq> JStr (entity_id x))"
proof -
  have "x \<in> set (db_outbox (app_db (run_ticks fs s))) \<and>
      (\<exists>es. job_datas (run_ticks fs s) = job_datas s @ map (\<lambda>e. json_clone (event_job e)) es
         \<and> (\<forall>e\<in>set es. entity_id e \<noteq> entity_id x))"
    using assms
  proof (induction fs s rule: run_ticks.induct)
    case (2 f g fs s)
    let ?s = "snd (publishPendingEvents f g s)"
    have ex: "\<not> is_unprocessed x" using 2(4) by (simp add: is_unprocessed_def)
    note k = tick_keeps_exhausted [OF 2(2,3) ex, of f g]
    from k(2) obtain es where es: "job_datas ?s = job_datas s @ map (\<lambda>e. json_clone (event_job e)) es"
      "\<forall>e\<in>set es. entity_id e \<noteq> entity_id x" by blast
    from 2(1) [OF tick_db_ok [OF 2(2)] k(1) 2(4)] obtain fs' where
      "x \<in> set (db_outbox (app_db (run_ticks fs ?s)))"
      "job_datas (run_ticks fs ?s) = job_datas ?s @ map (\<lambda>e. json_clone (event_job e)) fs'"
      "\<forall>e\<in>set fs'. entity_id e \<noteq> entity_id x" by blast
    with es show ?case by (intro conjI exI [of _ "es @ fs'"]) auto
  qed (intro conjI exI [of _ "[]"], auto)
  then show ?thesis by (auto simp: event_job_id)
qed

section \<open>Ticks that nothing disturbs\<close>

abbreviation pending :: "app \<Rightarrow> outbox_event list" where
  "pending s \<equiv> filter is_unprocessed (db_outbox (app_db s))"

lemma mset_filter_take:
  assumes "distinct ys" "mset xs = mset ys"
  shows "mset (filter (\<lambda>x. x \<notin> set (take n ys)) xs) = mset (drop n ys)"
proof -
  let ?P = "\<lambda>x. x \<notin> set (take n ys)"
  have "filter ?P ys = filter ?P (take n ys) @ filter ?P (drop n ys)"
    by (metis append_take_drop_id filter_append)
  moreover have "filter ?P (take n ys) = []" by simp
  moreover have "filter ?P (drop n ys) = drop n ys"
    using set_take_disj_set_drop_if_distinct [OF assms(1), of n n] by (intro filter_True) auto
  ultimately have "mset (filter ?P ys) = mset (drop n ys)" by simp
  then show ?thesis by (metis assms(2) mset_filter)
qed

lemma pending_marked:
  "filter is_unprocessed (map (\<lambda>x. if x \<in> E then x\<lparr>outbox_processed_at := Some now, updated_at := now\<rparr> else x) xs)
   = filter (\<lambda>x. x \<notin> E) (filter is_unprocessed xs)"
  by (induction xs) (auto simp: is_unprocessed_def)

lemma undisturbed_tick_pending:
  assumes "\<not> app_publisher_busy s" "db_ok (app_db s)" "t = snd (publishPendingEvents no_faults g s)"
  shows "\<not> app_publisher_busy t" "db_ok (app_db t)" "length (pending t) = length (pending s) - 50"
    "mset (job_datas t) + image_mset (\<lambda>e. json_clone (event_job e)) (mset (pending t))
     = mset (job_datas s) + image_mset (\<lambda>e. json_clone (event_job e)) (mset (pending s))"
proof -
  let ?ys = "sort_key created_at (pending s)" and ?es = "findUnprocessed 50 (app_db s)"
  have es: "?es = take 50 ?ys" by (simp add: findUnprocessed_def)
  obtain s' where s': "publishPendingEvents no_faults g s = (Inr (), s')" "\<not> app_publisher_busy s'"
      "job_datas s' = job_datas s @ map (\<lambda>e. json_clone (event_job e)) ?es"
      "db_outbox (app_db s') = map (\<lambda>x. if x \<in> set ?es
          then x\<lparr>outbox_processed_at := Some (clock g), updated_at := clock g\<rparr> else x) (db_outbox (app_db s))"
    using undisturbed_tick_delivers [OF assms(1,2), of g] by blast
  have t: "t = s'" by (simp add: assms(3) s'(1))
  show "\<not> app_publisher_busy t" "db_ok (app_db t)"
    using s'(1,2) tick_db_ok [OF assms(2), of no_faults g] by (simp_all add: assms(3))
  have "unique_rows (outbox_conflict (db_coll (app_db s))) (db_outbox (app_db s))"
    using assms(2) by (simp add: db_ok_def)
  then have "distinct (db_outbox (app_db s))" by (rule outbox_table.rows_distinct)
  then have d: "distinct ?ys" by simp
  have "pending s' = filter (\<lambda>x. x \<notin> set ?es) (pending s)"
    unfolding s'(4) by (rule pending_marked)
  then have m: "mset (pending s') = mset (drop 50 ?ys)"
    unfolding es using mset_filter_take [OF d, of "pending s" 50] by simp
  then show "length (pending t) = length (pending s) - 50"
    using mset_eq_length by (fastforce simp: t)
  have "mset (pending s) = mset ?es + mset (pending s')"
    unfolding m es mset_append [symmetric] by simp
  then show "mset (job_datas t) + image_mset (\<lambda>e. json_clone (event_job e)) (mset (pending t))
     = mset (job_datas s) + image_mset (\<lambda>e. json_clone (event_job e)) (mset (pending s))"
    by (simp add: t s'(3))
qed

text \<open>
  C23: the outbox drains. As many undisturbed ticks as batches of 50 are needed for the events that
  are waiting (those not processed and not given up) leave none of them waiting, and every one
  of them is put on the domain-events queue exactly once, with its id, name and payload. The state
  may be any, so this also holds after ticks that failed.
\<close>

theorem outbox_drains:
  assumes "\<not> app_publisher_busy s" "db_ok (app_db s)" "length (pending s) \<le> 50 * length gs"
  shows "pending (run_ticks (map (Pair no_faults) gs) s) = []
    \<and> mset (job_datas (run_ticks (map (Pair no_faults) gs) s))
      = mset (job_datas s) + image_mset (\<lambda>e. json_clone (event_job e)) (mset (pending s))"
  using assms
proof (induction gs arbitrary: s)
  case Nil
  then show ?case by simp
next
  case (Cons g gs)
  note tick = undisturbed_tick_pending [OF Cons.prems(1,2) refl, of g]
  have "length (pending (snd (publishPendingEvents no_faults g s))) \<le> 50 * length gs"
    using Cons.prems(3) tick(3) by simp
  from Cons.IH [OF tick(1,2) this] tick(4) show ?case by simp
qed

section \<open>Five ticks without Redis\<close>

definition redis_down :: faults where
  "redis_down = \<lparr>find_fails = False, add_fails = (\<lambda>_. True), mark_fails = (\<lambda>_. False), retry_fails = (\<lambda>_. False)\<rparr>"

definition demo_retried :: "nat \<Rightarrow> app" where
  "demo_retried n = demo_app\<lparr>app_db := demo_db\<lparr>db_outbox :=
     [paid_event\<lparr>outbox_retry_count := n, updated_at := (if n = 0 then 3 else 20)\<rparr>]\<rparr>\<rparr>"

lemma demo_tick_down:
  assumes "n < 5"
  shows "snd (publishPendingEvents redis_down (demo_ambient ''k'' 20) (demo_retried n)) = demo_retried (Suc n)"
proof -
  let ?e = "paid_event\<lparr>outbox_retry_count := n, updated_at := (if n = 0 then 3 else 20)\<rparr>"
  have b: "findUnprocessed 50 (app_db (demo_retried n)) = [?e]"
    using assms by (simp add: findUnprocessed_def demo_retried_def is_unprocessed_def MAX_RETRIES_def paid_event_def)
  have idle: "\<not> app_publisher_busy (demo_retried n)" by (simp add: demo_retried_def demo_app_def)
  show ?thesis
    using b idle
    by (simp add: publishPendingEvents_def Let_def redis_down_def)
      (simp add: demo_retried_def demo_app_def on_db_def markFailedAttempt_def update_where_def
        has_id_def same_def demo_ambient_def)
qed

lemma demo_ticks_down:
  "n + k \<le> 5 \<Longrightarrow> run_ticks (replicate k (redis_down, demo_ambient ''k'' 20)) (demo_retried n) = demo_retried (n + k)"
  by (induction k arbitrary: n) (simp_all add: demo_tick_down)

lemma demo_five_down:
  "run_ticks (replicate 5 (redis_down, demo_ambient ''k'' 20)) demo_app = demo_retried 5"
proof -
  have "demo_app = demo_retried 0"
    by (simp add: demo_retried_def demo_app_def demo_db_def paid_event_def)
  with demo_ticks_down [of 0 5] show ?thesis by simp
qed

theorem processed_only_after_enqueue_witness:
  "list_all2 (\<lambda>x x'. entity_id x' = entity_id x) [paid_event] (db_outbox (app_db (demo_retried 1)))"
proof -
  have "publishPendingEvents redis_down (demo_ambient ''k'' 20) (demo_retried 0)
      = (fst (publishPendingEvents redis_down (demo_ambient ''k'' 20) (demo_retried 0)), demo_retried 1)"
    using demo_tick_down [of 0] by (simp add: prod_eq_iff)
  from processed_only_after_enqueue [OF this] show ?thesis
    using demo_db_ok by (simp add: demo_retried_def db_ok_def same_def list_all2_Cons1)
qed

theorem undisturbed_tick_delivers_witness:
  "\<exists>s'. publishPendingEvents no_faults (demo_ambient ''k'' 20) demo_app = (Inr (), s')
     \<and> outbox_processed_at (hd (db_outbox (app_db s'))) = Some 20"
proof -
  have b: "findUnprocessed 50 demo_db = [paid_event]"
    by (simp add: findUnprocessed_def is_unprocessed_def MAX_RETRIES_def paid_event_def)
  have "\<not> app_publisher_busy demo_app" by (simp add: demo_app_def)
  from undisturbed_tick_delivers [OF this, of "demo_ambient ''k'' 20"] show ?thesis
    using demo_db_ok b by (auto simp: demo_ambient_def)
qed

theorem exhausted_event_never_published_witness:
  "paid_event\<lparr>outbox_retry_count := 5, updated_at := 20\<rparr>
   \<in> set (db_outbox (app_db (run_ticks [(no_faults, demo_ambient ''k'' 30)]
        (run_ticks (replicate 5 (redis_down, demo_ambient ''k'' 20)) demo_app))))"
  unfolding demo_five_down
  by (rule conjunct1, rule exhausted_event_never_published)
    (use demo_db_ok in \<open>simp_all add: demo_retried_def db_ok_def same_def MAX_RETRIES_def unique_rows_def\<close>)

theorem outbox_drains_witness:
  "pending (run_ticks [(no_faults, demo_ambient ''k'' 30)] (demo_retried 1)) = []
   \<and> mset (job_datas (run_ticks [(no_faults, demo_ambient ''k'' 30)] (demo_retried 1)))
     = add_mset (json_clone (event_job (paid_event\<lparr>outbox_retry_count := 1, updated_at := 20\<rparr>))) (mset (job_datas demo_app))"
proof -
  have s: "\<not> app_publisher_busy (demo_retried 1)" "db_ok (app_db (demo_retried 1))"
    "pending (demo_retried 1) = [paid_event\<lparr>outbox_retry_count := 1, updated_at := 20\<rparr>]"
    "job_datas (demo_retried 1) = job_datas demo_app"
    using demo_db_ok
    by (simp_all add: demo_retried_def demo_app_def db_ok_def same_def is_unprocessed_def MAX_RETRIES_def
        paid_event_def unique_rows_def job_datas_def)
  from outbox_drains [OF s(1,2), of "[demo_ambient ''k'' 30]"] show ?thesis unfolding s(3,4) by simp
qed

end
