(* ===== verification/Privacy.thy ===== *)
theory Privacy
  imports Refinement
begin

text \<open>
  The balance cache over whole runs of the program: its keys separate users and currencies, and
  nobody is ever answered somebody else's wallet from it.
\<close>

section \<open>Cache keys\<close>

lemma colon_split:
  assumes "CHR '':'' \<notin> set a" "CHR '':'' \<notin> set b" "a @ CHR '':'' # x = b @ CHR '':'' # y"
  shows "a = b \<and> x = y"
  using assms
proof (induction a arbitrary: b)
  case Nil
  then show ?case by (cases b) auto
next
  case (Cons c cs)
  then show ?case by (cases b) auto
qed

lemma balance_cache_key_inject:
  assumes "CHR '':'' \<notin> set u" "CHR '':'' \<notin> set v" "balance_cache_key u c = balance_cache_key v e"
  shows "u = v \<and> c = e"
  using colon_split [OF assms(1,2), of c e] assms(3) by (simp add: balance_cache_key_def)

section \<open>What the handlers do to the cache\<close>

text \<open>Every handler but the balance query only drops entries.\<close>

definition cache_shrinks :: "app \<Rightarrow> app \<Rightarrow> bool" where
  "cache_shrinks s s' \<longleftrightarrow> (\<forall>k. app_cache s' k = app_cache s k \<or> app_cache s' k = None)"

lemma cache_same: "app_cache s' = app_cache s \<Longrightarrow> cache_shrinks s s'"
  by (simp add: cache_shrinks_def)

lemma run_db_cache [simp]: "app_cache (snd (run_db m s)) = app_cache s"
  by (simp add: run_db_def split: sum.splits)

lemma run_db_bind_cache:
  assumes "bindS (run_db m s) f = (r, s')" "\<And>x s1. app_cache (snd (f x s1)) = app_cache s1"
  shows "app_cache s' = app_cache s"
proof (cases "m (app_db s)")
  case (Inr y)
  then obtain x d where "m (app_db s) = Inr (x, d)" by (cases y) auto
  with assms(1) have "s' = snd (f x (s\<lparr>app_db := d\<rparr>))" by simp
  then show ?thesis by (simp add: assms(2))
qed (use assms in simp)

lemma loop_cache: "app_cache (snd (publish_loop f g es s)) = app_cache s"
proof (induction es arbitrary: s)
  case (Cons e es)
  then show ?case by (simp add: Let_def)
qed simp

lemma settle_cache: "cache_shrinks s (snd (settleByProviderRef g s ref))"
proof -
  obtain r s' where c: "settleByProviderRef g s ref = (r, s')" by (rule prod.exhaust)
  show ?thesis
    by (rule settleByProviderRef_split [OF c])
      (auto simp: c cache_shrinks_def invalidateBalanceCache_def cache_del_def)
qed

lemma transfer_cache: "cache_shrinks s (snd (initiateTransfer g s uid mail inp))"
proof -
  obtain r s' where c: "initiateTransfer g s uid mail inp = (r, s')" by (rule prod.exhaust)
  show ?thesis
  proof (rule initiateTransfer_split [OF c])
    fix tw fw t d1
    assume "(r, s') = bindS (run_db (executeTransfer (later g) t (entity_id fw) (entity_id tw)
              (transfer_payload g (app_db s) t uid mail tw inp)) (s\<lparr>app_db := d1\<rparr>))
         (\<lambda>_ s2. (Inr (), invalidateBalanceCache
                   (invalidateBalanceCache s2 uid (ti_currency inp))
                   (wallet_user_id tw) (ti_currency inp)))"
    then show ?thesis
      by (auto simp: c run_db_def cache_shrinks_def invalidateBalanceCache_def cache_del_def split: sum.splits)
  qed (simp add: c cache_same)
qed

lemma webhook_cache: "cache_shrinks s (snd (handleWebhook ce secret g s body sig))"
proof -
  have b: "snd (bindS m (\<lambda>_ s1. (Inr True, s1))) = snd m" for m :: "(unit, app) outcome"
    by (simp add: bindS_def split: sum.splits prod.splits)
  have f: "app_cache (snd (failByProviderRef g s ref reason)) = app_cache s" for ref reason
    by (simp add: failByProviderRef_def update_db_def split: option.splits)
  obtain r s' where c: "handleWebhook ce secret g s body sig = (r, s')" by (rule prod.exhaust)
  show ?thesis
  proof (rule handleWebhook_split [OF c])
    fix ev assume "(r, s') = bindS (settleByProviderRef g s (ev_object_id ev)) (\<lambda>_ s1. (Inr True, s1))"
    from arg_cong [OF this, of snd] show ?thesis by (simp add: c b settle_cache)
  next
    fix ev assume "(r, s') = bindS (failByProviderRef g s (ev_object_id ev) ''Checkout session expired'') (\<lambda>_ s1. (Inr True, s1))"
    from arg_cong [OF this, of snd] show ?thesis by (simp add: c b f cache_same)
  qed (use c in \<open>auto simp: cache_same\<close>)
qed

lemma deposit_cache: "app_cache (snd (deposit g reg s uid inp)) = app_cache s"
proof -
  obtain r s' where d: "deposit g reg s uid inp = (r, s')" by (rule prod.exhaust)
  show ?thesis by (rule deposit_split [OF d]) (simp_all add: d)
qed

lemma tick_cache: "app_cache (snd (publishPendingEvents f g s)) = app_cache s"
  using loop_cache [of f g "findUnprocessed 50 (app_db s)" "s\<lparr>app_publisher_busy := True\<rparr>"]
  by (auto simp: publishPendingEvents_def Let_def split: prod.splits)

lemma account_caches:
  "app_cache (snd (svc_createUser g s name email pw role)) = app_cache s"
  "app_cache (snd (svc_updateUserPassword g s uid pw)) = app_cache s"
  "app_cache (snd (svc_deleteUser s req target rl)) = app_cache s"
  "app_cache (snd (createWallet g s uid name cur)) = app_cache s"
  by (simp_all add: svc_createUser_def svc_updateUserPassword_def svc_deleteUser_def createWallet_def
      update_db_def split: option.splits sum.splits)

lemma details_cache: "app_cache (snd (svc_updateUserDetails g s req target patch role)) = app_cache s"
proof -
  have "app_cache (snd (bindS (run_db m s) (\<lambda>u s1. (Inr (f u), s1)))) = app_cache s"
    for m and f :: "users_row \<Rightarrow> user_result"
    by (simp add: bindS_def run_db_def split: sum.splits)
  then show ?thesis by (simp add: svc_updateUserDetails_def split: option.splits sum.splits)
qed

lemma listener_cache: "app_cache (snd (handleUserRegistered g s p)) = app_cache s"
  by (simp add: handleUserRegistered_def bindS_def run_db_def split: sum.splits)

lemmas handler_caches = account_caches details_cache listener_cache deposit_cache tick_cache

section \<open>Entries belong to their owner\<close>

definition cache_owned :: "app \<Rightarrow> bool" where
  "cache_owned s \<longleftrightarrow> (\<forall>k w e. app_cache s k = Some (w, e) \<longrightarrow>
     (\<exists>u c. k = balance_cache_key u c \<and> CHR '':'' \<notin> set u
        \<and> same (app_db s) (wallet_user_id w) u \<and> same (app_db s) (wallet_currency w) c))"

lemma cache_owned_shrinks:
  assumes "cache_owned s" "cache_shrinks s s'" "db_coll (app_db s') = db_coll (app_db s)"
  shows "cache_owned s'"
  unfolding cache_owned_def same_coll [OF assms(3)]
proof (intro allI impI)
  fix k w e assume "app_cache s' k = Some (w, e)"
  with assms(2) have "app_cache s k = Some (w, e)" unfolding cache_shrinks_def by (metis option.distinct(1))
  with assms(1) show "\<exists>u c. k = balance_cache_key u c \<and> CHR '':'' \<notin> set u
        \<and> same (app_db s) (wallet_user_id w) u \<and> same (app_db s) (wallet_currency w) c"
    unfolding cache_owned_def by blast
qed

lemma cache_owned_balance:
  assumes "cache_owned s" "CHR '':'' \<notin> set uid"
  shows "cache_owned (snd (getBalance g s uid cur))"
proof (cases "cache_get (app_cache s) (clock g) (balance_cache_key uid cur) = None
    \<and> findByUserIdAndCurrency (app_db s) uid cur \<noteq> None")
  case True
  then obtain w where w: "findByUserIdAndCurrency (app_db s) uid cur = Some w"
    and miss: "cache_get (app_cache s) (clock g) (balance_cache_key uid cur) = None" by blast
  have own: "same (app_db s) (wallet_user_id w) uid" "same (app_db s) (wallet_currency w) cur"
    using find_SomeD [OF w [unfolded findByUserIdAndCurrency_def]] by auto
  let ?s = "s\<lparr>app_cache := cache_set (app_cache s) (clock g) (balance_cache_key uid cur) w BALANCE_CACHE_TTL_MS\<rparr>"
  have r: "snd (getBalance g s uid cur) = ?s" using w miss by (simp add: getBalance_def Let_def)
  show ?thesis
    unfolding r cache_owned_def
  proof (intro allI impI)
    fix k w' e assume k: "app_cache ?s k = Some (w', e)"
    show "\<exists>u c. k = balance_cache_key u c \<and> CHR '':'' \<notin> set u
        \<and> same (app_db ?s) (wallet_user_id w') u \<and> same (app_db ?s) (wallet_currency w') c"
    proof (cases "k = balance_cache_key uid cur")
      case True
      with k own assms(2) show ?thesis by (auto simp: cache_set_def)
    next
      case False
      with k have "app_cache s k = Some (w', e)" by (simp add: cache_set_def)
      with assms(1) show ?thesis unfolding cache_owned_def by auto
    qed
  qed
next
  case False
  then have "snd (getBalance g s uid cur) = s"
    by (auto simp: getBalance_def Let_def split: option.splits)
  with assms(1) show ?thesis by simp
qed

lemma app_step_cache:
  assumes "app_step s s'" "money_ok (app_db s)" "cache_owned s"
  shows "cache_owned s'"
proof -
  have coll: "db_coll (app_db s') = db_coll (app_db s)"
    using db_steps_ledger [OF app_step_steps [OF assms(1,2)]] by simp
  have shrink: "cache_owned s'" if "cache_shrinks s s'"
    using cache_owned_shrinks [OF assms(3) that coll] .
  from assms(1) show ?thesis
  proof (cases rule: app_step.cases)
    case (balance uid g currency)
    with cache_owned_balance assms(3) show ?thesis by blast
  qed (rule shrink, simp add: cache_same handler_caches webhook_cache transfer_cache)+
qed

interpretation privacy: invariant_system "\<lambda>s. fresh_db (app_db s) \<and> app_cache s = (\<lambda>_. None)" app_step
  "\<lambda>s. money_ok (app_db s) \<and> cache_owned s"
proof unfold_locales
  show "money_ok (app_db s) \<and> cache_owned s" if "fresh_db (app_db s) \<and> app_cache s = (\<lambda>_. None)" for s
    using that money.inv_init by (simp add: cache_owned_def)
  show "money_ok (app_db s') \<and> cache_owned s'" if "money_ok (app_db s) \<and> cache_owned s" "app_step s s'" for s s'
    using that program.inv_step app_step_cache by blast
qed

section \<open>Properties\<close>

text \<open>
  A balance query is only ever answered with a wallet of the user who asks, in the currency
  asked for, from the cache as from the database, after any sequence of handler calls: the cache
  keys keep users and currencies apart. (Equality is that of the database's collation.)
\<close>

theorem balance_is_ones_own:
  assumes "reach (\<lambda>s. fresh_db (app_db s) \<and> app_cache s = (\<lambda>_. None)) app_step s"
    and "CHR '':'' \<notin> set uid" "fst (getBalance g s uid cur) = Inr w"
  shows "same (app_db s) (wallet_user_id w) uid \<and> same (app_db s) (wallet_currency w) cur"
proof (cases "cache_get (app_cache s) (clock g) (balance_cache_key uid cur)")
  case None
  with assms(3) have "findByUserIdAndCurrency (app_db s) uid cur = Some w"
    by (auto simp: getBalance_def Let_def split: option.splits)
  from find_SomeD [OF this [unfolded findByUserIdAndCurrency_def]] show ?thesis by simp
next
  case (Some w')
  with assms(3) have "w' = w" by (simp add: getBalance_def Let_def)
  with Some obtain e where "app_cache s (balance_cache_key uid cur) = Some (w, e)"
    by (auto simp: cache_get_def split: option.splits prod.splits if_splits)
  with privacy.always [OF assms(1)] obtain u c where
    "balance_cache_key uid cur = balance_cache_key u c" "CHR '':'' \<notin> set u"
    "same (app_db s) (wallet_user_id w) u" "same (app_db s) (wallet_currency w) c"
    unfolding cache_owned_def by blast
  with balance_cache_key_inject [OF assms(2)] show ?thesis by blast
qed

text \<open>Alice registers, the listener makes her wallet, and she asks for her balance twice.\<close>

definition alice_asks :: app where
  "alice_asks = snd (getBalance (demo_ambient ''q'' 3) (first_app\<lparr>app_db := run2\<rparr>) ''u'' ''EUR'')"

lemma alice_asks_reachable:
  "reach (\<lambda>s. fresh_db (app_db s) \<and> app_cache s = (\<lambda>_. None)) app_step alice_asks"
proof -
  let ?R = "reach (\<lambda>s. fresh_db (app_db s) \<and> app_cache s = (\<lambda>_. None)) app_step"
  have "fresh_db (app_db first_app) \<and> app_cache first_app = (\<lambda>_. None)"
    by (simp add: first_app_def fresh_db_def empty_db_def demo_app_def)
  then have "?R first_app" by (rule reach_init)
  moreover have "app_step first_app (first_app\<lparr>app_db := run1\<rparr>)"
    using app_step.user [of first_app "demo_ambient ''u'' 1" "''Alice''" "''alice@x.io''" "''h1''" None] first_call
    by (simp add: first_app_def)
  ultimately have one: "?R (first_app\<lparr>app_db := run1\<rparr>)" by (rule reach_step)
  have "handleUserRegistered (demo_ambient ''w'' 2) (first_app\<lparr>app_db := run1\<rparr>)
      \<lparr>reg_userId = ''u'', reg_email = ''alice@x.io'', reg_name = ''Alice''\<rparr> = (Inr (), first_app\<lparr>app_db := run2\<rparr>)"
    using run_create_wallet by (simp add: handleUserRegistered_def run_db_def DEFAULT_CURRENCY_def)
  moreover have "app_step (first_app\<lparr>app_db := run1\<rparr>) (snd (handleUserRegistered (demo_ambient ''w'' 2)
      (first_app\<lparr>app_db := run1\<rparr>) \<lparr>reg_userId = ''u'', reg_email = ''alice@x.io'', reg_name = ''Alice''\<rparr>))"
    by (rule app_step.listener) (simp_all add: literal_user_def fresh_wallet_def run_defs)
  ultimately have "app_step (first_app\<lparr>app_db := run1\<rparr>) (first_app\<lparr>app_db := run2\<rparr>)" by simp
  with one have two: "?R (first_app\<lparr>app_db := run2\<rparr>)" by (rule reach_step)
  have "app_step (first_app\<lparr>app_db := run2\<rparr>) alice_asks"
    unfolding alice_asks_def by (rule app_step.balance) simp
  with two show ?thesis by (rule reach_step)
qed

theorem balance_is_ones_own_witness: "wallet_user_id run_wallet = ''u''"
proof -
  have "findByUserIdAndCurrency run2 ''u'' ''EUR'' = Some run_wallet"
    by (simp add: findByUserIdAndCurrency_def run_defs same_def)
  then have a: "fst (getBalance (demo_ambient ''q'' 4) alice_asks ''u'' ''EUR'') = Inr run_wallet"
    and d: "same (app_db alice_asks) = (=)"
    by (simp_all add: alice_asks_def getBalance_def Let_def first_app_def demo_app_def cache_get_def
        cache_set_def demo_ambient_def BALANCE_CACHE_TTL_MS_def run_defs same_def fun_eq_iff)
  show ?thesis using balance_is_ones_own [OF alice_asks_reachable _ a] d by simp
qed

end
