(* ===== verification/Auth.thy ===== *)
theory Auth
  imports Users
begin

text \<open>
  \<open>features/auth\<close>: registration, login and password change, the JWT strategy and the two guards
  every request passes. Argon2 and the JWT library are parameters: \<open>hash\<close> and \<open>verify\<close> of
  passwords, \<open>sign\<close> of a token, and \<open>check_token\<close>, what passport-jwt makes of the request (the
  payload's e-mail of a valid, unexpired token).
\<close>

section \<open>Inputs\<close>

record register_input =
  reg_in_name :: string
  reg_in_email :: string
  reg_in_password :: string

record login_input =
  login_email :: string
  login_password :: string

record change_password_input =
  oldPassword :: string
  newPassword :: string

section \<open>The service\<close>

definition checkDuplicateEmail :: "app \<Rightarrow> string \<Rightarrow> error + unit" where
  "checkDuplicateEmail s email =
     (case svc_findUserByEmail s email of Some _ \<Rightarrow> Inl (Conflict ''Email already in use.'') | None \<Rightarrow> Inr ())"

definition createLoginToken :: "(string \<Rightarrow> string \<Rightarrow> string) \<Rightarrow> string \<Rightarrow> string \<Rightarrow> string" where
  "createLoginToken sign userId email = sign userId email"

text \<open>\<open>emit\<close> hands the payload to the listeners, which run on their own (see \<open>WalletService\<close>).\<close>

definition emit :: "user_registered \<Rightarrow> app \<Rightarrow> app" where
  "emit payload s = s\<lparr>app_emitted := app_emitted s @ [payload]\<rparr>"

definition register :: "(string \<Rightarrow> error + string) \<Rightarrow> (string \<Rightarrow> string \<Rightarrow> string) \<Rightarrow> ambient \<Rightarrow> app
    \<Rightarrow> register_input \<Rightarrow> (user_result, app) outcome" where
  "register hash sign g s input =
     (case checkDuplicateEmail s (reg_in_email input) of
        Inl e \<Rightarrow> (Inl e, s)
      | Inr _ \<Rightarrow>
     (case hash (reg_in_password input) of
        Inl e \<Rightarrow> (Inl e, s)
      | Inr hashedPassword \<Rightarrow>
     bindS (svc_createUser g s (reg_in_name input) (reg_in_email input) hashedPassword (Some User))
       (\<lambda>savedUser s1.
         let s2 = emit \<lparr>reg_userId = entity_id savedUser, reg_email = user_email savedUser,
                         reg_name = user_name savedUser\<rparr> s1;
             access_token = createLoginToken sign (entity_id savedUser) (user_email savedUser)
         in (Inr (mapResult savedUser None (Some access_token)), s2))))"

definition login :: "(string \<Rightarrow> string \<Rightarrow> error + bool) \<Rightarrow> (string \<Rightarrow> string \<Rightarrow> string) \<Rightarrow> app
    \<Rightarrow> login_input \<Rightarrow> error + user_result" where
  "login verify sign s input =
     (case svc_findUserByEmail s (login_email input) of
        None \<Rightarrow> Inl (Unauthorized ''Invalid credentials provided'')
      | Some user \<Rightarrow>
     bindR (verify (user_password user) (login_password input)) (\<lambda>isPasswordMatch.
       if \<not> isPasswordMatch then Inl (Unauthorized ''Invalid credentials provided'')
       else Inr (mapResult user None (Some (createLoginToken sign (entity_id user) (user_email user))))))"

definition changePassword :: "(string \<Rightarrow> error + string) \<Rightarrow> (string \<Rightarrow> string \<Rightarrow> error + bool) \<Rightarrow> ambient
    \<Rightarrow> app \<Rightarrow> string \<Rightarrow> change_password_input \<Rightarrow> (string, app) outcome" where
  "changePassword hash verify g s userId input =
     (case bindR (svc_findById s userId) (\<lambda>user.
            bindR (verify (user_password user) (oldPassword input)) (\<lambda>isPasswordMatch.
              if \<not> isPasswordMatch then Inl (Unauthorized ''Invalid credentials provided'')
              else hash (newPassword input))) of
        Inl e \<Rightarrow> (Inl e, s)
      | Inr hashedPassword \<Rightarrow>
          bindS (svc_updateUserPassword g s userId hashedPassword)
            (\<lambda>_ s1. (Inr ''Password updated successfully'', s1)))"

section \<open>The JWT strategy\<close>

text \<open>\<open>JwtStrategy.validate\<close>: the user of a request is found by the e-mail in the token.\<close>

definition jwt_validate :: "app \<Rightarrow> string \<Rightarrow> error + users_row" where
  "jwt_validate s email =
     (case svc_findUserByEmail s email of None \<Rightarrow> Inl (Unauthorized ''Unauthorized'') | Some user \<Rightarrow> Inr user)"

section \<open>The guards\<close>

text \<open>\<open>Reflector.getAllAndOverride\<close>: the first of handler and class that carries the metadata.\<close>

fun getAllAndOverride :: "'a option list \<Rightarrow> 'a option" where
  "getAllAndOverride [] = None"
| "getAllAndOverride (x # xs) = (case x of Some v \<Rightarrow> Some v | None \<Rightarrow> getAllAndOverride xs)"

text \<open>What the decorators \<open>@Public()\<close> and \<open>@Roles(...)\<close> leave on a handler and its class.\<close>

record route_meta =
  rm_public :: "bool option"
  rm_roles :: "UserRole list option"

text \<open>\<open>request.user\<close> is \<open>None\<close> on a public route.\<close>

definition JwtAuthGuard :: "('r \<Rightarrow> string option) \<Rightarrow> route_meta \<Rightarrow> route_meta \<Rightarrow> app \<Rightarrow> 'r
    \<Rightarrow> error + users_row option" where
  "JwtAuthGuard check_token handler cls s request =
     (let isPublic = getAllAndOverride [rm_public handler, rm_public cls]
      in if isPublic = Some True then Inr None
         else (case check_token request of
                 None \<Rightarrow> Inl (Unauthorized ''Unauthorized'')
               | Some email \<Rightarrow> bindR (jwt_validate s email) (\<lambda>user. Inr (Some user))))"

definition normalizeUserRoles :: "json \<Rightarrow> json list" where
  "normalizeUserRoles rawRole = (case rawRole of JArr xs \<Rightarrow> xs | JStr r \<Rightarrow> [JStr r] | _ \<Rightarrow> [])"

definition RoleGuard :: "route_meta \<Rightarrow> route_meta \<Rightarrow> json option \<Rightarrow> error + bool" where
  "RoleGuard handler cls user_role_value =
     (case getAllAndOverride [rm_roles handler, rm_roles cls] of
        None \<Rightarrow> Inr True
      | Some requiredRoles \<Rightarrow>
          (let rawRole = (case user_role_value of Some v \<Rightarrow> v | None \<Rightarrow> JUndefined);
               userRoles = normalizeUserRoles rawRole;
               hasRole = list_ex (\<lambda>role. JStr (role_text role) \<in> set userRoles) requiredRoles
           in if \<not> hasRole then Inl (Forbidden ''You do not have permission to access this resource'')
              else Inr True))"

text \<open>The two \<open>APP_GUARD\<close>s in the order of \<open>app.module.ts\<close>, giving the user of the request.\<close>

definition guards :: "('r \<Rightarrow> string option) \<Rightarrow> route_meta \<Rightarrow> route_meta \<Rightarrow> app \<Rightarrow> 'r
    \<Rightarrow> error + users_row option" where
  "guards check_token handler cls s request =
     bindR (JwtAuthGuard check_token handler cls s request) (\<lambda>user.
     bindR (RoleGuard handler cls (map_option (\<lambda>u. JStr (role_text (user_role u))) user)) (\<lambda>_. Inr user))"

end
