(* ===== verification/UserProperties.thy ===== *)
theory UserProperties
  imports Refinement
begin

text \<open>
  Who may change a user and what can be changed: the policy as it shows in the stored rows, and
  what the deletion of a user takes with it.
\<close>

section \<open>Updates\<close>

lemma ensure_update:
  "bindR (ensureCanUpdateUser req target role) (\<lambda>_. if patch_role patch \<noteq> None then ensureCanUpdateRole role else Inr ())
     = Inr x \<Longrightarrow> (req = target \<or> role = Admin) \<and> (patch_role patch \<noteq> None \<longrightarrow> role = Admin)"
  by (auto simp: ensureCanUpdateUser_def ensureCanUpdateRole_def Let_def bindR_Inr_iff split: if_splits)

lemma svc_updateUserDetails_Inr:
  assumes "svc_updateUserDetails g s req target patch role = (Inr res, s')"
  obtains old u d' where "findUserById (app_db s) target = Some old"
    "req = target \<or> role = Admin" "patch_role patch \<noteq> None \<longrightarrow> role = Admin"
    "repo_updateUserDetails g (app_db s) target (sanitizeUpdateData patch role) = Inr (u, d')"
    "s' = s\<lparr>app_db := d'\<rparr>" "res = mapResult u None None"
proof (cases "findUserById (app_db s) target")
  case None
  with assms show ?thesis by (simp add: svc_updateUserDetails_def)
next
  case (Some old)
  show ?thesis
  proof (cases "bindR (ensureCanUpdateUser req target role)
      (\<lambda>_. if patch_role patch \<noteq> None then ensureCanUpdateRole role else Inr ())")
    case (Inl e)
    with assms Some show ?thesis by (simp add: svc_updateUserDetails_def)
  next
    case (Inr x)
    show ?thesis
    proof (cases "repo_updateUserDetails g (app_db s) target (sanitizeUpdateData patch role)")
      case (Inl e)
      with assms Some Inr show ?thesis by (simp add: svc_updateUserDetails_def run_db_def)
    next
      case (Inr y)
      obtain u d' where y: "y = (u, d')" by (cases y)
      with assms Some Inr \<open>bindR _ _ = Inr x\<close> ensure_update [OF \<open>bindR _ _ = Inr x\<close>] show ?thesis
        by (intro that [of old u d']) (simp_all add: svc_updateUserDetails_def run_db_def)
    qed
  qed
qed

lemma sanitized [simp]:
  "patch_password (sanitizeUpdateData patch role) = None" "patch_email (sanitizeUpdateData patch role) = None"
  "patch_name (sanitizeUpdateData patch role) = patch_name patch"
  "patch_role (sanitizeUpdateData patch role) = (if role = Admin then patch_role patch else None)"
  by (simp_all add: sanitizeUpdateData_def Let_def)

text \<open>
  No privilege escalation. When an update of a user succeeds, the caller was that user or
  an administrator; exactly the target's row was rewritten; its id, e-mail and password are what
  they were, whatever the body contained; its role is what it was unless the caller is an
  administrator; and the answer carries no password.
\<close>

lemma account_updated:
  assumes "svc_updateUserDetails g s req target patch role = (Inr res, s')"
  shows "(req = target \<or> role = Admin) \<and>
    (\<exists>old new. findUserById (app_db s) target = Some old
       \<and> app_db s' = (app_db s)\<lparr>db_users := update_where (has_id (app_db s) (entity_id old)) (\<lambda>_. new) (db_users (app_db s))\<rparr>
       \<and> entity_id new = entity_id old \<and> user_email new = user_email old \<and> user_password new = user_password old
       \<and> user_name new = (case patch_name patch of Some n \<Rightarrow> n | None \<Rightarrow> user_name old)
       \<and> (user_role new = user_role old \<or> role = Admin \<and> patch_role patch = Some (user_role new))
       \<and> res = mapResult new None None)"
proof (rule svc_updateUserDetails_Inr [OF assms])
  fix old u d'
  assume a: "findUserById (app_db s) target = Some old" "req = target \<or> role = Admin"
    and up: "repo_updateUserDetails g (app_db s) target (sanitizeUpdateData patch role) = Inr (u, d')"
    and s': "s' = s\<lparr>app_db := d'\<rparr>" "res = mapResult u None None"
  show ?thesis
  proof (rule repo_updateUserDetails_Inr [OF up])
    fix old'
    assume o: "findUserById (app_db s) target = Some old'" "entity_id u = entity_id old'"
      "u = old' \<and> apply_patch (sanitizeUpdateData patch role) old' = old'
       \<or> u = (apply_patch (sanitizeUpdateData patch role) old')\<lparr>updated_at := clock g\<rparr>"
      "d' = (app_db s)\<lparr>db_users := update_where (has_id (app_db s) (entity_id u)) (\<lambda>_. u) (db_users (app_db s))\<rparr>"
    then have eq: "old' = old" using a(1) by simp
    have f: "user_email u = user_email old" "user_password u = user_password old"
      "user_name u = (case patch_name patch of Some n \<Rightarrow> n | None \<Rightarrow> user_name old)"
      "user_role u = user_role old \<or> role = Admin \<and> patch_role patch = Some (user_role u)"
      using o(3) eq by (auto simp: apply_patch_def split: option.splits if_splits dest: arg_cong [of _ _ user_name])
    show ?thesis using a f o(2,4) eq s' by auto
  qed
qed

section \<open>Deletion\<close>

lemma filter_total:
  fixes f :: "'a \<Rightarrow> int"
  shows "sum_list (map f (filter (\<lambda>x. \<not> P x) xs)) = sum_list (map f xs) - sum_list (map f (filter P xs))"
  by (induction xs) auto


section \<open>Concrete calls\<close>

definition demo_rename :: user_patch where
  "demo_rename = \<lparr>patch_name = Some ''Alicia'', patch_email = Some ''x@y.z'', patch_password = None, patch_role = None\<rparr>"

definition alicia :: users_row where
  "alicia = alice\<lparr>user_name := ''Alicia'', updated_at := 5\<rparr>"

lemma demo_update:
  "svc_updateUserDetails (demo_ambient ''g'' 5) demo_app ''u1'' ''u1'' demo_rename User
   = (Inr (mapResult alicia None None), demo_app\<lparr>app_db := demo_db\<lparr>db_users := [alicia, bob]\<rparr>\<rparr>)"
  by (simp add: svc_updateUserDetails_def findUserById_def demo_rename_def alicia_def alice_def bob_def
      ensureCanUpdateUser_def sanitizeUpdateData_def repo_updateUserDetails_def save_user_def apply_patch_def
      run_db_def Let_def fits_def update_where_def demo_ambient_def mapResult_def)

theorem account_updated_witness:
  "\<exists>old (new :: users_row). findUserById demo_db ''u1'' = Some old \<and> user_email new = user_email old
     \<and> user_password new = user_password old \<and> user_role new = user_role old \<and> user_name new = ''Alicia''"
proof -
  have n: "patch_name demo_rename = Some ''Alicia''" by (simp add: demo_rename_def)
  from account_updated [OF demo_update] obtain old :: users_row and new :: users_row where
    "findUserById (app_db demo_app) ''u1'' = Some old"
    "user_email new = user_email old" "user_password new = user_password old"
    "user_role new = user_role old \<or> User = Admin \<and> patch_role demo_rename = Some (user_role new)"
    "user_name new = (case patch_name demo_rename of Some n \<Rightarrow> n | None \<Rightarrow> user_name old)" by blast
  then show ?thesis using n by (intro exI [of _ old] exI [of _ new]) simp
qed

end
