(* ===== verification/AuthProperties.thy ===== *)
theory AuthProperties
  imports Auth UserProperties
begin

text \<open>
  The properties of accounts: registration, login and the round trip between them, password
  changes, and which requests pass the guards.
\<close>

section \<open>Registration\<close>

lemma svc_createUser_split:
  "svc_createUser g s name email pw role = (r, s') \<Longrightarrow>
   (\<exists>e. r = Inl e \<and> s' = s) \<or>
   (\<exists>u. r = Inr u \<and> s' = s\<lparr>app_db := (app_db s)\<lparr>db_users := db_users (app_db s) @ [u]\<rparr>\<rparr>
      \<and> u = \<lparr>entity_id = uuid g 0, created_at = clock g, updated_at = clock g, user_name = name,
             user_email = email, user_password = pw, user_role = (case role of Some r \<Rightarrow> r | None \<Rightarrow> User)\<rparr>
      \<and> (\<forall>x\<in>set (db_users (app_db s)). \<not> user_conflict (db_coll (app_db s)) x u))"
  by (auto simp: svc_createUser_def run_db_def createUser_def Let_def bindR_Inr_iff
      split: sum.splits dest!: insert_user_Inr)

text \<open>
  A registration either fails and changes nothing, or stores exactly one user, whose role is
  \<open>USER\<close> whatever was sent, whose password column holds the Argon2 hash, and whose e-mail no
  stored user had; it announces that user once and answers a token for it, without a password.
\<close>

theorem register_outcome:
  "(\<exists>e. register hash sign g s inp = (Inl e, s))
   \<or> (\<exists>u h. hash (reg_in_password inp) = Inr h
        \<and> register hash sign g s inp = (Inr (mapResult u None (Some (sign (entity_id u) (user_email u)))),
            s\<lparr>app_db := (app_db s)\<lparr>db_users := db_users (app_db s) @ [u]\<rparr>,
              app_emitted := app_emitted s @ [\<lparr>reg_userId = entity_id u, reg_email = user_email u, reg_name = user_name u\<rparr>]\<rparr>)
        \<and> user_role u = User \<and> user_password u = h \<and> user_email u = reg_in_email inp
        \<and> user_name u = reg_in_name inp \<and> findUserByEmail (app_db s) (user_email u) = None)"
proof (cases "checkDuplicateEmail s (reg_in_email inp)")
  case (Inl e)
  then show ?thesis by (simp add: register_def)
next
  case (Inr x)
  note dup = Inr
  show ?thesis
  proof (cases "hash (reg_in_password inp)")
    case (Inl e)
    with dup show ?thesis by (simp add: register_def)
  next
    case (Inr h)
    obtain r s1 where c: "svc_createUser g s (reg_in_name inp) (reg_in_email inp) h (Some User) = (r, s1)"
      by (rule prod.exhaust)
    have "findUserByEmail (app_db s) (reg_in_email inp) = None"
      using dup by (simp add: checkDuplicateEmail_def svc_findUserByEmail_def split: option.splits)
    note none = this
    from svc_createUser_split [OF c] show ?thesis
    proof (elim disjE exE conjE)
      fix e assume "r = Inl e" "s1 = s"
      with dup Inr c show ?thesis by (simp add: register_def)
    next
      fix u assume u: "r = Inr u" "s1 = s\<lparr>app_db := (app_db s)\<lparr>db_users := db_users (app_db s) @ [u]\<rparr>\<rparr>"
        "u = \<lparr>entity_id = uuid g 0, created_at = clock g, updated_at = clock g, user_name = reg_in_name inp,
             user_email = reg_in_email inp, user_password = h, user_role = (case Some User of Some r \<Rightarrow> r | None \<Rightarrow> User)\<rparr>"
      have f: "user_role u = User" "user_password u = h" "user_email u = reg_in_email inp" "user_name u = reg_in_name inp"
        by (simp_all add: u(3))
      have "register hash sign g s inp = (Inr (mapResult u None (Some (sign (entity_id u) (user_email u)))),
            s\<lparr>app_db := (app_db s)\<lparr>db_users := db_users (app_db s) @ [u]\<rparr>,
              app_emitted := app_emitted s @ [\<lparr>reg_userId = entity_id u, reg_email = user_email u, reg_name = user_name u\<rparr>]\<rparr>)"
        using dup Inr c u(1,2) by (simp add: register_def Let_def emit_def createLoginToken_def)
      with Inr f none show ?thesis by (intro disjI2 exI [of _ u] exI [of _ h]) simp
    qed
  qed
qed

section \<open>Login\<close>

text \<open>
  A login succeeds exactly when a stored user has the e-mail and Argon2 accepts the password
  for that user's hash; the answer is that user with a token for it. An unknown e-mail and a
  wrong password get the same answer.
\<close>

theorem login_outcome:
  "(login verify sign s inp = Inr res \<longleftrightarrow>
      (\<exists>u. findUserByEmail (app_db s) (login_email inp) = Some u
         \<and> verify (user_password u) (login_password inp) = Inr True
         \<and> res = mapResult u None (Some (sign (entity_id u) (user_email u)))))
   \<and> (login verify sign s inp = Inl (Unauthorized ''Invalid credentials provided'') \<longleftrightarrow>
      (case findUserByEmail (app_db s) (login_email inp) of None \<Rightarrow> True
       | Some u \<Rightarrow> verify (user_password u) (login_password inp) \<in>
           {Inr False, Inl (Unauthorized ''Invalid credentials provided'')}))"
  by (auto simp: login_def svc_findUserByEmail_def createLoginToken_def bindR_Inr_iff bindR_Inl_iff
      split: option.splits if_splits)

section \<open>The round trip\<close>

text \<open>What Argon2 documents: a hash verifies the password it was made from.\<close>

definition argon_law :: "(string \<Rightarrow> error + string) \<Rightarrow> (string \<Rightarrow> string \<Rightarrow> error + bool) \<Rightarrow> bool" where
  "argon_law hash verify \<longleftrightarrow> (\<forall>p h. hash p = Inr h \<longrightarrow> verify h p = Inr True)"

text \<open>
  C28: whoever registered can log in with the same e-mail and password, and the token the login
  answers authenticates as the stored user: the strategy finds the same row.
\<close>

theorem register_then_login:
  assumes "argon_law hash verify" "register hash sign g s inp = (Inr res, s')"
  shows "\<exists>u. u \<in> set (db_users (app_db s')) \<and> user_email u = reg_in_email inp
    \<and> login verify sign s' \<lparr>login_email = reg_in_email inp, login_password = reg_in_password inp\<rparr>
        = Inr (mapResult u None (Some (sign (entity_id u) (user_email u))))
    \<and> jwt_validate s' (user_email u) = Inr u"
proof -
  from assms(2) obtain h where h: "hash (reg_in_password inp) = Inr h"
    and dup: "findUserByEmail (app_db s) (reg_in_email inp) = None"
    by (auto simp: register_def checkDuplicateEmail_def svc_findUserByEmail_def split: option.splits sum.splits)
  obtain r s1 where c: "svc_createUser g s (reg_in_name inp) (reg_in_email inp) h (Some User) = (r, s1)"
    by (rule prod.exhaust)
  have reg: "register hash sign g s inp = bindS (r, s1) (\<lambda>savedUser s1.
         let s2 = emit \<lparr>reg_userId = entity_id savedUser, reg_email = user_email savedUser,
                         reg_name = user_name savedUser\<rparr> s1;
             access_token = createLoginToken sign (entity_id savedUser) (user_email savedUser)
         in (Inr (mapResult savedUser None (Some access_token)), s2))"
    using h dup c by (simp add: register_def checkDuplicateEmail_def svc_findUserByEmail_def)
  from svc_createUser_split [OF c] assms(2) obtain u where r: "r = Inr u"
      "s1 = s\<lparr>app_db := (app_db s)\<lparr>db_users := db_users (app_db s) @ [u]\<rparr>\<rparr>"
      "user_email u = reg_in_email inp" "user_password u = h"
    unfolding reg by auto
  have s': "app_db s' = (app_db s)\<lparr>db_users := db_users (app_db s) @ [u]\<rparr>"
    using assms(2) r(2) unfolding reg r(1) by (auto simp: Let_def emit_def)
  have f: "findUserByEmail (app_db s') (reg_in_email inp) = Some u"
    using dup r(3) by (simp add: s' findUserByEmail_def find_append same_def)
  have "verify (user_password u) (reg_in_password inp) = Inr True"
    using assms(1) h r(4) by (simp add: argon_law_def)
  with f r(3) s' show ?thesis
    by (intro exI [of _ u]) (simp add: login_def svc_findUserByEmail_def createLoginToken_def jwt_validate_def)
qed

section \<open>Password changes\<close>

lemma password_saved:
  assumes "repo_updateUserDetails g d i \<lparr>patch_name = None, patch_email = None, patch_password = Some h, patch_role = None\<rparr>
    = Inr (v, d')" "findUserById d i = Some u"
  shows "d' = d\<lparr>db_users := update_where (has_id d (entity_id u)) (\<lambda>_. v) (db_users d)\<rparr>"
    and "v\<lparr>updated_at := t\<rparr> = u\<lparr>user_password := h, updated_at := t\<rparr>"
proof -
  note r = repo_updateUserDetails_Inr [OF assms(1)]
  show "d' = d\<lparr>db_users := update_where (has_id d (entity_id u)) (\<lambda>_. v) (db_users d)\<rparr>"
    by (rule r) (use assms(2) in auto)
  show "v\<lparr>updated_at := t\<rparr> = u\<lparr>user_password := h, updated_at := t\<rparr>"
  proof (rule r)
    fix old
    let ?p = "\<lparr>patch_name = None, patch_email = None, patch_password = Some h, patch_role = None\<rparr>"
    assume "findUserById d i = Some old"
      and v: "v = old \<and> apply_patch ?p old = old \<or> v = (apply_patch ?p old)\<lparr>updated_at := clock g\<rparr>"
    then have "old = u" using assms(2) by simp
    moreover have "apply_patch ?p old = old\<lparr>user_password := h\<rparr>" by (simp add: apply_patch_def)
    ultimately show ?thesis
      using v by (auto dest: arg_cong [of _ _ "\<lambda>x. x\<lparr>updated_at := t\<rparr>"])
  qed
qed

text \<open>
  A password change. It either fails and changes nothing, or the caller's stored hash
  accepted the old password, and the only thing that changed is that the row of the caller has
  the hash of the new password (and a new modification time).
\<close>

theorem changePassword_outcome:
  "(\<exists>e. changePassword hash verify g s uid inp = (Inl e, s))
   \<or> (\<exists>u v h. findUserById (app_db s) uid = Some u \<and> verify (user_password u) (oldPassword inp) = Inr True
        \<and> hash (newPassword inp) = Inr h
        \<and> changePassword hash verify g s uid inp = (Inr ''Password updated successfully'', s\<lparr>app_db :=
            (app_db s)\<lparr>db_users := update_where (has_id (app_db s) (entity_id u)) (\<lambda>_. v) (db_users (app_db s))\<rparr>\<rparr>)
        \<and> v\<lparr>updated_at := 0\<rparr> = u\<lparr>user_password := h, updated_at := 0\<rparr>)"
proof (cases "bindR (svc_findById s uid) (\<lambda>user.
            bindR (verify (user_password user) (oldPassword inp)) (\<lambda>isPasswordMatch.
              if \<not> isPasswordMatch then Inl (Unauthorized ''Invalid credentials provided'')
              else hash (newPassword inp)))")
  case (Inl e)
  then show ?thesis by (simp add: changePassword_def)
next
  case (Inr h)
  then obtain u where u: "findUserById (app_db s) uid = Some u"
      "verify (user_password u) (oldPassword inp) = Inr True" "hash (newPassword inp) = Inr h"
    by (auto simp: bindR_Inr_iff svc_findById_def split: option.splits if_splits)
  let ?p = "\<lparr>patch_name = None, patch_email = None, patch_password = Some h, patch_role = None\<rparr>"
  show ?thesis
  proof (cases "repo_updateUserDetails g (app_db s) uid ?p")
    case (Inl e)
    with Inr show ?thesis by (simp add: changePassword_def svc_updateUserPassword_def run_db_def)
  next
    case (Inr x)
    obtain v d' where x: "x = (v, d')" by (cases x)
    note saved = password_saved [OF Inr [unfolded x] u(1)]
    have "changePassword hash verify g s uid inp = (Inr ''Password updated successfully'', s\<lparr>app_db := d'\<rparr>)"
      using Inr x \<open>bindR _ _ = Inr h\<close> by (simp add: changePassword_def svc_updateUserPassword_def run_db_def)
    with u saved show ?thesis by (intro disjI2 exI [of _ u] exI [of _ v] exI [of _ h]) simp
  qed
qed

section \<open>Guards\<close>

text \<open>The metadata of the routes: public, for everybody who is logged in, for administrators.\<close>

definition no_meta :: route_meta where
  "no_meta = \<lparr>rm_public = None, rm_roles = None\<rparr>"

definition public_meta :: route_meta where
  "public_meta = \<lparr>rm_public = Some True, rm_roles = None\<rparr>"

definition admin_meta :: route_meta where
  "admin_meta = \<lparr>rm_public = None, rm_roles = Some [Admin]\<rparr>"

text \<open>
  C29: what passes the guards. A public route is open; any other route is reached exactly with a
  valid token whose e-mail a stored user has, and the request runs as that user; a route marked
  for administrators needs in addition that this user is one in the database now (a role in the
  token counts for nothing).
\<close>

theorem guards_admit:
  "guards check_token public_meta no_meta s req = Inr None
   \<and> (guards check_token no_meta no_meta s req = Inr who \<longleftrightarrow>
        (\<exists>mail u. check_token req = Some mail \<and> findUserByEmail (app_db s) mail = Some u \<and> who = Some u))
   \<and> (guards check_token admin_meta no_meta s req = Inr who \<longleftrightarrow>
        (\<exists>mail u. check_token req = Some mail \<and> findUserByEmail (app_db s) mail = Some u \<and> who = Some u
           \<and> user_role u = Admin))"
proof -
  have role: "role_text r = ''ADMIN'' \<longleftrightarrow> r = Admin" for r by (cases r) simp_all
  have role': "''ADMIN'' = role_text r \<longleftrightarrow> r = Admin" for r by (cases r) simp_all
  show ?thesis
    by (auto simp: guards_def JwtAuthGuard_def RoleGuard_def Let_def public_meta_def no_meta_def admin_meta_def
        normalizeUserRoles_def jwt_validate_def svc_findUserByEmail_def role role' bindR_Inr_iff
        split: option.splits)
qed

text \<open>
  A token is bound to an e-mail, not to a user. After an account is deleted and somebody
  else registers its e-mail, a token that was issued to the deleted user authenticates as the new
  one.
\<close>

theorem token_follows_email:
  assumes "svc_deleteUser s req (entity_id u) role = (Inr (), s1)"
    and "register hash sign g s1 inp = (Inr res, s2)" "reg_in_email inp = user_email u"
    and "\<not> same (app_db s1) (uuid g 0) (entity_id u)"
  shows "\<exists>v. jwt_validate s2 (user_email u) = Inr v \<and> entity_id v \<noteq> entity_id u"
proof -
  from assms(2) obtain h where h: "hash (reg_in_password inp) = Inr h"
    and dup: "findUserByEmail (app_db s1) (reg_in_email inp) = None"
    by (auto simp: register_def checkDuplicateEmail_def svc_findUserByEmail_def split: option.splits sum.splits)
  obtain r s3 where c: "svc_createUser g s1 (reg_in_name inp) (reg_in_email inp) h (Some User) = (r, s3)"
    by (rule prod.exhaust)
  from svc_createUser_split [OF c] assms(2) h dup c obtain v :: users_row where v: "r = Inr v"
      "s3 = s1\<lparr>app_db := (app_db s1)\<lparr>db_users := db_users (app_db s1) @ [v]\<rparr>\<rparr>"
      "user_email v = reg_in_email inp" "entity_id v = uuid g 0"
    by (auto simp: register_def checkDuplicateEmail_def svc_findUserByEmail_def)
  have s2: "app_db s2 = (app_db s1)\<lparr>db_users := db_users (app_db s1) @ [v]\<rparr>"
    using assms(2) h dup c v(1,2)
    by (auto simp: register_def checkDuplicateEmail_def svc_findUserByEmail_def Let_def emit_def)
  have "findUserByEmail (app_db s2) (user_email u) = Some v"
    using dup v(3) by (simp add: s2 findUserByEmail_def find_append same_def assms(3))
  moreover have "entity_id v \<noteq> entity_id u" using assms(4) v(4) by (auto simp: same_def)
  ultimately show ?thesis by (simp add: jwt_validate_def svc_findUserByEmail_def)
qed

section \<open>Concrete accounts\<close>

definition demo_hash :: "string \<Rightarrow> error + string" where "demo_hash p = Inr (''h:'' @ p)"

definition demo_verify :: "string \<Rightarrow> string \<Rightarrow> error + bool" where "demo_verify h p = Inr (h = ''h:'' @ p)"

definition demo_sign :: "string \<Rightarrow> string \<Rightarrow> string" where "demo_sign i mail = i @ ''.'' @ mail"

definition carol_input :: register_input where
  "carol_input = \<lparr>reg_in_name = ''Carol'', reg_in_email = ''carol@x.io'', reg_in_password = ''secret''\<rparr>"

definition carol :: users_row where
  "carol = \<lparr>entity_id = ''c'', created_at = 9, updated_at = 9, user_name = ''Carol'',
     user_email = ''carol@x.io'', user_password = ''h:secret'', user_role = User\<rparr>"

definition carol_app :: app where
  "carol_app = demo_app\<lparr>app_db := demo_db\<lparr>db_users := [alice, bob, carol]\<rparr>,
     app_emitted := [\<lparr>reg_userId = ''c'', reg_email = ''carol@x.io'', reg_name = ''Carol''\<rparr>]\<rparr>"

lemma demo_register:
  "register demo_hash demo_sign (demo_ambient ''c'' 9) demo_app carol_input
   = (Inr (mapResult carol None (Some ''c.carol@x.io'')), carol_app)"
  by (simp add: register_def checkDuplicateEmail_def svc_findUserByEmail_def findUserByEmail_def demo_hash_def
      carol_input_def svc_createUser_def run_db_def createUser_def insert_user_def insert_row_def fits_def
      Let_def emit_def createLoginToken_def demo_sign_def carol_def carol_app_def demo_ambient_def demo_app_def
      user_conflict_def alice_def bob_def)

theorem register_then_login_witness:
  "\<exists>u. login demo_verify demo_sign carol_app \<lparr>login_email = ''carol@x.io'', login_password = ''secret''\<rparr>
     = Inr (mapResult u None (Some (demo_sign (entity_id u) (user_email u))))"
proof -
  have "argon_law demo_hash demo_verify" by (simp add: argon_law_def demo_hash_def demo_verify_def)
  from register_then_login [OF this demo_register] show ?thesis
    by (auto simp: carol_input_def)
qed

definition new_alice_input :: register_input where
  "new_alice_input = \<lparr>reg_in_name = ''Mallory'', reg_in_email = ''alice@x.io'', reg_in_password = ''secret''\<rparr>"

theorem token_follows_email_witness:
  "\<exists>v. jwt_validate (snd (register demo_hash demo_sign (demo_ambient ''m'' 9)
        (demo_app\<lparr>app_db := repo_deleteUser demo_db ''u1''\<rparr>) new_alice_input)) ''alice@x.io'' = Inr v
     \<and> entity_id v \<noteq> ''u1''"
proof -
  let ?s1 = "demo_app\<lparr>app_db := repo_deleteUser demo_db ''u1''\<rparr>"
  have u: "entity_id alice = ''u1''" "user_email alice = ''alice@x.io''" by (simp_all add: alice_def)
  have d: "svc_deleteUser demo_app ''u2'' (entity_id alice) Admin = (Inr (), ?s1)"
    by (simp add: svc_deleteUser_def findUserById_def ensureCanDeleteUser_def update_db_def alice_def)
  have "\<exists>res. fst (register demo_hash demo_sign (demo_ambient ''m'' 9) ?s1 new_alice_input) = Inr res"
    by (simp add: register_def checkDuplicateEmail_def svc_findUserByEmail_def findUserByEmail_def demo_hash_def
      new_alice_input_def svc_createUser_def run_db_def createUser_def insert_user_def insert_row_def fits_def
      Let_def demo_ambient_def user_conflict_def repo_deleteUser_def alice_def bob_def same_def has_id_def)
  then obtain res where "fst (register demo_hash demo_sign (demo_ambient ''m'' 9) ?s1 new_alice_input) = Inr res" ..
  then have r: "register demo_hash demo_sign (demo_ambient ''m'' 9) ?s1 new_alice_input
      = (Inr res, snd (register demo_hash demo_sign (demo_ambient ''m'' 9) ?s1 new_alice_input))"
    by (simp only: prod_eq_iff fst_conv snd_conv)
  have m: "reg_in_email new_alice_input = user_email alice" by (simp add: new_alice_input_def u)
  have n: "\<not> same (app_db ?s1) (uuid (demo_ambient ''m'' 9) 0) (entity_id alice)"
    by (simp add: repo_deleteUser_def same_def demo_ambient_def u)
  show ?thesis using token_follows_email [OF d r m n] by (simp only: u)
qed

end
