(* ===== verification/Texts.thy ===== *)
theory Texts
  imports WalletTags
begin

text \<open>
  Text functions: the decimal texts and the trimming of the language, \<open>JSON.stringify\<close>,
  \<open>toISOString\<close> and \<open>toFixed(2)\<close>, and \<open>formatCurrency\<close> of \<open>shared/utils\<close>.
\<close>

section \<open>Numbers as texts\<close>

definition digit_char :: "nat \<Rightarrow> char" where
  "digit_char n = ''0123456789'' ! (n mod 10)"

fun nat_text :: "nat \<Rightarrow> string" where
  "nat_text n = (if n < 10 then [digit_char n] else nat_text (n div 10) @ [digit_char n])"

declare nat_text.simps [simp del]

definition int_text :: "int \<Rightarrow> string" where
  "int_text n = (if n < 0 then ''-'' @ nat_text (nat (- n)) else nat_text (nat n))"

definition pad :: "nat \<Rightarrow> nat \<Rightarrow> string" where
  "pad k n = replicate (k - length (nat_text n)) (CHR ''0'') @ nat_text n"

text \<open>White space below 256, as \<open>trim\<close> and \<open>parseInt\<close> skip it.\<close>

definition is_space :: "char \<Rightarrow> bool" where
  "is_space ch = (let n = of_char ch :: nat in n = 32 \<or> (9 \<le> n \<and> n \<le> 13) \<or> n = 160)"

definition trim :: "string \<Rightarrow> string" where
  "trim s = rev (dropWhile is_space (rev (dropWhile is_space s)))"

definition digit_value :: "char \<Rightarrow> nat" where
  "digit_value ch = of_char ch - 48"

definition is_digit :: "char \<Rightarrow> bool" where
  "is_digit ch = (let n = of_char ch :: nat in 48 \<le> n \<and> n \<le> 57)"

definition digits_value :: "string \<Rightarrow> nat" where
  "digits_value ds = foldl (\<lambda>a ch. 10 * a + digit_value ch) 0 ds"

text \<open>\<open>Number.parseInt(s, 10)\<close>; \<open>None\<close> is \<open>NaN\<close>.\<close>

definition parseInt :: "string \<Rightarrow> int option" where
  "parseInt s =
     (let t = dropWhile is_space s;
          neg = (case t of [] \<Rightarrow> False | ch # _ \<Rightarrow> ch = CHR ''-'');
          u = (case t of [] \<Rightarrow> [] | ch # cs \<Rightarrow> if ch = CHR ''-'' \<or> ch = CHR ''+'' then cs else t);
          ds = takeWhile is_digit u
      in if ds = [] then None
         else Some (to_double (if neg then - int (digits_value ds) else int (digits_value ds))))"

section \<open>Division by 100 and \<open>toFixed(2)\<close>\<close>

text \<open>
  The double nearest to \<open>a / 100\<close> as a mantissa of 53 bits over \<open>2 ^ k\<close> (or times \<open>2 ^ k'\<close> for
  the largest amounts), and the decimal with two places nearest to it, ties upwards, in cents.
\<close>

definition cents_shift :: "nat \<Rightarrow> int" where
  "cents_shift a =
     (let k = 60 - int (bit_length a)
      in if a * 2 ^ nat k < 100 * 2 ^ 53 * 2 ^ nat (- k) then k else k - 1)"

definition fixed_cents :: "nat \<Rightarrow> nat" where
  "fixed_cents a =
     (let k = cents_shift a;
          m = round_half_even (a * 2 ^ nat k) (100 * 2 ^ nat (- k))
      in (2 * 100 * m * 2 ^ nat (- k) + 2 ^ nat k) div (2 * 2 ^ nat k))"

definition toFixed2 :: "int \<Rightarrow> string" where
  "toFixed2 cents =
     (let n = fixed_cents (nat \<bar>cents\<bar>)
      in (if cents < 0 then ''-'' else '''') @ nat_text (n div 100) @ ''.'' @ pad 2 (n mod 100))"

text \<open>\<open>amountInCents\<close> is a number or a text; \<open>None\<close> is \<open>NaN\<close>.\<close>

datatype cents_input = CentsNumber int | CentsText string | CentsNaN

definition formatCurrency :: "cents_input \<Rightarrow> string option \<Rightarrow> string" where
  "formatCurrency amountInCents currency =
     (let cents = (case amountInCents of CentsText s \<Rightarrow> parseInt s | CentsNumber n \<Rightarrow> Some n | CentsNaN \<Rightarrow> None);
          major = (case cents of None \<Rightarrow> ''NaN'' | Some n \<Rightarrow> toFixed2 n)
      in trim (major @ '' '' @ toUpperCase (case currency of Some c \<Rightarrow> c | None \<Rightarrow> '''')))"

section \<open>Dates and JSON as texts\<close>

text \<open>Year, month and day of a number of days since 1970-01-01.\<close>

definition civil_date :: "nat \<Rightarrow> nat \<times> nat \<times> nat" where
  "civil_date days =
     (let z = days + 719468;
          era = z div 146097;
          doe = z mod 146097;
          yoe = (doe - doe div 1460 + doe div 36524 - doe div 146096) div 365;
          doy = doe - (365 * yoe + yoe div 4 - yoe div 100);
          mp = (5 * doy + 2) div 153;
          d = doy - (153 * mp + 2) div 5 + 1;
          m = (if mp < 10 then mp + 3 else mp - 9);
          y = yoe + era * 400 + (if m \<le> 2 then 1 else 0)
      in (y, m, d))"

definition toISOString :: "nat \<Rightarrow> string" where
  "toISOString ms =
     (let (y, m, d) = civil_date (ms div 86400000); t = ms mod 86400000
      in pad 4 y @ ''-'' @ pad 2 m @ ''-'' @ pad 2 d @ ''T'' @ pad 2 (t div 3600000) @ '':''
         @ pad 2 (t div 60000 mod 60) @ '':'' @ pad 2 (t div 1000 mod 60) @ ''.'' @ pad 3 (t mod 1000) @ ''Z'')"

definition escape_char :: "char \<Rightarrow> string" where
  "escape_char ch =
     (let n = of_char ch :: nat
      in if ch = CHR 0x22 then [CHR 0x5C, CHR 0x22] else if ch = CHR 0x5C then [CHR 0x5C, CHR 0x5C]
         else if n = 8 then [CHR 0x5C, CHR ''b''] else if n = 9 then [CHR 0x5C, CHR ''t'']
         else if n = 10 then [CHR 0x5C, CHR ''n''] else if n = 12 then [CHR 0x5C, CHR ''f'']
         else if n = 13 then [CHR 0x5C, CHR ''r'']
         else if n < 32 then [CHR 0x5C] @ ''u00'' @ hex_byte n else [ch])"

definition quote_text :: "string \<Rightarrow> string" where
  "quote_text s = [CHR 0x22] @ concat (map escape_char s) @ [CHR 0x22]"

fun join :: "string \<Rightarrow> string list \<Rightarrow> string" where
  "join sep [] = ''''"
| "join sep [x] = x"
| "join sep (x # xs) = x @ sep @ join sep xs"

text \<open>\<open>JSON.stringify\<close> of a value that is not \<open>undefined\<close>.\<close>

fun stringify :: "json \<Rightarrow> string" where
  "stringify JUndefined = ''undefined''"
| "stringify JNull = ''null''"
| "stringify (JBool b) = (if b then ''true'' else ''false'')"
| "stringify (JNum n) = int_text n"
| "stringify (JStr s) = quote_text s"
| "stringify (JDate ms) = quote_text (toISOString ms)"
| "stringify (JArr xs) = ''['' @ join '','' (map (\<lambda>x. if x = JUndefined then ''null'' else stringify x) xs) @ '']''"
| "stringify (JObj ps) = ''{'' @ join '','' (map (\<lambda>p. quote_text (fst p) @ '':'' @ stringify (snd p))
     (filter (\<lambda>p. snd p \<noteq> JUndefined) ps)) @ ''}''"

text \<open>\<open>String(v)\<close> and a value inside a template literal; an object or array stands for its JSON text.\<close>

definition js_text :: "json \<Rightarrow> string" where
  "js_text v = (case v of JStr s \<Rightarrow> s | JNum n \<Rightarrow> int_text n | JNull \<Rightarrow> ''null''
     | JBool b \<Rightarrow> (if b then ''true'' else ''false'') | JUndefined \<Rightarrow> ''undefined'' | _ \<Rightarrow> stringify v)"

definition text_opt :: "json \<Rightarrow> string option" where
  "text_opt v = (case v of JStr s \<Rightarrow> Some s | _ \<Rightarrow> None)"

section \<open>The amount in a message is exact\<close>

lemma round_half_even_error:
  assumes "0 < d"
  shows "2 * n \<le> 2 * (d * round_half_even n d) + d" "2 * (d * round_half_even n d) \<le> 2 * n + d"
proof -
  have n: "n = d * (n div d) + n mod d" by simp
  have r: "n mod d < d" using assms by simp
  define q where "q = n div d"
  define t where "t = n mod d"
  have n': "n = d * q + t" and t: "t < d" using n r by (simp_all add: q_def t_def)
  have "round_half_even n d = q \<and> 2 * t \<le> d \<or> round_half_even n d = q + 1 \<and> d \<le> 2 * t"
    by (auto simp: round_half_even_def Let_def q_def t_def)
  then show "2 * n \<le> 2 * (d * round_half_even n d) + d" "2 * (d * round_half_even n d) \<le> 2 * n + d"
    using n' t by (auto simp: algebra_simps)
qed

lemma cents_shift_bounds:
  assumes "a < 2 ^ 52"
  shows "7 \<le> cents_shift a"
proof -
  have "bit_length a \<le> 52" using assms by (rule bit_length_le)
  then show ?thesis by (simp add: cents_shift_def Let_def)
qed

lemma fixed_cents_exact:
  assumes "a < 2 ^ 52"
  shows "fixed_cents a = a"
proof -
  define k where "k = nat (cents_shift a)"
  have k: "7 \<le> k" "nat (- cents_shift a) = 0" using cents_shift_bounds [OF assms] by (simp_all add: k_def)
  define p where "p = (2 :: nat) ^ k"
  have "(2 :: nat) ^ 7 \<le> p" unfolding p_def using k(1) by (intro power_increasing) auto
  then have p: "100 < p" by simp
  define m where "m = round_half_even (a * p) 100"
  have m: "2 * (a * p) \<le> 200 * m + 100" "200 * m \<le> 2 * (a * p) + 100"
    using round_half_even_error [of 100 "a * p"] by (simp_all add: m_def)
  have "fixed_cents a = (200 * m + p) div (2 * p)"
    by (simp add: fixed_cents_def Let_def k(2) k_def [symmetric] p_def [symmetric] m_def [symmetric])
  also have "\<dots> = a"
  proof (rule div_nat_eqI)
    show "2 * p * a \<le> 200 * m + p" using m(1) p by (simp add: algebra_simps)
    show "200 * m + p < 2 * p * Suc a" using m(2) p by (simp add: algebra_simps)
  qed
  finally show ?thesis .
qed

end
