(* ===== verification/Notifications.thy ===== *)
theory Notifications
  imports Texts
begin

text \<open>
  \<open>features/notifications\<close> and the dead-letter processor of \<open>infrastructure/queue\<close>: the fan-out of
  domain events, the e-mails, and what happens to a notification that cannot be sent. Which call
  to a queue or to SendGrid is refused is a parameter of each operation that makes one.
\<close>

section \<open>The domain-events processor\<close>

definition notification_data :: "ambient \<Rightarrow> string \<Rightarrow> json \<Rightarrow> json" where
  "notification_data g eventName payload = JObj
     [(''eventName'', JStr eventName), (''payload'', payload), (''enqueuedAt'', JStr (toISOString (clock g)))]"

text \<open>\<open>notificationsQueue.add\<close>; \<open>refused\<close> says whether Redis refuses this call.\<close>

definition add_notification :: "bool \<Rightarrow> string \<Rightarrow> json \<Rightarrow> app \<Rightarrow> (unit, app) outcome" where
  "add_notification refused name data s =
     (if refused then (Inl (ProviderError ''queue''), s)
      else (Inr (), s\<lparr>app_notifications := queue_add (app_notifications s) name data\<rparr>))"

definition DomainEventsProcessor_process :: "(nat \<Rightarrow> bool) \<Rightarrow> ambient \<Rightarrow> job \<Rightarrow> app \<Rightarrow> (unit, app) outcome" where
  "DomainEventsProcessor_process refused g job s =
     (let eventName = jget (job_data job) ''eventName''; payload = jget (job_data job) ''payload''
      in if eventName = JStr (event_text TransferCompleted) then
           bindS (add_notification (refused 0) (event_text TransferSent)
                    (notification_data g (event_text TransferSent) payload) s) (\<lambda>_ s1.
           bindS (add_notification (refused 1) (event_text TransferReceived)
                    (notification_data g (event_text TransferReceived) payload) s1) (\<lambda>_ s2.
           (Inr (), s2)))
         else if eventName \<in> set (map (\<lambda>e. JStr (event_text e)) [DepositSucceeded]) then
           add_notification (refused 0) (js_text eventName) (notification_data g (js_text eventName) payload) s
         else (Inr (), s))"

section \<open>The notifications service\<close>

record mail_config =
  sendgrid_api_key :: "string option"
  sendgrid_from :: "string option"

definition is_configured :: "mail_config \<Rightarrow> bool" where
  "is_configured c \<longleftrightarrow> (\<exists>k\<in>set_option (sendgrid_api_key c). k \<noteq> [])"

definition from_email :: "mail_config \<Rightarrow> string" where
  "from_email c = (case sendgrid_from c of Some e \<Rightarrow> if e = [] then ''noreply@yourapp.com'' else e
                   | None \<Rightarrow> ''noreply@yourapp.com'')"

definition getRecipientEmail :: "string \<Rightarrow> json \<Rightarrow> string option" where
  "getRecipientEmail eventName payload =
     (if eventName = event_text TransferSent then text_opt (jget payload ''fromUserEmail'')
      else if eventName = event_text TransferReceived then text_opt (jget payload ''toUserEmail'')
      else text_opt (jget payload ''userEmail''))"

definition buildSubject :: "string \<Rightarrow> string" where
  "buildSubject eventName =
     (if eventName = event_text DepositSucceeded then ''Deposit Received''
      else if eventName = event_text TransferSent then ''Transfer Sent''
      else if eventName = event_text TransferReceived then ''Transfer Received''
      else ''Notification: '' @ eventName)"

definition cents_of :: "json \<Rightarrow> cents_input" where
  "cents_of v = (case v of JNum n \<Rightarrow> CentsNumber n | JStr s \<Rightarrow> CentsText s | _ \<Rightarrow> CentsNaN)"

text \<open>Reading a property of \<open>undefined\<close> or \<open>null\<close> throws.\<close>

definition buildMessage :: "string \<Rightarrow> json \<Rightarrow> error + string" where
  "buildMessage eventName payload =
     (if payload = JUndefined \<or> payload = JNull then Inl TypeError
      else
        (let formattedAmount = formatCurrency (cents_of (jget payload ''amount'')) (text_opt (jget payload ''currency''))
         in Inr (
           if eventName = event_text DepositSucceeded
           then ''Your deposit of '' @ formattedAmount @ '' has been received.''
           else if eventName = event_text TransferSent
           then ''Your transfer of '' @ formattedAmount @ '' to '' @ js_text (jget payload ''toUserName'') @ '' is complete.''
           else if eventName = event_text TransferReceived
           then ''You received '' @ formattedAmount @ '' from '' @ js_text (jget payload ''fromUserName'') @ ''.''
           else ''Notification for '' @ eventName @ '': '' @ stringify payload)))"

definition send :: "mail_config \<Rightarrow> bool \<Rightarrow> string \<Rightarrow> json \<Rightarrow> app \<Rightarrow> (unit, app) outcome" where
  "send c refused eventName payload s =
     (case buildMessage eventName payload of
        Inl e \<Rightarrow> (Inl e, s)
      | Inr message \<Rightarrow>
     (let subject = buildSubject eventName;
          recipientEmail = getRecipientEmail eventName payload
      in case recipientEmail of
           None \<Rightarrow> (Inr (), s)
         | Some to \<Rightarrow>
             if is_configured c \<and> to \<noteq> [] then
               if refused then (Inl (ProviderError ''sendgrid''), s)
               else (Inr (), s\<lparr>app_mails := app_mails s @ [\<lparr>mail_to = to, mail_from = from_email c,
                       mail_subject = subject, mail_text = message\<rparr>]\<rparr>)
             else (Inr (), s)))"

section \<open>The notifications processor\<close>

definition NotificationsProcessor_process :: "mail_config \<Rightarrow> bool \<Rightarrow> job \<Rightarrow> app \<Rightarrow> (unit, app) outcome" where
  "NotificationsProcessor_process c refused job s =
     send c refused (js_text (jget (job_data job) ''eventName'')) (jget (job_data job) ''payload'') s"

text \<open>\<open>error.message\<close>.\<close>

definition error_message :: "error \<Rightarrow> string" where
  "error_message e = (case e of ProviderError m \<Rightarrow> m | PlainError m \<Rightarrow> m | BadRequest m \<Rightarrow> m
     | TypeError \<Rightarrow> ''TypeError'' | _ \<Rightarrow> ''error'')"

definition nullish :: "json \<Rightarrow> json \<Rightarrow> json" where
  "nullish v d = (if v = JUndefined \<or> v = JNull then d else v)"

text \<open>
  The listener of the \<open>failed\<close> event; \<open>refused\<close> says whether Redis refuses the add. The rejection of
  the listener is caught nowhere in the program: the job is then in no queue.
\<close>

definition onFailed :: "bool \<Rightarrow> ambient \<Rightarrow> job \<Rightarrow> error \<Rightarrow> app \<Rightarrow> (unit, app) outcome" where
  "onFailed refused g job error s =
     (if (case job_attempts job of Some n \<Rightarrow> n | None \<Rightarrow> 1) \<le> job_attemptsMade job
      then if refused then (Inl (ProviderError ''queue''), s)
      else (Inr (), s\<lparr>app_dead_letter := queue_add (app_dead_letter s) (''dlq:'' @ job_name job) (JObj
             [(''originalQueue'', JStr NOTIFICATIONS), (''originalJobId'', JStr (nat_text (job_id job))),
              (''originalJobName'', JStr (job_name job)), (''data'', job_data job),
              (''dlqCount'', nullish (jget (jget (job_data job) ''_dlqMeta'') ''dlqCount'') (JNum 0)),
              (''failedReason'', JStr (error_message error)), (''failedAt'', JStr (toISOString (clock g))),
              (''attemptsMade'', JNum (int (job_attemptsMade job)))])\<rparr>)
      else (Inr (), s))"

section \<open>The dead-letter processor\<close>

definition MAX_DLQ_REPROCESS :: int where
  "MAX_DLQ_REPROCESS = 3"

text \<open>\<open>dlqCount\<close> of the job data: the jobs are written by \<open>onFailed\<close>, with a number there.\<close>

definition js_number :: "json \<Rightarrow> int" where
  "js_number v = (case v of JNum n \<Rightarrow> n | _ \<Rightarrow> 0)"

definition DeadLetterProcessor_process :: "bool \<Rightarrow> job \<Rightarrow> app \<Rightarrow> (unit, app) outcome" where
  "DeadLetterProcessor_process refused job s =
     (let originalQueue = jget (job_data job) ''originalQueue'';
          originalJobName = js_text (jget (job_data job) ''originalJobName'');
          data = jget (job_data job) ''data'';
          dlqCount = js_number (jget (job_data job) ''dlqCount'');
          again = jset ''_dlqMeta'' (JObj [(''dlqCount'', JNum (dlqCount + 1))]) data
      in if MAX_DLQ_REPROCESS \<le> dlqCount then (Inr (), s)
         else if originalQueue \<notin> {JStr NOTIFICATIONS, JStr DOMAIN_EVENTS} then (Inr (), s)
         else if refused then (Inl (ProviderError ''queue''), s)
         else if originalQueue = JStr NOTIFICATIONS then
           (Inr (), s\<lparr>app_notifications := queue_add (app_notifications s) originalJobName again\<rparr>)
         else (Inr (), s\<lparr>app_domain_events := queue_add (app_domain_events s) originalJobName again\<rparr>))"

section \<open>The workers\<close>

text \<open>
  What BullMQ does with the processors: a worker takes the first job; the attempt is counted; when
  it succeeds the job is done, when it fails the \<open>failed\<close> event is raised and the job is tried
  again while attempts are left.
\<close>

definition notifications_worker :: "mail_config \<Rightarrow> bool \<Rightarrow> bool \<Rightarrow> ambient \<Rightarrow> app \<Rightarrow> app" where
  "notifications_worker c refused lost g s =
     (case queue_jobs (app_notifications s) of
        [] \<Rightarrow> s
      | job # rest \<Rightarrow>
          (let tried = job\<lparr>job_attemptsMade := Suc (job_attemptsMade job)\<rparr>;
               s1 = s\<lparr>app_notifications := (app_notifications s)\<lparr>queue_jobs := rest\<rparr>\<rparr>
           in case NotificationsProcessor_process c refused tried s1 of
                (Inr _, s2) \<Rightarrow> s2
              | (Inl e, s2) \<Rightarrow>
                  (let s3 = snd (onFailed lost g tried e s2)
                   in if job_attemptsMade tried < (case job_attempts tried of Some n \<Rightarrow> n | None \<Rightarrow> 1)
                      then s3\<lparr>app_notifications := (app_notifications s3)\<lparr>queue_jobs := tried # queue_jobs (app_notifications s3)\<rparr>\<rparr>
                      else s3)))"

text \<open>A job of the dead-letter queue has the default of one attempt: it is not tried again.\<close>

definition dead_letter_worker :: "bool \<Rightarrow> app \<Rightarrow> app" where
  "dead_letter_worker refused s =
     (case queue_jobs (app_dead_letter s) of
        [] \<Rightarrow> s
      | job # rest \<Rightarrow>
          snd (DeadLetterProcessor_process refused job (s\<lparr>app_dead_letter := (app_dead_letter s)\<lparr>queue_jobs := rest\<rparr>\<rparr>)))"

definition domain_events_worker :: "(nat \<Rightarrow> bool) \<Rightarrow> ambient \<Rightarrow> app \<Rightarrow> app" where
  "domain_events_worker refused g s =
     (case queue_jobs (app_domain_events s) of
        [] \<Rightarrow> s
      | job # rest \<Rightarrow>
          (let tried = job\<lparr>job_attemptsMade := Suc (job_attemptsMade job)\<rparr>;
               s1 = s\<lparr>app_domain_events := (app_domain_events s)\<lparr>queue_jobs := rest\<rparr>\<rparr>
           in case DomainEventsProcessor_process refused g tried s1 of
                (Inr _, s2) \<Rightarrow> s2
              | (Inl _, s2) \<Rightarrow>
                  if job_attemptsMade tried < (case job_attempts tried of Some n \<Rightarrow> n | None \<Rightarrow> 1)
                  then s2\<lparr>app_domain_events := (app_domain_events s2)\<lparr>queue_jobs := tried # queue_jobs (app_domain_events s2)\<rparr>\<rparr>
                  else s2))"

end
