(* ===== verification/TextProperties.thy ===== *)
theory TextProperties
  imports Texts
begin

text \<open>
  The decimal texts: printing and parsing are inverse, what the text of an amount in a message is and
  that it can be read back, and what a wallet tag is.
\<close>

section \<open>Digits\<close>

lemma trim_id:
  assumes "xs \<noteq> []" "\<not> is_space (hd xs)" "\<not> is_space (last xs)"
  shows "trim xs = xs"
proof -
  have "dropWhile is_space xs = xs" using assms(1,2) by (cases xs) auto
  moreover have "dropWhile is_space (rev xs) = rev xs" using assms(1,3) by (cases xs rule: rev_cases) auto
  ultimately show ?thesis by (simp add: trim_def)
qed

lemma digit_char_value: "of_char (digit_char n) = 48 + n mod 10"
proof -
  have "n mod 10 < 10" by simp
  then have "n mod 10 = 0 \<or> n mod 10 = 1 \<or> n mod 10 = 2 \<or> n mod 10 = 3 \<or> n mod 10 = 4 \<or> n mod 10 = 5
      \<or> n mod 10 = 6 \<or> n mod 10 = 7 \<or> n mod 10 = 8 \<or> n mod 10 = 9" by presburger
  then show ?thesis by (auto simp: digit_char_def)
qed

lemma digit_char_not_space: "\<not> is_space (digit_char n)"
  by (simp add: is_space_def Let_def digit_char_value)

lemma nat_text_digits: "nat_text n \<noteq> [] \<and> (\<forall>x\<in>set (nat_text n). \<exists>m. x = digit_char m)"
  by (induction n rule: nat_text.induct) (subst (1 2) nat_text.simps, auto)

text \<open>An amount of cents below \<open>2 ^ 52\<close> and one of the four currencies.\<close>

definition money_text :: "nat \<Rightarrow> string \<Rightarrow> string" where
  "money_text cents currency = nat_text (cents div 100) @ ''.'' @ pad 2 (cents mod 100) @ '' '' @ currency"

lemma upper_currency: "toUpperCase (currency_text c) = currency_text c"
  by (cases c) (simp_all add: toUpperCase_def upper_char_def Let_def)

lemma formatCurrency_exact:
  assumes "cents < 2 ^ 52"
  shows "formatCurrency (CentsNumber (int cents)) (Some (currency_text c)) = money_text cents (currency_text c)"
proof -
  have t: "toFixed2 (int cents) = nat_text (cents div 100) @ ''.'' @ pad 2 (cents mod 100)"
    using fixed_cents_exact [OF assms] by (simp add: toFixed2_def)
  have "hd (nat_text m @ xs) \<in> set (nat_text m)" for m xs
    using nat_text_digits [of m] by simp
  then have h: "\<not> is_space (hd (nat_text m @ xs))" for m xs
    using nat_text_digits [of m] digit_char_not_space by metis
  have l: "currency_text c \<noteq> []" "\<not> is_space (last (currency_text c))"
    by (cases c; simp add: is_space_def Let_def)+
  have "trim (money_text cents (currency_text c)) = money_text cents (currency_text c)"
    using h l by (intro trim_id) (simp_all add: money_text_def)
  then show ?thesis by (simp add: formatCurrency_def t upper_currency money_text_def)
qed

section \<open>Printing and parsing\<close>

lemma digits_value_snoc: "digits_value (xs @ [c]) = 10 * digits_value xs + digit_value c"
  by (simp add: digits_value_def)

lemma digits_value_nat_text: "digits_value (nat_text n) = n"
proof (induction n rule: nat_text.induct)
  case (1 n)
  show ?case
  proof (cases "n < 10")
    case True
    then show ?thesis
      by (subst nat_text.simps) (simp add: digits_value_def digit_value_def digit_char_value)
  next
    case False
    with 1 show ?thesis
      by (subst nat_text.simps) (simp add: digits_value_snoc digit_value_def digit_char_value)
  qed
qed

lemma digit_char_digit: "is_digit (digit_char n)" "digit_char n \<noteq> CHR ''-''" "digit_char n \<noteq> CHR ''+''"
proof -
  show "is_digit (digit_char n)" by (simp add: is_digit_def Let_def digit_char_value less_Suc_eq_le)
  have "(of_char (digit_char n) :: nat) \<noteq> of_char (CHR ''-'')" "(of_char (digit_char n) :: nat) \<noteq> of_char (CHR ''+'')"
    by (simp_all add: digit_char_value)
  then show "digit_char n \<noteq> CHR ''-''" "digit_char n \<noteq> CHR ''+''" by metis+
qed

lemma nat_text_head: "\<exists>m ds. nat_text n = digit_char m # ds"
  using nat_text_digits [of n] by (cases "nat_text n") auto

lemma parseInt_nat_text: "parseInt (nat_text n) = Some (to_double (int n))"
  and parseInt_minus: "parseInt (CHR ''-'' # nat_text n) = Some (to_double (- int n))"
proof -
  have d: "takeWhile is_digit (nat_text n) = nat_text n"
    using nat_text_digits [of n] digit_char_digit by (auto simp: takeWhile_eq_all_conv)
  obtain m ds where h: "nat_text n = digit_char m # ds" using nat_text_head by blast
  have ds: "takeWhile is_digit ds = ds" using d h digit_char_digit by simp
  have v: "digits_value (digit_char m # ds) = n" using digits_value_nat_text [of n] h by simp
  show "parseInt (nat_text n) = Some (to_double (int n))"
    using digit_char_digit digit_char_not_space v by (simp add: parseInt_def h ds Let_def)
  have "\<not> is_space (CHR ''-'')" by (simp add: is_space_def Let_def)
  then show "parseInt (CHR ''-'' # nat_text n) = Some (to_double (- int n))"
    using v digit_char_digit by (simp add: parseInt_def h ds Let_def)
qed

lemma parseInt_int_text: "parseInt (int_text n) = Some (to_double n)"
  using parseInt_nat_text [of "nat n"] parseInt_minus [of "nat (- n)"] by (cases "n < 0") (simp_all add: int_text_def)

section \<open>Amounts of a message\<close>

text \<open>
  Reading an amount back as a person does: a minus sign, digits, a point, two digits, a blank and
  the currency.
\<close>

definition read_amount :: "string \<Rightarrow> (int \<times> string) option" where
  "read_amount x =
     (let neg = (take 1 x = ''-'');
          t = (if neg then tl x else x);
          units = takeWhile is_digit t;
          rest = dropWhile is_digit t;
          cents = take 2 (tl rest)
      in if units \<noteq> [] \<and> take 1 rest = ''.'' \<and> length cents = 2 \<and> list_all is_digit cents
           \<and> take 1 (drop 3 rest) = '' ''
         then Some ((if neg then - 1 else 1) * int (digits_value units * 100 + digits_value cents), drop 4 rest)
         else None)"

definition sign_text :: "int \<Rightarrow> string" where
  "sign_text n = (if n < 0 then ''-'' else '''')"

lemma pad2: "k < 100 \<Longrightarrow> pad 2 k = [digit_char (k div 10), digit_char k]"
  by (cases "k < 10") (simp_all add: pad_def nat_text.simps [of k] nat_text.simps [of "k div 10"] numeral_2_eq_2
      digit_char_def)

lemma nat_text_all_digits: "list_all is_digit (nat_text n)"
  using nat_text_digits [of n] digit_char_digit by (auto simp: list_all_iff)

lemma read_money_text:
  "read_amount (sign_text n @ money_text (nat \<bar>n\<bar>) cur) = Some (n, cur)"
proof -
  let ?k = "nat \<bar>n\<bar>"
  let ?rest = "''.'' @ pad 2 (?k mod 100) @ '' '' @ cur"
  have dot: "\<not> is_digit (CHR ''.'')" by (simp add: is_digit_def Let_def)
  have tw: "takeWhile is_digit (nat_text m @ ''.'' @ xs) = nat_text m"
      "dropWhile is_digit (nat_text m @ ''.'' @ xs) = ''.'' @ xs" for m xs
    using nat_text_all_digits [of m] dot
    by (simp_all add: list_all_iff takeWhile_append2 dropWhile_append2 takeWhile_tail)
  have minus: "take 1 (nat_text m @ xs) \<noteq> ''-''" for m xs
    using nat_text_head [of m] digit_char_digit(2) by auto
  have sign: "(take 1 (sign_text n @ nat_text m @ xs) = ''-'') = (n < 0)"
      "(if n < 0 then tl (sign_text n @ nat_text m @ xs) else sign_text n @ nat_text m @ xs) = nat_text m @ xs" for m xs
    using minus by (simp_all add: sign_text_def)
  have p: "pad 2 (?k mod 100) = [digit_char (?k mod 100 div 10), digit_char (?k mod 100)]"
    by (rule pad2) simp
  have v: "digits_value [digit_char (?k mod 100 div 10), digit_char (?k mod 100)] = ?k mod 100"
    by (simp add: digits_value_def digit_value_def digit_char_value)
  have s: "int (?k div 100 * 100 + ?k mod 100) = \<bar>n\<bar>" by simp
  have r: "read_amount (sign_text n @ money_text ?k cur)
      = Some ((if n < 0 then - 1 else 1) * int (?k div 100 * 100 + ?k mod 100), cur)"
    unfolding read_amount_def Let_def money_text_def sign tw p
    using nat_text_digits [of "?k div 100"] digit_char_digit v by (simp add: digits_value_nat_text)
  show ?thesis unfolding r s by simp
qed

lemma toFixed2_exact:
  assumes "\<bar>n\<bar> < 2 ^ 52"
  shows "toFixed2 n @ '' '' @ cur = sign_text n @ money_text (nat \<bar>n\<bar>) cur"
proof -
  have "nat \<bar>n\<bar> < 2 ^ 52" using assms by (simp add: nat_less_iff)
  then show ?thesis using fixed_cents_exact by (simp add: toFixed2_def sign_text_def money_text_def Let_def)
qed

lemma trim_money: "trim (sign_text n @ money_text k (currency_text c)) = sign_text n @ money_text k (currency_text c)"
proof -
  have "\<not> is_space (CHR ''-'')" by (simp add: is_space_def Let_def)
  then have h: "\<not> is_space (hd (sign_text n @ nat_text m @ xs))" for m xs
    using nat_text_head [of m] digit_char_not_space by (auto simp: sign_text_def)
  have l: "currency_text c \<noteq> []" "\<not> is_space (last (currency_text c))"
    by (cases c; simp add: is_space_def Let_def)+
  show ?thesis
    using h l by (intro trim_id) (simp_all add: money_text_def)
qed

text \<open>C39: The text of an amount says the amount. For a whole number of cents below \<open>2 ^ 52\<close> in size,
  given as a number or as the text a \<open>bigint\<close> column returns for it, and one of the four currencies
  in upper or lower case, \<open>formatCurrency\<close> prints the sign, the units without leading zeros, a
  point, exactly two digits, a blank and the currency in capitals; reading that text back gives the
  cents and the currency.\<close>
theorem amount_text_roundtrip:
  assumes "\<bar>n\<bar> < 2 ^ 52" "amount \<in> {CentsNumber n, CentsText (int_text n)}"
    and "currency \<in> {currency_text c, toLowerCase (currency_text c)}"
  shows "formatCurrency amount (Some currency)
       = (if n < 0 then ''-'' else '''') @ nat_text (nat \<bar>n\<bar> div 100) @ ''.''
           @ [digit_char (nat \<bar>n\<bar> mod 100 div 10), digit_char (nat \<bar>n\<bar>)] @ '' '' @ currency_text c
     \<and> read_amount (formatCurrency amount (Some currency)) = Some (n, currency_text c)"
proof -
  have "\<bar>n\<bar> < 2 ^ 53" using assms(1) by simp
  then have "to_double n = n" by (rule to_double_exact)
  then have cents: "(case amount of CentsText s \<Rightarrow> parseInt s | CentsNumber n \<Rightarrow> Some n | CentsNaN \<Rightarrow> None) = Some n"
    using assms(2) parseInt_int_text by auto
  have "list_all (\<lambda>c. toUpperCase (toLowerCase (currency_text c)) = currency_text c) [EUR, USD, GBP, NGN]"
    by code_simp
  then have "toUpperCase (toLowerCase (currency_text c)) = currency_text c" by (cases c) simp_all
  then have cur: "toUpperCase currency = currency_text c" using assms(3) upper_currency by auto
  have f: "formatCurrency amount (Some currency) = sign_text n @ money_text (nat \<bar>n\<bar>) (currency_text c)"
    unfolding formatCurrency_def cents Let_def option.case cur toFixed2_exact [OF assms(1)] trim_money ..
  have "pad 2 (nat \<bar>n\<bar> mod 100) = [digit_char (nat \<bar>n\<bar> mod 100 div 10), digit_char (nat \<bar>n\<bar>)]"
    using pad2 [of "nat \<bar>n\<bar> mod 100"] by (simp add: digit_char_def mod_mod_cancel)
  then have "formatCurrency amount (Some currency)
       = (if n < 0 then ''-'' else '''') @ nat_text (nat \<bar>n\<bar> div 100) @ ''.''
           @ [digit_char (nat \<bar>n\<bar> mod 100 div 10), digit_char (nat \<bar>n\<bar>)] @ '' '' @ currency_text c"
    using f by (simp only: sign_text_def money_text_def append_Cons append_Nil)
  moreover have "read_amount (formatCurrency amount (Some currency)) = Some (n, currency_text c)"
    unfolding f by (rule read_money_text)
  ultimately show ?thesis by (rule conjI)
qed

theorem amount_text_roundtrip_witness:
  "formatCurrency (CentsText (int_text (- 1205))) (Some ''eur'') = ''-12.05 EUR''
   \<and> read_amount ''-12.05 EUR'' = Some (- 1205, ''EUR'')"
proof -
  have e: "toLowerCase (currency_text EUR) = ''eur''" by code_simp
  have p: "\<bar>- 1205 :: int\<bar> < 2 ^ 52" "CentsText (int_text (- 1205)) \<in> {CentsNumber (- 1205), CentsText (int_text (- 1205))}"
      "''eur'' \<in> {currency_text EUR, toLowerCase (currency_text EUR)}"
    unfolding e by simp_all
  note h = amount_text_roundtrip [OF p]
  have f: "formatCurrency (CentsText (int_text (- 1205))) (Some ''eur'') = ''-12.05 EUR''"
    using h [THEN conjunct1] by (simp add: nat_text.simps digit_char_def)
  have r: "read_amount (formatCurrency (CentsText (int_text (- 1205))) (Some ''eur'')) = Some (- 1205, ''EUR'')"
    using h [THEN conjunct2] by simp
  show ?thesis using f r [unfolded f] by (rule conjI)
qed

lemma nat_text_inject: "nat_text m = nat_text n \<Longrightarrow> m = n"
  by (metis digits_value_nat_text)

lemma int_text_inject: "int_text m = int_text n \<Longrightarrow> m = n"
proof -
  assume eq: "int_text m = int_text n"
  have "nat_text k \<noteq> CHR ''-'' # xs" for k xs
    using nat_text_head [of k] digit_char_digit(2) by (metis list.inject)
  with eq show ?thesis
    by (auto simp: int_text_def dest!: nat_text_inject split: if_splits dest: sym)
qed

section \<open>Wallet tags\<close>

text \<open>The words of a text: its maximal runs of lower-case letters and digits, after \<open>w\<close> has been read.\<close>

fun words_after :: "string \<Rightarrow> string \<Rightarrow> string list" where
  "words_after w [] = (if w = [] then [] else [w])"
| "words_after w (c # cs) =
     (if slug_char c then words_after (w @ [c]) cs
      else (if w = [] then [] else [w]) @ words_after [] cs)"

definition words :: "string \<Rightarrow> string list" where
  "words s = words_after [] s"

definition without_last_dash :: "string \<Rightarrow> string" where
  "without_last_dash t = (if t \<noteq> [] \<and> last t = CHR ''-'' then butlast t else t)"

lemma dash_no_slug: "\<not> slug_char (CHR ''-'')"
  by (simp add: slug_char_def Let_def)

lemma words_after_nonempty: "w \<noteq> [] \<Longrightarrow> words_after w s \<noteq> []"
  by (induction w s rule: words_after.induct) auto

lemma words_skip: "words_after [] (dropWhile (\<lambda>x. \<not> slug_char x) s) = words_after [] s"
  by (induction s) auto

lemma join_Cons: "xs \<noteq> [] \<Longrightarrow> join sep (x # xs) = x @ sep @ join sep xs"
  by (cases xs) simp_all

lemma without_last_dash_append: "t \<noteq> [] \<Longrightarrow> without_last_dash (s @ t) = s @ without_last_dash t"
  by (simp add: without_last_dash_def butlast_append)

lemma dash_runs_words:
  "list_all slug_char w \<Longrightarrow> w \<noteq> [] \<or> s = [] \<or> slug_char (hd s)
   \<Longrightarrow> without_last_dash (w @ dash_runs s) = join ''-'' (words_after w s)"
proof (induction s arbitrary: w rule: dash_runs.induct)
  case 1
  have "last w \<noteq> CHR ''-''" if "w \<noteq> []"
    using that 1(1) dash_no_slug last_in_set [OF that] by (metis list_all_iff)
  then show ?case by (auto simp: without_last_dash_def)
next
  case (2 ch cs)
  show ?case
  proof (cases "slug_char ch")
    case True
    then show ?thesis using 2(1) [OF True, of "w @ [ch]"] 2(3) by simp
  next
    case False
    let ?t = "dropWhile (\<lambda>x. \<not> slug_char x) cs"
    have w: "w \<noteq> []" using 2(4) False by simp
    have t: "?t = [] \<or> slug_char (hd ?t)" using hd_dropWhile [of "\<lambda>x. \<not> slug_char x" cs] by blast
    have ih: "without_last_dash (dash_runs ?t) = join ''-'' (words_after [] cs)"
      using 2(2) [OF False, of "[]"] t words_skip [of cs] by simp
    show ?thesis
    proof (cases "?t = []")
      case True
      then have "words_after [] cs = []" using words_skip [of cs] by (metis words_after.simps(1))
      moreover have "dash_runs ?t = []" unfolding True by simp
      ultimately show ?thesis using False w by (simp add: without_last_dash_def butlast_append)
    next
      case t': False
      then obtain d ds where d: "?t = d # ds" "slug_char d" using t by (cases ?t) auto
      then have "words_after [] cs = words_after [d] ds" using words_skip [of cs] by simp
      then have ne: "words_after [] cs \<noteq> []" using words_after_nonempty by simp
      have "dash_runs ?t \<noteq> []" using d by simp
      then have "without_last_dash ((w @ ''-'') @ dash_runs ?t) = (w @ ''-'') @ without_last_dash (dash_runs ?t)"
        by (rule without_last_dash_append)
      then show ?thesis using False w ih join_Cons [OF ne] by simp
    qed
  qed
qed

lemma slug_words: "trim_dashes (dash_runs s) = join ''-'' (words s)"
proof (cases s)
  case Nil
  then show ?thesis by (simp add: trim_dashes_def words_def)
next
  case (Cons c cs)
  show ?thesis
  proof (cases "slug_char c")
    case True
    then have "c \<noteq> CHR ''-''" using dash_no_slug by auto
    then have "trim_dashes (dash_runs s) = without_last_dash (dash_runs s)"
      using True by (simp add: Cons trim_dashes_def without_last_dash_def)
    then show ?thesis using dash_runs_words [of "[]" s] True by (simp add: Cons words_def)
  next
    case False
    let ?t = "dropWhile (\<lambda>x. \<not> slug_char x) cs"
    have t: "?t = [] \<or> slug_char (hd ?t)" using hd_dropWhile [of "\<lambda>x. \<not> slug_char x" cs] by blast
    have "trim_dashes (dash_runs s) = without_last_dash (dash_runs ?t)"
      using False by (simp add: Cons trim_dashes_def without_last_dash_def Let_def)
    then show ?thesis using dash_runs_words [of "[]" ?t] t False words_skip [of cs] by (simp add: Cons words_def)
  qed
qed

text \<open>The value of a hexadecimal digit.\<close>

definition hex_value :: "char \<Rightarrow> nat option" where
  "hex_value ch = (let n = of_char ch :: nat in
     if 48 \<le> n \<and> n \<le> 57 then Some (n - 48) else if 97 \<le> n \<and> n \<le> 102 then Some (n - 87) else None)"

lemma hex_value_digit: "hex_value (hex_digit n) = Some (n mod 16)"
proof -
  have "list_all (\<lambda>k. hex_value (''0123456789abcdef'' ! k) = Some k) [0..<16]" by code_simp
  then show ?thesis by (simp add: list_all_iff hex_digit_def)
qed

text \<open>C40: What a wallet tag is. The slug is the first four characters of the words of the lower-cased
  name (its maximal runs of letters and digits) joined by single dashes; after a dash follow four
  characters, the lower-case hexadecimal digits of the two random bytes. So a tag holds only
  lower-case letters, digits and dashes, is 5 to 9 characters long and always fits its column.\<close>
theorem wallet_tag_format:
  assumes "b1 < 256" "b2 < 256"
  shows "\<exists>suffix. generateWalletTag (b1, b2) name
        = take 4 (join ''-'' (words (toLowerCase name))) @ ''-'' @ suffix
     \<and> map hex_value suffix = map Some [b1 div 16, b1 mod 16, b2 div 16, b2 mod 16]
     \<and> list_all tag_char (generateWalletTag (b1, b2) name)
     \<and> 5 \<le> length (generateWalletTag (b1, b2) name) \<and> length (generateWalletTag (b1, b2) name) \<le> 9
     \<and> fits 15 (generateWalletTag (b1, b2) name)"
proof -
  let ?suffix = "hex_byte b1 @ hex_byte b2"
  have tag: "generateWalletTag (b1, b2) name = take 4 (join ''-'' (words (toLowerCase name))) @ ''-'' @ ?suffix"
    by (simp add: generateWalletTag_def Let_def slug_words)
  have "b1 div 16 mod 16 = b1 div 16" "b2 div 16 mod 16 = b2 div 16" using assms by simp_all
  then have "map hex_value ?suffix = map Some [b1 div 16, b1 mod 16, b2 div 16, b2 mod 16]"
    by (simp add: hex_byte_def hex_value_digit)
  moreover have "list_all tag_char (generateWalletTag (b1, b2) name)"
    using generateWalletTag_chars [of "(b1, b2)" name] by (simp add: list_all_iff)
  moreover have "5 \<le> length (generateWalletTag (b1, b2) name)" by (simp add: tag hex_byte_def)
  moreover note generateWalletTag_length [of "(b1, b2)" name]
  ultimately show ?thesis using tag by (intro exI [of _ ?suffix]) (simp add: fits_def)
qed

theorem wallet_tag_format_witness:
  "generateWalletTag (171, 5) ''J. Doe'' = ''j-do'' @ ''-'' @ ''ab05'' \<and> fits 15 ''j-do-ab05''"
proof -
  have tag: "generateWalletTag (171, 5) ''J. Doe'' = ''j-do-ab05''" by code_simp
  have "fits 15 (generateWalletTag (171, 5) ''J. Doe'')"
    using wallet_tag_format [of 171 5 "''J. Doe''"] by simp blast
  then show ?thesis by (simp add: tag)
qed

end
