(* ===== verification/NotificationProperties.thy ===== *)
theory NotificationProperties
  imports Notifications TextProperties Scenario
begin

text \<open>
  What the queue processors promise: a settled deposit and an executed transfer reach their users
  by e-mail with the exact amount, every notification is delivered or given up after a bounded
  number of tries, and what is lost or sent twice when a call is refused.
\<close>

section \<open>Members of job data\<close>

named_theorems job_simps \<open>members of job data\<close>

lemma map_of_filter_defined:
  "map_of ps k = Some v \<Longrightarrow> v \<noteq> JUndefined \<Longrightarrow> map_of (filter (\<lambda>p. snd p \<noteq> JUndefined) ps) k = Some v"
  by (induction ps) (auto split: if_splits)

lemma map_of_map_snd: "map_of (map (\<lambda>p. (fst p, f (snd p))) ps) k = map_option f (map_of ps k)"
  by (induction ps) auto

lemma jget_clone: "jget v k \<noteq> JUndefined \<Longrightarrow> jget (json_clone v) k = json_clone (jget v k)"
  by (cases v) (auto simp: jget_def map_of_map_snd map_of_filter_defined split: option.splits)

lemma map_of_set_prop: "map_of (set_prop k v ps) k' = (if k' = k then Some v else map_of ps k')"
  by (induction ps) auto

lemma jget_set_same [job_simps]: "jget (jset k v obj) k = v"
  by (cases obj) (simp_all add: jset_def jget_def map_of_set_prop)

lemma jget_obj [job_simps]:
  "jget (JObj []) k = JUndefined"
  "jget (JObj ((k', v) # ps)) k = (if k' = k then v else jget (JObj ps) k)"
  by (simp_all add: jget_def)

section \<open>How often a notification is tried\<close>

text \<open>
  The number in \<open>_dlqMeta\<close> of a notification, and the one the dead-letter processor reads.
\<close>

definition retry_level :: "json \<Rightarrow> int" where
  "retry_level data = js_number (nullish (jget (jget data ''_dlqMeta'') ''dlqCount'') (JNum 0))"

definition dead_weight :: "int \<Rightarrow> nat" where
  "dead_weight r = 1 + 4 * nat (MAX_DLQ_REPROCESS - r)"

definition attempts_left :: "job \<Rightarrow> nat" where
  "attempts_left j = max 1 ((case job_attempts j of Some n \<Rightarrow> n | None \<Rightarrow> 1) - job_attemptsMade j)"

definition load :: "app \<Rightarrow> nat" where
  "load s = sum_list (map (\<lambda>j. attempts_left j + dead_weight (retry_level (job_data j)))
              (queue_jobs (app_notifications s)))
     + sum_list (map (\<lambda>j. dead_weight (js_number (jget (job_data j) ''dlqCount'')))
              (queue_jobs (app_dead_letter s)))"

text \<open>One worker takes one job; each call to SendGrid and each add to a queue may be refused.\<close>

inductive work_step :: "mail_config \<Rightarrow> app \<Rightarrow> app \<Rightarrow> bool" for c where
  notify: "queue_jobs (app_notifications s) \<noteq> [] \<Longrightarrow> work_step c s (notifications_worker c refused lost g s)"
| reprocess: "queue_jobs (app_dead_letter s) \<noteq> [] \<Longrightarrow> work_step c s (dead_letter_worker refused s)"

lemma send_queues:
  "app_notifications (snd (send c refused e p s)) = app_notifications s
   \<and> app_dead_letter (snd (send c refused e p s)) = app_dead_letter s
   \<and> app_domain_events (snd (send c refused e p s)) = app_domain_events s"
  by (simp add: send_def Let_def split: sum.split option.split)

lemma send_queues_eq:
  assumes "send c refused e p s = (r, s')"
  shows "app_notifications s' = app_notifications s" "app_dead_letter s' = app_dead_letter s"
    "app_domain_events s' = app_domain_events s"
  using send_queues [of c refused e p s] assms by simp_all

lemma onFailed_queues: "app_notifications (snd (onFailed lost g j e s)) = app_notifications s"
  by (simp add: onFailed_def)

lemma js_number_clone: "js_number (json_clone v) = js_number v"
  by (cases v) (simp_all add: js_number_def)

lemma failed_job_level:
  assumes "(case job_attempts j of Some n \<Rightarrow> n | None \<Rightarrow> 1) \<le> job_attemptsMade j"
  shows "\<exists>d. queue_jobs (app_dead_letter (snd (onFailed False g j e s))) = queue_jobs (app_dead_letter s) @ [d]
    \<and> js_number (jget (job_data d) ''dlqCount'') = retry_level (job_data j)"
proof -
  define n where "n = nullish (jget (jget (job_data j) ''_dlqMeta'') ''dlqCount'') (JNum 0)"
  have n: "n \<noteq> JUndefined" by (simp add: n_def nullish_def)
  show ?thesis using assms n
    by (simp add: onFailed_def queue_add_def retry_level_def n_def [symmetric] jget_obj js_number_clone)
qed

lemma notify_load:
  assumes "queue_jobs (app_notifications s) \<noteq> []"
  shows "load (notifications_worker c refused lost g s) < load s"
proof -
  obtain j js where q: "queue_jobs (app_notifications s) = j # js" using assms by (cases "queue_jobs (app_notifications s)") auto
  let ?j = "j\<lparr>job_attemptsMade := Suc (job_attemptsMade j)\<rparr>"
  let ?s = "s\<lparr>app_notifications := (app_notifications s)\<lparr>queue_jobs := js\<rparr>\<rparr>"
  obtain r s2 where p: "NotificationsProcessor_process c refused ?j ?s = (r, s2)" by (rule prod.exhaust)
  have s2: "app_notifications s2 = app_notifications ?s" "app_dead_letter s2 = app_dead_letter ?s"
    using send_queues_eq [OF p [unfolded NotificationsProcessor_process_def]] by simp_all
  show ?thesis
  proof (cases r)
    case (Inr u)
    then show ?thesis using q p s2
      by (simp add: notifications_worker_def load_def attempts_left_def dead_weight_def)
  next
    case (Inl e)
    show ?thesis
    proof (cases "(case job_attempts j of Some n \<Rightarrow> n | None \<Rightarrow> 1) \<le> Suc (job_attemptsMade j)")
      case True
      then obtain d where d: "queue_jobs (app_dead_letter (snd (onFailed False g ?j e s2))) = queue_jobs (app_dead_letter s2) @ [d]"
          "js_number (jget (job_data d) ''dlqCount'') = retry_level (job_data j)"
        using failed_job_level [of ?j g e s2] by auto
      have gone: "onFailed True g ?j e s2 = (Inl (ProviderError ''queue''), s2)" using True by (simp add: onFailed_def)
      show ?thesis
        using True q p s2 Inl d gone by (cases lost) (simp_all add: notifications_worker_def load_def attempts_left_def
            dead_weight_def onFailed_queues)
    next
      case False
      then have d: "onFailed lost g ?j e s2 = (Inr (), s2)" by (simp add: onFailed_def)
      from False have less: "attempts_left ?j < attempts_left j" by (auto simp: attempts_left_def)
      have "notifications_worker c refused lost g s
          = s2\<lparr>app_notifications := (app_notifications s2)\<lparr>queue_jobs := ?j # js\<rparr>\<rparr>"
        using False q p s2 Inl d by (simp add: notifications_worker_def)
      with less q s2 show ?thesis by (simp add: load_def)
    qed
  qed
qed

lemma reprocess_load:
  assumes "queue_jobs (app_dead_letter s) \<noteq> []" "queue_attempts (app_notifications s) = Some 3"
  shows "load (dead_letter_worker refused s) < load s"
proof -
  obtain j js where q: "queue_jobs (app_dead_letter s) = j # js" using assms(1) by (cases "queue_jobs (app_dead_letter s)") auto
  let ?n = "js_number (jget (job_data j) ''dlqCount'')"
  have lvl: "retry_level (json_clone (jset ''_dlqMeta'' (JObj [(''dlqCount'', JNum (?n + 1))]) data)) = ?n + 1" for data
    by (simp add: retry_level_def jget_clone jget_set_same jget_obj nullish_def js_number_def)
  show ?thesis using q assms(2)
    by (auto simp: dead_letter_worker_def DeadLetterProcessor_process_def Let_def load_def queue_add_def
      lvl attempts_left_def dead_weight_def MAX_DLQ_REPROCESS_def)
qed

lemma worker_options:
  "queue_attempts (app_notifications (notifications_worker c refused lost g s)) = queue_attempts (app_notifications s)"
  "queue_attempts (app_notifications (dead_letter_worker refused s)) = queue_attempts (app_notifications s)"
  by (auto simp: notifications_worker_def dead_letter_worker_def DeadLetterProcessor_process_def Let_def
      NotificationsProcessor_process_def onFailed_queues queue_add_def
      dest: send_queues_eq split: list.split prod.split sum.split)

lemma work_step_load:
  assumes "work_step c s s'" "queue_attempts (app_notifications s) = Some 3"
  shows "load s' < load s \<and> queue_attempts (app_notifications s') = Some 3"
  using assms by cases (auto simp: worker_options notify_load reprocess_load)

text \<open>C30: The notification workers always finish. Whatever the order in which the two workers take
  jobs and whatever SendGrid and Redis refuse, n steps of work lower the load by at least n, so no run is
  longer than the load of the queues. A new notification weighs 16 (twelve tries to send and four
  visits to the dead-letter queue), so after at most 16 steps it is delivered, given up, or lost to a
  refused add.\<close>
theorem notifications_drain:
  assumes "(work_step c ^^ n) s s'" "queue_attempts (app_notifications s) = Some 3"
  shows "n + load s' \<le> load s
    \<and> load (s\<lparr>app_notifications := queue_add (app_notifications s) name
           (notification_data g event payload)\<rparr>) = load s + 16"
proof
  have "n + load s' \<le> load s \<and> queue_attempts (app_notifications s') = Some 3"
    using assms
  proof (induction n arbitrary: s')
    case (Suc n)
    then obtain t where "(work_step c ^^ n) s t" "work_step c t s'" by auto
    with Suc.IH [of t] Suc.prems(2) work_step_load [of c t s'] show ?case by auto
  qed simp
  then show "n + load s' \<le> load s" by simp
  have "retry_level (json_clone (notification_data g event payload)) = 0"
    by (simp add: retry_level_def notification_data_def jget_def nullish_def js_number_def)
  then show "load (s\<lparr>app_notifications := queue_add (app_notifications s) name
      (notification_data g event payload)\<rparr>) = load s + 16"
    using assms(2) by (simp add: load_def queue_add_def attempts_left_def dead_weight_def MAX_DLQ_REPROCESS_def)
qed

section \<open>From the outbox to the mailbox\<close>

text \<open>
  The event is taken from the outbox by \<open>enqueue_event\<close>, then each worker takes its jobs and no call
  is refused. The queues are empty before, so that the workers take these jobs.
\<close>

definition idle :: "app \<Rightarrow> bool" where
  "idle s \<longleftrightarrow> queue_jobs (app_domain_events s) = [] \<and> queue_jobs (app_notifications s) = []"

definition mails_after :: "mail_config \<Rightarrow> ambient \<Rightarrow> nat \<Rightarrow> outbox_event \<Rightarrow> app \<Rightarrow> mail list" where
  "mails_after c g n ev s = app_mails ((notifications_worker c False False g ^^ n)
     (domain_events_worker (\<lambda>_. False) g (enqueue_event ev s)))"

lemma jget_jopt_Some: "jopt (Some x) = JStr x"
  by (simp add: jopt_def)

lemmas mail_path = mails_after_def idle_def enqueue_event_def event_job_def queue_add_def
  domain_events_worker_def DomainEventsProcessor_process_def add_notification_def notification_data_def
  notifications_worker_def NotificationsProcessor_process_def send_def buildMessage_def
  buildSubject_def getRecipientEmail_def jget_obj js_text_def text_opt_def cents_of_def outbox_row_def Let_def

text \<open>A settled deposit reaches its owner by e-mail. From the event the settlement writes to the
  outbox, the two workers produce exactly one mail, to the owner's address, that states the exact
  amount with two decimals and the currency.\<close>
theorem deposit_mailed:
  assumes "idle s" "is_configured c" "cents < 2 ^ 52" "email \<noteq> []"
  shows "mails_after c g 1 (outbox_row g0 i (buildOutboxPayload g1 DepositSucceeded walletId userId
      (int cents) (currency_text cur) (Some email))) s
    = app_mails s @ [\<lparr>mail_to = email, mail_from = from_email c, mail_subject = ''Deposit Received'',
        mail_text = ''Your deposit of '' @ money_text cents (currency_text cur) @ '' has been received.''\<rparr>]"
  using assms formatCurrency_exact [OF assms(3), of cur]
  by (simp add: mail_path buildOutboxPayload_def jget_jopt_Some)

text \<open>C31: An executed transfer is reported to both users: the workers produce exactly two mails, the
  first to the sender with the receiver's name, the second to the receiver with the sender's name,
  both with the exact amount.\<close>
theorem transfer_mailed:
  assumes "idle s" "is_configured c" "cents < 2 ^ 52"
    and "ti_amount input = int cents" "ti_currency input = currency_text cur"
    and "findUserById d fromUserId = Some fromUser" "fromEmail \<noteq> []"
    and "findUserById d (wallet_user_id toWallet) = Some toUser" "user_email toUser \<noteq> []"
  shows "mails_after c g 2 (outbox_row g0 i (transfer_payload g1 d tr fromUserId fromEmail toWallet input)) s
    = app_mails s @
      [\<lparr>mail_to = fromEmail, mail_from = from_email c, mail_subject = ''Transfer Sent'',
         mail_text = ''Your transfer of '' @ money_text cents (currency_text cur) @ '' to '' @ user_name toUser @ '' is complete.''\<rparr>,
       \<lparr>mail_to = user_email toUser, mail_from = from_email c, mail_subject = ''Transfer Received'',
         mail_text = ''You received '' @ money_text cents (currency_text cur) @ '' from '' @ user_name fromUser @ ''.''\<rparr>]"
  using assms formatCurrency_exact [OF assms(3), of cur]
  by (simp add: mail_path transfer_payload_def getUserName_def jget_jopt_Some numeral_2_eq_2)

section \<open>Refused calls\<close>

text \<open>Notifications of a transfer are not exactly-once, in either direction. When the second of
  the two adds is refused once, the retry of the job adds the first one again, so the sender is told
  twice; when Redis refuses every try, the job is dropped after its third attempt with nothing in
  the notification queue and nothing in the dead-letter queue.\<close>
theorem transfer_fan_out_not_atomic:
  assumes "idle s" "queue_attempts (app_domain_events s) = Some 3"
    and "outbox_event_name ev = event_text TransferCompleted"
  shows "map job_name (queue_jobs (app_notifications (domain_events_worker (\<lambda>_. False) g
            (domain_events_worker (\<lambda>i. i = 1) g (enqueue_event ev s)))))
         = map event_text [TransferSent, TransferSent, TransferReceived]
    \<and> (let s' = (domain_events_worker (\<lambda>_. True) g ^^ 3) (enqueue_event ev s)
       in idle s' \<and> app_dead_letter s' = app_dead_letter s)"
  using assms
  by (simp add: idle_def enqueue_event_def event_job_def queue_add_def domain_events_worker_def
      DomainEventsProcessor_process_def add_notification_def jget_obj Let_def numeral_3_eq_3 numeral_2_eq_2)

section \<open>Closed examples\<close>

definition demo_mail :: mail_config where
  "demo_mail = \<lparr>sendgrid_api_key = Some ''SG.x'', sendgrid_from = None\<rparr>"

lemma demo_idle: "idle demo_app" "is_configured demo_mail" "from_email demo_mail = ''noreply@yourapp.com''"
    "queue_attempts (app_notifications demo_app) = Some 3" "queue_attempts (app_domain_events demo_app) = Some 3"
  by (simp_all add: idle_def demo_app_def is_configured_def from_email_def demo_mail_def)

definition demo_waiting :: app where
  "demo_waiting = demo_app\<lparr>app_notifications := queue_add (app_notifications demo_app) ''DepositSucceeded''
     (notification_data (demo_ambient ''n'' 9) ''DepositSucceeded'' JNull)\<rparr>"

theorem notifications_drain_witness:
  "work_step demo_mail demo_waiting (notifications_worker demo_mail True False (demo_ambient ''n'' 9) demo_waiting)
   \<and> 1 + load (notifications_worker demo_mail True False (demo_ambient ''n'' 9) demo_waiting) \<le> load demo_waiting"
proof -
  have step: "work_step demo_mail demo_waiting (notifications_worker demo_mail True False (demo_ambient ''n'' 9) demo_waiting)"
    by (rule work_step.notify) (simp add: demo_waiting_def queue_add_def)
  then have "(work_step demo_mail ^^ 1) demo_waiting
      (notifications_worker demo_mail True False (demo_ambient ''n'' 9) demo_waiting)" by (simp only: relpowp_1)
  from notifications_drain [OF this] step demo_idle(4) show ?thesis
    by (simp add: demo_waiting_def queue_add_def)
qed

theorem deposit_mailed_witness:
  "map mail_text (mails_after demo_mail (demo_ambient ''n'' 9) 1 (outbox_row (demo_ambient ''s'' 8) 0
      (buildOutboxPayload (demo_ambient ''s'' 8) DepositSucceeded ''w1'' ''u1'' 5000 ''EUR'' (Some ''alice@x.io'')))
      demo_app) = [''Your deposit of 50.00 EUR has been received.'']"
proof -
  have "money_text 5000 ''EUR'' = ''50.00 EUR''" by code_simp
  moreover have "app_mails demo_app = []" by (simp add: demo_app_def)
  ultimately show ?thesis
    using deposit_mailed [OF demo_idle(1,2), of 5000 "''alice@x.io''" "demo_ambient ''n'' 9" "demo_ambient ''s'' 8" 0
        "demo_ambient ''s'' 8" "''w1''" "''u1''" EUR] by simp
qed

definition demo_done_transfer :: transfer where
  "demo_done_transfer = \<lparr>entity_id = ''x'', created_at = 8, updated_at = 8, transfer_from_user_id = ''u1'',
     transfer_to_user_id = ''u2'', transfer_amount = 2550, transfer_currency = ''EUR'',
     transfer_status = TransferPending, transfer_key = ''k'', transfer_failure_reason = None\<rparr>"

definition demo_transfer_event :: outbox_event where
  "demo_transfer_event = outbox_row (demo_ambient ''s'' 8) 0 (transfer_payload (demo_ambient ''s'' 8) demo_db
     demo_done_transfer ''u1'' ''alice@x.io'' bob_wallet
     \<lparr>ti_toWalletTag = ''bob-0002'', ti_amount = 2550, ti_currency = ''EUR'', ti_idempotencyKey = ''k''\<rparr>)"

theorem transfer_mailed_witness:
  "map mail_text (mails_after demo_mail (demo_ambient ''n'' 9) 2 demo_transfer_event demo_app)
   = [''Your transfer of 25.50 EUR to Bob is complete.'', ''You received 25.50 EUR from Alice.'']"
proof -
  have "money_text 2550 ''EUR'' = ''25.50 EUR''" by code_simp
  moreover have "app_mails demo_app = []" by (simp add: demo_app_def)
  moreover have "findUserById demo_db ''u1'' = Some alice"
    "findUserById demo_db (wallet_user_id bob_wallet) = Some bob"
    by (simp_all add: findUserById_def demo_rows)
  ultimately show ?thesis unfolding demo_transfer_event_def
    by (subst transfer_mailed [OF demo_idle(1,2), of 2550 _ EUR _ "''u1''" alice _ _ bob])
      (simp_all add: alice_def bob_def)
qed

theorem transfer_fan_out_not_atomic_witness:
  "map job_name (queue_jobs (app_notifications (domain_events_worker (\<lambda>_. False) (demo_ambient ''n'' 9)
      (domain_events_worker (\<lambda>i. i = 1) (demo_ambient ''n'' 9) (enqueue_event demo_transfer_event demo_app)))))
   = [''TransferSent'', ''TransferSent'', ''TransferReceived'']"
proof -
  have "outbox_event_name demo_transfer_event = event_text TransferCompleted"
    by (simp add: demo_transfer_event_def outbox_row_def transfer_payload_def)
  from transfer_fan_out_not_atomic [OF demo_idle(1,5) this, of "demo_ambient ''n'' 9"] show ?thesis by simp
qed

end
