(* ===== verification/Http.thy ===== *)
theory Http
  imports Texts Auth
begin

text \<open>
  The HTTP layer of \<open>shared\<close>: the JSON:API exception filter, the two validation pipes, the
  content-type interceptor and the response helpers. Values of requests and bodies of responses
  are \<open>json\<close>. What class-validator and Zod answer on a value is a parameter.
\<close>

section \<open>The response helpers (\<open>shared/jsonapi\<close>)\<close>

definition jsonApiData :: "json \<Rightarrow> json \<Rightarrow> json \<Rightarrow> json" where
  "jsonApiData data meta links = JObj [(''data'', data), (''meta'', meta), (''links'', links)]"

definition jsonApiMeta :: "json \<Rightarrow> json" where
  "jsonApiMeta meta = JObj [(''meta'', meta)]"

section \<open>What Nest makes of an exception\<close>

text \<open>
  \<open>getStatus()\<close>, \<open>name\<close> and \<open>getResponse()\<close> of the HTTP exceptions; \<open>None\<close> for an error that is
  no \<open>HttpException\<close>.
\<close>

fun http_status :: "error \<Rightarrow> nat option" where
  "http_status (BadRequest m) = Some 400"
| "http_status (BadRequestObj v) = Some 400"
| "http_status (Unauthorized m) = Some 401"
| "http_status (Forbidden m) = Some 403"
| "http_status (NotFound m) = Some 404"
| "http_status (Conflict m) = Some 409"
| "http_status (UnsupportedMediaType m) = Some 415"
| "http_status _ = None"

fun exception_name :: "error \<Rightarrow> string" where
  "exception_name (BadRequest m) = ''BadRequestException''"
| "exception_name (BadRequestObj v) = ''BadRequestException''"
| "exception_name (Unauthorized m) = ''UnauthorizedException''"
| "exception_name (Forbidden m) = ''ForbiddenException''"
| "exception_name (NotFound m) = ''NotFoundException''"
| "exception_name (Conflict m) = ''ConflictException''"
| "exception_name (UnsupportedMediaType m) = ''UnsupportedMediaTypeException''"
| "exception_name (QueryFailed e) = ''QueryFailedError''"
| "exception_name TypeError = ''TypeError''"
| "exception_name (ProviderError m) = ''Error''"
| "exception_name (PlainError m) = ''Error''"

definition exception_body :: "string \<Rightarrow> string \<Rightarrow> nat \<Rightarrow> json" where
  "exception_body message error statusCode =
     JObj [(''message'', JStr message), (''error'', JStr error), (''statusCode'', JNum (int statusCode))]"

fun getResponse :: "error \<Rightarrow> json" where
  "getResponse (BadRequest m) = exception_body m ''Bad Request'' 400"
| "getResponse (BadRequestObj v) = v"
| "getResponse (Unauthorized m) = exception_body m ''Unauthorized'' 401"
| "getResponse (Forbidden m) = exception_body m ''Forbidden'' 403"
| "getResponse (NotFound m) = exception_body m ''Not Found'' 404"
| "getResponse (Conflict m) = exception_body m ''Conflict'' 409"
| "getResponse (UnsupportedMediaType m) = exception_body m ''Unsupported Media Type'' 415"
| "getResponse _ = JUndefined"

section \<open>The exception filter\<close>

text \<open>\<open>JsonApiErrorObject\<close>: an absent member is \<open>JUndefined\<close> and is not serialised.\<close>

definition error_object :: "nat \<Rightarrow> string \<Rightarrow> json \<Rightarrow> json \<Rightarrow> string option \<Rightarrow> json" where
  "error_object status title code detail pointer = JObj
     ([(''status'', JStr (nat_text status)), (''title'', JStr title), (''code'', code), (''detail'', detail)]
      @ (case pointer of Some p \<Rightarrow> [(''source'', JObj [(''pointer'', JStr p)])] | None \<Rightarrow> []))"

definition toPointerFromPath :: "json \<Rightarrow> string option" where
  "toPointerFromPath path =
     (case path of
        JArr (p # ps) \<Rightarrow> Some (''/data/attributes/'' @ join ''/'' (map js_text (p # ps)))
      | _ \<Rightarrow> None)"

definition errorsFromZodIssue :: "nat \<Rightarrow> string \<Rightarrow> json \<Rightarrow> json list" where
  "errorsFromZodIssue status title issue =
     (case jget issue ''keys'' of
        JArr keys \<Rightarrow>
          if jget issue ''code'' = JStr ''unrecognized_keys'' then
            map (\<lambda>key. error_object status title (JStr ''VALIDATION_ERROR'')
                   (JStr (''Unrecognized field: '' @ js_text key)) (Some (''/data/attributes/'' @ js_text key))) keys
          else [error_object status title (JStr ''VALIDATION_ERROR'') (jget issue ''message'')
                  (toPointerFromPath (jget issue ''path''))]
      | _ \<Rightarrow> [error_object status title (JStr ''VALIDATION_ERROR'') (jget issue ''message'')
                  (toPointerFromPath (jget issue ''path''))])"

definition errorsFromZodIssues :: "nat \<Rightarrow> string \<Rightarrow> json list \<Rightarrow> json list" where
  "errorsFromZodIssues status title issues = concat (map (errorsFromZodIssue status title) issues)"

definition normalizeMessages :: "json \<Rightarrow> json list" where
  "normalizeMessages msg =
     (if msg \<in> {JUndefined, JNull, JBool False, JNum 0, JStr ''''} then []
      else case msg of JArr ms \<Rightarrow> ms | _ \<Rightarrow> [msg])"

definition first_word :: "string \<Rightarrow> string" where
  "first_word text = takeWhile (\<lambda>ch. ch \<noteq> CHR '' '') text"

definition errorsFromMessages :: "nat \<Rightarrow> string \<Rightarrow> json list \<Rightarrow> json list" where
  "errorsFromMessages status title messages =
     map (\<lambda>message.
       let text = js_text message; maybeField = first_word text
       in error_object status title (if status = 400 then JStr ''VALIDATION_ERROR'' else JUndefined) (JStr text)
            (if maybeField \<noteq> [] then Some (''/data/attributes/'' @ maybeField) else None)) messages"

definition errorsFromHttpResponse :: "nat \<Rightarrow> string \<Rightarrow> json \<Rightarrow> json list" where
  "errorsFromHttpResponse status title res =
     (case res of
        JStr text \<Rightarrow> [error_object status title JUndefined (JStr text) None]
      | _ \<Rightarrow>
        (let issues = (case jget res ''issues'' of JArr is \<Rightarrow> is | _ \<Rightarrow> []);
             messages = normalizeMessages (jget res ''message'')
         in if issues \<noteq> [] then errorsFromZodIssues status title issues
            else if messages \<noteq> [] then errorsFromMessages status title messages
            else [error_object status title JUndefined (jget res ''error'') None]))"

record http_response =
  res_status :: nat
  res_content_type :: "string option"
  res_body :: json

definition JSON_API :: string where
  "JSON_API = ''application/vnd.api+json''"

text \<open>
  \<open>catch\<close>. Every error of the program is an object, so the last branch of the code, a thrown
  primitive, does not arise; \<open>error_text\<close> gives the message of a third-party error.
\<close>

definition JsonApiExceptionFilter_catch :: "(error \<Rightarrow> string) \<Rightarrow> error \<Rightarrow> http_response" where
  "JsonApiExceptionFilter_catch error_text exception =
     (let status = (case http_status exception of Some n \<Rightarrow> n | None \<Rightarrow> 500);
          title = (if http_status exception \<noteq> None then exception_name exception else ''InternalServerError'');
          errors = (if http_status exception \<noteq> None
                    then errorsFromHttpResponse status title (getResponse exception)
                    else [error_object status title JUndefined (JStr (error_text exception)) None])
      in \<lparr>res_status = status, res_content_type = Some JSON_API,
          res_body = json_clone (JObj [(''errors'', JArr errors)])\<rparr>)"

section \<open>The pipes\<close>

datatype Paramtype = PBody | PQuery | PParam | PCustom

definition is_object :: "json \<Rightarrow> bool" where
  "is_object v = (case v of JObj _ \<Rightarrow> True | JArr _ \<Rightarrow> True | JDate _ \<Rightarrow> True | _ \<Rightarrow> False)"

text \<open>The attributes of a JSON:API envelope, or the value itself.\<close>

definition unwrap :: "Paramtype \<Rightarrow> json \<Rightarrow> json" where
  "unwrap t v =
     (let data = jget v ''data''; attrs = jget data ''attributes''
      in if t = PBody \<and> is_object v \<and> is_object data \<and> is_object attrs then attrs else v)"

text \<open>\<open>super_transform\<close> is the \<open>ValidationPipe\<close> of Nest with the class of the parameter.\<close>

definition JsonApiValidationPipe_transform :: "(json \<Rightarrow> error + json) \<Rightarrow> Paramtype \<Rightarrow> json \<Rightarrow> error + json" where
  "JsonApiValidationPipe_transform super_transform t v = super_transform (unwrap t v)"

text \<open>A schema answers the issues of a value or the parsed value.\<close>

type_synonym zod_schema = "json \<Rightarrow> json list + json"

definition ZodValidationPipe_transform :: "(Paramtype \<Rightarrow> zod_schema option) \<Rightarrow> Paramtype \<Rightarrow> json
    \<Rightarrow> error + json" where
  "ZodValidationPipe_transform schemas t v =
     (case schemas t of
        None \<Rightarrow> Inl (BadRequest ''Validation failed, schema not defined.'')
      | Some safeParse \<Rightarrow>
          (case safeParse (unwrap t v) of
             Inl issues \<Rightarrow> Inl (BadRequestObj (JObj [(''message'', JStr ''Validation failed''), (''issues'', JArr issues)]))
           | Inr data \<Rightarrow> Inr data))"

section \<open>The content-type interceptor\<close>

text \<open>
  Gives the content type the interceptor sets on the response. \<open>content_type\<close> is the header of
  the request.
\<close>

definition starts_with :: "string \<Rightarrow> string \<Rightarrow> bool" where
  "starts_with p s = (take (length p) s = p)"

definition JsonApiContentTypeInterceptor_intercept :: "route_meta \<Rightarrow> route_meta \<Rightarrow> string \<Rightarrow> string option
    \<Rightarrow> error + string option" where
  "JsonApiContentTypeInterceptor_intercept handler cls req_method content_type =
     (let isPublic = (getAllAndOverride [rm_public handler, rm_public cls] = Some True);
          method = toUpperCase req_method;
          contentType = (case content_type of Some c \<Rightarrow> c | None \<Rightarrow> '''')
      in if \<not> isPublic \<and> method \<in> {''POST'', ''PATCH'', ''PUT''} \<and> \<not> starts_with JSON_API contentType
         then Inl (UnsupportedMediaType ''Content-Type must be application/vnd.api+json'')
         else Inr (if isPublic then None else Some JSON_API))"

section \<open>Logging and configuration\<close>

text \<open>Whether \<open>logIfUnexpectedOrServerError\<close> logs: every status of the program's exceptions is below 500.\<close>

definition logs_error :: "error \<Rightarrow> bool" where
  "logs_error e = (case http_status e of Some n \<Rightarrow> \<not> n < 500 | None \<Rightarrow> True)"

definition log_order :: "(string \<times> nat) list" where
  "log_order = [(''fatal'', 0), (''error'', 0), (''warn'', 2), (''log'', 3), (''debug'', 4), (''verbose'', 5)]"

text \<open>
  \<open>requested in order\<close> is also true of the properties every object inherits; of these two are in
  lower case. No level compares with such a value, so the list is empty.
\<close>

definition inherited_keys :: "string list" where
  "inherited_keys = [''constructor'', ''__proto__'']"

definition resolveLogLevels :: "string option \<Rightarrow> string list option" where
  "resolveLogLevels rawValue =
     (let raw = toLowerCase (trim (case rawValue of Some r \<Rightarrow> r | None \<Rightarrow> ''''))
      in case map_of log_order raw of
           None \<Rightarrow> if raw \<in> set inherited_keys then Some [] else None
         | Some n \<Rightarrow> Some (map fst (filter (\<lambda>p. snd p \<le> n) log_order)))"

text \<open>\<open>number\<close> is the conversion \<open>Number(raw)\<close>, \<open>None\<close> when it is not finite.\<close>

definition getRequiredString :: "(string \<Rightarrow> string option) \<Rightarrow> string \<Rightarrow> error + string" where
  "getRequiredString config key =
     (case config key of
        Some value \<Rightarrow> if value = [] then Inl (PlainError (''Missing required env var: '' @ key)) else Inr value
      | None \<Rightarrow> Inl (PlainError (''Missing required env var: '' @ key)))"

definition getNumber :: "(string \<Rightarrow> int option) \<Rightarrow> (string \<Rightarrow> string option) \<Rightarrow> string \<Rightarrow> int \<Rightarrow> int" where
  "getNumber number config key fallback =
     (case Option.bind (config key) number of Some n \<Rightarrow> n | None \<Rightarrow> fallback)"

end
