(* ===== verification/Controllers.thy ===== *)
theory Controllers
  imports Http WalletService Transfers
begin

text \<open>
  The controllers of users, auth, wallet and transfers: what each handler calls and the JSON:API
  document it answers. A handler gets the user the guards found and the values the pipes let
  through.
\<close>

section \<open>Resources\<close>

definition resource :: "string \<Rightarrow> string \<Rightarrow> (string \<times> json) list \<Rightarrow> json" where
  "resource rtype rid attributes =
     JObj [(''type'', JStr rtype), (''id'', JStr rid), (''attributes'', JObj attributes)]"

text \<open>
  A wallet entity as it is serialised. TypeORM documents that a \<open>bigint\<close> column is read as a text; an
  entity that was just created still holds the number it was given.
\<close>

definition stored_number :: "int \<Rightarrow> json" where
  "stored_number n = JStr (int_text n)"

definition wallet_json :: "wallet \<Rightarrow> json" where
  "wallet_json w = JObj
     [(''id'', JStr (entity_id w)), (''created_at'', JDate (created_at w)), (''updated_at'', JDate (updated_at w)),
      (''user_id'', JStr (wallet_user_id w)), (''balance'', stored_number (wallet_balance w)),
      (''currency'', JStr (wallet_currency w)), (''wallet_tag'', JStr (wallet_tag w))]"

definition wallets_json :: "wallet list option \<Rightarrow> json" where
  "wallets_json ws = (case ws of Some xs \<Rightarrow> JArr (map wallet_json xs) | None \<Rightarrow> JUndefined)"

definition user_attributes :: "user_result \<Rightarrow> (string \<times> json) list" where
  "user_attributes user =
     [(''name'', JStr (result_name user)), (''email'', JStr (result_email user)),
      (''role'', JStr (role_text (result_role user)))]"

definition user_dates :: "user_result \<Rightarrow> (string \<times> json) list" where
  "user_dates user =
     [(''created_at'', JDate (result_created_at user)), (''updated_at'', JDate (result_updated_at user))]"

definition user_resource :: "user_result \<Rightarrow> json" where
  "user_resource user = resource ''users'' (result_id user) (user_attributes user @ user_dates user)"

definition profile_resource :: "user_result \<Rightarrow> json" where
  "profile_resource user = resource ''users'' (result_id user)
     (user_attributes user @ [(''wallets'', wallets_json (result_wallets user))] @ user_dates user)"

definition token_resource :: "user_result \<Rightarrow> json" where
  "token_resource user = resource ''users'' (result_id user)
     (user_attributes user @ [(''access_token'', jopt (result_access_token user))] @ user_dates user)"

definition wallet_resource :: "json \<Rightarrow> wallet \<Rightarrow> json" where
  "wallet_resource balance w = resource ''wallets'' (entity_id w)
     [(''balance'', balance), (''currency'', JStr (wallet_currency w)),
      (''walletTag'', JStr (wallet_tag w))]"

definition document :: "json \<Rightarrow> json" where
  "document r = jsonApiData r JUndefined JUndefined"

section \<open>Users\<close>

definition UsersController_userMe :: "app \<Rightarrow> users_row \<Rightarrow> error + json" where
  "UsersController_userMe s req_user =
     bindR (userMe s (entity_id req_user)) (\<lambda>user. Inr (document (profile_resource user)))"

text \<open>\<open>PaginationQueryDto\<close>: the page is at least 1, the limit between 1 and 100.\<close>

definition PaginationQueryDto :: "int \<Rightarrow> int \<Rightarrow> nat \<times> nat" where
  "PaginationQueryDto page limit = (nat (max page 1), nat (min (max limit 1) 100))"

text \<open>\<open>Math.ceil(total / limit)\<close>: a division by zero is infinite, or \<open>NaN\<close> when nothing is divided.\<close>

datatype quotient = Whole int | Infinite | NotANumber

definition ceil_div :: "int \<Rightarrow> int \<Rightarrow> quotient" where
  "ceil_div count limit =
     (if limit = 0 then (if count = 0 then NotANumber else Infinite) else Whole (- ((- count) div limit)))"

definition quotient_json :: "quotient \<Rightarrow> json" where
  "quotient_json n = (case n of Whole i \<Rightarrow> JNum i | _ \<Rightarrow> JNull)"

definition before_page :: "int \<Rightarrow> quotient \<Rightarrow> bool" where
  "before_page page n = (case n of Whole i \<Rightarrow> page < i | Infinite \<Rightarrow> True | NotANumber \<Rightarrow> False)"

definition page_link :: "int \<Rightarrow> int \<Rightarrow> json" where
  "page_link page limit = JStr (''/users?page='' @ int_text page @ ''&limit='' @ int_text limit)"

text \<open>
  \<open>page\<close> and \<open>limit\<close> are the query values as whole numbers, \<open>None\<close> when \<open>Number\<close> gives \<open>NaN\<close>;
  fractional and infinite values are left out.
\<close>

definition UsersController_findAll :: "app \<Rightarrow> int option \<Rightarrow> int option \<Rightarrow> json" where
  "UsersController_findAll s page limit =
     (let pageNumber = (case page of Some n \<Rightarrow> n | None \<Rightarrow> 1);
          limitNumber = (case limit of Some n \<Rightarrow> n | None \<Rightarrow> 10);
          (qpage, qlimit) = PaginationQueryDto pageNumber limitNumber;
          (data, count) = svc_findAll s qpage qlimit;
          totalPages = ceil_div (int count) limitNumber
      in jsonApiData (JArr (map user_resource data))
           (JObj [(''total'', JNum (int count)), (''total_pages'', quotient_json totalPages)])
           (JObj [(''prev'', if 1 < pageNumber then page_link (pageNumber - 1) limitNumber else JNull),
                  (''next'', if before_page pageNumber totalPages then page_link (pageNumber + 1) limitNumber
                             else JNull)]))"

definition UsersController_findUserById :: "app \<Rightarrow> string \<Rightarrow> error + json" where
  "UsersController_findUserById s uid =
     bindR (svc_findUserById s uid) (\<lambda>user. Inr (document (profile_resource user)))"

definition UsersController_updateUserDetails :: "ambient \<Rightarrow> app \<Rightarrow> users_row \<Rightarrow> string \<Rightarrow> user_patch
    \<Rightarrow> (json, app) outcome" where
  "UsersController_updateUserDetails g s req_user uid data =
     bindS (svc_updateUserDetails g s (entity_id req_user) uid data (user_role req_user))
       (\<lambda>user s1. (Inr (document (user_resource user)), s1))"

definition UsersController_deleteUser :: "app \<Rightarrow> users_row \<Rightarrow> string \<Rightarrow> (json, app) outcome" where
  "UsersController_deleteUser s req_user uid =
     bindS (svc_deleteUser s (entity_id req_user) uid (user_role req_user)) (\<lambda>_ s1. (Inr JUndefined, s1))"

section \<open>Authentication\<close>

definition AuthController_register :: "(string \<Rightarrow> error + string) \<Rightarrow> (string \<Rightarrow> string \<Rightarrow> string) \<Rightarrow> ambient
    \<Rightarrow> app \<Rightarrow> register_input \<Rightarrow> (json, app) outcome" where
  "AuthController_register hash sign g s input =
     bindS (register hash sign g s input) (\<lambda>user s1. (Inr (document (token_resource user)), s1))"

definition AuthController_login :: "(string \<Rightarrow> string \<Rightarrow> error + bool) \<Rightarrow> (string \<Rightarrow> string \<Rightarrow> string) \<Rightarrow> app
    \<Rightarrow> login_input \<Rightarrow> error + json" where
  "AuthController_login verify sign s input =
     bindR (login verify sign s input) (\<lambda>user. Inr (document (token_resource user)))"

definition AuthController_changePassword :: "(string \<Rightarrow> error + string) \<Rightarrow> (string \<Rightarrow> string \<Rightarrow> error + bool)
    \<Rightarrow> ambient \<Rightarrow> app \<Rightarrow> users_row \<Rightarrow> change_password_input \<Rightarrow> (json, app) outcome" where
  "AuthController_changePassword hash verify g s req_user input =
     bindS (changePassword hash verify g s (entity_id req_user) input)
       (\<lambda>message s1. (Inr (jsonApiMeta (JObj [(''message'', JStr message)])), s1))"

section \<open>Wallets and transfers\<close>

text \<open>The wallet of a successful \<open>createWallet\<close> was just created; the one \<open>getBalance\<close> finds was read.\<close>

definition WalletController_createWallet :: "ambient \<Rightarrow> app \<Rightarrow> users_row \<Rightarrow> string \<Rightarrow> (json, app) outcome" where
  "WalletController_createWallet g s req_user currency =
     bindS (createWallet g s (entity_id req_user) (user_name req_user) currency)
       (\<lambda>wallet s1. (Inr (document (wallet_resource (JNum (wallet_balance wallet)) wallet)), s1))"

definition WalletController_getBalance :: "ambient \<Rightarrow> app \<Rightarrow> users_row \<Rightarrow> string \<Rightarrow> (json, app) outcome" where
  "WalletController_getBalance g s req_user currency =
     bindS (getBalance g s (entity_id req_user) (toUpperCase currency))
       (\<lambda>wallet s1. (Inr (document (wallet_resource (stored_number (wallet_balance wallet)) wallet)), s1))"

text \<open>An empty URL counts as none, as in the code; the dash of the message is written \<open>-\<close>.\<close>

definition WalletController_deposit :: "ambient \<Rightarrow> registry \<Rightarrow> app \<Rightarrow> users_row \<Rightarrow> deposit_input
    \<Rightarrow> (json, app) outcome" where
  "WalletController_deposit g reg s req_user input =
     bindS (deposit g reg s (entity_id req_user) input) (\<lambda>checkoutUrl s1.
       let url = (case checkoutUrl of Some u \<Rightarrow> if u = [] then None else Some u | None \<Rightarrow> None)
       in (Inr (jsonApiMeta (JObj
             ((''message'', JStr (case url of Some _ \<Rightarrow> ''Deposit initiated - complete payment via checkout URL''
                                | None \<Rightarrow> ''Deposit accepted''))
              # (case url of Some u \<Rightarrow> [(''checkoutUrl'', JStr u)] | None \<Rightarrow> [])))), s1))"

definition TransfersController_initiateTransfer :: "ambient \<Rightarrow> app \<Rightarrow> users_row \<Rightarrow> transfer_input
    \<Rightarrow> (json, app) outcome" where
  "TransfersController_initiateTransfer g s req_user input =
     bindS (initiateTransfer g s (entity_id req_user) (user_email req_user) input)
       (\<lambda>_ s1. (Inr (jsonApiMeta (JObj [(''message'', JStr ''Transfer accepted'')])), s1))"

definition getBaseRoute :: string where
  "getBaseRoute = ''Welcome to Lior-Paris Wallet API!''"

end
