(* ===== verification/Schemas.thy ===== *)
theory Schemas
  imports Http
begin

text \<open>
  The shapes of the inputs as the source declares them: the classes of the \<open>dto\<close> directories with
  their class-validator decorators, and the Zod schemas of \<open>shared/schemas\<close>. The two libraries
  are parameters that get these declarations as data; \<open>class_validator_law\<close> and \<open>zod_law\<close> say
  what their documentation promises of a value they let through.
\<close>

section \<open>Decorated classes\<close>

datatype decorator =
    IsString | IsNotEmpty | IsInt | MinValue int | IsEnum "string list"
  | IsEmail | IsAlphanumeric | LengthBetween nat nat | IsOptional

text \<open>A class is the list of its members with their decorators.\<close>

type_synonym dto = "(string \<times> decorator list) list"

definition currency_values :: "string list" where
  "currency_values = map currency_text [EUR, USD, GBP, NGN]"

definition role_values :: "string list" where
  "role_values = map role_text [Admin, User]"

definition RegisterDto :: dto where
  "RegisterDto = [(''name'', [IsString]), (''email'', [IsEmail]),
     (''password'', [IsAlphanumeric, LengthBetween 5 15])]"

definition LoginDto :: dto where
  "LoginDto = [(''email'', [IsEmail]), (''password'', [IsAlphanumeric, LengthBetween 5 15])]"

definition ChangePasswordDto :: dto where
  "ChangePasswordDto = [(''oldPassword'', [IsAlphanumeric, LengthBetween 5 15]),
     (''newPassword'', [IsAlphanumeric, LengthBetween 5 15])]"

definition UpdateUserDto :: dto where
  "UpdateUserDto = [(''name'', [IsString, IsOptional]), (''role'', [IsOptional, IsEnum role_values])]"

definition CreateWalletDto :: dto where
  "CreateWalletDto = [(''currency'', [IsEnum currency_values])]"

definition DepositDto :: dto where
  "DepositDto = [(''amount'', [IsInt, MinValue 1]), (''currency'', [IsEnum currency_values]),
     (''paymentMethod'', [IsString, IsNotEmpty]), (''idempotencyKey'', [IsString, IsNotEmpty])]"

definition InitiateTransferDto :: dto where
  "InitiateTransferDto = [(''toWalletTag'', [IsString, IsNotEmpty]), (''amount'', [IsInt, MinValue 1]),
     (''currency'', [IsEnum currency_values]), (''idempotencyKey'', [IsString, IsNotEmpty])]"

text \<open>
  What the documentation says of a decorated member (\<open>IsAlphanumeric\<close>: the letters and digits of
  ASCII, its default locale). Which texts the library takes for an e-mail address is a parameter,
  \<open>email\<close>.
\<close>

definition alphanumeric :: "char \<Rightarrow> bool" where
  "alphanumeric c = (let n = of_char c :: nat in 48 \<le> n \<and> n \<le> 57 \<or> 65 \<le> n \<and> n \<le> 90 \<or> 97 \<le> n \<and> n \<le> 122)"

fun satisfies :: "(string \<Rightarrow> bool) \<Rightarrow> decorator \<Rightarrow> json \<Rightarrow> bool" where
  "satisfies email IsString v = (case v of JStr _ \<Rightarrow> True | _ \<Rightarrow> False)"
| "satisfies email IsNotEmpty v = (v \<notin> {JStr '''', JNull, JUndefined})"
| "satisfies email IsInt v = (case v of JNum _ \<Rightarrow> True | _ \<Rightarrow> False)"
| "satisfies email (MinValue m) v = (case v of JNum n \<Rightarrow> m \<le> n | _ \<Rightarrow> False)"
| "satisfies email (IsEnum xs) v = (case v of JStr x \<Rightarrow> x \<in> set xs | _ \<Rightarrow> False)"
| "satisfies email IsEmail v = (case v of JStr x \<Rightarrow> email x | _ \<Rightarrow> False)"
| "satisfies email IsAlphanumeric v = (case v of JStr x \<Rightarrow> x \<noteq> [] \<and> list_all alphanumeric x | _ \<Rightarrow> False)"
| "satisfies email (LengthBetween m n) v = (case v of JStr x \<Rightarrow> m \<le> length x \<and> length x \<le> n | _ \<Rightarrow> False)"
| "satisfies email IsOptional v = True"

definition conforms :: "(string \<Rightarrow> bool) \<Rightarrow> dto \<Rightarrow> json \<Rightarrow> bool" where
  "conforms email dto v = list_all (\<lambda>(k, ds). IsOptional \<in> set ds \<and> jget v k \<in> {JUndefined, JNull}
      \<or> list_all (\<lambda>d. satisfies email d (jget v k)) ds) dto"

text \<open>
  The promise is about objects: \<open>ValidationPipe\<close> gives an array to class-validator as it is, and
  nothing is promised of it.
\<close>

definition plain_object :: "json \<Rightarrow> bool" where
  "plain_object v = (case v of JObj _ \<Rightarrow> True | _ \<Rightarrow> False)"

definition class_validator_law :: "(string \<Rightarrow> bool) \<Rightarrow> (dto \<Rightarrow> json \<Rightarrow> error + json) \<Rightarrow> bool" where
  "class_validator_law email validate \<longleftrightarrow>
     (\<forall>dto v v'. plain_object v \<longrightarrow> validate dto v = Inr v' \<longrightarrow> conforms email dto v')"

section \<open>Zod schemas\<close>

datatype zod_check = ZEmail | ZMin nat | ZMax nat

datatype zod_field = ZString "zod_check list" | ZNativeEnum "string list"

datatype unknown_keys = Strip | Strict

text \<open>The members of an object schema: the key, whether it may be missing, and the schema of its value.\<close>

datatype zod_type = ZField zod_field | ZObject unknown_keys "(string \<times> bool \<times> zod_field) list"

definition z_object :: "(string \<times> zod_field) list \<Rightarrow> zod_type" where
  "z_object fs = ZObject Strip (map (\<lambda>(k, f). (k, False, f)) fs)"

fun z_strict :: "zod_type \<Rightarrow> zod_type" where
  "z_strict (ZObject _ fs) = ZObject Strict fs"
| "z_strict t = t"

fun z_partial :: "zod_type \<Rightarrow> zod_type" where
  "z_partial (ZObject u fs) = ZObject u (map (\<lambda>(k, _, f). (k, True, f)) fs)"
| "z_partial t = t"

definition loginSchema :: zod_type where
  "loginSchema = z_strict (z_object [(''email'', ZString [ZEmail]), (''password'', ZString [ZMin 5, ZMax 15])])"

definition registerSchema :: zod_type where
  "registerSchema = z_strict (z_object [(''name'', ZString []), (''email'', ZString [ZEmail]),
     (''password'', ZString [ZMin 5, ZMax 15])])"

definition changePasswordSchema :: zod_type where
  "changePasswordSchema = z_strict (z_object [(''oldPassword'', ZString [ZMin 5, ZMax 15]),
     (''newPassword'', ZString [ZMin 5, ZMax 15])])"

definition updateUserSchema :: zod_type where
  "updateUserSchema = z_partial (z_object [(''name'', ZString []), (''role'', ZNativeEnum role_values)])"

definition userIdSchema :: zod_type where
  "userIdSchema = ZField (ZString [])"

text \<open>What Zod takes for an e-mail address is a parameter as well.\<close>

fun check_holds :: "(string \<Rightarrow> bool) \<Rightarrow> zod_check \<Rightarrow> string \<Rightarrow> bool" where
  "check_holds email ZEmail x = email x"
| "check_holds email (ZMin n) x = (n \<le> length x)"
| "check_holds email (ZMax n) x = (length x \<le> n)"

fun field_holds :: "(string \<Rightarrow> bool) \<Rightarrow> zod_field \<Rightarrow> json \<Rightarrow> bool" where
  "field_holds email (ZString cs) v = (case v of JStr x \<Rightarrow> list_all (\<lambda>c. check_holds email c x) cs | _ \<Rightarrow> False)"
| "field_holds email (ZNativeEnum xs) v = (case v of JStr x \<Rightarrow> x \<in> set xs | _ \<Rightarrow> False)"

definition known_keys :: "(string \<times> bool \<times> zod_field) list \<Rightarrow> json \<Rightarrow> bool" where
  "known_keys fs v = (case v of JObj ps \<Rightarrow> list_all (\<lambda>p. fst p \<in> set (map fst fs)) ps | _ \<Rightarrow> False)"

text \<open>
  \<open>parsed email t v w\<close>: what Zod documents of the result \<open>w\<close> of a successful parse of \<open>v\<close>. An object has
  no member its schema does not name: those of the value are refused by \<open>strict()\<close> and dropped
  otherwise.
\<close>

fun parsed :: "(string \<Rightarrow> bool) \<Rightarrow> zod_type \<Rightarrow> json \<Rightarrow> json \<Rightarrow> bool" where
  "parsed email (ZField f) v w = (w = v \<and> field_holds email f v)"
| "parsed email (ZObject u fs) v w = (plain_object v \<and> known_keys fs w \<and> (u = Strict \<longrightarrow> known_keys fs v)
     \<and> list_all (\<lambda>(k, optional, f). jget w k = jget v k
          \<and> (optional \<and> jget v k = JUndefined \<or> field_holds email f (jget v k))) fs)"

definition zod_law :: "(string \<Rightarrow> bool) \<Rightarrow> (zod_type \<Rightarrow> zod_schema) \<Rightarrow> bool" where
  "zod_law email parse \<longleftrightarrow> (\<forall>t v w. parse t v = Inr w \<longrightarrow> parsed email t v w)"

end
