(* ===== verification/Server.thy ===== *)
theory Server
  imports Controllers Schemas
begin

text \<open>
  A request from the router to the response, in the order Nest runs its parts: the two guards, the
  content-type interceptor, the pipes of the parameters, the handler, and the exception filter
  around all of them. The routes are those of the five controllers and \<open>AppController\<close>.
\<close>

section \<open>Routes\<close>

datatype endpoint =
    BaseRoute | Register | Login | ChangePassword
  | UserMe | FindAllUsers | FindUser | UpdateUser | DeleteUser
  | CreateWallet | GetBalance | Deposit | InitiateTransfer | StripeWebhook

definition handler_meta :: "endpoint \<Rightarrow> route_meta" where
  "handler_meta e = \<lparr>
     rm_public = (if e \<in> {BaseRoute, Register, Login, StripeWebhook} then Some True else None),
     rm_roles = (if e \<in> {FindAllUsers, FindUser} then Some [Admin] else None)\<rparr>"

definition class_meta :: route_meta where
  "class_meta = \<lparr>rm_public = None, rm_roles = None\<rparr>"

definition http_method :: "endpoint \<Rightarrow> string" where
  "http_method e =
     (if e \<in> {BaseRoute, UserMe, FindAllUsers, FindUser, GetBalance} then ''GET''
      else if e = UpdateUser then ''PATCH'' else if e = DeleteUser then ''DELETE'' else ''POST'')"

text \<open>\<open>@HttpCode\<close>, or the default of Nest: 201 for \<open>POST\<close>, 200 otherwise.\<close>

definition success_status :: "endpoint \<Rightarrow> nat" where
  "success_status e =
     (if e \<in> {Deposit, InitiateTransfer} then 202 else if e = DeleteUser then 204
      else if e \<in> {Register, Login, ChangePassword, CreateWallet} then 201 else 200)"

section \<open>The environment\<close>

text \<open>
  Third-party code: passport-jwt, Argon2, the signing of tokens, class-validator on a class of
  inputs, Zod on a schema, the gateways, Stripe's signature check, the texts of foreign
  errors, and what class-validator and Zod take for an e-mail address.
\<close>

record environment =
  check_token :: "string option \<Rightarrow> string option"
  argon_hash :: "string \<Rightarrow> error + string"
  argon_verify :: "string \<Rightarrow> string \<Rightarrow> error + bool"
  sign_token :: "string \<Rightarrow> string \<Rightarrow> string"
  class_validator :: "dto \<Rightarrow> json \<Rightarrow> error + json"
  zod_parse :: "zod_type \<Rightarrow> zod_schema"
  gateways :: registry
  construct_event :: "string \<Rightarrow> string \<Rightarrow> string \<Rightarrow> error + stripe_event"
  webhook_secret :: string
  error_text :: "error \<Rightarrow> string"
  class_email :: "string \<Rightarrow> bool"
  zod_email :: "string \<Rightarrow> bool"

record request =
  rq_authorization :: "string option"
  rq_content_type :: "string option"
  rq_id :: string
  rq_currency :: string
  rq_page :: "int option"
  rq_limit :: "int option"
  rq_body :: json
  rq_raw :: string
  rq_signature :: "string option"

section \<open>Parameters\<close>

text \<open>The schemas the routes give their \<open>ZodValidationPipe\<close>; \<open>None\<close> for a route without one.\<close>

fun zod_pipe :: "environment \<Rightarrow> endpoint \<Rightarrow> (Paramtype \<Rightarrow> zod_schema option) option" where
  "zod_pipe env Register = Some (\<lambda>t. if t = PBody then Some (zod_parse env registerSchema) else None)"
| "zod_pipe env Login = Some (\<lambda>t. if t = PBody then Some (zod_parse env loginSchema) else None)"
| "zod_pipe env ChangePassword = Some (\<lambda>t. if t = PBody then Some (zod_parse env changePasswordSchema) else None)"
| "zod_pipe env FindUser = Some (\<lambda>t. if t = PParam then Some (zod_parse env userIdSchema) else None)"
| "zod_pipe env DeleteUser = Some (\<lambda>t. if t = PParam then Some (zod_parse env userIdSchema) else None)"
| "zod_pipe env UpdateUser = Some (\<lambda>t. if t = PBody then Some (zod_parse env updateUserSchema)
     else if t = PParam then Some (zod_parse env userIdSchema) else None)"
| "zod_pipe env _ = None"

text \<open>The class of the body parameter of a handler.\<close>

fun body_dto :: "endpoint \<Rightarrow> dto option" where
  "body_dto Register = Some RegisterDto"
| "body_dto Login = Some LoginDto"
| "body_dto ChangePassword = Some ChangePasswordDto"
| "body_dto UpdateUser = Some UpdateUserDto"
| "body_dto CreateWallet = Some CreateWalletDto"
| "body_dto Deposit = Some DepositDto"
| "body_dto InitiateTransfer = Some InitiateTransferDto"
| "body_dto _ = None"

definition validate_body :: "environment \<Rightarrow> endpoint \<Rightarrow> json \<Rightarrow> error + json" where
  "validate_body env e v = (case body_dto e of Some dto \<Rightarrow> class_validator env dto v | None \<Rightarrow> Inr v)"

text \<open>The global pipe, then the pipe of the route. A path parameter is a plain string, which the global pipe passes.\<close>

definition through_pipes :: "environment \<Rightarrow> endpoint \<Rightarrow> Paramtype \<Rightarrow> json \<Rightarrow> error + json" where
  "through_pipes env e t v =
     bindR (JsonApiValidationPipe_transform (if t = PBody then validate_body env e else Inr) t v) (\<lambda>v'.
     case zod_pipe env e of None \<Rightarrow> Inr v' | Some schemas \<Rightarrow> ZodValidationPipe_transform schemas t v')"

definition body_of :: "environment \<Rightarrow> endpoint \<Rightarrow> request \<Rightarrow> error + json" where
  "body_of env e rq = through_pipes env e PBody (rq_body rq)"

definition id_of :: "environment \<Rightarrow> endpoint \<Rightarrow> request \<Rightarrow> error + string" where
  "id_of env e rq = bindR (through_pipes env e PParam (JStr (rq_id rq))) (\<lambda>v. Inr (js_text v))"

text \<open>The members of a value that has passed the pipes, at the types of the input classes.\<close>

definition str_at :: "json \<Rightarrow> string \<Rightarrow> string" where
  "str_at v k = (case jget v k of JStr x \<Rightarrow> x | _ \<Rightarrow> '''')"

definition num_at :: "json \<Rightarrow> string \<Rightarrow> int" where
  "num_at v k = (case jget v k of JNum n \<Rightarrow> n | _ \<Rightarrow> 0)"

definition register_of :: "json \<Rightarrow> register_input" where
  "register_of v = \<lparr>reg_in_name = str_at v ''name'', reg_in_email = str_at v ''email'',
     reg_in_password = str_at v ''password''\<rparr>"

definition login_of :: "json \<Rightarrow> login_input" where
  "login_of v = \<lparr>login_email = str_at v ''email'', login_password = str_at v ''password''\<rparr>"

definition passwords_of :: "json \<Rightarrow> change_password_input" where
  "passwords_of v = \<lparr>oldPassword = str_at v ''oldPassword'', newPassword = str_at v ''newPassword''\<rparr>"

definition patch_of :: "json \<Rightarrow> user_patch" where
  "patch_of v = \<lparr>patch_name = text_opt (jget v ''name''), patch_email = text_opt (jget v ''email''),
     patch_password = text_opt (jget v ''password''),
     patch_role = Option.bind (text_opt (jget v ''role'')) parse_role\<rparr>"

definition deposit_of :: "json \<Rightarrow> deposit_input" where
  "deposit_of v = \<lparr>dep_amount = num_at v ''amount'', dep_currency = str_at v ''currency'',
     dep_paymentMethod = str_at v ''paymentMethod'', dep_idempotencyKey = str_at v ''idempotencyKey''\<rparr>"

definition transfer_of :: "json \<Rightarrow> transfer_input" where
  "transfer_of v = \<lparr>ti_toWalletTag = str_at v ''toWalletTag'', ti_amount = num_at v ''amount'',
     ti_currency = str_at v ''currency'', ti_idempotencyKey = str_at v ''idempotencyKey''\<rparr>"

section \<open>Handlers\<close>

text \<open>Awaiting the parameters, which touches no state; then the handler.\<close>

definition with_arg :: "error + 'a \<Rightarrow> app \<Rightarrow> ('a \<Rightarrow> ('b, app) outcome) \<Rightarrow> ('b, app) outcome" where
  "with_arg a s f = (case a of Inl e \<Rightarrow> (Inl e, s) | Inr x \<Rightarrow> f x)"

text \<open>\<open>req.user.id\<close> throws when no guard has set the user.\<close>

definition with_user :: "users_row option \<Rightarrow> app \<Rightarrow> (users_row \<Rightarrow> ('b, app) outcome) \<Rightarrow> ('b, app) outcome" where
  "with_user u s f = (case u of None \<Rightarrow> (Inl TypeError, s) | Some x \<Rightarrow> f x)"

fun dispatch :: "environment \<Rightarrow> ambient \<Rightarrow> app \<Rightarrow> endpoint \<Rightarrow> request \<Rightarrow> users_row option
    \<Rightarrow> (json, app) outcome" where
  "dispatch env g s BaseRoute rq user = (Inr (JStr getBaseRoute), s)"
| "dispatch env g s Register rq user = with_arg (body_of env Register rq) s (\<lambda>v.
     AuthController_register (argon_hash env) (sign_token env) g s (register_of v))"
| "dispatch env g s Login rq user = with_arg (body_of env Login rq) s (\<lambda>v.
     (AuthController_login (argon_verify env) (sign_token env) s (login_of v), s))"
| "dispatch env g s ChangePassword rq user = with_arg (body_of env ChangePassword rq) s (\<lambda>v.
     with_user user s (\<lambda>u.
     AuthController_changePassword (argon_hash env) (argon_verify env) g s u (passwords_of v)))"
| "dispatch env g s UserMe rq user = with_user user s (\<lambda>u. (UsersController_userMe s u, s))"
| "dispatch env g s FindAllUsers rq user = (Inr (UsersController_findAll s (rq_page rq) (rq_limit rq)), s)"
| "dispatch env g s FindUser rq user = with_arg (id_of env FindUser rq) s (\<lambda>i.
     (UsersController_findUserById s i, s))"
| "dispatch env g s UpdateUser rq user = with_arg (body_of env UpdateUser rq) s (\<lambda>v.
     with_arg (id_of env UpdateUser rq) s (\<lambda>i. with_user user s (\<lambda>u.
     UsersController_updateUserDetails g s u i (patch_of v))))"
| "dispatch env g s DeleteUser rq user = with_arg (id_of env DeleteUser rq) s (\<lambda>i.
     with_user user s (\<lambda>u. UsersController_deleteUser s u i))"
| "dispatch env g s CreateWallet rq user = with_arg (body_of env CreateWallet rq) s (\<lambda>v.
     with_user user s (\<lambda>u. WalletController_createWallet g s u (str_at v ''currency'')))"
| "dispatch env g s GetBalance rq user =
     with_user user s (\<lambda>u. WalletController_getBalance g s u (rq_currency rq))"
| "dispatch env g s Deposit rq user = with_arg (body_of env Deposit rq) s (\<lambda>v.
     with_user user s (\<lambda>u. WalletController_deposit g (gateways env) s u (deposit_of v)))"
| "dispatch env g s InitiateTransfer rq user = with_arg (body_of env InitiateTransfer rq) s (\<lambda>v.
     with_user user s (\<lambda>u. TransfersController_initiateTransfer g s u (transfer_of v)))"
| "dispatch env g s StripeWebhook rq user =
     bindS (handleWebhook (construct_event env) (webhook_secret env) g s (rq_raw rq) (rq_signature rq))
       (\<lambda>b s1. (Inr (JObj [(''received'', JBool b)]), s1))"

section \<open>The pipeline\<close>

definition serve :: "environment \<Rightarrow> ambient \<Rightarrow> app \<Rightarrow> endpoint \<Rightarrow> request \<Rightarrow> http_response \<times> app" where
  "serve env g s e rq =
     (case guards (check_token env) (handler_meta e) class_meta s (rq_authorization rq) of
        Inl err \<Rightarrow> (JsonApiExceptionFilter_catch (error_text env) err, s)
      | Inr user \<Rightarrow>
     (case JsonApiContentTypeInterceptor_intercept (handler_meta e) class_meta (http_method e) (rq_content_type rq) of
        Inl err \<Rightarrow> (JsonApiExceptionFilter_catch (error_text env) err, s)
      | Inr ctype \<Rightarrow>
     (case dispatch env g s e rq user of
        (Inl err, s') \<Rightarrow> (JsonApiExceptionFilter_catch (error_text env) err, s')
      | (Inr body, s') \<Rightarrow>
          (\<lparr>res_status = success_status e, res_content_type = ctype, res_body = json_clone body\<rparr>, s'))))"

end
