(* ===== verification/Views.thy ===== *)
theory Views
  imports Server Scenario
begin

text \<open>
  What the read requests show: no answer depends on a stored password hash, and the pages of the
  user list cover every user exactly once, but for a limit above 100, which the links and the
  number of pages do not know to be cut.
\<close>

section \<open>Passwords\<close>

text \<open>The state with other password hashes.\<close>

definition new_password :: "(users_row \<Rightarrow> string) \<Rightarrow> users_row \<Rightarrow> users_row" where
  "new_password f u = u\<lparr>user_password := f u\<rparr>"

definition with_passwords :: "(users_row \<Rightarrow> string) \<Rightarrow> app \<Rightarrow> app" where
  "with_passwords f s = s\<lparr>app_db := (app_db s)\<lparr>db_users := map (new_password f) (db_users (app_db s))\<rparr>\<rparr>"

lemma find_map: "find P (map f xs) = map_option f (find (\<lambda>x. P (f x)) xs)"
  by (induction xs) auto

lemma new_password_fields [simp]:
  "entity_id (new_password f u) = entity_id u" "user_email (new_password f u) = user_email u"
  "user_role (new_password f u) = user_role u" "mapResult (new_password f u) ws t = mapResult u ws t"
  by (simp_all add: new_password_def mapResult_def)

lemma with_passwords_db [simp]:
  "db_users (app_db (with_passwords f s)) = map (new_password f) (db_users (app_db s))"
  "db_wallets (app_db (with_passwords f s)) = db_wallets (app_db s)"
  "db_coll (app_db (with_passwords f s)) = db_coll (app_db s)"
  "app_cache (with_passwords f s) = app_cache s"
  by (simp_all add: with_passwords_def)

lemma has_id_fun: "has_id d i = (\<lambda>r. same d (entity_id r) i)"
  by (simp add: fun_eq_iff has_id_def)

lemma passwords_lookup:
  "findUserByEmail (app_db (with_passwords f s)) m = map_option (new_password f) (findUserByEmail (app_db s) m)"
  "findUserByIdWithWallets (app_db (with_passwords f s)) i
     = map_option (\<lambda>(u, ws). (new_password f u, ws)) (findUserByIdWithWallets (app_db s) i)"
  "findByUserIdAndCurrency (app_db (with_passwords f s)) i c = findByUserIdAndCurrency (app_db s) i c"
  by (simp_all add: findUserByEmail_def findUserByIdWithWallets_def findByUserIdAndCurrency_def find_map
      has_id_fun same_def split: option.split)

lemma passwords_guards:
  "guards ct h c (with_passwords f s) req
     = (case guards ct h c s req of Inl e \<Rightarrow> Inl e | Inr u \<Rightarrow> Inr (map_option (new_password f) u))"
  by (simp add: guards_def JwtAuthGuard_def jwt_validate_def svc_findUserByEmail_def passwords_lookup
      option.map_comp comp_def bindR_def split: option.split sum.split)

lemma passwords_reads:
  "userMe (with_passwords f s) i = userMe s i"
  "svc_findUserById (with_passwords f s) i = svc_findUserById s i"
  "svc_findAll (with_passwords f s) page limit = svc_findAll s page limit"
  by (simp_all add: userMe_def svc_findUserById_def svc_findAll_def findAll_def passwords_lookup
      drop_map take_map split: option.split)

lemma passwords_balance: "fst (getBalance g (with_passwords f s) i c) = fst (getBalance g s i c)"
  by (simp add: getBalance_def Let_def passwords_lookup split: option.split)

lemma fst_bindS_answer: "fst (bindS m (\<lambda>x s. (Inr (h x), s))) = map_sum id h (fst m)"
  by (simp add: bindS_def split: sum.split prod.split)

lemma passwords_dispatch:
  assumes "e \<in> {UserMe, FindAllUsers, FindUser, GetBalance}"
  shows "fst (dispatch env g (with_passwords f s) e rq (map_option (new_password f) u)) = fst (dispatch env g s e rq u)"
  using assms
  by (auto simp: with_user_def with_arg_def UsersController_userMe_def UsersController_findAll_def
      UsersController_findUserById_def WalletController_getBalance_def passwords_reads passwords_balance
      fst_bindS_answer split: option.split sum.split)

text \<open>C34: The read requests never show a password hash. For the profile, the list of users, a single user
  and a balance, the whole answer (status, content type and body, errors included) is the same
  whatever password hashes are stored.\<close>
theorem reads_hide_passwords:
  assumes "e \<in> {UserMe, FindAllUsers, FindUser, GetBalance}"
  shows "fst (serve env g (with_passwords f s) e rq) = fst (serve env g s e rq)"
proof -
  have "fst (case dispatch env g (with_passwords f s) e rq (map_option (new_password f) u) of
        (Inl err, s') \<Rightarrow> (t err, s') | (Inr body, s') \<Rightarrow> (k body, s'))
      = fst (case dispatch env g s e rq u of (Inl err, s') \<Rightarrow> (t err, s') | (Inr body, s') \<Rightarrow> (k body, s'))"
    for u and t k :: "_ \<Rightarrow> http_response"
    using passwords_dispatch [OF assms, of env g f s rq u] by (auto split: prod.split sum.split)
  then show ?thesis
    by (simp add: serve_def passwords_guards split: sum.split)
qed

section \<open>Pages\<close>

definition page_users :: "app \<Rightarrow> int option \<Rightarrow> int option \<Rightarrow> json list" where
  "page_users s page limit =
     (case jget (UsersController_findAll s page limit) ''data'' of JArr xs \<Rightarrow> xs | _ \<Rightarrow> [])"

definition next_link :: "app \<Rightarrow> int option \<Rightarrow> int option \<Rightarrow> json" where
  "next_link s page limit = jget (jget (UsersController_findAll s page limit) ''links'') ''next''"

definition user_json :: "users_row \<Rightarrow> json" where
  "user_json u = user_resource (mapResult u None None)"

lemma page_users_eq:
  "page_users s (Some p) (Some l)
   = map user_json (take (nat (min (max l 1) 100)) (drop ((nat (max p 1) - 1) * nat (min (max l 1) 100)) (db_users (app_db s))))"
  by (simp add: page_users_def UsersController_findAll_def PaginationQueryDto_def svc_findAll_def findAll_def
      jsonApiData_def jget_def Let_def user_json_def comp_def)

lemma next_link_eq:
  "next_link s (Some p) (Some l)
   = (if before_page p (ceil_div (int (length (db_users (app_db s)))) l) then page_link (p + 1) l else JNull)"
  by (simp add: next_link_def UsersController_findAll_def PaginationQueryDto_def svc_findAll_def findAll_def
      jsonApiData_def jget_def Let_def)

lemma concat_chunks: "concat (map (\<lambda>i. take n (drop (i * n) xs)) [0..<k]) = take (k * n) xs"
  by (induction k) (simp_all add: take_add [symmetric] add.commute)

lemma ceil_div_pos: "0 < l \<Longrightarrow> ceil_div (int n) (int l) = Whole (int ((n + l - 1) div l))"
proof -
  assume l: "0 < l"
  have "- ((- int n) div int l) = int ((n + l - 1) div l)"
  proof -
    define q r where "q = n div l" and "r = n mod l"
    have n: "n = q * l + r" "r < l" using l by (simp_all add: q_def r_def)
    show ?thesis
    proof (cases "r = 0")
      case True
      then have "(n + l - 1) div l = q" using n l by (intro div_nat_eqI) (simp_all add: mult.commute)
      moreover have "(- int n) div int l = - int q"
        using n True l by (intro int_div_pos_eq [of _ _ _ 0]) (simp_all add: mult.commute)
      ultimately show ?thesis by simp
    next
      case False
      then have "(n + l - 1) div l = q + 1" using n l by (intro div_nat_eqI) (simp_all add: algebra_simps)
      moreover have "(- int n) div int l = - int q - 1"
        using n False l by (intro int_div_pos_eq [of _ _ _ "int (l - r)"]) (simp_all add: algebra_simps of_nat_diff)
      ultimately show ?thesis by simp
    qed
  qed
  then show ?thesis using l by (simp add: ceil_div_def)
qed

text \<open>The pages are complete. With a limit from 1 to 100, the pages from the first to the one whose
  \<open>next\<close> link is empty list every user exactly once, in the order of the table; the \<open>next\<close> link is
  empty exactly on and after the last page.\<close>
theorem pages_cover_users:
  assumes "1 \<le> l" "l \<le> 100"
  shows "\<exists>n. concat (map (\<lambda>i. page_users s (Some (int i + 1)) (Some (int l))) [0..<n])
            = map user_json (db_users (app_db s))
    \<and> (\<forall>p. next_link s (Some p) (Some (int l)) = JNull \<longleftrightarrow> int n \<le> p)"
proof -
  let ?us = "db_users (app_db s)"
  define n where "n = (length ?us + l - 1) div l"
  have "length ?us \<le> n * l"
  proof -
    have "(length ?us + l - 1) mod l < l" using assms(1) by simp
    moreover have "length ?us + l - 1 = n * l + (length ?us + l - 1) mod l" by (simp add: n_def)
    ultimately show ?thesis using assms(1) by linarith
  qed
  moreover have "nat (min (max (int l) 1) 100) = l" using assms by auto
  then have "page_users s (Some (int i + 1)) (Some (int l)) = map user_json (take l (drop (i * l) ?us))" for i
    by (simp add: page_users_eq nat_add_distrib)
  then have "concat (map (\<lambda>i. page_users s (Some (int i + 1)) (Some (int l))) [0..<n])
      = map user_json (concat (map (\<lambda>i. take l (drop (i * l) ?us)) [0..<n]))"
    by (simp add: map_concat comp_def)
  ultimately have "concat (map (\<lambda>i. page_users s (Some (int i + 1)) (Some (int l))) [0..<n]) = map user_json ?us"
    by (simp add: concat_chunks)
  moreover have "next_link s (Some p) (Some (int l)) = JNull \<longleftrightarrow> int n \<le> p" for p
    using assms ceil_div_pos [of l "length ?us"]
    by (auto simp: next_link_eq before_page_def page_link_def n_def)
  ultimately show ?thesis by blast
qed

text \<open>A limit above 100 hides users. The query is cut to 100 rows, but the number of pages and the
  links are computed from the limit of the request: when all users fit into that limit, the first
  page shows only the first 100 and says there is no next one.\<close>
theorem large_limit_hides_users:
  assumes "100 < l" "length (db_users (app_db s)) \<le> l"
  shows "page_users s (Some 1) (Some (int l)) = map user_json (take 100 (db_users (app_db s)))
    \<and> next_link s (Some 1) (Some (int l)) = JNull"
proof -
  have "nat (min (max (int l) 1) 100) = 100" using assms by auto
  moreover have "(length (db_users (app_db s)) + l - 1) div l \<le> 1"
    using assms by (intro Suc_leI [THEN le_trans] less_Suc_eq_le [THEN iffD1]) (simp_all add: div_less_iff_less_mult)
  ultimately show ?thesis using assms ceil_div_pos [of l "length (db_users (app_db s))"]
    by (auto simp: page_users_eq next_link_eq before_page_def)
qed

section \<open>Closed examples\<close>

text \<open>
  An environment in which the token of Alice is valid and the inputs are checked as their
  decorators and schemas say.
\<close>

definition demo_email :: "string \<Rightarrow> bool" where
  "demo_email x = (CHR 0x40 \<in> set x)"

definition demo_parse :: "zod_type \<Rightarrow> zod_schema" where
  "demo_parse t v =
     (let w = (case t of
          ZObject _ fs \<Rightarrow> (case v of JObj ps \<Rightarrow> JObj (filter (\<lambda>p. fst p \<in> set (map fst fs)) ps) | _ \<Rightarrow> v)
        | _ \<Rightarrow> v)
      in if parsed demo_email t v w then Inr w else Inl [JStr ''invalid''])"

definition demo_env :: environment where
  "demo_env = \<lparr>
     check_token = (\<lambda>h. if h = Some ''Bearer alice'' then Some ''alice@x.io'' else None),
     argon_hash = Inr, argon_verify = (\<lambda>h p. Inr (h = p)), sign_token = (\<lambda>i m. m),
     class_validator = (\<lambda>dto v. if conforms demo_email dto v then Inr v else Inl (BadRequest ''invalid'')),
     zod_parse = demo_parse, gateways = Map.empty,
     construct_event = (\<lambda>body sig secret. if sig = secret
         then Inr \<lparr>ev_id = ''e1'', ev_type = ''checkout.session.completed'', ev_object_id = body,
                   ev_payment_status = Some ''paid''\<rparr> else Inl (PlainError ''signature'')),
     webhook_secret = ''whsec'', error_text = (\<lambda>_. ''error''),
     class_email = demo_email, zod_email = demo_email\<rparr>"

definition demo_http :: "string option \<Rightarrow> request" where
  "demo_http auth = \<lparr>rq_authorization = auth, rq_content_type = Some JSON_API, rq_id = ''u1'',
     rq_currency = ''eur'', rq_page = None, rq_limit = None, rq_body = JObj [], rq_raw = ''cs_2'',
     rq_signature = Some ''whsec''\<rparr>"

lemma demo_profile: "res_status (fst (serve demo_env g demo_app UserMe (demo_http (Some ''Bearer alice'')))) = 200"
  by (simp add: serve_def guards_def JwtAuthGuard_def RoleGuard_def jwt_validate_def svc_findUserByEmail_def
      findUserByEmail_def JsonApiContentTypeInterceptor_intercept_def handler_meta_def class_meta_def http_method_def
      success_status_def demo_env_def demo_http_def with_user_def UsersController_userMe_def userMe_def
      findUserByIdWithWallets_def alice_def bob_def toUpperCase_def upper_char_def Let_def)

theorem reads_hide_passwords_witness:
  "fst (serve demo_env (demo_ambient ''g'' 9) (with_passwords (\<lambda>_. ''other'') demo_app) UserMe
      (demo_http (Some ''Bearer alice'')))
   = fst (serve demo_env (demo_ambient ''g'' 9) demo_app UserMe (demo_http (Some ''Bearer alice'')))
   \<and> with_passwords (\<lambda>_. ''other'') demo_app \<noteq> demo_app"
proof -
  have "map user_password (db_users (app_db (with_passwords (\<lambda>_. ''other'') demo_app)))
      \<noteq> map user_password (db_users (app_db demo_app))"
    by (simp add: new_password_def alice_def)
  then have "with_passwords (\<lambda>_. ''other'') demo_app \<noteq> demo_app" by metis
  then show ?thesis by (simp add: reads_hide_passwords)
qed

theorem pages_cover_users_witness:
  "\<exists>n. concat (map (\<lambda>i. page_users demo_app (Some (int i + 1)) (Some 1)) [0..<n]) = map user_json [alice, bob]
     \<and> (\<forall>p. next_link demo_app (Some p) (Some 1) = JNull \<longleftrightarrow> int n \<le> p)"
  using pages_cover_users [of 1 demo_app] by simp

theorem large_limit_hides_users_witness:
  "page_users (demo_app\<lparr>app_db := demo_db\<lparr>db_users := replicate 150 alice\<rparr>\<rparr>) (Some 1) (Some 200)
     = map user_json (replicate 100 alice)
   \<and> next_link (demo_app\<lparr>app_db := demo_db\<lparr>db_users := replicate 150 alice\<rparr>\<rparr>) (Some 1) (Some 200) = JNull"
  using large_limit_hides_users [of 200 "demo_app\<lparr>app_db := demo_db\<lparr>db_users := replicate 150 alice\<rparr>\<rparr>"] by simp

end
