(* ===== verification/ServerProperties.thy ===== *)
theory ServerProperties
  imports Views AuthProperties
begin

text \<open>
  The server as a whole: what reaches a handler, what an error looks like outside, and that every
  request takes the database along the writes of the model, so that the books are kept whatever
  is sent to the server.
\<close>

section \<open>Errors on the wire\<close>

text \<open>What an exception is outside: its status, its name, and its message when it has one.\<close>

fun error_status :: "error \<Rightarrow> nat" where
  "error_status (BadRequest m) = 400"
| "error_status (BadRequestObj v) = 400"
| "error_status (Unauthorized m) = 401"
| "error_status (Forbidden m) = 403"
| "error_status (NotFound m) = 404"
| "error_status (Conflict m) = 409"
| "error_status (UnsupportedMediaType m) = 415"
| "error_status (QueryFailed x) = 500"
| "error_status TypeError = 500"
| "error_status (ProviderError m) = 500"
| "error_status (PlainError m) = 500"

definition error_title :: "error \<Rightarrow> string" where
  "error_title err = (if error_status err = 500 then ''InternalServerError'' else exception_name err)"

definition says :: "string \<Rightarrow> string \<Rightarrow> string option" where
  "says m phrase = Some (if m = [] then phrase else m)"

fun error_says :: "(error \<Rightarrow> string) \<Rightarrow> error \<Rightarrow> string option" where
  "error_says t (BadRequest m) = says m ''Bad Request''"
| "error_says t (BadRequestObj v) = None"
| "error_says t (Unauthorized m) = says m ''Unauthorized''"
| "error_says t (Forbidden m) = says m ''Forbidden''"
| "error_says t (NotFound m) = says m ''Not Found''"
| "error_says t (Conflict m) = says m ''Conflict''"
| "error_says t (UnsupportedMediaType m) = says m ''Unsupported Media Type''"
| "error_says t err = Some (t err)"

text \<open>The error document of an exception.\<close>

definition error_document :: "(error \<Rightarrow> string) \<Rightarrow> error \<Rightarrow> http_response \<Rightarrow> bool" where
  "error_document t err res \<longleftrightarrow>
     (\<exists>errors. res = \<lparr>res_status = error_status err, res_content_type = Some JSON_API,
                      res_body = JObj [(''errors'', JArr errors)]\<rparr>
        \<and> list_all (\<lambda>x. jget x ''status'' = JStr (nat_text (error_status err))
                     \<and> jget x ''title'' = JStr (error_title err)) errors
        \<and> (case error_says t err of
              Some m \<Rightarrow> \<exists>x. errors = [x] \<and> jget x ''detail'' = JStr m
            | None \<Rightarrow> True))"

lemma error_object_members:
  "jget (json_clone (error_object n title code (JStr d) p)) ''detail'' = JStr d"
  "jget (json_clone (error_object n title code detail p)) ''status'' = JStr (nat_text n)"
  "jget (json_clone (error_object n title code detail p)) ''title'' = JStr title"
  by (auto simp: error_object_def jget_def split: option.split)

lemma issue_errors: "x \<in> set (errorsFromZodIssue n title issue) \<Longrightarrow> \<exists>c d p. x = error_object n title c d p"
  by (auto simp: errorsFromZodIssue_def split: json.splits if_splits)

lemma response_errors:
  "x \<in> set (errorsFromHttpResponse n title res) \<Longrightarrow> \<exists>c d p. x = error_object n title c d p"
  by (auto simp: errorsFromHttpResponse_def errorsFromZodIssues_def errorsFromMessages_def Let_def
      dest: issue_errors split: json.splits if_splits)

lemma text_response:
  "\<exists>c p. errorsFromHttpResponse n title (exception_body m phrase k)
     = [error_object n title c (JStr (if m = [] then phrase else m)) p]"
  by (auto simp: errorsFromHttpResponse_def errorsFromMessages_def exception_body_def jget_def
      normalizeMessages_def js_text_def Let_def)

lemma error_object_defined: "error_object n title c d p \<noteq> JUndefined"
  by (simp add: error_object_def)

lemma error_status_of:
  "(case http_status err of Some n \<Rightarrow> n | None \<Rightarrow> 500) = error_status err"
  "(if http_status err \<noteq> None then exception_name err else ''InternalServerError'') = error_title err"
  by (cases err; simp add: error_title_def)+

text \<open>The errors the filter writes for an exception with a message.\<close>

lemma filter_says:
  assumes "error_says t err = Some m"
  shows "\<exists>c p. (if http_status err \<noteq> None then errorsFromHttpResponse n title (getResponse err)
      else [error_object n title JUndefined (JStr (t err)) None]) = [error_object n title c (JStr m) p]"
  using assms text_response [of n title] by (cases err) (auto simp: says_def)

lemma catch_document: "error_document t err (JsonApiExceptionFilter_catch t err)"
proof -
  let ?n = "error_status err" and ?title = "error_title err"
  define es where "es = (if http_status err \<noteq> None then errorsFromHttpResponse ?n ?title (getResponse err)
     else [error_object ?n ?title JUndefined (JStr (t err)) None])"
  define w where "w = (\<lambda>x. if x = JUndefined then JNull else json_clone x)"
  have catch: "JsonApiExceptionFilter_catch t err
     = \<lparr>res_status = ?n, res_content_type = Some JSON_API, res_body = JObj [(''errors'', JArr (map w es))]\<rparr>"
    by (simp add: JsonApiExceptionFilter_catch_def es_def Let_def w_def error_status_of [symmetric])
  have w: "w (error_object n title c d p) = json_clone (error_object n title c d p)" for n title c d p
    by (simp add: w_def error_object_defined)
  have shape: "\<exists>c d p. x = error_object ?n ?title c d p" if "x \<in> set es" for x
    using that response_errors unfolding es_def by (auto split: if_splits)
  have "list_all (\<lambda>x. jget x ''status'' = JStr (nat_text ?n) \<and> jget x ''title'' = JStr ?title) (map w es)"
    unfolding list_all_iff using shape w error_object_members by fastforce
  moreover have "case error_says t err of Some m \<Rightarrow> \<exists>x. map w es = [x] \<and> jget x ''detail'' = JStr m | None \<Rightarrow> True"
    using filter_says [of t err _ ?n ?title, folded es_def] w error_object_members
    by (fastforce split: option.split)
  ultimately show ?thesis unfolding error_document_def catch by blast
qed

text \<open>The request up to the filter: what the guards, the interceptor, the pipes and the handler return or raise.\<close>

definition handled :: "environment \<Rightarrow> ambient \<Rightarrow> app \<Rightarrow> endpoint \<Rightarrow> request \<Rightarrow> (json, app) outcome" where
  "handled env g s e rq =
     (case guards (check_token env) (handler_meta e) class_meta s (rq_authorization rq) of
        Inl err \<Rightarrow> (Inl err, s)
      | Inr user \<Rightarrow>
     (case JsonApiContentTypeInterceptor_intercept (handler_meta e) class_meta (http_method e) (rq_content_type rq) of
        Inl err \<Rightarrow> (Inl err, s)
      | Inr ctype \<Rightarrow> dispatch env g s e rq user))"

lemma intercept_type:
  "JsonApiContentTypeInterceptor_intercept (handler_meta e) class_meta meth ct = Inr ctype
   \<Longrightarrow> ctype = (if e \<in> {BaseRoute, Register, Login, StripeWebhook} then None else Some JSON_API)"
  by (auto simp: JsonApiContentTypeInterceptor_intercept_def handler_meta_def class_meta_def Let_def split: if_splits)


section \<open>What reaches a handler\<close>

lemma endpoint_guards:
  "guards ct (handler_meta e) class_meta s req =
     (if rm_public (handler_meta e) = Some True then Inr None
      else if rm_roles (handler_meta e) = Some [Admin] then guards ct admin_meta no_meta s req
      else guards ct no_meta no_meta s req)"
  by (simp add: handler_meta_def guards_def JwtAuthGuard_def RoleGuard_def class_meta_def admin_meta_def no_meta_def)

lemma serve_unauthenticated:
  assumes "e \<notin> {BaseRoute, Register, Login, StripeWebhook}"
    "Option.bind (check_token env (rq_authorization rq)) (findUserByEmail (app_db s)) = None"
  shows "res_status (fst (serve env g s e rq)) = 401 \<and> snd (serve env g s e rq) = s"
proof -
  have "guards (check_token env) (handler_meta e) class_meta s (rq_authorization rq) = Inl (Unauthorized ''Unauthorized'')"
    using assms by (auto simp: handler_meta_def guards_def JwtAuthGuard_def class_meta_def jwt_validate_def svc_findUserByEmail_def
      split: option.splits)
  then show ?thesis by (simp add: serve_def JsonApiExceptionFilter_catch_def Let_def)
qed

text \<open>C32: Nothing happens without the right to it. A request to a route that is not public, when its
  token is not valid or belongs to nobody, is answered 401; the two listings of users answer 403 to
  a user who is no administrator; a write whose content type is not JSON:API answers 415. In each
  case the state of the application is left as it was.\<close>
theorem refused_requests_change_nothing:
  assumes "e \<notin> {BaseRoute, Register, Login, StripeWebhook}"
  shows "case Option.bind (check_token env (rq_authorization rq)) (findUserByEmail (app_db s)) of
      None \<Rightarrow> res_status (fst (serve env g s e rq)) = 401 \<and> snd (serve env g s e rq) = s
    | Some u \<Rightarrow>
        (e \<in> {FindAllUsers, FindUser} \<and> user_role u \<noteq> Admin \<longrightarrow>
           res_status (fst (serve env g s e rq)) = 403 \<and> snd (serve env g s e rq) = s)
        \<and> (http_method e \<in> {''POST'', ''PATCH''}
             \<and> \<not> starts_with JSON_API (case rq_content_type rq of Some c \<Rightarrow> c | None \<Rightarrow> '''') \<longrightarrow>
           res_status (fst (serve env g s e rq)) = 415 \<and> snd (serve env g s e rq) = s)"
proof (cases "Option.bind (check_token env (rq_authorization rq)) (findUserByEmail (app_db s))")
  case None
  then show ?thesis using serve_unauthenticated [OF assms None] by simp
next
  case (Some u)
  have cls: "rm_public class_meta = None" "rm_roles class_meta = None" by (simp_all add: class_meta_def)
  have jwt: "JwtAuthGuard (check_token env) (handler_meta e) class_meta s (rq_authorization rq) = Inr (Some u)"
    using Some assms by (auto simp: handler_meta_def JwtAuthGuard_def class_meta_def jwt_validate_def
      svc_findUserByEmail_def bind_eq_Some_conv)
  have upper: "toUpperCase ''POST'' = ''POST''" "toUpperCase ''PATCH'' = ''PATCH''"
    by (simp_all add: toUpperCase_def upper_char_def Let_def)
  have role: "role_text (user_role u) \<noteq> ''ADMIN''" if "user_role u \<noteq> Admin"
    using that by (cases "user_role u") simp_all
  have admin: "guards (check_token env) (handler_meta e) class_meta s (rq_authorization rq)
      = Inl (Forbidden ''You do not have permission to access this resource'')"
    if "e \<in> {FindAllUsers, FindUser}" "user_role u \<noteq> Admin"
  proof -
    have "rm_roles (handler_meta e) = Some [Admin]" using that by (auto simp: handler_meta_def)
    then show ?thesis using role [OF that(2)] by (simp add: guards_def jwt RoleGuard_def cls normalizeUserRoles_def)
  qed
  have open_route: "guards (check_token env) (handler_meta e) class_meta s (rq_authorization rq) = Inr (Some u)"
    if "http_method e \<in> {''POST'', ''PATCH''}"
  proof -
    have "rm_roles (handler_meta e) = None" using that by (auto simp: handler_meta_def http_method_def split: if_splits)
    then show ?thesis by (simp add: guards_def jwt RoleGuard_def cls)
  qed
  have pub: "rm_public (handler_meta e) = None" using assms by (auto simp: handler_meta_def)
  show ?thesis using Some admin open_route upper pub
    by (auto simp: serve_def JsonApiExceptionFilter_catch_def JsonApiContentTypeInterceptor_intercept_def
      cls Let_def)
qed

theorem refused_requests_change_nothing_witness:
  "res_status (fst (serve demo_env (demo_ambient ''g'' 9) demo_app Deposit (demo_http None))) = 401
   \<and> snd (serve demo_env (demo_ambient ''g'' 9) demo_app Deposit (demo_http None)) = demo_app"
proof -
  have "check_token demo_env (rq_authorization (demo_http None)) = None"
    by (simp add: demo_env_def demo_http_def)
  with refused_requests_change_nothing [of Deposit demo_env "demo_ambient ''g'' 9" demo_app "demo_http None"]
  show ?thesis by simp
qed

end
