(* ===== verification/InputProperties.thy ===== *)
theory InputProperties
  imports Views
begin

text \<open>
  What the pipes let through: with class-validator and Zod as documented, a handler gets only
  inputs of the declared shape.
\<close>

section \<open>The two libraries as documented\<close>

definition documented :: "environment \<Rightarrow> bool" where
  "documented env \<longleftrightarrow> class_validator_law (class_email env) (class_validator env) \<and> zod_law (zod_email env) (zod_parse env)"

lemma demo_env_documented: "documented demo_env"
  by (auto simp: documented_def class_validator_law_def zod_law_def demo_env_def demo_parse_def Let_def
      split: if_splits)

text \<open>The body after the envelope is an object.\<close>

definition object_body :: "request \<Rightarrow> bool" where
  "object_body rq \<longleftrightarrow> plain_object (unwrap PBody (rq_body rq))"

section \<open>Members of accepted values\<close>

named_theorems schema_defs \<open>the declared inputs\<close>

declare RegisterDto_def [schema_defs] LoginDto_def [schema_defs] ChangePasswordDto_def [schema_defs]
  UpdateUserDto_def [schema_defs] CreateWalletDto_def [schema_defs] DepositDto_def [schema_defs]
  InitiateTransferDto_def [schema_defs] loginSchema_def [schema_defs] registerSchema_def [schema_defs]
  changePasswordSchema_def [schema_defs] updateUserSchema_def [schema_defs] userIdSchema_def [schema_defs]
  z_object_def [schema_defs]

lemma accepted_body:
  assumes "documented env" "object_body rq" "body_of env e rq = Inr v" "body_dto e = Some dto"
  obtains w where "class_validator env dto (unwrap PBody (rq_body rq)) = Inr w" "conforms (class_email env) dto w"
    "zod_pipe env e = None \<Longrightarrow> v = w"
    "\<And>schemas. zod_pipe env e = Some schemas \<Longrightarrow> ZodValidationPipe_transform schemas PBody w = Inr v"
proof -
  from assms(3,4) obtain w where w: "class_validator env dto (unwrap PBody (rq_body rq)) = Inr w"
    "(case zod_pipe env e of None \<Rightarrow> Inr w | Some schemas \<Rightarrow> ZodValidationPipe_transform schemas PBody w) = Inr v"
    by (auto simp: body_of_def through_pipes_def validate_body_def JsonApiValidationPipe_transform_def bindR_Inr_iff)
  from w(1) assms(1,2) have "conforms (class_email env) dto w"
    by (auto simp: documented_def class_validator_law_def object_body_def)
  then show thesis using w by (intro that [of w]) (auto split: option.splits)
qed

lemma zod_accepted:
  assumes "documented env" "ZodValidationPipe_transform schemas t v = Inr w" "schemas t = Some (zod_parse env sch)"
  shows "parsed (zod_email env) sch (unwrap t v) w"
  using assms by (auto simp: ZodValidationPipe_transform_def documented_def zod_law_def split: sum.splits)

section \<open>Inputs of the handlers\<close>

definition good_password :: "json \<Rightarrow> bool" where
  "good_password v = (case v of JStr p \<Rightarrow> 5 \<le> length p \<and> length p \<le> 15 | _ \<Rightarrow> False)"

definition letters_and_digits :: "json \<Rightarrow> bool" where
  "letters_and_digits v = (case v of JStr p \<Rightarrow> list_all alphanumeric p | _ \<Rightarrow> False)"

definition is_text :: "json \<Rightarrow> bool" where
  "is_text v = (case v of JStr _ \<Rightarrow> True | _ \<Rightarrow> False)"

definition is_address :: "(string \<Rightarrow> bool) \<Rightarrow> json \<Rightarrow> bool" where
  "is_address email v = (case v of JStr x \<Rightarrow> email x | _ \<Rightarrow> False)"

definition only_members :: "string list \<Rightarrow> json \<Rightarrow> bool" where
  "only_members ks v = (case v of JObj ps \<Rightarrow> list_all (\<lambda>p. fst p \<in> set ks) ps | _ \<Rightarrow> False)"

text \<open>What the handler of a route may rely on.\<close>

fun input_fits :: "environment \<Rightarrow> endpoint \<Rightarrow> json \<Rightarrow> bool" where
  "input_fits env Register v \<longleftrightarrow> only_members [''name'', ''email'', ''password''] v
     \<and> is_text (jget v ''name'') \<and> is_address (zod_email env) (jget v ''email'') \<and> good_password (jget v ''password'')"
| "input_fits env Login v \<longleftrightarrow> only_members [''email'', ''password''] v
     \<and> is_address (zod_email env) (jget v ''email'') \<and> good_password (jget v ''password'')"
| "input_fits env ChangePassword v \<longleftrightarrow> only_members [''oldPassword'', ''newPassword''] v
     \<and> good_password (jget v ''oldPassword'') \<and> good_password (jget v ''newPassword'')"
| "input_fits env UpdateUser v \<longleftrightarrow> only_members [''name'', ''role''] v
     \<and> patch_email (patch_of v) = None \<and> patch_password (patch_of v) = None
     \<and> (jget v ''name'' = JUndefined \<or> patch_name (patch_of v) \<noteq> None)
     \<and> (jget v ''role'' = JUndefined \<or> patch_role (patch_of v) \<noteq> None)"
| "input_fits env CreateWallet v \<longleftrightarrow> is_currency (str_at v ''currency'')"
| "input_fits env Deposit v \<longleftrightarrow> valid_deposit (deposit_of v)"
| "input_fits env InitiateTransfer v \<longleftrightarrow> valid_transfer (transfer_of v)"
| "input_fits env _ v \<longleftrightarrow> True"

text \<open>What \<open>strict()\<close> asks of the value a schema was given.\<close>

fun nothing_else :: "endpoint \<Rightarrow> json \<Rightarrow> bool" where
  "nothing_else Register u \<longleftrightarrow> only_members [''name'', ''email'', ''password''] u"
| "nothing_else Login u \<longleftrightarrow> only_members [''email'', ''password''] u"
| "nothing_else ChangePassword u \<longleftrightarrow> only_members [''oldPassword'', ''newPassword''] u"
| "nothing_else _ u \<longleftrightarrow> True"

text \<open>What the decorators ask beyond the schema.\<close>

fun decorators_fit :: "environment \<Rightarrow> endpoint \<Rightarrow> json \<Rightarrow> bool" where
  "decorators_fit env Register v \<longleftrightarrow> is_address (class_email env) (jget v ''email'')
     \<and> letters_and_digits (jget v ''password'')"
| "decorators_fit env Login v \<longleftrightarrow> is_address (class_email env) (jget v ''email'')
     \<and> letters_and_digits (jget v ''password'')"
| "decorators_fit env ChangePassword v \<longleftrightarrow> letters_and_digits (jget v ''oldPassword'')
     \<and> letters_and_digits (jget v ''newPassword'')"
| "decorators_fit env _ v \<longleftrightarrow> True"

text \<open>The value has an envelope that a pipe would take off.\<close>

definition has_envelope :: "json \<Rightarrow> bool" where
  "has_envelope w \<longleftrightarrow> unwrap PBody w \<noteq> w"

lemma known_only: "known_keys fs v = only_members (map fst fs) v"
  by (simp add: known_keys_def only_members_def)

lemma only_members_missing: "only_members ks v \<Longrightarrow> k \<notin> set ks \<Longrightarrow> jget v k = JUndefined"
  by (auto simp: only_members_def jget_def list_all_iff split: json.splits option.splits dest!: map_of_SomeD)

lemma role_values_parse: "x \<in> set role_values \<Longrightarrow> \<exists>r. parse_role x = Some r"
  by (auto simp: role_values_def)

lemma satisfies_iff:
  "satisfies email IsString v \<longleftrightarrow> (\<exists>x. v = JStr x)"
  "satisfies email IsInt v \<longleftrightarrow> (\<exists>n. v = JNum n)"
  "satisfies email (MinValue m) v \<longleftrightarrow> (\<exists>n. v = JNum n \<and> m \<le> n)"
  "satisfies email (IsEnum xs) v \<longleftrightarrow> (\<exists>x. v = JStr x \<and> x \<in> set xs)"
  by (auto split: json.splits)

lemma field_holds_iff:
  "field_holds email (ZString cs) v \<longleftrightarrow> (\<exists>x. v = JStr x \<and> list_all (\<lambda>c. check_holds email c x) cs)"
  "field_holds email (ZNativeEnum xs) v \<longleftrightarrow> (\<exists>x. v = JStr x \<and> x \<in> set xs)"
  by (auto split: json.splits)

lemmas shape_iffs = satisfies_iff field_holds_iff

named_theorems text_shapes \<open>what a member holds\<close>

declare good_password_def [text_shapes] letters_and_digits_def [text_shapes] is_text_def [text_shapes]
  is_address_def [text_shapes]

lemma schema_input_fits:
  shows "parsed (zod_email env) registerSchema u v \<Longrightarrow> input_fits env Register v \<and> nothing_else Register u"
    and "parsed (zod_email env) loginSchema u v \<Longrightarrow> input_fits env Login v \<and> nothing_else Login u"
    and "parsed (zod_email env) changePasswordSchema u v
      \<Longrightarrow> input_fits env ChangePassword v \<and> nothing_else ChangePassword u"
  by (auto simp: schema_defs known_only text_shapes shape_iffs simp del: field_holds.simps)

text \<open>A value without a second envelope keeps the members the decorators spoke of.\<close>

lemma schema_keeps_decorators:
  shows "conforms (class_email env) RegisterDto u \<Longrightarrow> parsed (zod_email env) registerSchema u v
      \<Longrightarrow> decorators_fit env Register v"
    and "conforms (class_email env) LoginDto u \<Longrightarrow> parsed (zod_email env) loginSchema u v
      \<Longrightarrow> decorators_fit env Login v"
    and "conforms (class_email env) ChangePasswordDto u \<Longrightarrow> parsed (zod_email env) changePasswordSchema u v
      \<Longrightarrow> decorators_fit env ChangePassword v"
  by (auto simp: schema_defs conforms_def text_shapes shape_iffs simp del: field_holds.simps)

lemma update_input_fits: "parsed email updateUserSchema u v \<Longrightarrow> input_fits env UpdateUser v"
proof -
  assume p: "parsed email updateUserSchema u v"
  then have m: "only_members [''name'', ''role''] v" by (simp add: schema_defs known_only)
  have "jget v ''email'' = JUndefined" "jget v ''password'' = JUndefined"
    using only_members_missing [OF m] by simp_all
  moreover have "jget v ''name'' = JUndefined \<or> (\<exists>x. jget v ''name'' = JStr x)"
    and "jget v ''role'' = JUndefined \<or> (\<exists>x\<in>set role_values. jget v ''role'' = JStr x)"
    using p by (auto simp: schema_defs shape_iffs simp del: field_holds.simps)
  ultimately show ?thesis using m role_values_parse
    by (auto simp: patch_of_def text_opt_def simp del: parse_role.simps)
qed

lemma class_input_fits:
  shows "conforms email CreateWalletDto v \<Longrightarrow> input_fits env CreateWallet v"
    and "conforms email DepositDto v \<Longrightarrow> input_fits env Deposit v"
    and "conforms email InitiateTransferDto v \<Longrightarrow> input_fits env InitiateTransfer v"
  by (auto simp: schema_defs conforms_def is_currency_def currency_values_def valid_deposit_def valid_transfer_def
      deposit_of_def transfer_of_def str_at_def num_at_def satisfies_iff simp del: satisfies.simps(1,3-5))

lemma decorators_fit_other: "e \<notin> {Register, Login, ChangePassword} \<Longrightarrow> decorators_fit env e v \<and> nothing_else e u"
  by (cases e) simp_all

text \<open>C20: Handlers get only inputs of the declared shape. With class-validator and Zod as documented, a
  body that is an object and passes the pipes of its route fits it: a deposit or transfer has a
  whole amount of at least 1, a known currency and non-empty texts; a registration is a name, a
  valid e-mail address and a password of 5 to 15 characters, a login such an address and password,
  and nothing else, neither in what the handler gets nor in what was sent to the schema; an update
  of a user names at most a new name and a known role, whatever else was sent. Unless the
  attributes hold a second envelope, passwords are also alphanumeric.\<close>
theorem accepted_inputs_fit:
  assumes "documented env" "object_body rq" "body_of env e rq = Inr v"
  shows "input_fits env e v
    \<and> (\<exists>w. validate_body env e (unwrap PBody (rq_body rq)) = Inr w \<and> nothing_else e (unwrap PBody w)
        \<and> (has_envelope w \<or> decorators_fit env e v))"
proof (cases "body_dto e")
  case None
  then show ?thesis by (cases e) (simp_all add: validate_body_def)
next
  case (Some dto)
  obtain w where w: "class_validator env dto (unwrap PBody (rq_body rq)) = Inr w"
    "conforms (class_email env) dto w" "zod_pipe env e = None \<Longrightarrow> v = w"
    "\<And>schemas. zod_pipe env e = Some schemas \<Longrightarrow> ZodValidationPipe_transform schemas PBody w = Inr v"
    using accepted_body [OF assms Some] by blast
  have "input_fits env e v \<and> nothing_else e (unwrap PBody w) \<and> (has_envelope w \<or> decorators_fit env e v)"
  proof (cases "zod_pipe env e")
    case None
    then have "v = w" by (rule w(3))
    then show ?thesis using w(2) Some None class_input_fits [of "class_email env" w env]
      by (cases e) (simp_all del: input_fits.simps)
  next
    case (Some schemas)
    note z = zod_accepted [OF assms(1) w(4) [OF Some]]
    have env: "has_envelope w \<or> unwrap PBody w = w" by (simp add: has_envelope_def)
    show ?thesis
    proof (cases e)
      case Register
      with Some \<open>body_dto e = Some dto\<close> have "schemas PBody = Some (zod_parse env registerSchema)" "dto = RegisterDto" by auto
      then show ?thesis unfolding Register
        using z [of registerSchema] schema_input_fits(1) schema_keeps_decorators(1) w(2) env by metis
    next
      case Login
      with Some \<open>body_dto e = Some dto\<close> have "schemas PBody = Some (zod_parse env loginSchema)" "dto = LoginDto" by auto
      then show ?thesis unfolding Login
        using z [of loginSchema] schema_input_fits(2) schema_keeps_decorators(2) w(2) env by metis
    next
      case ChangePassword
      with Some \<open>body_dto e = Some dto\<close>
      have "schemas PBody = Some (zod_parse env changePasswordSchema)" "dto = ChangePasswordDto" by auto
      then show ?thesis unfolding ChangePassword
        using z [of changePasswordSchema] schema_input_fits(3) schema_keeps_decorators(3) w(2) env by metis
    next
      case UpdateUser
      with Some have "schemas PBody = Some (zod_parse env updateUserSchema)" by auto
      then show ?thesis unfolding UpdateUser using update_input_fits [OF z] by simp
    qed (use Some \<open>body_dto e = Some dto\<close> in simp_all)
  qed
  then show ?thesis using w(1) Some by (auto simp: validate_body_def simp del: input_fits.simps)
qed

definition demo_update_body :: json where
  "demo_update_body = JObj [(''data'', JObj [(''attributes'',
     JObj [(''name'', JStr ''Alicia''), (''password'', JStr ''changed''), (''email'', JStr ''x@y.z'')])])]"

theorem accepted_inputs_fit_witness:
  "\<exists>v. body_of demo_env UpdateUser ((demo_http None)\<lparr>rq_body := demo_update_body\<rparr>) = Inr v
     \<and> input_fits demo_env UpdateUser v \<and> patch_name (patch_of v) = Some ''Alicia''"
proof -
  let ?rq = "(demo_http None)\<lparr>rq_body := demo_update_body\<rparr>" and ?v = "JObj [(''name'', JStr ''Alicia'')]"
  have o: "object_body ?rq"
    by (simp add: object_body_def demo_update_body_def unwrap_def jget_def is_object_def plain_object_def Let_def)
  have b: "body_of demo_env UpdateUser ?rq = Inr ?v"
    by (simp add: body_of_def through_pipes_def validate_body_def JsonApiValidationPipe_transform_def
        demo_update_body_def unwrap_def jget_def is_object_def demo_env_def ZodValidationPipe_transform_def
        demo_parse_def schema_defs conforms_def plain_object_def known_keys_def)
  from accepted_inputs_fit [OF demo_env_documented o b] b show ?thesis
    by (intro exI [of _ ?v]) (simp add: patch_of_def text_opt_def jget_def)
qed

text \<open>
  The envelope is taken off twice, by the global pipe and by the pipe of the route. A body that
  nests a second envelope in its attributes shows its outer attributes to class-validator and its
  inner ones to Zod, and the handler gets the inner ones: a password that is not alphanumeric.
\<close>

definition nested_body :: json where
  "nested_body = JObj [(''data'', JObj [(''attributes'', JObj
     [(''name'', JStr ''Eve''), (''email'', JStr ''e@x.io''), (''password'', JStr ''abcde''),
      (''data'', JObj [(''attributes'', JObj
         [(''name'', JStr ''Eve''), (''email'', JStr ''e@x.io''), (''password'', JStr ''<$#!>'')])])])])]"

lemma nested_envelope_skips_decorators:
  "\<exists>v. body_of demo_env Register ((demo_http None)\<lparr>rq_body := nested_body\<rparr>) = Inr v
     \<and> reg_in_password (register_of v) = ''<$#!>'' \<and> \<not> conforms (class_email demo_env) RegisterDto v"
proof -
  let ?v = "JObj [(''name'', JStr ''Eve''), (''email'', JStr ''e@x.io''), (''password'', JStr ''<$#!>'')]"
  have "body_of demo_env Register ((demo_http None)\<lparr>rq_body := nested_body\<rparr>) = Inr ?v"
    by (simp add: body_of_def through_pipes_def validate_body_def JsonApiValidationPipe_transform_def
        nested_body_def unwrap_def jget_def is_object_def demo_env_def ZodValidationPipe_transform_def
        demo_parse_def schema_defs conforms_def plain_object_def known_keys_def alphanumeric_def demo_email_def)
  then show ?thesis
    by (intro exI [of _ ?v]) (simp add: register_of_def str_at_def jget_def conforms_def schema_defs alphanumeric_def demo_env_def demo_email_def)
qed

end
