(* ===== verification/ServerBooks.thy ===== *)
theory ServerBooks
  imports ServerProperties InputProperties
begin

text \<open>
  The whole server keeps the books: every request that is served, every listener call and every
  tick takes the database along the atomic writes of \<open>Interleaving\<close>, so the invariants of the
  money hold of every state the server reaches.
\<close>

section \<open>Requests as sequences of writes\<close>

abbreviation steps_to :: "app \<Rightarrow> app \<Rightarrow> bool" where
  "steps_to s t \<equiv> db_step\<^sup>*\<^sup>* (app_db s) (app_db t)"

lemma snd_bindS_answer: "snd (bindS m (\<lambda>x s. (Inr (f x), s))) = snd m"
  by (simp add: bindS_def split: sum.split prod.split)

lemma with_arg_steps:
  assumes "\<And>x. a = Inr x \<Longrightarrow> steps_to s (snd (f x))"
  shows "steps_to s (snd (with_arg a s f))"
  using assms by (simp add: with_arg_def split: sum.split)

lemma with_user_steps:
  assumes "\<And>x. u = Some x \<Longrightarrow> steps_to s (snd (f x))"
  shows "steps_to s (snd (with_user u s f))"
  using assms by (simp add: with_user_def split: option.split)

lemma register_steps: "steps_to s (snd (register hash sign g s inp))"
proof -
  have "steps_to s (snd (bindS (svc_createUser g s (reg_in_name inp) (reg_in_email inp) h (Some User)) (\<lambda>x t.
      (Inr (f x t), emit (k x t) t))))" for h f k
    using svc_createUser_steps [of s g "reg_in_name inp" "reg_in_email inp" h "Some User"]
    by (auto simp: bindS_def emit_def split: sum.split prod.split)
  then show ?thesis by (auto simp: register_def Let_def split: sum.split)
qed

lemma changePassword_steps:
  "db_ok (app_db s) \<Longrightarrow> steps_to s (snd (changePassword hash verify g s uid inp))"
  using svc_updateUserPassword_steps [of s g uid]
  by (auto simp: changePassword_def snd_bindS_answer split: sum.split)

lemma guards_user:
  assumes "guards ct (handler_meta e) class_meta s req = Inr (Some u)"
  shows "u \<in> set (db_users (app_db s))"
proof -
  have "\<exists>m. findUserByEmail (app_db s) m = Some u"
    using assms by (auto simp: guards_def JwtAuthGuard_def jwt_validate_def svc_findUserByEmail_def bindR_Inr_iff
      split: if_splits option.splits)
  then show ?thesis by (auto simp: findUserByEmail_def find_Some_iff)
qed

lemma money_body:
  assumes "documented env" "object_body rq"
  shows "body_of env Deposit rq = Inr v \<Longrightarrow> valid_deposit (deposit_of v)"
    and "body_of env InitiateTransfer rq = Inr v \<Longrightarrow> valid_transfer (transfer_of v)"
  using accepted_body [OF assms, of Deposit v DepositDto] class_input_fits(2) [of _ v]
    accepted_body [OF assms, of InitiateTransfer v InitiateTransferDto] class_input_fits(3) [of _ v] by auto

text \<open>A body is an object, or the route has none.\<close>

definition well_formed :: "endpoint \<Rightarrow> request \<Rightarrow> bool" where
  "well_formed e rq \<longleftrightarrow> body_dto e = None \<or> object_body rq"

lemma dispatch_steps:
  assumes "documented env" "well_formed e rq" "money_ok (app_db s)" "fresh_wallet (app_db s) (uuid g 0)"
    and user: "\<And>u. user = Some u \<Longrightarrow> u \<in> set (db_users (app_db s))"
  shows "steps_to s (snd (dispatch env g s e rq user))"
proof (cases e)
  case CreateWallet
  have "steps_to s (snd (WalletController_createWallet g s u c))" if "user = Some u" for u c
    using createWallet_steps [OF _ assms(4), of "entity_id u" "user_name u" c] stored_user_literal [OF _ user [OF that]]
      assms(3) by (simp add: WalletController_createWallet_def snd_bindS_answer money_ok_def)
  then show ?thesis using CreateWallet by (simp add: with_arg_steps with_user_steps)
next
  case Deposit
  have "steps_to s (snd (WalletController_deposit g reg s u (deposit_of v)))" if "valid_deposit (deposit_of v)" for reg u v
    using deposit_steps [of "deposit_of v" s g reg "entity_id u"] that
    by (simp add: WalletController_deposit_def snd_bindS_answer valid_deposit_def Let_def)
  then show ?thesis using Deposit money_body(1) [OF assms(1)] assms(2) by (simp add: well_formed_def with_arg_steps with_user_steps)
next
  case InitiateTransfer
  have "steps_to s (snd (TransfersController_initiateTransfer g s u (transfer_of v)))"
    if "valid_transfer (transfer_of v)" "user = Some u" for u v
    using initiateTransfer_steps [OF user [OF that(2)] that(1)] assms(3)
    by (simp add: TransfersController_initiateTransfer_def snd_bindS_answer money_ok_def)
  then show ?thesis using InitiateTransfer money_body(2) [OF assms(1)] assms(2)
    by (simp add: well_formed_def with_arg_steps with_user_steps)
next
  case Register
  then show ?thesis by (simp add: with_arg_steps AuthController_register_def snd_bindS_answer register_steps)
next
  case ChangePassword
  then show ?thesis using assms(3)
    by (simp add: with_arg_steps with_user_steps AuthController_changePassword_def snd_bindS_answer changePassword_steps
        money_ok_def)
next
  case UpdateUser
  then show ?thesis using assms(3)
    by (simp add: with_arg_steps with_user_steps UsersController_updateUserDetails_def snd_bindS_answer
        svc_updateUserDetails_steps money_ok_def)
next
  case DeleteUser
  then show ?thesis
    by (simp add: with_arg_steps with_user_steps UsersController_deleteUser_def snd_bindS_answer svc_deleteUser_steps)
next
  case GetBalance
  then show ?thesis by (simp add: with_user_steps WalletController_getBalance_def snd_bindS_answer)
next
  case StripeWebhook
  then show ?thesis by (simp add: snd_bindS_answer handleWebhook_steps)
qed (simp_all add: with_arg_steps with_user_steps)

lemma serve_steps:
  assumes "documented env" "well_formed e rq" "money_ok (app_db s)" "fresh_wallet (app_db s) (uuid g 0)"
  shows "steps_to s (snd (serve env g s e rq))"
proof -
  have "steps_to s (snd (dispatch env g s e rq user))"
    if "guards (check_token env) (handler_meta e) class_meta s (rq_authorization rq) = Inr user" for user
    by (rule dispatch_steps [OF assms], rule guards_user, use that in simp)
  then show ?thesis by (auto simp: serve_def split: sum.split prod.split dest: arg_cong [of _ _ snd])
qed

section \<open>The running server\<close>

text \<open>The requests, the listener that takes the oldest emitted event, and the ticks.\<close>

inductive server_step :: "environment \<Rightarrow> app \<Rightarrow> app \<Rightarrow> bool" for env where
  request: "well_formed e rq \<Longrightarrow> fresh_wallet (app_db s) (uuid g 0) \<Longrightarrow> server_step env s (snd (serve env g s e rq))"
| listener: "app_emitted s = p # ps \<Longrightarrow> literal_user (app_db s) (reg_userId p) \<Longrightarrow>
    fresh_wallet (app_db s) (uuid g 0) \<Longrightarrow>
    server_step env s (snd (handleUserRegistered g (s\<lparr>app_emitted := ps\<rparr>) p))"
| tick: "server_step env s (snd (publishPendingEvents f g s))"

lemma server_step_steps:
  assumes "server_step env s s'" "documented env" "money_ok (app_db s)"
  shows "steps_to s s'"
  using assms(1)
proof cases
  case (request g e rq)
  then show ?thesis using serve_steps [OF assms(2) _ assms(3)] by simp
next
  case (listener p ps g)
  then show ?thesis using handleUserRegistered_steps [of "s\<lparr>app_emitted := ps\<rparr>" p g] by simp
next
  case (tick f g)
  then show ?thesis using publishPendingEvents_steps by simp
qed

interpretation server: invariant_system
    "\<lambda>(env, s). documented env \<and> fresh_db (app_db s)"
    "\<lambda>(env, s) (env', s'). env' = env \<and> server_step env s s'"
    "\<lambda>(env, s). documented env \<and> money_ok (app_db s)"
proof unfold_locales
  show "case p of (env, s) \<Rightarrow> documented env \<and> money_ok (app_db s)"
    if "case p of (env, s) \<Rightarrow> documented env \<and> fresh_db (app_db s)" for p
    using that money.inv_init by (auto split: prod.splits)
  show "case q of (env, s) \<Rightarrow> documented env \<and> money_ok (app_db s)"
    if "case p of (env, s) \<Rightarrow> documented env \<and> money_ok (app_db s)"
      "(case p of (env, s) \<Rightarrow> \<lambda>(env', s'). env' = env \<and> server_step env s s') q" for p q
    using that money.along [OF server_step_steps] by (auto split: prod.splits)
qed

text \<open>C4: The server refines the system of atomic writes. From any database that satisfies the money
  invariant, one request, listener call or tick moves the database along a sequence of the model's
  atomic writes, and every state the server reaches keeps the invariant: unique indexes, owned
  wallets, no negative balance, completed deposits in the ledger. This holds for every token check,
  every gateway and every signature check, with class-validator and Zod as documented.\<close>
theorem server_refines_writes:
  assumes "documented env" "money_ok (app_db s)" "(server_step env)\<^sup>*\<^sup>* s s'"
  shows "db_step\<^sup>*\<^sup>* (app_db s) (app_db s') \<and> money_ok (app_db s')"
  using assms(3)
proof (induction rule: rtranclp_induct)
  case base
  then show ?case using assms(2) by simp
next
  case (step t u)
  have "steps_to t u" using server_step_steps [OF step(2) assms(1)] step(3) by simp
  then show ?case using step(3) money.along by (meson rtranclp_trans)
qed

theorem server_refines_writes_witness:
  "db_step\<^sup>*\<^sup>* demo_db (app_db (snd (serve demo_env (demo_ambient ''s'' 9) demo_app StripeWebhook (demo_http None))))"
proof -
  have ok: "money_ok (app_db demo_app)" by (simp add: money_ok_def demo_db_ok demo_money)
  have "fresh_wallet (app_db demo_app) (uuid (demo_ambient ''s'' 9) 0)"
    by (simp add: fresh_wallet_def demo_ambient_def paid_entry_def)
  then have "server_step demo_env demo_app (snd (serve demo_env (demo_ambient ''s'' 9) demo_app StripeWebhook (demo_http None)))"
    by (intro server_step.request) (simp add: well_formed_def)
  from server_refines_writes [OF demo_env_documented ok r_into_rtranclp [where r = "server_step demo_env", OF this]] show ?thesis by simp
qed

end
