(* ===== verification/Bootstrap.thy ===== *)
theory Bootstrap
  imports Http WalletRepository
begin

text \<open>
  What the program reads of its environment when it starts (\<open>main.ts\<close>, \<open>infrastructure/database\<close>,
  the JWT and Redis options of the modules) and the seed script \<open>scripts/seed-admin.ts\<close>. An
  environment is a function from names to texts; \<open>number\<close> is the conversion \<open>Number(text)\<close>, \<open>None\<close>
  when the result is not finite.
\<close>

section \<open>Connections\<close>

type_synonym config = "string \<Rightarrow> string option"

record connection =
  conn_host :: string
  conn_port :: int
  conn_username :: string
  conn_password :: string
  conn_database :: string

definition or_else :: "string option \<Rightarrow> string \<Rightarrow> string" where
  "or_else v d = (case v of Some x \<Rightarrow> x | None \<Rightarrow> d)"

definition createConnectionOptions :: "(string \<Rightarrow> int option) \<Rightarrow> config \<Rightarrow> error + connection" where
  "createConnectionOptions number config =
     bindR (getRequiredString config ''MYSQL_USER'') (\<lambda>username.
     bindR (getRequiredString config ''MYSQL_DB'') (\<lambda>database.
     Inr \<lparr>conn_host = or_else (config ''MYSQL_HOST'') ''localhost'',
          conn_port = getNumber number config ''MYSQL_PORT'' 3306,
          conn_username = username, conn_password = or_else (config ''MYSQL_PASS'') '''',
          conn_database = database\<rparr>))"

definition redis_socket :: "(string \<Rightarrow> int option) \<Rightarrow> config \<Rightarrow> error + (string \<times> int)" where
  "redis_socket number config =
     bindR (getRequiredString config ''REDIS_HOST'') (\<lambda>host. Inr (host, getNumber number config ''REDIS_PORT'' 6379))"

text \<open>The secret tokens are signed with, and the one the strategy checks them with.\<close>

definition jwt_options :: "config \<Rightarrow> string \<times> string" where
  "jwt_options config = (or_else (config ''JWT_SECRET'') ''dev-secret'', or_else (config ''JWT_EXPIRES_IN'') ''24h'')"

definition jwt_strategy_secret :: "config \<Rightarrow> string option" where
  "jwt_strategy_secret config = config ''JWT_SECRET''"

section \<open>The server's address\<close>

definition api_prefix :: "string \<Rightarrow> string" where
  "api_prefix version = ''api/v'' @ (case parseInt version of Some n \<Rightarrow> int_text n | None \<Rightarrow> ''NaN'')"

definition listen_port :: "config \<Rightarrow> string" where
  "listen_port config = (case config ''PORT'' of Some p \<Rightarrow> if p = [] then ''3500'' else p | None \<Rightarrow> ''3500'')"

text \<open>The path whose body is kept raw for the signature check, and where the webhook is served.\<close>

definition raw_body_path :: string where
  "raw_body_path = ''/api/v1/stripe/webhook''"

definition webhook_path :: "string \<Rightarrow> string" where
  "webhook_path version = ''/'' @ api_prefix version @ ''/stripe/webhook''"

section \<open>The seed script\<close>

record seed_settings =
  seed_email :: string
  seed_password :: string
  seed_name :: string

text \<open>The script reads \<open>process.env\<close> itself.\<close>

definition getRequiredEnv :: "config \<Rightarrow> string \<Rightarrow> error + string" where
  "getRequiredEnv env name =
     (case env name of
        None \<Rightarrow> Inl (PlainError (''Missing required env var: '' @ name))
      | Some value \<Rightarrow> if value = [] then Inl (PlainError (''Missing required env var: '' @ name)) else Inr value)"

definition getNumberEnv :: "(string \<Rightarrow> int option) \<Rightarrow> config \<Rightarrow> string \<Rightarrow> int \<Rightarrow> int" where
  "getNumberEnv number env name fallback =
     (case env name of
        None \<Rightarrow> fallback
      | Some raw \<Rightarrow> (case number raw of Some value \<Rightarrow> value | None \<Rightarrow> fallback))"

definition seed_connection :: "(string \<Rightarrow> int option) \<Rightarrow> config \<Rightarrow> error + connection" where
  "seed_connection number env =
     bindR (getRequiredEnv env ''MYSQL_USER'') (\<lambda>username.
     bindR (getRequiredEnv env ''MYSQL_DB'') (\<lambda>database.
     Inr \<lparr>conn_host = or_else (env ''MYSQL_HOST'') ''localhost'',
          conn_port = getNumberEnv number env ''MYSQL_PORT'' 3306,
          conn_username = username, conn_password = or_else (env ''MYSQL_PASS'') '''',
          conn_database = database\<rparr>))"

text \<open>The script and the server reach the same database.\<close>

lemma seed_connection_same: "seed_connection number env = createConnectionOptions number env"
  by (simp add: seed_connection_def createConnectionOptions_def getRequiredEnv_def getRequiredString_def
      getNumberEnv_def getNumber_def bindR_def split: option.split)

definition read_seed_settings :: "config \<Rightarrow> error + seed_settings" where
  "read_seed_settings env =
     bindR (getRequiredEnv env ''MYSQL_USER'') (\<lambda>_.
     bindR (getRequiredEnv env ''MYSQL_DB'') (\<lambda>_.
     bindR (getRequiredEnv env ''ADMIN_EMAIL'') (\<lambda>email.
     bindR (getRequiredEnv env ''ADMIN_PASSWORD'') (\<lambda>password.
     Inr \<lparr>seed_email = email, seed_password = password, seed_name = or_else (env ''ADMIN_NAME'') ''Admin''\<rparr>))))"

definition admin_wallet :: "ambient \<Rightarrow> string \<Rightarrow> string \<Rightarrow> wallet" where
  "admin_wallet g adminId adminName = \<lparr>entity_id = uuid g 1, created_at = clock g, updated_at = clock g,
     wallet_user_id = adminId, wallet_balance = 0, wallet_currency = currency_text DEFAULT_CURRENCY,
     wallet_tag = generateWalletTag (random_bytes g) adminName\<rparr>"

text \<open>\<open>main\<close>: the two saves are two statements, so a refused wallet leaves the user.\<close>

definition seed_admin :: "(string \<Rightarrow> error + string) \<Rightarrow> ambient \<Rightarrow> config \<Rightarrow> db \<Rightarrow> (unit, db) outcome" where
  "seed_admin hash g env d =
     (case read_seed_settings env of
        Inl e \<Rightarrow> (Inl e, d)
      | Inr settings \<Rightarrow>
     (case findUserByEmail d (seed_email settings) of
        Some existing \<Rightarrow>
          if user_role existing = Admin then (Inr (), d)
          else (case save_user g d existing (existing\<lparr>user_role := Admin\<rparr>) of
                  Inl e \<Rightarrow> (Inl e, d)
                | Inr (_, d') \<Rightarrow> (Inr (), d'))
      | None \<Rightarrow>
     (case hash (seed_password settings) of
        Inl e \<Rightarrow> (Inl e, d)
      | Inr hashedPassword \<Rightarrow>
     (case createUser g d (seed_name settings) (seed_email settings) hashedPassword (Some Admin) of
        Inl e \<Rightarrow> (Inl e, d)
      | Inr (admin, d1) \<Rightarrow>
     (case insert_wallet d1 (admin_wallet g (entity_id admin) (seed_name settings)) of
        Inl e \<Rightarrow> (Inl e, d1)
      | Inr d2 \<Rightarrow> (Inr (), d2))))))"

text \<open>
  The process: \<open>initialize\<close> is the connection to MySQL; whatever is thrown is not caught by \<open>main\<close>
  and sets the exit code.
\<close>

definition seed_process :: "(string \<Rightarrow> int option) \<Rightarrow> (connection \<Rightarrow> error + unit) \<Rightarrow> (string \<Rightarrow> error + string)
    \<Rightarrow> ambient \<Rightarrow> config \<Rightarrow> db \<Rightarrow> nat \<times> db" where
  "seed_process number initialize hash g env d =
     (case bindR (read_seed_settings env) (\<lambda>_. bindR (seed_connection number env) initialize) of
        Inl _ \<Rightarrow> (1, d)
      | Inr _ \<Rightarrow> (case seed_admin hash g env d of (Inl _, d') \<Rightarrow> (1, d') | (Inr _, d') \<Rightarrow> (0, d')))"

end
