(* ===== verification/BootstrapProperties.thy ===== *)
theory BootstrapProperties
  imports Bootstrap TextProperties Refinement
begin

text \<open>
  The seed script is idempotent and keeps the books; the webhook is served under the path whose
  body is kept raw only while the version of the package starts with 1.
\<close>

section \<open>Finding the administrator again\<close>

text \<open>A query finds the rewritten row where it found the old one.\<close>

lemma find_map_replaced:
  assumes "find P xs = Some x" "P (f x)" "\<And>y. y \<in> set xs \<Longrightarrow> f y = y \<or> f y = f x"
  shows "find P (map f xs) = Some (f x)"
  using assms
proof (induction xs)
  case (Cons y ys)
  have y: "f y = y \<or> f y = f x" using Cons.prems(3) by simp
  from Cons show ?case
  proof (cases "P y")
    case False
    with Cons have "find P (map f ys) = Some (f x)" by simp
    with y False show ?thesis by auto
  qed simp
qed simp

lemma find_new: "find P xs = None \<Longrightarrow> P x \<Longrightarrow> find P (xs @ [x]) = Some x"
  by (simp add: find_append)

lemma save_user_found:
  assumes "save_user g d old (old\<lparr>user_role := Admin\<rparr>) = Inr (u, d')" "findUserByEmail d email = Some old"
  shows "\<exists>v. findUserByEmail d' email = Some v \<and> user_role v = Admin"
proof -
  have "u = old \<and> old\<lparr>user_role := Admin\<rparr> = old \<or> u = old\<lparr>user_role := Admin, updated_at := clock g\<rparr>"
    using assms(1) by (auto simp: save_user_def Let_def split: if_splits)
  moreover have "user_role (old\<lparr>user_role := Admin\<rparr>) = Admin" by simp
  ultimately have role: "user_role u = Admin" by (elim disjE conjE, simp only:, simp)
  have u: "user_email u = user_email old" "entity_id u = entity_id old"
    "d' = d\<lparr>db_users := update_where (has_id d (entity_id old)) (\<lambda>_. u) (db_users d)\<rparr>"
    using assms(1) by (auto simp: save_user_def Let_def split: if_splits)
  let ?f = "\<lambda>x. if has_id d (entity_id old) x then u else x"
  have old: "same d (user_email old) email" using assms(2) by (auto simp: findUserByEmail_def dest: find_SomeD)
  have f: "?f old = u" by (simp add: has_id_def same_def)
  have "find (\<lambda>x. same d (user_email x) email) (map ?f (db_users d)) = Some (?f old)"
  proof (rule find_map_replaced)
    show "find (\<lambda>x. same d (user_email x) email) (db_users d) = Some old"
      using assms(2) by (simp add: findUserByEmail_def)
    show "same d (user_email (?f old)) email" using old u(1) f by simp
    show "?f y = y \<or> ?f y = ?f old" for y using f by simp
  qed
  then have "findUserByEmail d' email = Some u"
    using f by (simp add: findUserByEmail_def u(3) update_where_def same_def)
  with role show ?thesis by blast
qed

section \<open>The script as a sequence of writes\<close>

lemma createUser_row:
  assumes "createUser g d name email pw (Some r) = Inr (u, d1)"
  shows "d1 = d\<lparr>db_users := db_users d @ [u]\<rparr>" "user_role u = r" "user_email u = email" "entity_id u = uuid g 0"
    "\<forall>x\<in>set (db_users d). \<not> user_conflict (db_coll d) x u"
  using assms insert_user_Inr by (auto simp: createUser_def Let_def bindR_Inr_iff)

lemma admin_wallet_step:
  assumes "createUser g d name email pw (Some Admin) = Inr (u, d1)" "money_ok d"
    and "insert_wallet d1 (admin_wallet g (entity_id u) name) = Inr d2" "fresh_wallet d (uuid g 1)"
  shows "db_step d1 d2"
proof -
  note u = createUser_row [OF assms(1)]
  have none: "\<not> same d1 (wallet_user_id w) (entity_id u)" if "w \<in> set (db_wallets d1)" for w
  proof -
    have "\<exists>x\<in>set (db_users d). same d (entity_id x) (wallet_user_id w)"
      using assms(2) that by (auto simp: money_ok_def db_ok_def u(1))
    with u(5) show ?thesis by (auto simp: user_conflict_def same_def u(1))
  qed
  have "ensureWallet (later g) d1 (entity_id u) (currency_text DEFAULT_CURRENCY) name
      = Inr (admin_wallet g (entity_id u) name, d2)"
  proof -
    have "findByUserIdAndCurrency d1 (entity_id u) (currency_text DEFAULT_CURRENCY) = None"
      using none by (auto simp: findByUserIdAndCurrency_def find_None)
    then show ?thesis using assms(3) by (simp add: ensureWallet_def Let_def admin_wallet_def later_def)
  qed
  moreover have "literal_user d1 (entity_id u)"
    using u(5) by (auto simp: literal_user_def u(1) user_conflict_def has_id_def same_def)
  moreover have "fresh_wallet d1 (uuid (later g) 0)"
    using assms(4) by (simp add: fresh_wallet_def u(1) later_def same_def)
  ultimately show ?thesis by (rule db_step.wallet_ensured)
qed

lemma promotion_step:
  assumes "save_user g d old (old\<lparr>user_role := Admin\<rparr>) = Inr (u, d')" "findUserByEmail d email = Some old" "db_ok d"
  shows "db_step d d'"
  by (rule save_user_step [OF assms(1,3)]) (use assms(2) in \<open>auto simp: findUserByEmail_def dest: find_SomeD\<close>)

lemma createUser_step: "createUser g d name email pw role = Inr (u, d') \<Longrightarrow> db_step d d'"
  by (blast intro: db_step.user_inserted createUser_Inr)

lemma seed_admin_steps:
  assumes "money_ok d" "fresh_wallet d (uuid g 1)"
  shows "db_step\<^sup>*\<^sup>* d (snd (seed_admin hash g env d))"
proof -
  have ok: "db_ok d" using assms(1) by (simp add: money_ok_def)
  have new: "db_step\<^sup>*\<^sup>* d d2"
    if "createUser g d n m h (Some Admin) = Inr (u, d1)"
      "insert_wallet d1 (admin_wallet g (entity_id u) n) = Inr d2" for n m h u d1 d2
    using createUser_step [OF that(1)] admin_wallet_step [OF that(1) assms(1) that(2) assms(2)] by simp
  show ?thesis using promotion_step [OF _ _ ok] createUser_step new
    by (auto simp: seed_admin_def split: sum.split option.split prod.split)
qed

lemma seed_leaves_admin:
  assumes "read_seed_settings env = Inr settings"
    and "fst (seed_admin hash g env d) = Inr () \<or> snd (seed_admin hash g env d) \<noteq> d"
  shows "\<exists>v. findUserByEmail (snd (seed_admin hash g env d)) (seed_email settings) = Some v \<and> user_role v = Admin"
proof -
  have created: "\<exists>v. findUserByEmail d' (seed_email settings) = Some v \<and> user_role v = Admin"
    if "createUser g d n (seed_email settings) h (Some Admin) = Inr (u, d1)"
      "findUserByEmail d (seed_email settings) = None" "db_users d' = db_users d1" "db_coll d' = db_coll d1"
    for n h u d1 d'
  proof -
    note u = createUser_row [OF that(1)]
    have "find (\<lambda>x. same d (user_email x) (seed_email settings)) (db_users d @ [u]) = Some u"
      using that(2) u(3) by (intro find_new) (simp_all add: findUserByEmail_def same_def)
    then show ?thesis using u that(3,4) by (auto simp: findUserByEmail_def same_def)
  qed
  show ?thesis
    using assms created save_user_found insert_wallet_Inr
    by (fastforce simp: seed_admin_def split: option.splits sum.splits prod.splits if_splits)
qed

text \<open>C38: The seed script is idempotent and safe. Once it has succeeded, or has stored the administrator
  and then failed, every later run succeeds and changes nothing, and the configured e-mail belongs to
  an administrator. A run is a sequence of the model's atomic writes, so it keeps the books. A run
  whose wallet is refused (its tag is taken) thus leaves an administrator without a wallet, which no
  later run repairs.\<close>
theorem seed_admin_idempotent:
  assumes "read_seed_settings env = Inr settings"
    and "fst (seed_admin hash g env d) = Inr () \<or> snd (seed_admin hash g env d) \<noteq> d"
  shows "seed_admin hash' g' env (snd (seed_admin hash g env d)) = (Inr (), snd (seed_admin hash g env d))
    \<and> (\<exists>v. findUserByEmail (snd (seed_admin hash g env d)) (seed_email settings) = Some v \<and> user_role v = Admin)
    \<and> (money_ok d \<and> fresh_wallet d (uuid g 1) \<longrightarrow> money_ok (snd (seed_admin hash g env d)))"
proof -
  let ?d = "snd (seed_admin hash g env d)"
  from seed_leaves_admin [OF assms]
  obtain v where v: "findUserByEmail ?d (seed_email settings) = Some v" "user_role v = Admin" by blast
  moreover have "seed_admin hash' g' env ?d = (Inr (), ?d)"
    using v assms(1) by (simp add: seed_admin_def)
  ultimately show ?thesis using money.along seed_admin_steps by blast
qed

text \<open>A run that ends with code 0 has left an administrator under the configured e-mail.\<close>

theorem seed_process_succeeds:
  assumes "seed_process number initialize hash g env d = (0, d')"
  shows "\<exists>settings v. read_seed_settings env = Inr settings
    \<and> findUserByEmail d' (seed_email settings) = Some v \<and> user_role v = Admin"
proof -
  obtain settings where s: "read_seed_settings env = Inr settings" and r: "seed_admin hash g env d = (Inr (), d')"
    using assms by (auto simp: seed_process_def bindR_def split: sum.splits prod.splits)
  have "\<exists>v. findUserByEmail d' (seed_email settings) = Some v \<and> user_role v = Admin"
    using seed_leaves_admin [OF s, of hash g d] r by simp
  with s show ?thesis by blast
qed

text \<open>The script run for Alice, who is a user without rights.\<close>

definition demo_config :: config where
  "demo_config = map_of [(''MYSQL_USER'', ''root''), (''MYSQL_DB'', ''wallet''),
     (''ADMIN_EMAIL'', ''alice@x.io''), (''ADMIN_PASSWORD'', ''change-me'')]"

theorem seed_admin_idempotent_witness:
  "seed_admin Inr (demo_ambient ''r'' 31) demo_config (snd (seed_admin Inr (demo_ambient ''q'' 30) demo_config demo_db))
     = (Inr (), snd (seed_admin Inr (demo_ambient ''q'' 30) demo_config demo_db))
   \<and> user_role alice = User"
proof -
  have settings: "read_seed_settings demo_config
      = Inr \<lparr>seed_email = ''alice@x.io'', seed_password = ''change-me'', seed_name = ''Admin''\<rparr>"
    by (simp add: read_seed_settings_def getRequiredEnv_def demo_config_def or_else_def)
  have "findUserByEmail demo_db ''alice@x.io'' = Some alice"
    by (simp add: findUserByEmail_def demo_rows)
  then have "fst (seed_admin Inr (demo_ambient ''q'' 30) demo_config demo_db) = Inr ()"
    by (simp add: seed_admin_def settings save_user_def Let_def fits_def demo_rows)
  from seed_admin_idempotent [OF settings disjI1 [OF this]] show ?thesis by (simp add: alice_def)
qed

section \<open>The path of the webhook\<close>

lemma int_text_one: "int_text n = ''1'' \<longleftrightarrow> n = 1"
proof
  assume "int_text n = ''1''"
  moreover have "int_text 1 = ''1''" by (simp add: int_text_def nat_text.simps digit_char_def)
  ultimately have "int_text n = int_text 1" by simp
  then show "n = 1" by (rule int_text_inject)
qed (simp add: int_text_def nat_text.simps digit_char_def)

text \<open>
  The raw body parser is bound to version 1 by its path, the routes to the version of the package:
  the two agree exactly for major version 1. With any other version the webhook gets no raw body.
\<close>

lemma raw_body_needs_version_1: "webhook_path version = raw_body_path \<longleftrightarrow> parseInt version = Some 1"
  by (cases "parseInt version") (auto simp: webhook_path_def raw_body_path_def api_prefix_def int_text_one)

end
