(* ===== verification/Startup.thy ===== *)
theory Startup
  imports BootstrapProperties ServerProperties Views
begin

text \<open>
  \<open>main.ts\<close> and the middleware of \<open>app.module.ts\<close>: when the server comes up and when it exits, which
  body parser sees a message, and the way of a message through them to the pipeline of \<open>Server\<close>.
  Express' match of media types and its JSON parser, the connections to MySQL and Redis, the
  strategy of passport-jwt and the text of \<open>package.json\<close> are parameters.
\<close>

section \<open>Body parsers\<close>

text \<open>The part of an HTTP message the parsers look at, and what they leave in \<open>req.body\<close>.\<close>

record message =
  msg_method :: string
  msg_path :: string
  msg_query :: string
  msg_type :: "string option"
  msg_bytes :: string

datatype http_body = NotParsed | RawBytes string | JsonBody json

record express =
  media_type :: "string option \<Rightarrow> string \<Rightarrow> bool"
  parse_json :: "string \<Rightarrow> error + json"

record body_parser =
  applies :: "message \<Rightarrow> bool"
  parses :: "string \<Rightarrow> error + http_body"

text \<open>\<open>app.use(path, ...)\<close> takes the messages to the path and below it.\<close>

definition mounted :: "string \<Rightarrow> string \<Rightarrow> bool" where
  "mounted mount path \<longleftrightarrow> path = mount \<or> starts_with (mount @ ''/'') path"

definition raw_parser :: "express \<Rightarrow> body_parser" where
  "raw_parser x = \<lparr>applies = (\<lambda>m. mounted raw_body_path (msg_path m) \<and> media_type x (msg_type m) ''application/json''),
     parses = (\<lambda>b. Inr (RawBytes b))\<rparr>"

definition json_parser :: "express \<Rightarrow> body_parser" where
  "json_parser x = \<lparr>applies = (\<lambda>m. media_type x (msg_type m) ''application/vnd.api+json''),
     parses = (\<lambda>b. bindR (parse_json x b) (\<lambda>v. Inr (JsonBody v)))\<rparr>"

text \<open>\<open>AppModule.configure\<close>: the same parser again, for all routes but the webhook.\<close>

definition module_parser :: "express \<Rightarrow> string \<Rightarrow> body_parser" where
  "module_parser x version = (json_parser x)\<lparr>applies := (\<lambda>m. applies (json_parser x) m
     \<and> \<not> (msg_method m = ''POST'' \<and> msg_path m = webhook_path version))\<rparr>"

definition body_parsers :: "express \<Rightarrow> string \<Rightarrow> body_parser list" where
  "body_parsers x version = [raw_parser x, json_parser x] @ [module_parser x version]"

text \<open>A parser passes on a message it does not apply to or whose body is already parsed.\<close>

fun run_parsers :: "body_parser list \<Rightarrow> message \<Rightarrow> error + http_body" where
  "run_parsers [] m = Inr NotParsed"
| "run_parsers (p # ps) m = (if applies p m then parses p (msg_bytes m) else run_parsers ps m)"

section \<open>Starting the server\<close>

record server_address =
  start_levels :: "string list option"
  start_port :: string
  start_prefix :: string
  start_middleware :: "body_parser list"

datatype start_result = Listening server_address | Exited nat

text \<open>What the providers of the modules do when Nest creates them.\<close>

record services =
  connect_mysql :: "connection \<Rightarrow> error + unit"
  connect_redis :: "string \<times> int \<Rightarrow> error + unit"
  passport_strategy :: "string option \<Rightarrow> error + unit"

definition create_app :: "services \<Rightarrow> (string \<Rightarrow> int option) \<Rightarrow> config \<Rightarrow> error + unit" where
  "create_app x number config =
     bindR (createConnectionOptions number config) (\<lambda>mysql.
     bindR (connect_mysql x mysql) (\<lambda>_.
     bindR (passport_strategy x (jwt_strategy_secret config)) (\<lambda>_.
     bindR (redis_socket number config) (connect_redis x))))"

text \<open>\<open>const { version } = JSON.parse(...)\<close> throws for \<open>null\<close>; \<open>parseInt\<close> reads the text of what it is given.\<close>

definition package_version :: "error + json \<Rightarrow> error + string" where
  "package_version package_json =
     bindR package_json (\<lambda>p. if p = JNull then Inl TypeError else Inr (js_text (jget p ''version'')))"

text \<open>\<open>bootstrap\<close>: anything thrown ends the process with code 1.\<close>

definition bootstrap :: "services \<Rightarrow> express \<Rightarrow> (string \<Rightarrow> int option) \<Rightarrow> config \<Rightarrow> error + json \<Rightarrow> start_result" where
  "bootstrap x ex number config package_json =
     (let logLevels = resolveLogLevels (config ''LOG_LEVEL'')
      in case bindR (create_app x number config) (\<lambda>_. package_version package_json) of
           Inl _ \<Rightarrow> Exited 1
         | Inr version \<Rightarrow> Listening \<lparr>start_levels = logLevels, start_port = listen_port config,
             start_prefix = api_prefix version, start_middleware = [raw_parser ex, json_parser ex]\<rparr>)"

text \<open>
  The request the handlers see, and the answer to a message. A body that is not parsed is left as
  the empty object, and a buffer has no member any handler asks for.
\<close>

definition with_body :: "http_body \<Rightarrow> request \<Rightarrow> request" where
  "with_body b rq = rq\<lparr>rq_body := (case b of JsonBody v \<Rightarrow> v | _ \<Rightarrow> JObj []),
     rq_raw := (case b of RawBytes t \<Rightarrow> t | _ \<Rightarrow> '''')\<rparr>"

definition answer :: "express \<Rightarrow> string \<Rightarrow> environment \<Rightarrow> ambient \<Rightarrow> app \<Rightarrow> endpoint \<Rightarrow> message \<Rightarrow> request
    \<Rightarrow> http_response \<times> app" where
  "answer x version env g s e m rq =
     (case run_parsers (body_parsers x version) m of
        Inl err \<Rightarrow> (JsonApiExceptionFilter_catch (error_text env) err, s)
      | Inr b \<Rightarrow> serve env g s e (with_body b rq))"

section \<open>What the parsers do\<close>

text \<open>The parser of the module never decides: the one of \<open>main.ts\<close> has taken all it would take.\<close>

lemma module_parser_redundant: "run_parsers (body_parsers x version) m = run_parsers [raw_parser x, json_parser x] m"
  by (simp add: body_parsers_def module_parser_def)

lemma json_body_parsed:
  assumes "media_type x (msg_type m) ''application/vnd.api+json''" "\<not> mounted raw_body_path (msg_path m)"
  shows "run_parsers (body_parsers x version) m = bindR (parse_json x (msg_bytes m)) (\<lambda>v. Inr (JsonBody v))"
  using assms by (simp add: body_parsers_def raw_parser_def json_parser_def)

lemma webhook_bytes_kept:
  assumes "parseInt version = Some 1" "media_type x (msg_type m) ''application/json''" "msg_path m = webhook_path version"
  shows "run_parsers (body_parsers x version) m = Inr (RawBytes (msg_bytes m))"
proof -
  have "mounted raw_body_path (msg_path m)"
    using assms(1,3) raw_body_needs_version_1 [of version] by (simp add: mounted_def)
  then show ?thesis using assms(2) by (simp add: body_parsers_def raw_parser_def)
qed

lemma digits_no_slash: "CHR ''/'' \<notin> set (nat_text n)"
proof (induction n rule: nat_text.induct)
  case (1 n)
  have "\<not> is_digit (CHR ''/'')" by (simp add: is_digit_def)
  then have "digit_char n \<noteq> CHR ''/''" using digit_char_digit(1) [of n] by metis
  then show ?case using 1 by (simp add: nat_text.simps [of n])
qed

lemma prefix_no_slash: "CHR ''/'' \<notin> set (case v of Some n \<Rightarrow> int_text n | None \<Rightarrow> ''NaN'')"
  using digits_no_slash by (simp add: int_text_def split: option.split)

lemma mounted_webhook: "mounted raw_body_path (webhook_path version) \<longleftrightarrow> parseInt version = Some 1"
proof -
  let ?n = "case parseInt version of Some n \<Rightarrow> int_text n | None \<Rightarrow> ''NaN''"
  have path: "webhook_path version = ''/api/v'' @ ?n @ ''/stripe/webhook''"
    by (simp add: webhook_path_def api_prefix_def)
  have "\<not> starts_with (raw_body_path @ ''/'') (webhook_path version)"
  proof
    assume "starts_with (raw_body_path @ ''/'') (webhook_path version)"
    then obtain r where "''/api/v1/stripe/webhook/'' @ r = ''/api/v'' @ ?n @ ''/stripe/webhook''"
      unfolding path starts_with_def raw_body_path_def by (metis append_take_drop_id append_Cons append_Nil)
    then have eq: "''1'' @ ''/stripe/webhook/'' @ r = ?n @ ''/stripe/webhook''" by simp
    have "takeWhile (\<lambda>c. c \<noteq> CHR ''/'') (?n @ ''/stripe/webhook'') = ?n"
      using prefix_no_slash [of "parseInt version"] by (subst takeWhile_append2) auto
    moreover have "takeWhile (\<lambda>c. c \<noteq> CHR ''/'') (''1'' @ ''/stripe/webhook/'' @ r) = ''1''" by simp
    ultimately have "?n = ''1''" using eq by metis
    with eq show False by simp
  qed
  then show ?thesis using raw_body_needs_version_1 [of version] by (auto simp: mounted_def)
qed

lemma webhook_bytes_lost:
  assumes "parseInt version \<noteq> Some 1" "msg_path m = webhook_path version"
  shows "run_parsers (body_parsers x version) m \<noteq> Inr (RawBytes b)"
  using assms mounted_webhook [of version]
  by (auto simp: body_parsers_def raw_parser_def json_parser_def module_parser_def bindR_Inr_iff)

section \<open>The server comes up or exits\<close>

lemma required_setting: "getRequiredString config key = Inr v \<Longrightarrow> config key = Some v \<and> v \<noteq> []"
  by (auto simp: getRequiredString_def split: option.splits if_splits)

text \<open>
  A server that listens had its three required settings, and its services were reached with them;
  in every other case the process has ended with code 1.
\<close>

lemma start_or_exit: "(\<exists>a. bootstrap x ex number config p = Listening a) \<or> bootstrap x ex number config p = Exited 1"
  by (simp add: bootstrap_def split: sum.split)

theorem start_needs_settings:
  assumes "bootstrap x ex number config p = Listening a"
  shows "(\<forall>k\<in>{''MYSQL_USER'', ''MYSQL_DB'', ''REDIS_HOST''}. \<exists>v. config k = Some v \<and> v \<noteq> [])
     \<and> passport_strategy x (config ''JWT_SECRET'') = Inr ()
     \<and> (\<exists>c r. createConnectionOptions number config = Inr c \<and> connect_mysql x c = Inr ()
            \<and> redis_socket number config = Inr r \<and> connect_redis x r = Inr ())"
proof -
  have "create_app x number config = Inr ()"
    using assms by (auto simp: bootstrap_def bindR_def Let_def split: sum.splits)
  then obtain c r where c: "createConnectionOptions number config = Inr c" "connect_mysql x c = Inr ()"
    and j: "passport_strategy x (config ''JWT_SECRET'') = Inr ()"
    and r: "redis_socket number config = Inr r" "connect_redis x r = Inr ()"
    by (auto simp: create_app_def bindR_Inr_iff jwt_strategy_secret_def)
  from c(1) have "\<exists>v. config ''MYSQL_USER'' = Some v \<and> v \<noteq> []" "\<exists>v. config ''MYSQL_DB'' = Some v \<and> v \<noteq> []"
    by (auto simp: createConnectionOptions_def bindR_Inr_iff dest!: required_setting)
  moreover from r(1) have "\<exists>v. config ''REDIS_HOST'' = Some v \<and> v \<noteq> []"
    by (auto simp: redis_socket_def bindR_Inr_iff dest!: required_setting)
  ultimately show ?thesis using c j r by blast
qed

section \<open>The webhook and the version of the package\<close>

text \<open>Stripe documents that a payload which is not the raw body, or none, is refused.\<close>

definition needs_payload :: "environment \<Rightarrow> bool" where
  "needs_payload env \<longleftrightarrow> (\<forall>sig secret. \<exists>e. construct_event env '''' sig secret = Inl e)"

lemma refused_webhook:
  assumes "needs_payload env" "rq_raw rq = ''''"
  shows "res_status (fst (serve env g s StripeWebhook rq)) = 400 \<and> snd (serve env g s StripeWebhook rq) = s"
proof -
  have "\<exists>m. handleWebhook (construct_event env) (webhook_secret env) g s '''' (rq_signature rq) = (Inl (BadRequest m), s)"
  proof (cases "rq_signature rq")
    case (Some sig)
    obtain e where "construct_event env '''' sig (webhook_secret env) = Inl e"
      using assms(1) unfolding needs_payload_def by blast
    then show ?thesis by (simp add: handleWebhook_def Some)
  qed (simp add: handleWebhook_def)
  then obtain m where h: "handleWebhook (construct_event env) (webhook_secret env) g s '''' (rq_signature rq)
      = (Inl (BadRequest m), s)" by blast
  have "guards (check_token env) (handler_meta StripeWebhook) class_meta s (rq_authorization rq) = Inr None"
    by (simp add: guards_def JwtAuthGuard_def RoleGuard_def handler_meta_def class_meta_def Let_def)
  moreover have "JsonApiContentTypeInterceptor_intercept (handler_meta StripeWebhook) class_meta
      (http_method StripeWebhook) (rq_content_type rq) = Inr None"
    by (simp add: JsonApiContentTypeInterceptor_intercept_def handler_meta_def class_meta_def Let_def)
  ultimately have "serve env g s StripeWebhook rq = (JsonApiExceptionFilter_catch (error_text env) (BadRequest m), s)"
    using assms(2) by (simp add: serve_def h bindS_def)
  then show ?thesis using catch_document [of "error_text env" "BadRequest m"] by (auto simp: error_document_def)
qed

text \<open>
  The webhook of a server whose package is not at major version 1: every message to it is answered
  with an error and changes nothing, so no paid deposit is ever credited. At version 1 the exact
  bytes of the message are what the signature check is given.
\<close>

theorem webhook_needs_version_1:
  assumes "msg_path m = webhook_path version" "media_type x (msg_type m) ''application/json''"
  shows "parseInt version = Some 1 \<Longrightarrow>
      answer x version env g s StripeWebhook m rq
        = serve env g s StripeWebhook (rq\<lparr>rq_body := JObj [], rq_raw := msg_bytes m\<rparr>)"
    and "parseInt version \<noteq> Some 1 \<Longrightarrow> needs_payload env \<Longrightarrow>
      snd (answer x version env g s StripeWebhook m rq) = s"
proof -
  show "answer x version env g s StripeWebhook m rq
      = serve env g s StripeWebhook (rq\<lparr>rq_body := JObj [], rq_raw := msg_bytes m\<rparr>)"
    if "parseInt version = Some 1"
    by (simp add: answer_def webhook_bytes_kept [OF that assms(2,1)] with_body_def)
  assume v: "parseInt version \<noteq> Some 1" "needs_payload env"
  show "snd (answer x version env g s StripeWebhook m rq) = s"
  proof (cases "run_parsers (body_parsers x version) m")
    case (Inr b)
    have "rq_raw (with_body b rq) = ''''"
      using webhook_bytes_lost [OF v(1) assms(1)] Inr by (cases b) (auto simp: with_body_def)
    then show ?thesis using refused_webhook [OF v(2)] Inr by (simp add: answer_def)
  qed (simp add: answer_def)
qed

end
