(* ===== verification/Bank.thy ===== *)
theory Bank
  imports Money
begin

text \<open>
  An abstract bank and the refinement: the tables of the program, seen as balances by wallet id
  and the set of idempotency keys that moved money, take exactly the steps of a bank that opens and
  closes accounts, credits one account or moves an amount between two, never overdraws and never
  uses a key twice.
\<close>

section \<open>The abstract bank\<close>

record bank =
  accounts :: "string \<rightharpoonup> int"
  used_keys :: "string set"

inductive bank_step :: "bank \<Rightarrow> bank \<Rightarrow> bool" where
  stutter: "bank_step b b"
| opened: "accounts b i = None \<Longrightarrow> bank_step b (b\<lparr>accounts := (accounts b)(i \<mapsto> 0)\<rparr>)"
| closed: "bank_step b (b\<lparr>accounts := accounts b |` A\<rparr>)"
| credited: "accounts b i = Some x \<Longrightarrow> 0 < a \<Longrightarrow> k \<notin> used_keys b \<Longrightarrow>
    bank_step b \<lparr>accounts = (accounts b)(i \<mapsto> x + a), used_keys = insert k (used_keys b)\<rparr>"
| moved: "i \<noteq> j \<Longrightarrow> accounts b i = Some x \<Longrightarrow> accounts b j = Some y \<Longrightarrow> 0 < a \<Longrightarrow> a \<le> x \<Longrightarrow>
    k \<notin> used_keys b \<Longrightarrow> l \<notin> used_keys b \<Longrightarrow> k \<noteq> l \<Longrightarrow>
    bank_step b \<lparr>accounts = (accounts b)(i \<mapsto> x - a, j \<mapsto> y + a), used_keys = {k, l} \<union> used_keys b\<rparr>"

section \<open>The abstraction\<close>

text \<open>Ids and keys count up to the collation of the columns.\<close>

definition abs_bank :: "db \<Rightarrow> bank" where
  "abs_bank d = \<lparr>
     accounts = (\<lambda>i. map_option wallet_balance (find (\<lambda>w. db_coll d (entity_id w) = i) (db_wallets d))),
     used_keys = (\<lambda>e. db_coll d (ledger_key e)) ` set (db_ledger d)\<rparr>"

lemma abs_bank_cong:
  "db_coll d' = db_coll d \<Longrightarrow> db_wallets d' = db_wallets d \<Longrightarrow> db_ledger d' = db_ledger d
   \<Longrightarrow> abs_bank d' = abs_bank d"
  by (simp add: abs_bank_def)

lemma abs_account:
  assumes "db_ok d" "w \<in> set (db_wallets d)"
  shows "accounts (abs_bank d) (db_coll d (entity_id w)) = Some (wallet_balance w)"
  using wallet_table.find_id [of "db_coll d" "db_wallets d" w] assms by (simp add: abs_bank_def db_ok_def)

lemma abs_post_entry:
  assumes "w \<in> set (db_wallets d)" "has_id d i w"
  shows "abs_bank (post_entry now i b e d)
     = \<lparr>accounts = (accounts (abs_bank d))(db_coll d i \<mapsto> b),
        used_keys = insert (db_coll d (ledger_key e)) (used_keys (abs_bank d))\<rparr>"
proof -
  have "map_option wallet_balance (find (\<lambda>w. db_coll d (entity_id w) = k)
          (update_where (has_id d i) (set_balance now b) (db_wallets d)))
      = ((accounts (abs_bank d))(db_coll d i \<mapsto> b)) k" for k
  proof -
    have "find (\<lambda>w. db_coll d (entity_id w) = k) (db_wallets d) \<noteq> None" if "k = db_coll d i"
      using assms that by (auto simp: find_None has_id_def same_def)
    then show ?thesis
      by (cases "find (\<lambda>w. db_coll d (entity_id w) = k) (db_wallets d)")
        (auto simp: find_update_where abs_bank_def has_id_def same_def dest: find_SomeD)
  qed
  then show ?thesis by (auto simp: abs_bank_def fun_eq_iff)
qed

lemma fresh_key:
  "\<forall>x\<in>set (db_ledger d). \<not> ledger_conflict (db_coll d) x e \<Longrightarrow> db_coll d (ledger_key e) \<notin> used_keys (abs_bank d)"
  by (auto simp: abs_bank_def ledger_conflict_def)

section \<open>One write, one step\<close>

lemma settled_bank_step:
  assumes "settleTransaction g wid t LedgerDeposit (to_double (txn_amount t)) p d = Inr (e, d')"
    and "db_ok d" "solvent d" "0 < txn_amount t" "in_range d'"
  shows "bank_step (abs_bank d) (abs_bank d')"
proof (rule settleTransaction_post [OF assms(1)])
  fix w nb
  assume a: "w \<in> set (db_wallets d)" "has_id d wid w"
    "nb = to_double (to_double (wallet_balance w) + to_double (txn_amount t))"
    "\<forall>x\<in>set (db_ledger d). \<not> ledger_conflict (db_coll d) x e"
    and d': "d' = (post_entry (clock g) wid nb e d)\<lparr>
       db_transactions := update_where (has_id d (entity_id t))
         (\<lambda>t. t\<lparr>txn_status := TxnCompleted, updated_at := clock g\<rparr>) (db_transactions d),
       db_outbox := db_outbox d @ [outbox_row g 1 p]\<rparr>"
  have "set_balance (clock g) nb w \<in> set (db_wallets d')"
    using a d' by (auto simp: set_update_where intro!: image_eqI [of _ _ w])
  with assms(5) have "nb \<le> max_safe" by (auto simp: in_range_def)
  moreover have "0 \<le> wallet_balance w" using assms(3) a by (simp add: solvent_def)
  ultimately have nb: "nb = wallet_balance w + txn_amount t"
    using a assms(4) safe_sum_exact by simp
  have acc: "accounts (abs_bank d) (db_coll d wid) = Some (wallet_balance w)"
    using abs_account [OF assms(2) a(1)] a(2) by (simp add: has_id_def same_def)
  have "abs_bank d' = abs_bank (post_entry (clock g) wid nb e d)"
    by (rule abs_bank_cong) (simp_all add: d')
  then show ?thesis
    using bank_step.credited [OF acc assms(4) fresh_key [OF a(4)]] by (simp only: abs_post_entry [OF a(1,2)] nb)
qed

lemma executed_bank_step:
  assumes "executeTransfer g r a b p d = Inr ((), d')" "literal d a" "literal d b" "\<not> same d a b"
    and "db_ok d" "solvent d" "in_range d" "0 < transfer_amount r" "in_range d'"
  shows "bank_step (abs_bank d) (abs_bank d')"
proof -
  have "a \<noteq> b" using assms(4) by (auto simp: same_def)
  then show ?thesis
  proof (rule executeTransfer_posts [OF assms(1) _ assms(2,3)])
    fix fw tw
    define e1 where "e1 = transfer_entry g 0 r a TransferOut (sender_balance fw r) '':out''"
    define e2 where "e2 = transfer_entry g 1 r b TransferIn (receiver_balance tw r) '':in''"
    define d1 where "d1 = post_entry (clock g) a (sender_balance fw r) e1 d"
    assume f: "fw \<in> set (db_wallets d)" "entity_id fw = a" "tw \<in> set (db_wallets d)"
      "entity_id tw = b" "0 \<le> sender_balance fw r"
      and keys: "\<forall>x\<in>set (db_ledger d). \<not> ledger_conflict (db_coll d) x
         (transfer_entry g 0 r a TransferOut (sender_balance fw r) '':out'')"
        "\<forall>x\<in>set (db_ledger d @ [transfer_entry g 0 r a TransferOut (sender_balance fw r) '':out'']).
         \<not> ledger_conflict (db_coll d) x (transfer_entry g 1 r b TransferIn (receiver_balance tw r) '':in'')"
      and d': "((), d') = ((), (transfer_posts g r fw tw d)\<lparr>
         db_transfers := update_where (has_id d (entity_id r))
           (\<lambda>t. t\<lparr>transfer_status := TransferDone, updated_at := clock g\<rparr>) (db_transfers d),
         db_outbox := db_outbox d @ [outbox_row g 2 p]\<rparr>)"
    have posts: "transfer_posts g r fw tw d = post_entry (clock g) b (receiver_balance tw r) e2 d1"
      by (simp add: transfer_posts_def e1_def e2_def d1_def f)
    have "in_range (transfer_posts g r fw tw d)"
      using assms(9) d' by (simp add: in_range_def)
    then have ex: "sender_balance fw r = wallet_balance fw - transfer_amount r"
        "receiver_balance tw r = wallet_balance tw + transfer_amount r"
      using f assms by (auto intro: transfer_posts_laws(1,2))
    have ne: "db_coll d a \<noteq> db_coll d b" using assms(4) by (simp add: same_def)
    have w1: "fw \<in> set (db_wallets d)" "has_id d a fw" using f by (simp_all add: has_id_def same_def)
    have tw1: "tw \<in> set (db_wallets d1)" "has_id d1 b tw"
      using f ne by (force simp: d1_def set_update_where has_id_def same_def)+
    have bank: "abs_bank d' = \<lparr>accounts = (accounts (abs_bank d))(db_coll d a \<mapsto> wallet_balance fw - transfer_amount r,
          db_coll d b \<mapsto> wallet_balance tw + transfer_amount r),
        used_keys = {db_coll d (ledger_key e2), db_coll d (ledger_key e1)} \<union> used_keys (abs_bank d)\<rparr>"
    proof -
      have "abs_bank d' = abs_bank (transfer_posts g r fw tw d)"
        using d' by (intro abs_bank_cong) simp_all
      also have "\<dots> = \<lparr>accounts = (accounts (abs_bank d1))(db_coll d b \<mapsto> receiver_balance tw r),
          used_keys = insert (db_coll d (ledger_key e2)) (used_keys (abs_bank d1))\<rparr>"
        unfolding posts abs_post_entry [OF tw1] by (simp add: d1_def)
      finally show ?thesis unfolding d1_def abs_post_entry [OF w1] ex by simp
    qed
    have "a \<le> a" by simp
    show ?thesis unfolding bank
    proof (rule bank_step.moved [OF ne])
      show "accounts (abs_bank d) (db_coll d a) = Some (wallet_balance fw)"
        "accounts (abs_bank d) (db_coll d b) = Some (wallet_balance tw)"
        using abs_account [OF assms(5)] f by auto
      show "0 < transfer_amount r" "transfer_amount r \<le> wallet_balance fw"
        using assms(8) f(5) ex(1) by simp_all
      show "db_coll d (ledger_key e2) \<notin> used_keys (abs_bank d)" "db_coll d (ledger_key e1) \<notin> used_keys (abs_bank d)"
        "db_coll d (ledger_key e2) \<noteq> db_coll d (ledger_key e1)"
        using keys fresh_key unfolding e1_def e2_def by (auto simp: ledger_conflict_def)
    qed
  qed
qed

lemma ensured_bank_step:
  assumes "ensureWallet g d uid cur name = Inr (w, d')"
  shows "bank_step (abs_bank d) (abs_bank d')"
proof (cases "d' = d")
  case False
  then have i: "insert_wallet d w = Inr d'" and w: "wallet_balance w = 0"
    using assms by (auto dest: ensureWallet_Inr)
  note d' = insert_wallet_Inr [OF i]
  have none: "accounts (abs_bank d) (db_coll d (entity_id w)) = None"
    using d' by (auto simp: abs_bank_def find_None wallet_conflict_def)
  have "accounts (abs_bank d') k = ((accounts (abs_bank d))(db_coll d (entity_id w) \<mapsto> 0)) k" for k
    using d' w none
    by (cases "find (\<lambda>w. db_coll d (entity_id w) = k) (db_wallets d)") (auto simp: abs_bank_def find_append)
  then have "abs_bank d' = (abs_bank d)\<lparr>accounts := (accounts (abs_bank d))(db_coll d (entity_id w) \<mapsto> 0)\<rparr>"
    using d' by (simp add: abs_bank_def fun_eq_iff)
  with none show ?thesis by (simp add: bank_step.opened)
qed (simp add: bank_step.stutter)

lemma deleted_bank_step:
  assumes "db_ok d"
  shows "bank_step (abs_bank d) (abs_bank (repo_deleteUser d i))"
proof -
  define A where "A = {k. \<exists>w\<in>set (db_wallets d). db_coll d (entity_id w) = k \<and> \<not> same d (wallet_user_id w) i}"
  have "accounts (abs_bank (repo_deleteUser d i)) k = (accounts (abs_bank d) |` A) k" for k
  proof (cases "\<exists>w\<in>set (db_wallets d). db_coll d (entity_id w) = k")
    case True
    then obtain w where w: "w \<in> set (db_wallets d)" "db_coll d (entity_id w) = k" by blast
    have only: "v = w" if "v \<in> set (db_wallets d)" "db_coll d (entity_id v) = k" for v
      using that w assms wallet_table.row_eq_id [of "db_coll d" "db_wallets d" v w] by (simp add: db_ok_def)
    have "accounts (abs_bank (repo_deleteUser d i)) k
        = (if same d (wallet_user_id w) i then None else Some (wallet_balance w))"
    proof (cases "same d (wallet_user_id w) i")
      case True
      then have "find (\<lambda>w. db_coll d (entity_id w) = k)
          (filter (\<lambda>w. \<not> same d (wallet_user_id w) i) (db_wallets d)) = None"
        unfolding find_None
      proof (intro ballI notI)
        fix v assume v: "v \<in> set (filter (\<lambda>w. \<not> same d (wallet_user_id w) i) (db_wallets d))"
          "db_coll d (entity_id v) = k"
        then have "v = w" by (intro only) simp_all
        with True v show False by simp
      qed
      with True show ?thesis by (simp add: abs_bank_def repo_deleteUser_def)
    next
      case False
      then have "find (\<lambda>w. db_coll d (entity_id w) = k)
          (filter (\<lambda>w. \<not> same d (wallet_user_id w) i) (db_wallets d)) = Some w"
        using w by (intro find_unique only) simp_all
      with False show ?thesis by (simp add: abs_bank_def repo_deleteUser_def)
    qed
    moreover have "accounts (abs_bank d) k = Some (wallet_balance w)" using abs_account [OF assms w(1)] w(2) by simp
    moreover have "k \<in> A \<longleftrightarrow> \<not> same d (wallet_user_id w) i"
    proof
      assume "k \<in> A"
      then obtain v where v: "v \<in> set (db_wallets d)" "db_coll d (entity_id v) = k" "\<not> same d (wallet_user_id v) i"
        unfolding A_def by blast
      then show "\<not> same d (wallet_user_id w) i" using only [OF v(1,2)] by simp
    qed (use w in \<open>unfold A_def, blast\<close>)
    ultimately show ?thesis by (simp add: restrict_map_def)
  next
    case False
    then have "accounts (abs_bank d) k = None" "accounts (abs_bank (repo_deleteUser d i)) k = None"
      by (auto simp: abs_bank_def repo_deleteUser_def find_None)
    then show ?thesis by (simp add: restrict_map_def)
  qed
  then have "abs_bank (repo_deleteUser d i) = (abs_bank d)\<lparr>accounts := accounts (abs_bank d) |` A\<rparr>"
    by (auto simp: abs_bank_def fun_eq_iff repo_deleteUser_def)
  then show ?thesis by (simp add: bank_step.closed)
qed

lemma db_step_bank:
  assumes "db_step d d'" "money_ok d" "in_range d" "in_range d'"
  shows "bank_step (abs_bank d) (abs_bank d')"
  using assms
proof (induction rule: db_step.induct)
  case (deposit_settled g wid t p d e d')
  then have "0 < txn_amount t" by (auto simp: money_ok_def dest: deposit_snapshot_positive)
  with deposit_settled show ?case by (auto simp: money_ok_def intro: settled_bank_step)
next
  case (transfer_executed g r a b p d d')
  then have "0 < transfer_amount r" by (auto simp: money_ok_def dest: transfer_snapshot_positive)
  with transfer_executed show ?case by (auto simp: money_ok_def intro: executed_bank_step)
next
  case (wallet_ensured g d userId currency name w d')
  then show ?case by (blast intro: ensured_bank_step)
next
  case (user_deleted d i)
  then show ?case by (auto simp: money_ok_def intro: deleted_bank_step)
next
  case (user_saved g d stored u v d')
  then have "abs_bank d' = abs_bank d" by (intro abs_bank_cong) (simp_all add: save_columns_frame)
  then show ?case by (simp add: bank_step.stutter)
next
  case (user_inserted d u d')
  then have "abs_bank d' = abs_bank d"
    by (auto dest!: insert_Inr intro: abs_bank_cong)
  then show ?case by (simp add: bank_step.stutter)
next
  case (deposit_created g d userId type amount currency pm key t d')
  then have "abs_bank d' = abs_bank d"
    by (auto dest!: createTransaction_Inr insert_Inr intro: abs_bank_cong)
  then show ?case by (simp add: bank_step.stutter)
next
  case (transfer_created g d fromUser toUser amount currency key r d')
  then have "abs_bank d' = abs_bank d"
    by (auto dest!: createTransfer_Inr insert_Inr intro: abs_bank_cong)
  then show ?case by (simp add: bank_step.stutter)
next
  case (deposit_referenced g d i ref d')
  then have "abs_bank d' = abs_bank d"
    by (auto dest!: updateTransactionProviderRef_Inr intro: abs_bank_cong)
  then show ?case by (simp add: bank_step.stutter)
qed (simp_all add: bank_step.stutter abs_bank_def frame)

text \<open>C3: The program refines an abstract bank. Every database that any interleaving of writes reaches
  from the empty one, while the balances are safe integers, is the image of a run of the bank: one
  write is one step of it, so money enters only by a credit under a new key, moves only between two
  open accounts without overdrawing and under two new keys, and leaves only with a closed account.\<close>
theorem writes_refine_bank:
  assumes "reach fresh_db safe_step d"
  shows "bank_step\<^sup>*\<^sup>* \<lparr>accounts = Map.empty, used_keys = {}\<rparr> (abs_bank d)
    \<and> (\<forall>d'. safe_step d d' \<longrightarrow> bank_step (abs_bank d) (abs_bank d'))"
proof -
  have inv: "money_ok d \<and> in_range d" if "reach fresh_db safe_step d" for d
    using books.always [OF that] by simp
  have step: "bank_step (abs_bank d) (abs_bank d')" if "reach fresh_db safe_step d" "safe_step d d'" for d d'
    using inv [OF that(1)] that(2) db_step_bank by (simp add: safe_step_def)
  have "bank_step\<^sup>*\<^sup>* \<lparr>accounts = Map.empty, used_keys = {}\<rparr> (abs_bank d)"
    using assms
  proof (induction rule: reach.induct)
    case (reach_init d)
    then have "abs_bank d = \<lparr>accounts = Map.empty, used_keys = {}\<rparr>"
      by (simp add: abs_bank_def fresh_db_def)
    then show ?case by simp
  next
    case (reach_step d d')
    then show ?case using step by (meson rtranclp.rtrancl_into_rtrancl)
  qed
  with step [OF assms] show ?thesis by blast
qed

theorem writes_refine_bank_witness:
  "bank_step\<^sup>*\<^sup>* \<lparr>accounts = Map.empty, used_keys = {}\<rparr> (abs_bank run4)
   \<and> accounts (abs_bank run4) ''w'' = Some 10000"
proof -
  have "db_ok run4" using money.always [OF run4_reachable(1)] by (simp add: money_ok_def)
  from abs_account [OF this run4_wallet]
  have "accounts (abs_bank run4) (db_coll run4 ''w'') = Some 10000" by (simp add: run_wallet_def)
  moreover have "db_coll run4 = (\<lambda>s. s)" by (simp add: run4_def run_defs)
  ultimately show ?thesis using writes_refine_bank [OF run4_reachable(2)] by simp
qed

end
