(* ===== verification/Accounts.thy ===== *)
theory Accounts
  imports ServerProperties InputProperties
begin

text \<open>
  The accounts under all requests of the server: which request changes which column of whose row
  of the user table.
\<close>

section \<open>Requests that leave the users alone\<close>

definition users_of :: "app \<Rightarrow> users_row list" where
  "users_of s = db_users (app_db s)"

lemma run_db_users:
  assumes "\<And>x d'. m (app_db s) = Inr (x, d') \<Longrightarrow> db_users d' = db_users (app_db s)"
  shows "users_of (snd (run_db m s)) = users_of s"
  using assms by (auto simp: run_db_def users_of_def split: sum.splits)

lemma bindS_users:
  assumes "users_of (snd m) = users_of s" "\<And>x t. users_of t = users_of s \<Longrightarrow> users_of (snd (f x t)) = users_of s"
  shows "users_of (snd (bindS m f)) = users_of s"
  using assms by (auto simp: bindS_def split: sum.split prod.split)

lemma invalidate_users [simp]: "users_of (invalidateBalanceCache s i c) = users_of s"
  by (simp add: users_of_def invalidateBalanceCache_def)

lemma createWallet_users: "users_of (snd (createWallet g s uid name cur)) = users_of s"
  by (auto simp: createWallet_def split: option.split intro!: run_db_users
      dest!: ensureWallet_Inr insert_wallet_Inr)

lemma getBalance_users: "users_of (snd (getBalance g s uid cur)) = users_of s"
  by (simp add: users_of_def)

lemma settle_users: "users_of (snd (settleByProviderRef g s ref)) = users_of s"
proof -
  have "db_users d' = db_users d" if "settleTransaction g wid t ty ch p d = Inr (e, d')" for wid t ty ch p d e d'
    by (rule settleTransaction_Inr [OF that]) simp
  then show ?thesis
    by (auto simp: settleByProviderRef_def Let_def split: option.split intro!: bindS_users run_db_users)
qed

lemma fail_users: "users_of (snd (failByProviderRef g s ref reason)) = users_of s"
  by (simp add: failByProviderRef_def update_db_def users_of_def failTransaction_def split: option.split)

lemma handleWebhook_users: "users_of (snd (handleWebhook ce secret g s body sig)) = users_of s"
  unfolding handleWebhook_def
  by (auto split: option.split sum.split intro!: bindS_users settle_users fail_users)

lemma deposit_users: "users_of (snd (deposit g reg s uid inp)) = users_of s"
proof -
  have create: "users_of (snd (run_db (\<lambda>d. createTransaction g d uid ty a c pm k) s)) = users_of s" for ty a c pm k
    by (intro run_db_users) (auto dest!: createTransaction_Inr insert_transaction_Inr)
  have ref: "users_of (snd (run_db (\<lambda>d. updateTransactionProviderRef g d i r) t)) = users_of t" for i r t
    by (intro run_db_users) (auto dest!: updateTransactionProviderRef_Inr)
  have fail: "users_of (t\<lparr>app_db := failTransaction g x r (app_db t)\<rparr>) = users_of t" for x r t
    by (simp add: users_of_def failTransaction_def)
  show ?thesis
    unfolding deposit_def
    by (auto split: option.split sum.split intro!: bindS_users simp: create ref fail)
qed

lemma executeTransfer_users: "executeTransfer g r a b p d = Inr (x, d') \<Longrightarrow> db_users d' = db_users d"
  by (auto simp: executeTransfer_def Let_def bindR_Inr_iff update_wallet_balance_def complete_transfer_def
      split: option.splits if_splits prod.splits dest!: insert_ledger_Inr insert_outbox_Inr)

lemma initiateTransfer_users: "users_of (snd (initiateTransfer g s uid mail inp)) = users_of s"
proof -
  have create: "users_of (snd (run_db (\<lambda>d. createTransfer g d a b n c k) s)) = users_of s" for a b n c k
    by (intro run_db_users) (auto dest!: createTransfer_Inr insert_transfer_Inr)
  have exe: "users_of (snd (run_db (executeTransfer h r a b p) t)) = users_of t" for h r a b p t
    by (intro run_db_users) (rule executeTransfer_users)
  show ?thesis
    unfolding initiateTransfer_def
    by (auto split: option.split intro!: bindS_users simp: create exe)
qed

section \<open>Requests that change users\<close>

text \<open>The stored user a request runs as.\<close>

definition caller :: "environment \<Rightarrow> app \<Rightarrow> request \<Rightarrow> users_row option" where
  "caller env s rq = Option.bind (check_token env (rq_authorization rq)) (findUserByEmail (app_db s))"

lemma guards_caller:
  assumes "guards (check_token env) (handler_meta e) class_meta s (rq_authorization rq) = Inr (Some u)"
  shows "caller env s rq = Some u" "u \<in> set (users_of s)"
proof -
  show c: "caller env s rq = Some u"
    using assms by (auto simp: caller_def guards_def JwtAuthGuard_def jwt_validate_def svc_findUserByEmail_def
      bindR_Inr_iff Let_def split: if_splits option.splits)
  show "u \<in> set (users_of s)"
    using c by (auto simp: caller_def users_of_def findUserByEmail_def bind_eq_Some_conv dest: find_SomeD)
qed

text \<open>The ways a request may change the user table.\<close>

definition row_change :: "environment \<Rightarrow> endpoint \<Rightarrow> request \<Rightarrow> users_row option \<Rightarrow> users_row \<Rightarrow> users_row \<Rightarrow> bool" where
  "row_change env e rq user old new \<longleftrightarrow> entity_id new = entity_id old \<and> user_email new = user_email old
     \<and> (e = ChangePassword \<and> user = Some old \<and> user_name new = user_name old \<and> user_role new = user_role old
          \<and> (\<exists>v. body_of env e rq = Inr v \<and> argon_verify env (user_password old) (oldPassword (passwords_of v)) = Inr True
               \<and> argon_hash env (newPassword (passwords_of v)) = Inr (user_password new))
        \<or> e = UpdateUser \<and> user_password new = user_password old
          \<and> (\<exists>a. user = Some a \<and> (user_role a = Admin \<or> a = old \<and> user_role new = user_role old)))"

inductive table_change :: "environment \<Rightarrow> app \<Rightarrow> endpoint \<Rightarrow> request \<Rightarrow> users_row option \<Rightarrow> users_row list \<Rightarrow> bool"
  for env s e rq user where
  same_rows: "table_change env s e rq user (users_of s)"
| new_row: "(\<And>x. x \<in> set (users_of s) \<Longrightarrow> \<not> user_conflict (db_coll (app_db s)) x v) \<Longrightarrow>
    table_change env s e rq user (users_of s @ [v])"
| gone_rows: "table_change env s e rq user (filter P (users_of s))"
| changed_row: "old \<in> set (users_of s) \<Longrightarrow> row_change env e rq user old new \<Longrightarrow>
    table_change env s e rq user (update_where (has_id (app_db s) (entity_id old)) (\<lambda>_. new) (users_of s))"

lemma same_users: "users_of t = users_of s \<Longrightarrow> table_change env s e rq user (users_of t)"
  using table_change.same_rows by simp

lemma user_by_id:
  assumes "db_ok (app_db s)" "u \<in> set (users_of s)" "findUserById (app_db s) (entity_id u) = Some v"
  shows "v = u"
proof -
  from assms(3) have "v \<in> set (users_of s)" "db_coll (app_db s) (entity_id v) = db_coll (app_db s) (entity_id u)"
    by (auto simp: findUserById_def users_of_def has_id_def same_def dest: find_SomeD)
  then show ?thesis
    using assms(1,2) user_table.row_eq_id [of "db_coll (app_db s)" "users_of s" v u] by (simp add: db_ok_def users_of_def)
qed

lemma register_users: "table_change env s e rq user (users_of (snd (register hash sign g s inp)))"
proof (cases "users_of (snd (register hash sign g s inp)) = users_of s")
  case False
  have "\<exists>v :: users_row. users_of (snd (register hash sign g s inp)) = users_of s @ [v]
      \<and> (\<forall>x\<in>set (users_of s). \<not> user_conflict (db_coll (app_db s)) x v)"
  proof -
    obtain h r s1 where c: "svc_createUser g s (reg_in_name inp) (reg_in_email inp) h (Some User) = (r, s1)"
      "users_of (snd (register hash sign g s inp)) = users_of s1"
      using False by (auto simp: register_def bindS_def emit_def users_of_def Let_def split: sum.splits prod.splits)
    then show ?thesis using svc_createUser_split [OF c(1)] False by (auto simp: users_of_def)
  qed
  then obtain v :: users_row where v: "users_of (snd (register hash sign g s inp)) = users_of s @ [v]"
    "\<forall>x\<in>set (users_of s). \<not> user_conflict (db_coll (app_db s)) x v" by blast
  have "table_change env s e rq user (users_of s @ [v])"
    by (rule table_change.new_row) (use v(2) in blast)
  then show ?thesis using v(1) by simp
qed (rule same_users)

lemma changePassword_users:
  assumes "db_ok (app_db s)" "u \<in> set (users_of s)" "body_of env ChangePassword rq = Inr v"
  shows "table_change env s ChangePassword rq (Some u)
    (users_of (snd (changePassword (argon_hash env) (argon_verify env) g s (entity_id u) (passwords_of v))))"
proof -
  let ?c = "changePassword (argon_hash env) (argon_verify env) g s (entity_id u) (passwords_of v)"
  from changePassword_outcome [of "argon_hash env" "argon_verify env" g s "entity_id u" "passwords_of v"]
  show ?thesis
  proof (elim disjE exE conjE)
    fix x assume "?c = (Inl x, s)"
    then show ?thesis by (simp add: same_users)
  next
    fix w new h
    assume f: "findUserById (app_db s) (entity_id u) = Some w"
      and p: "argon_verify env (user_password w) (oldPassword (passwords_of v)) = Inr True"
        "argon_hash env (newPassword (passwords_of v)) = Inr h"
      and c: "?c = (Inr ''Password updated successfully'', s\<lparr>app_db :=
            (app_db s)\<lparr>db_users := update_where (has_id (app_db s) (entity_id w)) (\<lambda>_. new) (db_users (app_db s))\<rparr>\<rparr>)"
      and new: "new\<lparr>updated_at := 0\<rparr> = w\<lparr>user_password := h, updated_at := 0\<rparr>"
    have "w = u" using user_by_id [OF assms(1,2) f] .
    moreover have "entity_id new = entity_id w" "user_email new = user_email w" "user_name new = user_name w"
      "user_role new = user_role w" "user_password new = h"
      using arg_cong [OF new, of entity_id] arg_cong [OF new, of user_email] arg_cong [OF new, of user_name]
        arg_cong [OF new, of user_role] arg_cong [OF new, of user_password] by simp_all
    ultimately have "row_change env ChangePassword rq (Some u) u new"
      using p assms(3) by (simp add: row_change_def)
    from table_change.changed_row [OF assms(2) this] show ?thesis
      by (simp add: c users_of_def \<open>w = u\<close>)
  qed
qed

lemma updateUser_users:
  assumes "db_ok (app_db s)" "a \<in> set (users_of s)"
  shows "table_change env s UpdateUser rq (Some a)
    (users_of (snd (svc_updateUserDetails g s (entity_id a) target patch (user_role a))))"
proof (cases "svc_updateUserDetails g s (entity_id a) target patch (user_role a)")
  case (Pair r s')
  show ?thesis
  proof (cases r)
    case (Inl x)
    with Pair have "s' = s"
      by (auto simp: svc_updateUserDetails_def run_db_def bindS_def split: option.splits sum.splits prod.splits)
    with Pair show ?thesis by (simp add: same_users)
  next
    case (Inr res)
    from account_updated [OF Pair [unfolded Inr]] obtain old new :: users_row where
      f: "findUserById (app_db s) target = Some old"
      and db: "app_db s' = (app_db s)\<lparr>db_users := update_where (has_id (app_db s) (entity_id old)) (\<lambda>_. new) (db_users (app_db s))\<rparr>"
      and row: "entity_id new = entity_id old" "user_email new = user_email old" "user_password new = user_password old"
        "user_role new = user_role old \<or> user_role a = Admin"
      and who: "entity_id a = target \<or> user_role a = Admin" by blast
    have old: "old \<in> set (users_of s)" using f by (auto simp: findUserById_def users_of_def dest: find_SomeD)
    have "a = old" if "entity_id a = target" using user_by_id [OF assms] f that by simp
    with row who have "row_change env UpdateUser rq (Some a) old new" by (auto simp: row_change_def)
    from table_change.changed_row [OF old this] show ?thesis using db Pair by (simp add: users_of_def)
  qed
qed

lemma deleteUser_users: "table_change env s e rq user (users_of (snd (svc_deleteUser s req target role)))"
  using table_change.gone_rows [of env s e rq user "\<lambda>u. \<not> has_id (app_db s) target u"] same_users [of s s]
  by (auto simp: svc_deleteUser_def update_db_def users_of_def repo_deleteUser_def split: option.split sum.split)

section \<open>Any request\<close>

lemma snd_answer: "snd (bindS m (\<lambda>x s. (Inr (f x), s))) = snd m"
  by (simp add: bindS_def split: sum.split prod.split)

lemma with_arg_users:
  assumes "\<And>x. a = Inr x \<Longrightarrow> table_change env s e rq user (users_of (snd (f x)))"
  shows "table_change env s e rq user (users_of (snd (with_arg a s f)))"
  using assms by (auto simp: with_arg_def same_users split: sum.split)

lemma with_user_users:
  assumes "\<And>x. user = Some x \<Longrightarrow> table_change env s e rq user (users_of (snd (f x)))"
  shows "table_change env s e rq user (users_of (snd (with_user user s f)))"
  using assms by (auto simp: with_user_def same_users split: option.split)

lemma dispatch_users:
  assumes "db_ok (app_db s)" "\<And>u. user = Some u \<Longrightarrow> u \<in> set (users_of s)"
  shows "table_change env s e rq user (users_of (snd (dispatch env g s e rq user)))"
proof (cases e)
  case Register
  show ?thesis
    by (simp add: Register, rule with_arg_users)
      (simp add: AuthController_register_def snd_answer register_users)
next
  case ChangePassword
  show ?thesis
    by (simp add: ChangePassword, intro with_arg_users with_user_users)
      (simp add: AuthController_changePassword_def snd_answer changePassword_users [OF assms(1)] assms(2))
next
  case UpdateUser
  show ?thesis
    by (simp add: UpdateUser, intro with_arg_users with_user_users)
      (simp add: UsersController_updateUserDetails_def snd_answer updateUser_users [OF assms(1)] assms(2))
next
  case DeleteUser
  show ?thesis
    by (simp add: DeleteUser, intro with_arg_users with_user_users)
      (simp add: UsersController_deleteUser_def snd_answer deleteUser_users)
next
  case CreateWallet
  show ?thesis
    by (simp add: CreateWallet, intro with_arg_users with_user_users same_users)
      (simp add: WalletController_createWallet_def snd_answer createWallet_users)
next
  case GetBalance
  show ?thesis
    by (simp add: GetBalance, intro with_user_users same_users)
      (simp add: WalletController_getBalance_def snd_answer getBalance_users)
next
  case Deposit
  show ?thesis
    by (simp add: Deposit, intro with_arg_users with_user_users same_users)
      (simp add: WalletController_deposit_def snd_answer deposit_users Let_def)
next
  case InitiateTransfer
  show ?thesis
    by (simp add: InitiateTransfer, intro with_arg_users with_user_users same_users)
      (simp add: TransfersController_initiateTransfer_def snd_answer initiateTransfer_users)
next
  case StripeWebhook
  show ?thesis by (simp add: StripeWebhook snd_answer same_users handleWebhook_users)
qed (simp_all add: same_users with_arg_def with_user_def split: sum.split option.split)

lemma serve_users:
  assumes "db_ok (app_db s)"
  obtains user where "user = None \<or> user = caller env s rq"
    "table_change env s e rq user (users_of (snd (serve env g s e rq)))"
proof (cases "guards (check_token env) (handler_meta e) class_meta s (rq_authorization rq)")
  case (Inl err)
  then show thesis by (intro that [of None]) (simp_all add: serve_def same_users)
next
  case (Inr user)
  have u: "user = None \<or> user = caller env s rq" "\<And>u. user = Some u \<Longrightarrow> u \<in> set (users_of s)"
    using guards_caller [of env e s rq] Inr by (cases user; simp)+
  have "table_change env s e rq user (users_of (snd (dispatch env g s e rq user)))"
    by (rule dispatch_users [OF assms u(2)])
  then show thesis using Inr u(1) same_users [of s s]
    by (intro that [of user]) (auto simp: serve_def split: sum.split prod.split dest: arg_cong [of _ _ snd])
qed

lemma changed_row_cases:
  assumes "table_change env s e rq user us" "db_ok (app_db s)" "u \<in> set (users_of s)" "u' \<in> set us"
    "same (app_db s) (entity_id u') (entity_id u)"
  shows "u' = u \<or> row_change env e rq user u u'"
proof -
  have eq: "v = u" if "v \<in> set (users_of s)" "same (app_db s) (entity_id v) (entity_id u)" for v
    using assms(2,3) that user_table.row_eq_id [of "db_coll (app_db s)" "users_of s" v u]
    by (simp add: db_ok_def users_of_def same_def)
  show ?thesis using assms(1)
  proof cases
    case same_rows
    then show ?thesis using assms(4,5) eq by blast
  next
    case (new_row v)
    then have "\<not> same (app_db s) (entity_id v) (entity_id u)"
      using new_row(2) [OF assms(3)] by (simp add: user_conflict_def same_def eq_commute)
    then show ?thesis using new_row(1) assms(4,5) eq by auto
  next
    case (gone_rows P)
    then show ?thesis using assms(4,5) eq by simp
  next
    case (changed_row old new)
    from assms(4) changed_row(1) consider (old) "u' \<in> set (users_of s)"
      | (new) "u' = new" by (auto simp: set_update_where)
    then show ?thesis
    proof cases
      case old
      then show ?thesis using eq assms(5) by blast
    next
      case new
      then have "same (app_db s) (entity_id old) (entity_id u)"
        using assms(5) changed_row(3) by (simp add: row_change_def)
      then have "old = u" using eq changed_row(2) by blast
      then show ?thesis using changed_row(3) new by simp
    qed
  qed
qed

text \<open>C26: Who changes what of an account. Whatever a request sends, a stored user keeps the e-mail
  address; the password hash changes only by a password change that runs as that very user, whose
  body gives a password the old hash accepts, and becomes the hash of the new one; the role changes
  only by an update that an administrator sends, and the name by an update of an administrator or of
  the user.\<close>
theorem account_changes:
  assumes "db_ok (app_db s)" "u \<in> set (db_users (app_db s))" "u' \<in> set (db_users (app_db (snd (serve env g s e rq))))"
    "same (app_db s) (entity_id u') (entity_id u)"
  shows "user_email u' = user_email u
   \<and> (user_password u' = user_password u
      \<or> e = ChangePassword \<and> caller env s rq = Some u
        \<and> (\<exists>v. body_of env e rq = Inr v
             \<and> argon_verify env (user_password u) (oldPassword (passwords_of v)) = Inr True
             \<and> argon_hash env (newPassword (passwords_of v)) = Inr (user_password u')))
   \<and> (user_role u' = user_role u \<or> e = UpdateUser \<and> (\<exists>a. caller env s rq = Some a \<and> user_role a = Admin))
   \<and> (user_name u' = user_name u
      \<or> e = UpdateUser \<and> (\<exists>a. caller env s rq = Some a \<and> (user_role a = Admin \<or> a = u)))"
proof -
  obtain user where user: "user = None \<or> user = caller env s rq"
    and t: "table_change env s e rq user (users_of (snd (serve env g s e rq)))"
    by (rule serve_users [OF assms(1)])
  have "u' = u \<or> row_change env e rq user u u'"
    using changed_row_cases [OF t assms(1) _ _ assms(4)] assms(2,3) by (simp add: users_of_def)
  then show ?thesis using user unfolding row_change_def by auto
qed

definition demo_update_request :: request where
  "demo_update_request = (demo_http (Some ''Bearer alice''))\<lparr>rq_body := demo_update_body\<rparr>"

lemma demo_patch:
  "patch_of (JObj [(''name'', JStr ''Alicia'')])
   = \<lparr>patch_name = Some ''Alicia'', patch_email = None, patch_password = None, patch_role = None\<rparr>"
  by (simp add: patch_of_def text_opt_def jget_def)

lemma demo_served_update:
  "alicia \<in> set (db_users (app_db (snd (serve demo_env (demo_ambient ''g'' 5) demo_app UpdateUser demo_update_request))))"
proof -
  have b: "body_of demo_env UpdateUser demo_update_request = Inr (JObj [(''name'', JStr ''Alicia'')])"
    by (simp add: body_of_def through_pipes_def validate_body_def JsonApiValidationPipe_transform_def
        demo_update_request_def demo_update_body_def unwrap_def jget_def is_object_def demo_env_def
        ZodValidationPipe_transform_def demo_parse_def schema_defs conforms_def plain_object_def known_keys_def)
  have i: "id_of demo_env UpdateUser demo_update_request = Inr ''u1''"
    by (simp add: id_of_def through_pipes_def JsonApiValidationPipe_transform_def demo_update_request_def demo_http_def
        unwrap_def demo_env_def ZodValidationPipe_transform_def demo_parse_def schema_defs js_text_def Let_def)
  have u: "svc_updateUserDetails (demo_ambient ''g'' 5) demo_app ''u1'' ''u1''
      \<lparr>patch_name = Some ''Alicia'', patch_email = None, patch_password = None, patch_role = None\<rparr> User
     = (Inr (mapResult alicia None None), demo_app\<lparr>app_db := demo_db\<lparr>db_users := [alicia, bob]\<rparr>\<rparr>)"
    by (simp add: svc_updateUserDetails_def findUserById_def alicia_def alice_def bob_def ensureCanUpdateUser_def
        sanitizeUpdateData_def repo_updateUserDetails_def save_user_def apply_patch_def run_db_def Let_def fits_def
        update_where_def demo_ambient_def mapResult_def)
  have g: "guards (check_token demo_env) (handler_meta UpdateUser) class_meta demo_app (rq_authorization demo_update_request)
      = Inr (Some alice)"
    by (simp add: guards_def JwtAuthGuard_def RoleGuard_def jwt_validate_def svc_findUserByEmail_def handler_meta_def
        class_meta_def findUserByEmail_def demo_env_def demo_update_request_def demo_http_def alice_def bob_def Let_def)
  have c: "JsonApiContentTypeInterceptor_intercept (handler_meta UpdateUser) class_meta (http_method UpdateUser)
      (rq_content_type demo_update_request) = Inr (Some JSON_API)"
    by (simp add: JsonApiContentTypeInterceptor_intercept_def handler_meta_def class_meta_def demo_update_request_def
        demo_http_def starts_with_def)
  have a: "entity_id alice = ''u1''" "user_role alice = User" by (simp_all add: alice_def)
  show ?thesis
    by (simp add: serve_def g c b i with_arg_def with_user_def UsersController_updateUserDetails_def demo_patch a u)
qed

theorem account_changes_witness:
  "user_email alicia = user_email alice \<and> user_password alicia = user_password alice
   \<and> user_role alicia = user_role alice \<and> user_name alicia \<noteq> user_name alice"
proof -
  have d: "db_ok (app_db demo_app)" "alice \<in> set (db_users (app_db demo_app))" by (simp_all add: demo_db_ok)
  have s: "same (app_db demo_app) (entity_id alicia) (entity_id alice)" by (simp add: alicia_def)
  have "caller demo_env demo_app demo_update_request = Some alice" "user_role alice = User"
    by (simp_all add: caller_def demo_env_def demo_update_request_def demo_http_def findUserByEmail_def alice_def bob_def)
  moreover have "user_name alicia \<noteq> user_name alice" by (simp add: alicia_def alice_def)
  ultimately show ?thesis using account_changes [OF d demo_served_update s] by simp
qed

end
