(* ===== verification/Threads.thy ===== *)
theory Threads
  imports Refinement
begin

text \<open>
  Node runs one request until its next \<open>await\<close> and may then run any other. A handler is here a
  thread: a tree of atomic steps on the state, each one a query, a statement, a database
  transaction or a call of the cache. This theory has the threads, the rely-guarantee condition
  that is proved of each handler, and the generic facts on both.
\<close>

section \<open>Threads\<close>

datatype ('s, 'a) thread = Return 'a | Await "'s \<Rightarrow> ('s, 'a) thread \<times> 's"

text \<open>A thread that runs alone.\<close>

primrec run_thread :: "('s, 'a) thread \<Rightarrow> 's \<Rightarrow> 'a \<times> 's" where
  "run_thread (Return a) = (\<lambda>s. (a, s))"
| "run_thread (Await f) = (\<lambda>s. case map_prod run_thread id (f s) of (k, s') \<Rightarrow> k s')"

text \<open>One query, one statement that may fail, one change that cannot fail.\<close>

definition query :: "('s \<Rightarrow> 'a) \<Rightarrow> ('a \<Rightarrow> ('s, 'b) thread) \<Rightarrow> ('s, 'b) thread" where
  "query q k = Await (\<lambda>s. (k (q s), s))"

definition attempt :: "('s \<Rightarrow> ('e + 'a) \<times> 's) \<Rightarrow> ('a \<Rightarrow> ('s, 'e + 'b) thread) \<Rightarrow> ('s, 'e + 'b) thread" where
  "attempt m k = Await (\<lambda>s. case m s of (Inl e, s') \<Rightarrow> (Return (Inl e), s') | (Inr x, s') \<Rightarrow> (k x, s'))"

text \<open>A call of Argon, of a payment gateway or of the signing of tokens: awaited, and it touches no state.\<close>

abbreviation call :: "'a \<Rightarrow> ('a \<Rightarrow> ('s, 'b) thread) \<Rightarrow> ('s, 'b) thread" where
  "call x \<equiv> query (\<lambda>_. x)"

definition change :: "('s \<Rightarrow> 's) \<Rightarrow> ('s, 'a) thread \<Rightarrow> ('s, 'a) thread" where
  "change f t = Await (\<lambda>s. (t, f s))"

lemma run_query [simp]: "run_thread (query q k) s = run_thread (k (q s)) s"
  by (simp add: query_def)

lemma run_attempt [simp]:
  "run_thread (attempt m k) s = (case m s of (Inl e, s') \<Rightarrow> (Inl e, s') | (Inr x, s') \<Rightarrow> run_thread (k x) s')"
  by (simp add: attempt_def split: sum.split prod.split)

lemma run_change [simp]: "run_thread (change f t) s = run_thread t (f s)"
  by (simp add: change_def)

text \<open>The thread of a handler whose answer does not matter.\<close>

abbreviation background :: "('s, 'a) thread \<Rightarrow> ('s, unit) thread" where
  "background t \<equiv> map_thread (\<lambda>_. ()) t"

lemma run_background: "run_thread (map_thread h t) s = (h (fst (run_thread t s)), snd (run_thread t s))"
proof (induction t arbitrary: s)
  case (Await f)
  obtain t1 s1 where f: "f s = (t1, s1)" by (cases "f s")
  have "run_thread (map_thread h t1) s1 = (h (fst (run_thread t1 s1)), snd (run_thread t1 s1))"
    by (rule Await.IH [OF rangeI [of f s]]) (simp add: f)
  then show ?case by (simp add: f)
qed simp

lemma map_query [simp]: "map_thread h (query q k) = query q (\<lambda>x. map_thread h (k x))"
  by (simp add: query_def map_prod_def comp_def)

section \<open>The handlers as threads\<close>

text \<open>
  One step per awaited call, in the order of the source. What is read early is kept in the thread
  and may be out of date when it is used.
\<close>

definition transfer_payload_of :: "ambient \<Rightarrow> transfer \<Rightarrow> string \<Rightarrow> string \<Rightarrow> wallet \<Rightarrow> transfer_input
    \<Rightarrow> string option \<Rightarrow> users_row option \<Rightarrow> outbox_payload" where
  "transfer_payload_of g transfer fromUserId fromUserEmail toWallet input fromUserName toUser = \<lparr>
     op_event_name = TransferCompleted,
     op_aggregate_id = entity_id transfer,
     op_payload_json = JObj
       [(''transferId'', JStr (entity_id transfer)),
        (''fromUserId'', JStr fromUserId),
        (''toUserId'', JStr (wallet_user_id toWallet)),
        (''amount'', JNum (ti_amount input)),
        (''currency'', JStr (ti_currency input)),
        (''fromUserEmail'', JStr fromUserEmail),
        (''fromUserName'', JStr (case fromUserName of Some n \<Rightarrow> n | None \<Rightarrow> ''Unknown'')),
        (''toUserEmail'', jopt (map_option user_email toUser)),
        (''toUserName'', JStr (case toUser of Some u \<Rightarrow> user_name u | None \<Rightarrow> ''Unknown''))],
     op_occurred_at = clock g\<rparr>"

definition transfer_thread :: "ambient \<Rightarrow> string \<Rightarrow> string \<Rightarrow> transfer_input \<Rightarrow> (app, error + unit) thread" where
  "transfer_thread g fromUserId fromUserEmail input =
     query (\<lambda>s. findByWalletTag (app_db s) (ti_toWalletTag input)) (\<lambda>recipient.
     case recipient of
       None \<Rightarrow> Return (Inl (NotFound ''Recipient wallet not found''))
     | Some toWallet \<Rightarrow>
     if wallet_currency toWallet \<noteq> ti_currency input
     then Return (Inl (BadRequest ''Recipient wallet currency does not match transfer currency''))
     else if fromUserId = wallet_user_id toWallet
     then Return (Inl (BadRequest ''Cannot transfer to yourself''))
     else
     query (\<lambda>s. findTransferByIdempotencyKey (app_db s) (ti_idempotencyKey input)) (\<lambda>existing.
     if existing \<noteq> None then Return (Inr ()) else
     query (\<lambda>s. findByUserIdAndCurrency (app_db s) fromUserId (ti_currency input)) (\<lambda>sender.
     case sender of
       None \<Rightarrow> Return (Inl (NotFound ''Sender wallet not found''))
     | Some fromWallet \<Rightarrow>
     query (\<lambda>s. getUserName (app_db s) fromUserId) (\<lambda>fromUserName.
     query (\<lambda>s. findUserById (app_db s) (wallet_user_id toWallet)) (\<lambda>toUser.
     attempt (run_db (\<lambda>d. createTransfer g d fromUserId (wallet_user_id toWallet) (ti_amount input)
                (ti_currency input) (ti_idempotencyKey input))) (\<lambda>transfer.
     attempt (run_db (executeTransfer (later g) transfer (entity_id fromWallet) (entity_id toWallet)
                (transfer_payload_of g transfer fromUserId fromUserEmail toWallet input fromUserName toUser))) (\<lambda>_.
     change (\<lambda>s. invalidateBalanceCache s fromUserId (ti_currency input))
       (change (\<lambda>s. invalidateBalanceCache s (wallet_user_id toWallet) (ti_currency input))
          (Return (Inr ()))))))))))"

definition deposit_thread :: "ambient \<Rightarrow> registry \<Rightarrow> string \<Rightarrow> deposit_input
    \<Rightarrow> (app, error + string option) thread" where
  "deposit_thread g reg userId input =
     query (\<lambda>s. findTransactionByIdempotencyKey (app_db s) (dep_idempotencyKey input)) (\<lambda>existing.
     if existing \<noteq> None then Return (Inr None) else
     query (\<lambda>s. findByUserIdAndCurrency (app_db s) userId (dep_currency input)) (\<lambda>wallet.
     if wallet = None then Return (Inl (NotFound ''Wallet not found'')) else
     attempt (run_db (\<lambda>d. createTransaction g d userId TxnDeposit (dep_amount input)
                (dep_currency input) (dep_paymentMethod input) (dep_idempotencyKey input))) (\<lambda>transaction.
     case resolve reg (dep_paymentMethod input) of
       Inl e \<Rightarrow> Return (Inl e)
     | Inr gateway \<Rightarrow>
     call (processDeposit gateway (dep_amount input) (dep_currency input) (dep_paymentMethod input)
             [(''transactionId'', entity_id transaction), (''userId'', userId)]) (\<lambda>answer.
     case answer of
       Inl e \<Rightarrow> Return (Inl e)
     | Inr result \<Rightarrow>
         (let finish = (if gw_requiresWebhook result = Some True then Inr (gw_checkoutUrl result)
                        else Inl (BadRequest ''No settlement path available for gateway''))
          in if \<not> gw_success result then
               attempt (update_db (failTransaction g transaction
                   (case gw_failureReason result of Some r \<Rightarrow> r | None \<Rightarrow> ''Payment provider declined'')))
                 (\<lambda>_. Return (Inl (BadRequest ''Deposit declined by payment provider'')))
             else (case gw_providerRef result of
                 Some ref \<Rightarrow>
                   if ref \<noteq> [] then
                     attempt (run_db (\<lambda>d. updateTransactionProviderRef g d (entity_id transaction) ref))
                       (\<lambda>_. Return finish)
                   else Return finish
               | None \<Rightarrow> Return finish))))))"

definition settle_thread :: "ambient \<Rightarrow> string \<Rightarrow> (app, error + unit) thread" where
  "settle_thread g providerRef =
     query (\<lambda>s. findTransactionByProviderRef (app_db s) providerRef) (\<lambda>found.
     case found of
       None \<Rightarrow> Return (Inr ())
     | Some transaction \<Rightarrow>
     if txn_status transaction \<noteq> TxnPending then Return (Inr ()) else
     query (\<lambda>s. findByUserIdAndCurrency (app_db s) (txn_user_id transaction) (txn_currency transaction)) (\<lambda>owned.
     case owned of
       None \<Rightarrow> Return (Inr ())
     | Some wallet \<Rightarrow>
     query (\<lambda>s. getUserEmail (app_db s) (txn_user_id transaction)) (\<lambda>userEmail.
     attempt (run_db (settleTransaction g (entity_id wallet) transaction LedgerDeposit
         (to_double (txn_amount transaction))
         (buildOutboxPayload g DepositSucceeded (entity_id wallet) (txn_user_id transaction)
            (to_double (txn_amount transaction)) (txn_currency transaction) userEmail))) (\<lambda>_.
     change (\<lambda>s. invalidateBalanceCache s (txn_user_id transaction) (txn_currency transaction))
       (Return (Inr ()))))))"

definition fail_thread :: "ambient \<Rightarrow> string \<Rightarrow> string \<Rightarrow> (app, error + unit) thread" where
  "fail_thread g providerRef reason =
     query (\<lambda>s. findTransactionByProviderRef (app_db s) providerRef) (\<lambda>found.
     case found of
       None \<Rightarrow> Return (Inr ())
     | Some transaction \<Rightarrow>
     if txn_status transaction \<noteq> TxnPending then Return (Inr ()) else
     attempt (update_db (failTransaction g transaction reason)) (\<lambda>_. Return (Inr ())))"

definition ensureWallet_thread :: "ambient \<Rightarrow> string \<Rightarrow> string \<Rightarrow> string \<Rightarrow> (app, error + wallet) thread" where
  "ensureWallet_thread g userId currency userName =
     query (\<lambda>s. findByUserIdAndCurrency (app_db s) userId currency) (\<lambda>existing.
     case existing of
       Some wallet \<Rightarrow> Return (Inr wallet)
     | None \<Rightarrow>
     (let w = \<lparr>entity_id = uuid g 0, created_at = clock g, updated_at = clock g,
               wallet_user_id = userId, wallet_balance = 0, wallet_currency = currency,
               wallet_tag = generateWalletTag (random_bytes g) userName\<rparr>
      in attempt (run_db (\<lambda>d. bindR (insert_wallet d w) (\<lambda>d'. Inr (w, d')))) (\<lambda>w. Return (Inr w))))"

definition createWallet_thread :: "ambient \<Rightarrow> string \<Rightarrow> string \<Rightarrow> string \<Rightarrow> (app, error + wallet) thread" where
  "createWallet_thread g userId userName currency =
     query (\<lambda>s. findByUserIdAndCurrency (app_db s) userId currency) (\<lambda>existing.
     if existing \<noteq> None then Return (Inl (Conflict (''Wallet already exists for currency '' @ currency)))
     else ensureWallet_thread g userId currency userName)"

text \<open>\<open>getBalance\<close>; the clock of the two calls of the cache is that of the request.\<close>

definition balance_thread :: "ambient \<Rightarrow> string \<Rightarrow> string \<Rightarrow> (app, error + wallet) thread" where
  "balance_thread g userId currency =
     query (\<lambda>s. cache_get (app_cache s) (clock g) (balance_cache_key userId currency)) (\<lambda>cached.
     case cached of
       Some wallet \<Rightarrow> Return (Inr wallet)
     | None \<Rightarrow>
     query (\<lambda>s. findByUserIdAndCurrency (app_db s) userId currency) (\<lambda>found.
     case found of
       None \<Rightarrow> Return (Inl (NotFound ''Wallet not found''))
     | Some wallet \<Rightarrow>
     change (\<lambda>s. s\<lparr>app_cache := cache_set (app_cache s) (clock g) (balance_cache_key userId currency)
                    wallet BALANCE_CACHE_TTL_MS\<rparr>)
       (Return (Inr wallet))))"

section \<open>A thread that is not disturbed is its handler\<close>

lemma payload_values:
  "transfer_payload_of g t a m w inp (getUserName d a) (findUserById d (wallet_user_id w)) = transfer_payload g d t a m w inp"
  by (simp add: transfer_payload_of_def transfer_payload_def getUserName_def split: option.split)

lemma run_transfer_thread: "run_thread (transfer_thread g uid mail inp) s = initiateTransfer g s uid mail inp"
  by (simp add: transfer_thread_def initiateTransfer_def payload_values bindS_def split: option.split sum.split prod.split)

lemma run_deposit_thread: "run_thread (deposit_thread g reg uid inp) s = deposit g reg s uid inp"
  by (simp add: deposit_thread_def deposit_def bindS_def bindR_def Let_def
      split: option.split sum.split prod.split)

lemma run_settle_thread: "run_thread (settle_thread g ref) s = settleByProviderRef g s ref"
  by (simp add: settle_thread_def settleByProviderRef_def bindS_def Let_def
      split: option.split sum.split prod.split)

lemma run_fail_thread: "run_thread (fail_thread g ref reason) s = failByProviderRef g s ref reason"
  by (simp add: fail_thread_def failByProviderRef_def update_db_def split: option.split)

lemma run_createWallet_thread: "run_thread (createWallet_thread g uid name cur) s = createWallet g s uid name cur"
  by (simp add: createWallet_thread_def ensureWallet_thread_def createWallet_def ensureWallet_def run_db_def Let_def
      split: option.split sum.split)

lemma run_balance_thread: "run_thread (balance_thread g uid cur) s = getBalance g s uid cur"
  by (simp add: balance_thread_def getBalance_def Let_def split: option.split)

end
