(* ===== verification/Concurrency.thy ===== *)
theory Concurrency
  imports Threads
begin

text \<open>
  Any number of handlers at once. A pool holds the threads of the requests that are being served;
  at any time one of them takes its next step, a new request arrives, or another write of the
  program happens. Shown here: whatever the interleaving, every step of every handler is one of
  the atomic writes of \<open>Interleaving\<close> although it acts on what was read some steps ago, so the
  books are kept; and every request ends after finitely many of its own steps.
\<close>

section \<open>Worlds\<close>

text \<open>
  The application and a history of the identifiers that were ever stored: wallets with their
  owners, and users. It says what a fresh UUID is and is read by no step of the program.
\<close>

record history =
  seen_wallets :: "(string \<times> string) set"
  seen_users :: "string set"

type_synonym world = "app \<times> history"

definition wallet_ids :: "db \<Rightarrow> (string \<times> string) set" where
  "wallet_ids d = (\<lambda>w. (entity_id w, wallet_user_id w)) ` set (db_wallets d)"

definition user_ids :: "db \<Rightarrow> string set" where
  "user_ids d = entity_id ` set (db_users d)"

definition remember :: "history \<Rightarrow> db \<Rightarrow> history" where
  "remember h d = \<lparr>seen_wallets = seen_wallets h \<union> wallet_ids d, seen_users = seen_users h \<union> user_ids d\<rparr>"

text \<open>
  The UUIDs of new rows were never used before. A user that comes back under an old id is one that
  was deleted and then saved by a request that had loaded it earlier.
\<close>

definition fresh_rows :: "history \<Rightarrow> db \<Rightarrow> db \<Rightarrow> bool" where
  "fresh_rows h d d' \<longleftrightarrow>
     (\<forall>(i, u)\<in>wallet_ids d' - wallet_ids d. fresh_wallet d i \<and> (\<forall>(j, v)\<in>seen_wallets h. \<not> same d j i))
     \<and> (\<forall>i\<in>user_ids d' - user_ids d. i \<in> seen_users h \<or> (\<forall>j\<in>seen_users h. \<not> same d j i))"

definition world_ok :: "world \<Rightarrow> bool" where
  "world_ok = (\<lambda>(s, h). money_ok (app_db s) \<and> wallet_ids (app_db s) \<subseteq> seen_wallets h \<and> user_ids (app_db s) \<subseteq> seen_users h
     \<and> (\<forall>(i, u)\<in>seen_wallets h. \<forall>(j, v)\<in>seen_wallets h. same (app_db s) i j \<longrightarrow> i = j \<and> u = v)
     \<and> (\<forall>i\<in>seen_users h. \<forall>j\<in>seen_users h. same (app_db s) i j \<longrightarrow> i = j))"

definition write_or_none :: "db \<Rightarrow> db \<Rightarrow> bool" where
  "write_or_none d d' \<longleftrightarrow> d' = d \<or> db_step d d'"

definition world_step :: "world \<Rightarrow> world \<Rightarrow> bool" where
  "world_step = (\<lambda>(s, h) (s', h'). write_or_none (app_db s) (app_db s') \<and> fresh_rows h (app_db s) (app_db s')
     \<and> h' = remember h (app_db s'))"

lemma remember_simps [simp]:
  "seen_wallets (remember h d) = seen_wallets h \<union> wallet_ids d" "seen_users (remember h d) = seen_users h \<union> user_ids d"
  by (simp_all add: remember_def)

lemma remember_idle: "wallet_ids d \<subseteq> seen_wallets h \<Longrightarrow> user_ids d \<subseteq> seen_users h \<Longrightarrow> remember h d = h"
  by (cases h) (auto simp: remember_def)

lemma unchanged_fresh: "wallet_ids d' \<subseteq> wallet_ids d \<Longrightarrow> user_ids d' \<subseteq> user_ids d \<Longrightarrow> fresh_rows h d d'"
  by (auto simp: fresh_rows_def)

lemma idle_step: "world_ok (s, h) \<Longrightarrow> app_db s' = app_db s \<Longrightarrow> world_step (s, h) (s', h)"
  by (simp add: world_step_def write_or_none_def world_ok_def unchanged_fresh remember_idle)

lemma write_same: "write_or_none d d' \<Longrightarrow> same d' = same d"
  by (auto simp: write_or_none_def same_def fun_eq_iff dest: db_step_coll)

lemma new_wallet_ids:
  assumes "db_ok d" "(i, u) \<in> wallet_ids d" "(j, v) \<in> wallet_ids d" "same d i j"
  shows "i = j \<and> u = v"
proof -
  from assms(2,3) obtain x y where "x \<in> set (db_wallets d)" "y \<in> set (db_wallets d)"
    "(i, u) = (entity_id x, wallet_user_id x)" "(j, v) = (entity_id y, wallet_user_id y)"
    by (auto simp: wallet_ids_def)
  moreover from this have "x = y"
    using wallet_id_unique [OF db_ok_wallets [OF assms(1)], of x y i] assms(4) by (simp add: has_id_def same_def)
  ultimately show ?thesis by simp
qed

lemma new_user_ids:
  assumes "db_ok d" "i \<in> user_ids d" "j \<in> user_ids d" "same d i j"
  shows "i = j"
proof -
  from assms(2,3) obtain x y :: users_row where "x \<in> set (db_users d)" "y \<in> set (db_users d)" "i = entity_id x" "j = entity_id y"
    by (auto simp: user_ids_def)
  then show ?thesis
    using assms(1,4) user_table.row_eq_id [of "db_coll d" "db_users d" x y] by (simp add: db_ok_def same_def)
qed

lemma world_ok_step:
  assumes "world_ok (s, h)" "world_step (s, h) (s', h')"
  shows "world_ok (s', h')"
proof -
  let ?d = "app_db s" and ?d' = "app_db s'"
  have st: "write_or_none ?d ?d'" "h' = remember h ?d'"
    and fw: "\<And>i u j v. (i, u) \<in> wallet_ids ?d' - wallet_ids ?d \<Longrightarrow> (j, v) \<in> seen_wallets h \<Longrightarrow> \<not> same ?d j i"
    and fu: "\<And>i j. i \<in> user_ids ?d' - user_ids ?d \<Longrightarrow> j \<in> seen_users h \<Longrightarrow> i \<in> seen_users h \<or> \<not> same ?d j i"
    using assms(2) unfolding world_step_def fresh_rows_def by blast+
  have ow: "\<And>i u j v. (i, u) \<in> seen_wallets h \<Longrightarrow> (j, v) \<in> seen_wallets h \<Longrightarrow> same ?d i j \<Longrightarrow> i = j \<and> u = v"
    and ou: "\<And>i j. i \<in> seen_users h \<Longrightarrow> j \<in> seen_users h \<Longrightarrow> same ?d i j \<Longrightarrow> i = j"
    and m: "money_ok ?d" "wallet_ids ?d \<subseteq> seen_wallets h" "user_ids ?d \<subseteq> seen_users h"
    using assms(1) unfolding world_ok_def by blast+
  have ok: "money_ok ?d'" using m(1) st(1) money.inv_step by (auto simp: write_or_none_def)
  then have db: "db_ok ?d'" by (simp add: money_ok_def)
  have sm: "same ?d' = same ?d" by (rule write_same [OF st(1)])
  have sym: "same ?d i j = same ?d j i" for i j by (simp add: same_def eq_commute)
  have "i = j \<and> u = v" if "(i, u) \<in> seen_wallets h \<union> wallet_ids ?d'" "(j, v) \<in> seen_wallets h \<union> wallet_ids ?d'"
    "same ?d i j" for i j u v
    using that ow [of i u j v] fw [of i u j v] fw [of j v i u] sym [of i j] new_wallet_ids [OF db, of i u j v] sm m(2) by auto
  moreover have "i = j" if "i \<in> seen_users h \<union> user_ids ?d'" "j \<in> seen_users h \<union> user_ids ?d'" "same ?d i j" for i j
    using that ou [of i j] fu [of i j] fu [of j i] sym [of i j] new_user_ids [OF db, of i j] sm m(3) by auto
  ultimately show ?thesis using ok unfolding world_ok_def st(2) by (simp add: sm) blast
qed

lemma world_ok_steps: "world_step\<^sup>*\<^sup>* w w' \<Longrightarrow> world_ok w \<Longrightarrow> world_ok w'"
  by (induction rule: rtranclp_induct) (auto intro: world_ok_step)

section \<open>What stays known\<close>

lemma seen_steps:
  "world_step\<^sup>*\<^sup>* w w' \<Longrightarrow> seen_wallets (snd w) \<subseteq> seen_wallets (snd w') \<and> seen_users (snd w) \<subseteq> seen_users (snd w')"
  by (induction rule: rtranclp_induct) (auto simp: world_step_def)

text \<open>The columns of a deposit and of a transfer that no statement changes.\<close>

definition deposit_cols :: "transaction \<Rightarrow> string \<times> string \<times> int \<times> string \<times> string" where
  "deposit_cols t = (entity_id t, txn_key t, txn_amount t, txn_user_id t, txn_currency t)"

definition transfer_cols :: "transfer \<Rightarrow> string \<times> string \<times> int" where
  "transfer_cols t = (entity_id t, transfer_key t, transfer_amount t)"

lemma snapshot_cols:
  "deposit_snapshot d t \<longleftrightarrow> deposit_cols t \<in> deposit_cols ` set (db_transactions d)"
  "transfer_snapshot d r \<longleftrightarrow> transfer_cols r \<in> transfer_cols ` set (db_transfers d)"
  unfolding deposit_snapshot_def transfer_snapshot_def deposit_cols_def transfer_cols_def image_iff prod.inject
  by metis+

lemma cols_update: "(\<And>r. f (g r) = f r) \<Longrightarrow> f ` set (update_where P g rows) = f ` set rows"
  using map_update_where [of f g P rows] by (metis set_map)

lemma db_step_cols:
  "db_step d d' \<Longrightarrow> deposit_cols ` set (db_transactions d) \<subseteq> deposit_cols ` set (db_transactions d')
     \<and> transfer_cols ` set (db_transfers d) \<subseteq> transfer_cols ` set (db_transfers d')"
proof (induction rule: db_step.induct)
  case (transfer_executed g r a b p d d')
  then have "a \<noteq> b" by (auto simp: same_def)
  have "db_transactions d' = db_transactions d \<and> db_transfers d' = update_where (has_id d (entity_id r))
      (\<lambda>t. t\<lparr>transfer_status := TransferDone, updated_at := clock g\<rparr>) (db_transfers d)"
    by (rule executeTransfer_posts [OF transfer_executed(1) \<open>a \<noteq> b\<close> transfer_executed(3,4)]) simp
  then show ?case by (simp add: cols_update transfer_cols_def)
next
  case (deposit_settled g wid t p d e d')
  have "db_transfers d' = db_transfers d \<and> db_transactions d' = update_where (has_id d (entity_id t))
      (\<lambda>t. t\<lparr>txn_status := TxnCompleted, updated_at := clock g\<rparr>) (db_transactions d)"
    by (rule settleTransaction_post [OF deposit_settled(1)]) simp
  then show ?case by (simp add: cols_update deposit_cols_def)
next
  case (user_saved g d stored u v d')
  then show ?case by (simp add: save_columns_frame)
next
  case (deposit_failed d g t reason)
  then show ?case by (simp add: frame failTransaction_def cols_update deposit_cols_def)
next
  case (transfer_failed d g r reason)
  then show ?case by (simp add: frame failTransfer_def cols_update transfer_cols_def)
next
  case (deposit_referenced g d i ref d')
  then show ?case by (auto dest!: updateTransactionProviderRef_Inr simp: cols_update deposit_cols_def)
qed (auto simp: frame repo_deleteUser_def
      dest!: createTransaction_Inr createTransfer_Inr ensureWallet_Inr insert_Inr)

lemma snapshot_steps:
  "world_step\<^sup>*\<^sup>* w w' \<Longrightarrow>
     (deposit_snapshot (app_db (fst w)) t \<longrightarrow> deposit_snapshot (app_db (fst w')) t)
     \<and> (transfer_snapshot (app_db (fst w)) r \<longrightarrow> transfer_snapshot (app_db (fst w')) r)"
proof (induction rule: rtranclp_induct)
  case (step v w')
  then have "write_or_none (app_db (fst v)) (app_db (fst w'))" by (auto simp: world_step_def)
  then show ?case using step.IH db_step_cols [of "app_db (fst v)" "app_db (fst w')"]
    by (auto simp: write_or_none_def snapshot_cols)
qed simp

section \<open>Steady threads\<close>

text \<open>
  A thread is steady from a world on when each of its steps, taken at any later time the UUIDs
  permit, writes nothing or makes one of the atomic writes, and the rest of it is steady again.
\<close>

inductive steady :: "world \<Rightarrow> (app, 'a) thread \<Rightarrow> bool" where
  returned: "steady w (Return a)"
| awaits: "(\<And>s h. world_step\<^sup>*\<^sup>* w (s, h) \<Longrightarrow> world_ok (s, h) \<Longrightarrow>
      fresh_rows h (app_db s) (app_db (snd (f s))) \<Longrightarrow> write_or_none (app_db s) (app_db (snd (f s)))) \<Longrightarrow>
    (\<And>s h. world_step\<^sup>*\<^sup>* w (s, h) \<Longrightarrow> world_ok (s, h) \<Longrightarrow>
      fresh_rows h (app_db s) (app_db (snd (f s))) \<Longrightarrow>
      steady (snd (f s), remember h (app_db (snd (f s)))) (fst (f s))) \<Longrightarrow>
    steady w (Await f)"

inductive_cases steady_Await: "steady w (Await f)"

lemma steady_later:
  assumes "steady w t" "world_step\<^sup>*\<^sup>* w w'"
  shows "steady w' t"
  using assms(1)
proof cases
  case returned
  then show ?thesis by (simp add: steady.returned)
next
  case (awaits f)
  show ?thesis unfolding awaits(1)
    by (intro steady.awaits awaits(2,3)) (use assms(2) in \<open>auto intro: rtranclp_trans\<close>)
qed

lemma steady_map: "steady w t \<Longrightarrow> steady w (map_thread h t)"
  by (induction rule: steady.induct) (auto intro!: steady.intros)

lemma steady_query:
  assumes "\<And>s h. world_step\<^sup>*\<^sup>* w (s, h) \<Longrightarrow> world_ok (s, h) \<Longrightarrow> steady (s, h) (k (q s))"
  shows "steady w (query q k)"
  unfolding query_def
proof (rule steady.awaits)
  fix s h assume a: "world_step\<^sup>*\<^sup>* w (s, h)" "world_ok (s, h)"
  then have "remember h (app_db s) = h" by (simp add: world_ok_def remember_idle)
  then show "steady (snd (k (q s), s), remember h (app_db (snd (k (q s), s)))) (fst (k (q s), s))"
    using assms [OF a] by simp
qed (simp add: write_or_none_def)

lemma steady_change:
  assumes "\<And>s. app_db (f s) = app_db s" "steady w t"
  shows "steady w (change f t)"
  unfolding change_def
proof (rule steady.awaits)
  fix s h assume a: "world_step\<^sup>*\<^sup>* w (s, h)" "world_ok (s, h)"
  then have "remember h (app_db s) = h" by (simp add: world_ok_def remember_idle)
  moreover have "world_step\<^sup>*\<^sup>* w (f s, h)"
    by (rule rtranclp.rtrancl_into_rtrancl [OF a(1) idle_step [OF a(2) assms(1)]])
  ultimately show "steady (snd (t, f s), remember h (app_db (snd (t, f s)))) (fst (t, f s))"
    using steady_later [OF assms(2)] by (simp add: assms(1))
qed (simp add: write_or_none_def assms(1))

lemma steady_run_db:
  assumes "\<And>s h x d'. world_step\<^sup>*\<^sup>* w (s, h) \<Longrightarrow> world_ok (s, h) \<Longrightarrow> m (app_db s) = Inr (x, d') \<Longrightarrow>
      fresh_rows h (app_db s) d' \<Longrightarrow> write_or_none (app_db s) d'"
    and "\<And>s h x d'. world_step\<^sup>*\<^sup>* w (s, h) \<Longrightarrow> world_ok (s, h) \<Longrightarrow> m (app_db s) = Inr (x, d') \<Longrightarrow>
      fresh_rows h (app_db s) d' \<Longrightarrow> world_step (s, h) (s\<lparr>app_db := d'\<rparr>, remember h d') \<Longrightarrow>
      steady (s\<lparr>app_db := d'\<rparr>, remember h d') (k x)"
  shows "steady w (attempt (run_db m) k)"
proof -
  have st: "world_step (s, h) (s\<lparr>app_db := d'\<rparr>, remember h d')"
    if "world_step\<^sup>*\<^sup>* w (s, h)" "world_ok (s, h)" "m (app_db s) = Inr (x, d')" "fresh_rows h (app_db s) d'" for s h x d'
    using assms(1) [OF that] that(4) by (simp add: world_step_def)
  show ?thesis
    unfolding attempt_def
  proof (rule steady.awaits, goal_cases)
    case (1 s h)
    then show ?case
      using assms(1) [OF 1(1,2)] by (auto simp: run_db_def write_or_none_def split: sum.splits)
  next
    case (2 s h)
    show ?case
    proof (cases "m (app_db s)")
      case (Inl e)
      then show ?thesis by (simp add: run_db_def steady.returned)
    next
      case (Inr r)
      then obtain x d' where r: "m (app_db s) = Inr (x, d')" by (cases r) simp
      with 2(3) have "fresh_rows h (app_db s) d'" by (simp add: run_db_def)
      from assms(2) [OF 2(1,2) r this st [OF 2(1,2) r this]] r show ?thesis by (simp add: run_db_def)
    qed
  qed
qed

lemma steady_update_db:
  assumes "\<And>d. db_step d (f d)" "\<And>w'. world_step\<^sup>*\<^sup>* w w' \<Longrightarrow> steady w' (k ())"
  shows "steady w (attempt (update_db f) k)"
proof -
  have "world_step (s, h) (s\<lparr>app_db := f (app_db s)\<rparr>, remember h (f (app_db s)))"
    if "fresh_rows h (app_db s) (f (app_db s))" for s h
    using assms(1) that by (simp add: world_step_def write_or_none_def)
  then show ?thesis
    unfolding attempt_def
    by (intro steady.awaits) (auto simp: update_db_def write_or_none_def assms(1)
      intro!: assms(2) intro: rtranclp.rtrancl_into_rtrancl)
qed

section \<open>The handlers are steady\<close>

lemma world_okD:
  assumes "world_ok (s, h)"
  shows "money_ok (app_db s)" "wallet_ids (app_db s) \<subseteq> seen_wallets h" "user_ids (app_db s) \<subseteq> seen_users h"
  using assms by (simp_all add: world_ok_def)

lemma stored_seen: "world_ok (s, h) \<Longrightarrow> x \<in> set (db_wallets (app_db s)) \<Longrightarrow> (entity_id x, wallet_user_id x) \<in> seen_wallets h"
  by (drule world_okD(2)) (auto simp: wallet_ids_def)

lemma seen_wallet_eq:
  "world_ok (s, h) \<Longrightarrow> (a, u) \<in> seen_wallets h \<Longrightarrow> (b, v) \<in> seen_wallets h \<Longrightarrow> same (app_db s) a b \<Longrightarrow> a = b \<and> u = v"
  unfolding world_ok_def by blast

lemma seen_user_eq:
  "world_ok (s, h) \<Longrightarrow> i \<in> seen_users h \<Longrightarrow> j \<in> seen_users h \<Longrightarrow> same (app_db s) i j \<Longrightarrow> i = j"
  unfolding world_ok_def by blast

lemma seen_literal:
  assumes "world_ok (s, h)" "(a, u) \<in> seen_wallets h"
  shows "literal (app_db s) a"
  unfolding literal_def has_id_def
proof (intro ballI impI)
  fix x assume "x \<in> set (db_wallets (app_db s))" "same (app_db s) (entity_id x) a"
  with seen_wallet_eq [OF assms(1) stored_seen [OF assms(1)] assms(2)] show "entity_id x = a" by blast
qed

lemma seen_literal_user:
  assumes "world_ok (s, h)" "i \<in> seen_users h"
  shows "literal_user (app_db s) i"
  unfolding literal_user_def has_id_def
proof (intro ballI impI)
  fix x :: users_row
  assume x: "x \<in> set (db_users (app_db s))" "same (app_db s) (entity_id x) i"
  have "entity_id x \<in> seen_users h" using world_okD(3) [OF assms(1)] x(1) by (auto simp: user_ids_def)
  from seen_user_eq [OF assms(1) this assms(2) x(2)] show "entity_id x = i" .
qed

lemma seen_owner:
  assumes "world_ok (s, h)" "uid \<in> seen_users h" "findByUserIdAndCurrency (app_db s) uid cur = Some x"
  shows "x \<in> set (db_wallets (app_db s))" "wallet_user_id x = uid"
proof -
  have x: "x \<in> set (db_wallets (app_db s))" "same (app_db s) (wallet_user_id x) uid"
    using assms(3) by (auto simp: findByUserIdAndCurrency_def dest: find_SomeD)
  then show "x \<in> set (db_wallets (app_db s))" by simp
  have "wallet_user_id x \<in> user_ids (app_db s)"
    using world_okD(1) [OF assms(1)] x(1) by (force simp: money_ok_def owners_ok_def user_ids_def)
  then have "wallet_user_id x \<in> seen_users h" using world_okD(3) [OF assms(1)] by auto
  then show "wallet_user_id x = uid" using seen_user_eq [OF assms(1) _ assms(2)] x(2) by blast
qed

lemma invalidate_steady: "steady w t \<Longrightarrow> steady w (change (\<lambda>s. invalidateBalanceCache s i c) t)"
  by (rule steady_change) (simp_all add: invalidateBalanceCache_def)

lemma execute_steady:
  assumes "(a, u) \<in> seen_wallets (snd w)" "(b, v) \<in> seen_wallets (snd w)" "u \<noteq> v"
    and "transfer_snapshot (app_db (fst w)) r" "\<And>w'. steady w' (k ())"
  shows "steady w (attempt (run_db (executeTransfer g r a b p)) k)"
proof (rule steady_run_db)
  fix s h x d'
  assume st: "world_step\<^sup>*\<^sup>* w (s, h)" and ok: "world_ok (s, h)"
    and ex: "executeTransfer g r a b p (app_db s) = Inr (x, d')"
  have ids: "(a, u) \<in> seen_wallets h" "(b, v) \<in> seen_wallets h" using seen_steps [OF st] assms(1,2) by auto
  have "transfer_snapshot (app_db s) r" using snapshot_steps [OF st] assms(4) by auto
  moreover have "\<not> same (app_db s) a b" using seen_wallet_eq [OF ok ids] assms(3) by blast
  ultimately show "write_or_none (app_db s) d'"
    using db_step.transfer_executed [of g r a b p "app_db s" d'] ex seen_literal [OF ok] ids
    by (auto simp: write_or_none_def)
qed (use assms(5) in simp)

lemma create_transfer_steady:
  assumes "0 < amount"
    and "\<And>w' r. world_step\<^sup>*\<^sup>* w w' \<Longrightarrow> transfer_snapshot (app_db (fst w')) r \<Longrightarrow> steady w' (k r)"
  shows "steady w (attempt (run_db (\<lambda>d. createTransfer g d a b amount cur key)) k)"
proof (rule steady_run_db)
  fix s h r d'
  assume st: "world_step\<^sup>*\<^sup>* w (s, h)"
    and cr: "createTransfer g (app_db s) a b amount cur key = Inr (r, d')"
  show "write_or_none (app_db s) d'"
    using db_step.transfer_created [OF cr assms(1)] by (simp add: write_or_none_def)
  assume "world_step (s, h) (s\<lparr>app_db := d'\<rparr>, remember h d')"
  with st have "world_step\<^sup>*\<^sup>* w (s\<lparr>app_db := d'\<rparr>, remember h d')" by (rule rtranclp.rtrancl_into_rtrancl)
  moreover have "transfer_snapshot d' r"
    using createTransfer_Inr [OF cr] insert_transfer_Inr [of "app_db s" r d'] by (auto simp: transfer_snapshot_def)
  ultimately show "steady (s\<lparr>app_db := d'\<rparr>, remember h d') (k r)" using assms(2) by simp
qed

lemma steady_option:
  "(x = None \<Longrightarrow> steady w a) \<Longrightarrow> (\<And>y. x = Some y \<Longrightarrow> steady w (b y)) \<Longrightarrow>
   steady w (case x of None \<Rightarrow> a | Some y \<Rightarrow> b y)"
  by (cases x) simp_all

lemma steady_if: "(P \<Longrightarrow> steady w a) \<Longrightarrow> (\<not> P \<Longrightarrow> steady w b) \<Longrightarrow> steady w (if P then a else b)"
  by simp

lemmas steady_intros = steady.returned steady_query steady_option steady_if invalidate_steady

lemma transfer_steady:
  assumes "uid \<in> seen_users (snd w)" "0 < ti_amount inp"
  shows "steady w (transfer_thread g uid mail inp)"
  unfolding transfer_thread_def
proof (intro steady_intros)
  fix s1 h1 tw s2 h2 s3 h3 fw s4 h4 s5 h5 name to_user
  assume r1: "world_step\<^sup>*\<^sup>* w (s1, h1)" "world_ok (s1, h1)"
    and tw: "findByWalletTag (app_db s1) (ti_toWalletTag inp) = Some tw"
    and ne: "uid \<noteq> wallet_user_id tw"
    and r2: "world_step\<^sup>*\<^sup>* (s1, h1) (s2, h2)" 
    and r3: "world_step\<^sup>*\<^sup>* (s2, h2) (s3, h3)" "world_ok (s3, h3)"
    and fw: "findByUserIdAndCurrency (app_db s3) uid (ti_currency inp) = Some fw"
    and r4: "world_step\<^sup>*\<^sup>* (s3, h3) (s4, h4)" and r5: "world_step\<^sup>*\<^sup>* (s4, h4) (s5, h5)"
  have r35: "world_step\<^sup>*\<^sup>* (s3, h3) (s5, h5)" using r4 r5 by (rule rtranclp_trans)
  have r13: "world_step\<^sup>*\<^sup>* (s1, h1) (s3, h3)" using r2 r3(1) by (rule rtranclp_trans)
  have "(entity_id tw, wallet_user_id tw) \<in> seen_wallets h1"
    using tw stored_seen [OF r1(2)] by (auto simp: findByWalletTag_def dest: find_SomeD)
  then have to: "(entity_id tw, wallet_user_id tw) \<in> seen_wallets h5"
    using seen_steps [OF r13] seen_steps [OF r35] by auto
  have "uid \<in> seen_users h3" using seen_steps [OF r1(1)] seen_steps [OF r13] assms(1) by auto
  note fw' = seen_owner [OF r3(2) this fw]
  have own: "(entity_id fw, uid) \<in> seen_wallets h5"
    using stored_seen [OF r3(2) fw'(1)] fw'(2) seen_steps [OF r35] by auto
  show "steady (s5, h5) (attempt (run_db (\<lambda>d. createTransfer g d uid (wallet_user_id tw) (ti_amount inp)
            (ti_currency inp) (ti_idempotencyKey inp)))
          (\<lambda>transfer. attempt (run_db (executeTransfer (later g) transfer (entity_id fw) (entity_id tw)
              (transfer_payload_of g transfer uid mail tw inp (getUserName (app_db s4) uid)
                 (findUserById (app_db s5) (wallet_user_id tw)))))
            (\<lambda>_. change (\<lambda>s. invalidateBalanceCache s uid (ti_currency inp))
               (change (\<lambda>s. invalidateBalanceCache s (wallet_user_id tw) (ti_currency inp)) (Return (Inr ()))))))"
  proof (intro create_transfer_steady execute_steady steady_intros)
    fix w' r assume "world_step\<^sup>*\<^sup>* (s5, h5) w'"
    from seen_steps [OF this] own to
    show "(entity_id fw, uid) \<in> seen_wallets (snd w')" "(entity_id tw, wallet_user_id tw) \<in> seen_wallets (snd w')"
      by auto
  qed (use assms(2) ne in simp_all)
qed

lemma deposit_steady:
  assumes "0 < dep_amount inp"
  shows "steady w (deposit_thread g reg uid inp)"
proof -
  have fail: "steady w (attempt (update_db (failTransaction g t r)) (\<lambda>_. Return x))" for w t r and x :: "error + string option"
    by (rule steady_update_db) (simp_all add: db_step.deposit_failed steady.returned)
  have ref: "steady w (attempt (run_db (\<lambda>d. updateTransactionProviderRef g d i r)) (\<lambda>_. Return x))" for w i r
    and x :: "error + string option"
    by (rule steady_run_db) (auto simp: write_or_none_def steady.returned intro: db_step.deposit_referenced)
  have create: "steady w (attempt (run_db (\<lambda>d. createTransaction g d uid TxnDeposit (dep_amount inp) c pm key)) k)"
    if "\<And>w' t. steady w' (k t)" for w c pm key and k :: "transaction \<Rightarrow> (app, error + string option) thread"
    by (rule steady_run_db) (auto simp: write_or_none_def that intro: db_step.deposit_created assms)
  show ?thesis
    unfolding deposit_thread_def Let_def
    by (intro steady_intros create)
      (auto intro!: steady_intros fail ref split: sum.split)
qed

lemma settle_steady: "steady w (settle_thread g ref)"
  unfolding settle_thread_def
proof (intro steady_intros)
  fix s1 h1 t s2 h2 x s3 h3
  assume t: "findTransactionByProviderRef (app_db s1) ref = Some t"
    and r: "world_step\<^sup>*\<^sup>* (s1, h1) (s2, h2)" "world_step\<^sup>*\<^sup>* (s2, h2) (s3, h3)"
  let ?p = "buildOutboxPayload g DepositSucceeded (entity_id x) (txn_user_id t) (to_double (txn_amount t))
      (txn_currency t) (getUserEmail (app_db s3) (txn_user_id t))"
  have snap: "deposit_snapshot (app_db s3) t"
    using snapshot_steps [OF rtranclp_trans [OF r]] ref_snapshot [OF t] by auto
  show "steady (s3, h3) (attempt (run_db (settleTransaction g (entity_id x) t LedgerDeposit (to_double (txn_amount t)) ?p))
      (\<lambda>_. change (\<lambda>s. invalidateBalanceCache s (txn_user_id t) (txn_currency t)) (Return (Inr ()))))"
  proof (rule steady_run_db, goal_cases)
    case (1 s h e d')
    have "deposit_snapshot (app_db s) t" using snapshot_steps [OF 1(1)] snap by auto
    from db_step.deposit_settled [OF 1(3) this] show ?case by (simp add: write_or_none_def)
  qed (intro steady_intros)
qed

lemma fail_steady: "steady w (fail_thread g ref reason)"
  unfolding fail_thread_def
  by (intro steady_intros steady_update_db db_step.deposit_failed)

lemma ensureWallet_steady:
  assumes "uid \<in> seen_users (snd w)"
  shows "steady w (ensureWallet_thread g uid cur name)"
  unfolding ensureWallet_thread_def Let_def
proof (rule steady_query)
  fix s1 h1 assume r1: "world_step\<^sup>*\<^sup>* w (s1, h1)"
  let ?w = "\<lparr>entity_id = uuid g 0, created_at = clock g, updated_at = clock g,
     wallet_user_id = uid, wallet_balance = 0, wallet_currency = cur,
     wallet_tag = generateWalletTag (random_bytes g) name\<rparr>"
  have "steady (s1, h1) (attempt (run_db (\<lambda>d. bindR (insert_wallet d ?w) (\<lambda>d'. Inr (?w, d')))) (\<lambda>w. Return (Inr w)))"
  proof (rule steady_run_db, goal_cases)
    case (1 s h x d')
    have ins: "insert_wallet (app_db s) ?w = Inr d'" using 1(3) by (auto simp: bindR_Inr_iff)
    note w = insert_wallet_Inr [OF ins]
    have new: "\<not> (same (app_db s) (wallet_user_id y) uid \<and> same (app_db s) (wallet_currency y) cur)"
      "\<not> same (app_db s) (entity_id y) (uuid g 0)" if "y \<in> set (db_wallets (app_db s))" for y
      using w that by (auto simp: wallet_conflict_def same_def)
    then have none: "findByUserIdAndCurrency (app_db s) uid cur = None"
      by (auto simp: findByUserIdAndCurrency_def find_None)
    have "(uuid g 0, uid) \<in> wallet_ids d' - wallet_ids (app_db s)"
      using w by (auto simp: wallet_ids_def dest!: new(2)) (simp add: same_def)
    then have "fresh_wallet (app_db s) (uuid g 0)" using 1(4) by (auto simp: fresh_rows_def)
    moreover have "uid \<in> seen_users h" using seen_steps [OF r1] seen_steps [OF 1(1)] assms by auto
    moreover have "ensureWallet g (app_db s) uid cur name = Inr (?w, d')"
      using none ins by (simp add: ensureWallet_def Let_def)
    ultimately have "db_step (app_db s) d'"
      using db_step.wallet_ensured [OF _ seen_literal_user [OF 1(2)]] by blast
    then show ?case by (simp add: write_or_none_def)
  qed (rule steady.returned)
  then show "steady (s1, h1) (case findByUserIdAndCurrency (app_db s1) uid cur of
      None \<Rightarrow> attempt (run_db (\<lambda>d. bindR (insert_wallet d ?w) (\<lambda>d'. Inr (?w, d')))) (\<lambda>w. Return (Inr w))
    | Some wallet \<Rightarrow> Return (Inr wallet))"
    by (intro steady_option steady.returned)
qed

lemma createWallet_steady:
  assumes "uid \<in> seen_users (snd w)"
  shows "steady w (createWallet_thread g uid name cur)"
  unfolding createWallet_thread_def
  by (intro steady_intros ensureWallet_steady) (use assms in \<open>auto dest!: seen_steps\<close>)

lemma balance_steady: "steady w (balance_thread g uid cur)"
  unfolding balance_thread_def
  by (intro steady_intros steady_change) simp

end
