(* ===== verification/AccountThreads.thy ===== *)
theory AccountThreads
  imports Concurrency Auth
begin

text \<open>
  The handlers of accounts as threads: registration, password change, update and deletion. A save
  of a user is two statements, the second of which writes what differs from the row the first has
  read, or inserts the row again when it is gone.
\<close>

section \<open>The threads\<close>

definition save_thread :: "ambient \<Rightarrow> users_row \<Rightarrow> (users_row \<Rightarrow> (app, error + 'a) thread) \<Rightarrow> (app, error + 'a) thread" where
  "save_thread g u k =
     query (\<lambda>s. findUserById (app_db s) (entity_id u)) (\<lambda>stored.
     case stored of
       None \<Rightarrow> attempt (run_db (\<lambda>d. bindR (insert_user d u) (\<lambda>d'. Inr (u, d')))) k
     | Some row \<Rightarrow> attempt (run_db (\<lambda>d. save_columns g d row u)) k)"

definition repo_update_thread :: "ambient \<Rightarrow> string \<Rightarrow> user_patch \<Rightarrow> (users_row \<Rightarrow> (app, error + 'a) thread)
    \<Rightarrow> (app, error + 'a) thread" where
  "repo_update_thread g userId updateData k =
     query (\<lambda>s. findUserById (app_db s) userId) (\<lambda>found.
     case found of
       None \<Rightarrow> Return (Inl TypeError)
     | Some user \<Rightarrow> save_thread g (apply_patch updateData user) k)"

definition updateUser_thread :: "ambient \<Rightarrow> string \<Rightarrow> string \<Rightarrow> user_patch \<Rightarrow> UserRole
    \<Rightarrow> (app, error + user_result) thread" where
  "updateUser_thread g requestingUserId targetUserId updateData role =
     query (\<lambda>s. findUserById (app_db s) targetUserId) (\<lambda>found.
     case found of
       None \<Rightarrow> Return (Inl (NotFound (''User with ID '' @ targetUserId @ '' not found'')))
     | Some _ \<Rightarrow>
         (case bindR (ensureCanUpdateUser requestingUserId targetUserId role) (\<lambda>_.
                 if patch_role updateData \<noteq> None then ensureCanUpdateRole role else Inr ()) of
            Inl e \<Rightarrow> Return (Inl e)
          | Inr _ \<Rightarrow> repo_update_thread g targetUserId (sanitizeUpdateData updateData role)
              (\<lambda>updatedUser. Return (Inr (mapResult updatedUser None None)))))"

definition deleteUser_thread :: "string \<Rightarrow> string \<Rightarrow> UserRole \<Rightarrow> (app, error + unit) thread" where
  "deleteUser_thread requestingUserId targetUserId role =
     query (\<lambda>s. findUserById (app_db s) targetUserId) (\<lambda>found.
     case found of
       None \<Rightarrow> Return (Inl (NotFound (''User with ID '' @ targetUserId @ '' not found'')))
     | Some _ \<Rightarrow>
         (case ensureCanDeleteUser requestingUserId targetUserId role of
            Inl e \<Rightarrow> Return (Inl e)
          | Inr _ \<Rightarrow> attempt (update_db (\<lambda>d. repo_deleteUser d targetUserId)) (\<lambda>_. Return (Inr ()))))"

definition changePassword_thread :: "(string \<Rightarrow> error + string) \<Rightarrow> (string \<Rightarrow> string \<Rightarrow> error + bool) \<Rightarrow> ambient
    \<Rightarrow> string \<Rightarrow> change_password_input \<Rightarrow> (app, error + string) thread" where
  "changePassword_thread hash verify g userId input =
     query (\<lambda>s. svc_findById s userId) (\<lambda>found.
     case found of
       Inl e \<Rightarrow> Return (Inl e)
     | Inr user \<Rightarrow>
     call (verify (user_password user) (oldPassword input)) (\<lambda>verified.
     case verified of
       Inl e \<Rightarrow> Return (Inl e)
     | Inr isPasswordMatch \<Rightarrow>
     if \<not> isPasswordMatch then Return (Inl (Unauthorized ''Invalid credentials provided'')) else
     call (hash (newPassword input)) (\<lambda>hashed.
     case hashed of
       Inl e \<Rightarrow> Return (Inl e)
     | Inr hashedPassword \<Rightarrow>
         repo_update_thread g userId
           \<lparr>patch_name = None, patch_email = None, patch_password = Some hashedPassword, patch_role = None\<rparr>
           (\<lambda>_. Return (Inr ''Password updated successfully'')))))"

definition register_thread :: "(string \<Rightarrow> error + string) \<Rightarrow> (string \<Rightarrow> string \<Rightarrow> string) \<Rightarrow> ambient
    \<Rightarrow> register_input \<Rightarrow> (app, error + user_result) thread" where
  "register_thread hash sign g input =
     query (\<lambda>s. checkDuplicateEmail s (reg_in_email input)) (\<lambda>checked.
     case checked of
       Inl e \<Rightarrow> Return (Inl e)
     | Inr _ \<Rightarrow>
     call (hash (reg_in_password input)) (\<lambda>hashed.
     case hashed of
       Inl e \<Rightarrow> Return (Inl e)
     | Inr hashedPassword \<Rightarrow>
     attempt (\<lambda>s. svc_createUser g s (reg_in_name input) (reg_in_email input) hashedPassword (Some User)) (\<lambda>savedUser.
     change (emit \<lparr>reg_userId = entity_id savedUser, reg_email = user_email savedUser, reg_name = user_name savedUser\<rparr>)
       (call (createLoginToken sign (entity_id savedUser) (user_email savedUser)) (\<lambda>access_token.
          Return (Inr (mapResult savedUser None (Some access_token))))))))"

section \<open>A thread that is not disturbed is its handler\<close>

lemma run_register_thread: "run_thread (register_thread hash sign g inp) s = register hash sign g s inp"
  by (simp add: register_thread_def register_def bindS_def bindR_def Let_def split: sum.split prod.split)

lemma run_deleteUser_thread: "run_thread (deleteUser_thread req target role) s = svc_deleteUser s req target role"
  by (simp add: deleteUser_thread_def svc_deleteUser_def update_db_def split: option.split sum.split)

text \<open>A stored row fits its columns; the row a save without changes leaves alone is then the one it found.\<close>

definition row_fits :: "users_row \<Rightarrow> bool" where
  "row_fits u \<longleftrightarrow> fits 255 (user_name u) \<and> fits 255 (user_email u) \<and> fits 255 (user_password u)"

lemma save_unchanged:
  assumes "db_ok d" "u \<in> set (db_users d)" "row_fits u"
  shows "save_user g d u u = Inr (u, d)"
proof -
  have "\<not> list_ex (\<lambda>x. \<not> has_id d (entity_id u) x \<and> same d (user_email x) (user_email u)) (db_users d)"
  proof
    assume "list_ex (\<lambda>x. \<not> has_id d (entity_id u) x \<and> same d (user_email x) (user_email u)) (db_users d)"
    then obtain x where x: "x \<in> set (db_users d)" "\<not> has_id d (entity_id u) x" "same d (user_email x) (user_email u)"
      by (auto simp: list_ex_iff)
    have "unique_rows (user_conflict (db_coll d)) (db_users d)" using assms(1) by (simp add: db_ok_def)
    then have "x = u"
      by (rule user_table.row_eq [OF _ x(1) assms(2)]) (use x(3) in \<open>simp add: user_conflict_def same_def\<close>)
    then show False using x(2) by (simp add: has_id_def same_def)
  qed
  then show ?thesis
    using assms(3) stored_once(2) [OF assms(1,2), of "\<lambda>_. u" "\<lambda>x. x"]
    by (simp add: save_user_def Let_def row_fits_def update_where_def)
qed

lemma run_repo_update_thread:
  assumes "db_ok (app_db s)" "\<And>u. findUserById (app_db s) uid = Some u \<Longrightarrow> row_fits u"
  shows "run_thread (repo_update_thread g uid patch k) s
    = (case run_db (\<lambda>d. repo_updateUserDetails g d uid patch) s of
         (Inl e, s') \<Rightarrow> (Inl e, s') | (Inr x, s') \<Rightarrow> run_thread (k x) s')"
proof (cases "findUserById (app_db s) uid")
  case (Some old)
  then have old: "old \<in> set (db_users (app_db s))" by (auto simp: findUserById_def dest: find_SomeD)
  have again: "findUserById (app_db s) (entity_id old) = Some old"
    using user_table.find_id [OF _ old, of "db_coll (app_db s)"] assms(1)
    by (simp add: findUserById_def has_id_def [abs_def] same_def db_ok_def)
  have "save_columns g (app_db s) old (apply_patch patch old) = save_user g (app_db s) old (apply_patch patch old)"
  proof (cases "apply_patch patch old = old")
    case True
    then show ?thesis using save_unchanged [OF assms(1) old assms(2) [OF Some]] by (simp add: save_columns_def)
  next
    case False
    then show ?thesis by (intro save_columns_differs [OF assms(1) old]) (simp_all add: apply_patch_def)
  qed
  then show ?thesis
    by (simp add: repo_update_thread_def save_thread_def repo_updateUserDetails_def Some again run_db_def)
qed (simp add: repo_update_thread_def repo_updateUserDetails_def run_db_def)

lemma run_updateUser_thread:
  assumes "db_ok (app_db s)" "\<And>u. findUserById (app_db s) target = Some u \<Longrightarrow> row_fits u"
  shows "run_thread (updateUser_thread g req target patch role) s = svc_updateUserDetails g s req target patch role"
  by (simp add: updateUser_thread_def svc_updateUserDetails_def run_repo_update_thread [OF assms] bindS_def
      split: option.split sum.split prod.split)

lemma run_changePassword_thread:
  assumes "db_ok (app_db s)" "\<And>u. findUserById (app_db s) uid = Some u \<Longrightarrow> row_fits u"
  shows "run_thread (changePassword_thread hash verify g uid inp) s = changePassword hash verify g s uid inp"
  by (simp add: changePassword_thread_def changePassword_def svc_updateUserPassword_def bindR_def
      run_repo_update_thread [OF assms] bindS_def split: sum.split prod.split)

section \<open>The handlers are steady\<close>

lemma attempt_insert_steady:
  assumes "\<And>w' x. steady w' (k x)"
  shows "steady w (attempt (run_db (\<lambda>d. bindR (insert_user d u) (\<lambda>d'. Inr (u, d')))) k)"
  by (rule steady_run_db)
    (auto simp: bindR_Inr_iff write_or_none_def assms intro: db_step.user_inserted)

lemma save_steady:
  assumes "\<And>w' x. steady w' (k x)"
  shows "steady w (save_thread g u k)"
proof -
  have "steady w' (attempt (run_db (\<lambda>d. save_columns g d row u)) k)" for w' row
    by (rule steady_run_db) (auto simp: write_or_none_def assms intro: db_step.user_saved)
  then show ?thesis
    unfolding save_thread_def by (intro steady_intros attempt_insert_steady assms)
qed

lemma repo_update_steady:
  assumes "\<And>w' x. steady w' (k x)"
  shows "steady w (repo_update_thread g i patch k)"
  unfolding repo_update_thread_def by (intro steady_intros save_steady assms)

lemma steady_sum:
  "(\<And>e. x = Inl e \<Longrightarrow> steady w (a e)) \<Longrightarrow> (\<And>y. x = Inr y \<Longrightarrow> steady w (b y)) \<Longrightarrow>
   steady w (case x of Inl e \<Rightarrow> a e | Inr y \<Rightarrow> b y)"
  by (cases x) simp_all

lemmas account_steady_intros = steady_intros steady_sum repo_update_steady

lemma updateUser_steady: "steady w (updateUser_thread g req target patch role)"
  unfolding updateUser_thread_def by (intro account_steady_intros)

lemma changePassword_steady: "steady w (changePassword_thread hash verify g uid inp)"
  unfolding changePassword_thread_def by (intro account_steady_intros)

lemma deleteUser_steady: "steady w (deleteUser_thread req target role)"
  unfolding deleteUser_thread_def
  by (intro account_steady_intros steady_update_db db_step.user_deleted)

lemma create_user_steady:
  assumes "\<And>w' x. steady w' (k x)"
  shows "steady w (attempt (run_db (\<lambda>d. createUser g d n m h r)) k)"
  by (rule steady_run_db) (auto simp: write_or_none_def assms dest: createUser_Inr intro: db_step.user_inserted)

lemma register_steady: "steady w (register_thread hash sign g inp)"
  unfolding register_thread_def svc_createUser_def [abs_def]
  by (intro account_steady_intros create_user_steady steady_change) (simp_all add: emit_def)

end
