(* ===== verification/PublisherThread.thy ===== *)
theory PublisherThread
  imports Concurrency
begin

text \<open>
  A tick of the outbox publisher as a thread: the flag is tested and set in one turn of the event
  loop, every add, mark and count is awaited, and \<open>finally\<close> releases the flag.
\<close>

section \<open>The thread\<close>

definition release_publisher :: "(app, 'a) thread \<Rightarrow> (app, 'a) thread" where
  "release_publisher t = change (\<lambda>s. s\<lparr>app_publisher_busy := False\<rparr>) t"

text \<open>The \<open>catch\<close> counts the attempt; when that fails too, the exception leaves the loop.\<close>

definition count_failure :: "faults \<Rightarrow> ambient \<Rightarrow> string \<Rightarrow> (app, error + unit) thread \<Rightarrow> (app, error + unit) thread" where
  "count_failure f g i t =
     (if retry_fails f i then release_publisher (Return (Inl (ProviderError ''database'')))
      else attempt (update_db (markFailedAttempt g i)) (\<lambda>_. t))"

primrec publish_thread :: "faults \<Rightarrow> ambient \<Rightarrow> outbox_event list \<Rightarrow> (app, error + unit) thread" where
  "publish_thread f g [] = release_publisher (Return (Inr ()))"
| "publish_thread f g (event # events) =
     (let i = entity_id event; rest = publish_thread f g events
      in if add_fails f i then count_failure f g i rest
         else change (enqueue_event event)
                (if mark_fails f i then count_failure f g i rest
                 else attempt (update_db (markProcessed g i)) (\<lambda>_. rest)))"

text \<open>The part of a tick after the flag is set; an empty batch is left by an early return.\<close>

definition batch_thread :: "faults \<Rightarrow> ambient \<Rightarrow> (app, error + unit) thread" where
  "batch_thread f g =
     query (\<lambda>s. if find_fails f then Inl (ProviderError ''database'') else Inr (findUnprocessed 50 (app_db s))) (\<lambda>found.
     case found of
       Inl e \<Rightarrow> release_publisher (Return (Inl e))
     | Inr events \<Rightarrow>
         if events = [] then release_publisher (Return (Inr ()))
         else publish_thread f g events)"

definition tick_thread :: "faults \<Rightarrow> ambient \<Rightarrow> (app, error + unit) thread" where
  "tick_thread f g = Await (\<lambda>s.
     if app_publisher_busy s then (Return (Inr ()), s)
     else (batch_thread f g, s\<lparr>app_publisher_busy := True\<rparr>))"

section \<open>A tick that is not disturbed\<close>

lemma run_publish_thread:
  "run_thread (publish_thread f g events) s
     = (case publish_loop f g events s of (r, s') \<Rightarrow> (r, s'\<lparr>app_publisher_busy := False\<rparr>))"
proof (induction events arbitrary: s)
  case (Cons e es)
  have "attempt (update_db h) k = Await (\<lambda>s. (k (), on_db h s))" for h and k :: "unit \<Rightarrow> (app, error + unit) thread"
    by (simp add: attempt_def update_db_def on_db_def)
  then show ?case
    using Cons.IH by (simp add: Let_def count_failure_def release_publisher_def)
qed (simp add: release_publisher_def)

lemma run_batch_thread:
  "run_thread (batch_thread f g) s
     = (case (if find_fails f then (Inl (ProviderError ''database''), s)
              else if findUnprocessed 50 (app_db s) = [] then (Inr (), s)
              else publish_loop f g (findUnprocessed 50 (app_db s)) s) of
          (r, s') \<Rightarrow> (r, s'\<lparr>app_publisher_busy := False\<rparr>))"
  by (simp add: batch_thread_def run_publish_thread) (simp add: release_publisher_def)

lemma run_tick_thread: "run_thread (tick_thread f g) s = publishPendingEvents f g s"
  by (simp add: tick_thread_def publishPendingEvents_def Let_def run_batch_thread split: prod.split)

section \<open>A tick is steady\<close>

lemma count_failure_steady:
  assumes "\<And>w'. steady w' t"
  shows "steady w (count_failure f g i t)"
  unfolding count_failure_def release_publisher_def
  by (intro steady_if steady_change steady.returned steady_update_db db_step.event_retried assms) simp

lemma publish_thread_steady: "steady w (publish_thread f g events)"
proof (induction events arbitrary: w)
  case Nil
  show ?case
    unfolding publish_thread.simps release_publisher_def by (intro steady_change steady.returned) simp
next
  case (Cons e es)
  show ?case
    unfolding publish_thread.simps Let_def
    by (intro steady_if count_failure_steady steady_change steady_update_db db_step.event_processed Cons.IH) simp
qed

lemma release_steady: "steady w t \<Longrightarrow> steady w (release_publisher t)"
  unfolding release_publisher_def by (rule steady_change) simp_all

lemma batch_steady: "steady w (batch_thread f g)"
  unfolding batch_thread_def
  by (rule steady_query) (auto intro!: release_steady steady.returned publish_thread_steady split: sum.split)

lemma tick_steady: "steady w (tick_thread f g)"
  unfolding tick_thread_def
proof (rule steady.awaits)
  fix s h assume a: "world_step\<^sup>*\<^sup>* w (s, h)" "world_ok (s, h)"
  then have "remember h (app_db s) = h" by (simp add: world_ok_def remember_idle)
  then show "steady
      (snd (if app_publisher_busy s then (Return (Inr ()), s)
         else (batch_thread f g, s\<lparr>app_publisher_busy := True\<rparr>)),
       remember h (app_db (snd (if app_publisher_busy s then (Return (Inr ()) :: (app, error + unit) thread, s)
         else (batch_thread f g, s\<lparr>app_publisher_busy := True\<rparr>)))))
      (fst (if app_publisher_busy s then (Return (Inr ()), s)
         else (batch_thread f g, s\<lparr>app_publisher_busy := True\<rparr>)))"
    by (simp add: steady.returned batch_steady)
qed (simp add: write_or_none_def)

end
