(* ===== verification/Pool.thy ===== *)
theory Pool
  imports AccountThreads PublisherThread
begin

text \<open>
  The requests that are being served at the same time, as a pool of threads: every reachable pool
  keeps the books, and every thread ends after a bounded number of its own steps.
\<close>

section \<open>The pool\<close>

text \<open>One thread of the list takes its next step.\<close>

inductive resumed :: "(app, 'a) thread list \<times> app \<Rightarrow> (app, 'a) thread list \<times> app \<Rightarrow> bool" where
  resume: "i < length ts \<Longrightarrow> ts ! i = Await f \<Longrightarrow> f s = (t, s') \<Longrightarrow> resumed (ts, s) (ts[i := t], s')"

text \<open>
  The threads that arrive: the user of a request is a stored row (read by the JWT strategy), whose
  id is a UUID and has no colon, its body has passed the validation, and an emitted event names a
  user that was stored. The answer of a balance query is kept with the question.
\<close>

datatype answer = Answered | BalanceAnswer string string "error + wallet"

abbreviation served :: "(app, 'a) thread \<Rightarrow> (app, answer) thread" where
  "served t \<equiv> map_thread (\<lambda>_. Answered) t"

inductive arrival :: "world \<Rightarrow> (app, answer) thread \<Rightarrow> bool" where
  transfer: "u \<in> set (db_users (app_db s)) \<Longrightarrow> valid_transfer inp \<Longrightarrow>
    arrival (s, h) (served (transfer_thread g (entity_id u) (user_email u) inp))"
| deposit: "valid_deposit inp \<Longrightarrow> arrival (s, h) (served (deposit_thread g reg uid inp))"
| paid: "arrival (s, h) (served (settle_thread g ref))"
| expired: "arrival (s, h) (served (fail_thread g ref reason))"
| wallet: "u \<in> set (db_users (app_db s)) \<Longrightarrow>
    arrival (s, h) (served (createWallet_thread g (entity_id u) (user_name u) currency))"
| listener: "uid \<in> seen_users h \<Longrightarrow>
    arrival (s, h) (served (ensureWallet_thread g uid (currency_text DEFAULT_CURRENCY) name))"
| balance: "CHR '':'' \<notin> set uid \<Longrightarrow>
    arrival (s, h) (map_thread (BalanceAnswer uid currency) (balance_thread g uid currency))"
| registration: "arrival (s, h) (served (register_thread hash sign g ri))"
| password: "arrival (s, h) (served (changePassword_thread hash verify g uid ci))"
| account: "arrival (s, h) (served (updateUser_thread g req target patch role))"
| tick: "arrival (s, h) (served (tick_thread f g))"
| deletion: "arrival (s, h) (served (deleteUser_thread req target role))"

text \<open>
  Any other write of the program may happen at any time, such as those of the seed script, and so
  may the turns of the queue workers, which touch neither the tables nor the cache. The flag of the
  publisher is the memory of this process, and only its threads change it.
\<close>

inductive pool_step :: "(app, answer) thread list \<times> world \<Rightarrow> (app, answer) thread list \<times> world \<Rightarrow> bool" where
  run: "resumed (ts, s) (ts', s') \<Longrightarrow> fresh_rows h (app_db s) (app_db s') \<Longrightarrow>
    pool_step (ts, s, h) (ts', s', remember h (app_db s'))"
| arrive: "arrival w t \<Longrightarrow> pool_step (ts, w) (ts @ [t], w)"
| other: "world_step w w' \<Longrightarrow> app_cache (fst w') = app_cache (fst w) \<Longrightarrow>
    app_publisher_busy (fst w') = app_publisher_busy (fst w) \<Longrightarrow> pool_step (ts, w) (ts, w')"

definition pool_init :: "(app, answer) thread list \<times> world \<Rightarrow> bool" where
  "pool_init = (\<lambda>(ts, s, h). ts = [] \<and> fresh_db (app_db s) \<and> h = \<lparr>seen_wallets = {}, seen_users = {}\<rparr>)"

section \<open>The books\<close>

definition pool_ok :: "(app, answer) thread list \<times> world \<Rightarrow> bool" where
  "pool_ok = (\<lambda>(ts, w). world_ok w \<and> (\<forall>t\<in>set ts. steady w t))"

lemma stored_user_seen: "world_ok (s, h) \<Longrightarrow> u \<in> set (db_users (app_db s)) \<Longrightarrow> entity_id u \<in> seen_users h"
  by (drule world_okD(3)) (auto simp: user_ids_def)

lemma arrival_steady: "arrival w t \<Longrightarrow> world_ok w \<Longrightarrow> steady w t"
  by (induction rule: arrival.induct)
    (auto intro!: steady_map transfer_steady deposit_steady settle_steady fail_steady createWallet_steady
      ensureWallet_steady balance_steady stored_user_seen register_steady
      changePassword_steady updateUser_steady deleteUser_steady tick_steady simp: valid_deposit_def valid_transfer_def)

lemma steady_now:
  assumes "steady (s, h) (Await f)" "world_ok (s, h)" "f s = (t, s')" "fresh_rows h (app_db s) (app_db s')"
  shows "write_or_none (app_db s) (app_db s')" "steady (s', remember h (app_db s')) t"
proof -
  have f: "fst (f s) = t" "snd (f s) = s'" using assms(3) by simp_all
  from assms(1) show "write_or_none (app_db s) (app_db s')"
    by (rule steady_Await) (use assms(2,4) f in blast)
  from assms(1) show "steady (s', remember h (app_db s')) t"
    by (rule steady_Await) (use assms(2,4) f in blast)
qed

lemma resumed_world:
  assumes "resumed (ts, s) (ts', s')" "fresh_rows h (app_db s) (app_db s')" "pool_ok (ts, s, h)"
  shows "world_step (s, h) (s', remember h (app_db s'))"
    and "\<And>t. t \<in> set ts' \<Longrightarrow> steady (s', remember h (app_db s')) t"
proof -
  from assms(1) obtain i f t where f: "i < length ts" "ts ! i = Await f" "f s = (t, s')" "ts' = ts[i := t]"
    by cases
  have ok: "world_ok (s, h)" and st: "\<And>t. t \<in> set ts \<Longrightarrow> steady (s, h) t"
    using assms(3) by (auto simp: pool_ok_def)
  have "Await f \<in> set ts" using f(1,2) by (metis nth_mem)
  then have "steady (s, h) (Await f)" by (rule st)
  from steady_now [OF this ok f(3) assms(2)]
  have w: "write_or_none (app_db s) (app_db s')" and t: "steady (s', remember h (app_db s')) t" .
  show step: "world_step (s, h) (s', remember h (app_db s'))"
    using w assms(2) by (simp add: world_step_def)
  show "steady (s', remember h (app_db s')) u" if "u \<in> set ts'" for u
    using that t steady_later [OF st r_into_rtranclp [where r = world_step, OF step]] f(4)
    by (auto dest!: set_update_subset_insert [THEN subsetD])
qed

lemma pool_step_world: "pool_step (ts, w) (ts', w') \<Longrightarrow> pool_ok (ts, w) \<Longrightarrow> world_step\<^sup>*\<^sup>* w w'"
  by (cases rule: pool_step.cases) (auto intro: resumed_world(1))

interpretation pool: invariant_system pool_init pool_step pool_ok
proof unfold_locales
  show "pool_ok p" if "pool_init p" for p
    using that money.inv_init
    by (auto simp: pool_init_def pool_ok_def world_ok_def fresh_db_def wallet_ids_def user_ids_def)
  show "pool_ok p'" if "pool_ok p" "pool_step p p'" for p p'
    using that(2,1)
  proof cases
    case (run ts s ts' s' h)
    then show ?thesis
      using resumed_world [OF run(3,4)] that(1) world_ok_step [of s h] by (simp add: pool_ok_def)
  next
    case (arrive w t ts)
    then show ?thesis using that(1) arrival_steady by (cases w) (auto simp: pool_ok_def)
  next
    case (other w w' ts)
    then show ?thesis using that(1) steady_later [OF _ r_into_rtranclp [where r = world_step, OF other(3)]]
      by (cases w; cases w') (auto simp: pool_ok_def intro: world_ok_step)
  qed
qed

lemma world_steps_writes: "world_step\<^sup>*\<^sup>* w w' \<Longrightarrow> db_step\<^sup>*\<^sup>* (app_db (fst w)) (app_db (fst w'))"
proof (induction rule: rtranclp_induct)
  case (step v w')
  then have "write_or_none (app_db (fst v)) (app_db (fst w'))" by (auto simp: world_step_def)
  then show ?case using step.IH by (auto simp: write_or_none_def intro: rtranclp.rtrancl_into_rtrancl)
qed simp

lemma pool_writes:
  assumes "reach pool_init pool_step p"
  shows "reach fresh_db db_step (app_db (fst (snd p)))"
  using assms
proof (induction rule: reach.induct)
  case (reach_init p)
  then show ?case by (auto simp: pool_init_def intro: reach.reach_init)
next
  case (reach_step p q)
  have "pool_ok p" by (rule pool.always [OF reach_step.hyps(1)])
  then have "world_step\<^sup>*\<^sup>* (snd p) (snd q)"
    using pool_step_world [of "fst p" "snd p" "fst q" "snd q"] reach_step.hyps(2) by simp
  from world_steps_writes [OF this] reach_step.IH show ?case
    by (induction rule: rtranclp_induct) (auto intro: reach.reach_step)
qed

text \<open>C6: Any number of requests at once keep the books. Transfers, deposits, settlements, expiries, new
  wallets, balance queries, registrations, password changes, updates and deletions of accounts and
  ticks of the publisher run as threads that may be interrupted at every awaited call, by each other and by any other write of
  the program, and act on what they read earlier. Every database a
  run of such a pool reaches is reached by the atomic writes alone, so its unique indexes hold,
  every wallet has an owner, no balance is negative and completed deposits are in the ledger.\<close>
theorem concurrent_requests_keep_books:
  assumes "reach pool_init pool_step (ts, s, h)"
  shows "reach fresh_db db_step (app_db s) \<and> money_ok (app_db s)"
  using pool_writes [OF assms] money.always by simp

definition first_pool :: "(app, answer) thread list \<times> world" where
  "first_pool = ([], first_app, \<lparr>seen_wallets = {}, seen_users = {}\<rparr>)"

definition first_user_app :: app where
  "first_user_app = demo_app\<lparr>app_db := run1\<rparr>"

definition alice_opens :: "(app, answer) thread" where
  "alice_opens = served (createWallet_thread (demo_ambient ''w'' 2) (entity_id run_user) (user_name run_user) ''EUR'')"

lemma second_pool: "\<exists>h. reach pool_init pool_step ([alice_opens], first_user_app, h)"
proof -
  define h where "h = remember \<lparr>seen_wallets = {}, seen_users = {}\<rparr> run1"
  have "pool_init first_pool" by (simp add: first_pool_def pool_init_def first_app_def fresh_db_def empty_db_def)
  then have one: "reach pool_init pool_step first_pool" by (rule reach_init)
  have "db_step (app_db first_app) run1"
    using db_step.user_inserted [OF createUser_Inr [OF run_create_user]] by (simp add: first_app_def)
  then have "world_step (first_app, \<lparr>seen_wallets = {}, seen_users = {}\<rparr>) (first_user_app, h)"
    by (simp add: world_step_def write_or_none_def fresh_rows_def wallet_ids_def run1_def empty_db_def
        first_user_app_def h_def)
  then have "pool_step first_pool ([], first_user_app, h)" unfolding first_pool_def
    by (rule pool_step.other) (simp_all add: first_user_app_def first_app_def)
  with one have two: "reach pool_init pool_step ([], first_user_app, h)" by (rule reach_step)
  have "run_user \<in> set (db_users (app_db first_user_app))" by (simp add: run1_def first_user_app_def)
  then have "arrival (first_user_app, h) alice_opens" unfolding alice_opens_def by (rule arrival.wallet)
  then have "pool_step ([], first_user_app, h) ([] @ [alice_opens], first_user_app, h)" by (rule pool_step.arrive)
  with two have "reach pool_init pool_step ([] @ [alice_opens], first_user_app, h)" by (rule reach_step)
  then show ?thesis by auto
qed

theorem concurrent_requests_keep_books_witness: "money_ok run1"
proof -
  obtain h where "reach pool_init pool_step ([alice_opens], first_user_app, h)" using second_pool by blast
  from concurrent_requests_keep_books [OF this] show ?thesis by (simp add: first_user_app_def)
qed

section \<open>Every request ends\<close>

text \<open>At most \<open>n\<close> more steps of its own, whatever the state is when each is taken.\<close>

inductive ends_within :: "nat \<Rightarrow> ('s, 'a) thread \<Rightarrow> bool" where
  returned: "ends_within n (Return a)"
| awaits: "(\<And>s. ends_within n (fst (f s))) \<Longrightarrow> ends_within (Suc n) (Await f)"

lemma ends_more: "ends_within n t \<Longrightarrow> n \<le> m \<Longrightarrow> ends_within m t"
proof (induction arbitrary: m rule: ends_within.induct)
  case (awaits n f)
  then show ?case by (cases m) (auto intro: ends_within.awaits)
qed (rule ends_within.returned)

lemma ends_query: "(\<And>x. ends_within n (k x)) \<Longrightarrow> ends_within (Suc n) (query q k)"
  by (simp add: query_def ends_within.awaits)

lemma ends_change: "ends_within n t \<Longrightarrow> ends_within (Suc n) (change f t)"
  by (simp add: change_def ends_within.awaits)

lemma ends_attempt: "(\<And>x. ends_within n (k x)) \<Longrightarrow> ends_within (Suc n) (attempt m k)"
  unfolding attempt_def
  by (rule ends_within.awaits) (auto intro: ends_within.returned split: sum.split prod.split)

lemma ends_option:
  "ends_within n a \<Longrightarrow> (\<And>y. ends_within n (b y)) \<Longrightarrow> ends_within n (case x of None \<Rightarrow> a | Some y \<Rightarrow> b y)"
  by (cases x) simp_all

lemma ends_if: "ends_within n a \<Longrightarrow> ends_within n b \<Longrightarrow> ends_within n (if P then a else b)"
  by simp

lemma ends_sum:
  "(\<And>e. ends_within n (a e)) \<Longrightarrow> (\<And>y. ends_within n (b y)) \<Longrightarrow> ends_within n (case x of Inl e \<Rightarrow> a e | Inr y \<Rightarrow> b y)"
  by (cases x) simp_all

lemmas ends_intros = ends_within.returned ends_query ends_change ends_attempt ends_option ends_if ends_sum

lemma ends_repo_update: "(\<And>x. ends_within n (k x)) \<Longrightarrow> ends_within (Suc (Suc (Suc n))) (repo_update_thread g i patch k)"
  unfolding repo_update_thread_def save_thread_def by (intro ends_intros)

lemma ends_publish: "ends_within (2 * length events + 1) (publish_thread f g events)"
proof (induction events)
  case Nil
  show ?case by (simp add: release_publisher_def ends_change ends_within.returned)
next
  case (Cons e es)
  have count: "ends_within (Suc (2 * length es + 1)) (count_failure f g (entity_id e) (publish_thread f g es))"
    unfolding count_failure_def release_publisher_def by (intro ends_intros Cons.IH)
  have mark: "ends_within (Suc (2 * length es + 1))
      (attempt (update_db (markProcessed g (entity_id e))) (\<lambda>_. publish_thread f g es))"
    by (intro ends_attempt Cons.IH)
  have n: "2 * length (e # es) + 1 = Suc (Suc (2 * length es + 1))" by simp
  show ?case
    unfolding publish_thread.simps Let_def n
    by (intro ends_if ends_change ends_more [OF count] count mark) simp_all
qed

lemma ends_batch: "ends_within 102 (batch_thread f g)"
proof -
  have b: "ends_within 101 (publish_thread f g (findUnprocessed 50 d))" for d
    using findUnprocessed_length [of 50 d] by (intro ends_more [OF ends_publish]) simp
  have r: "ends_within 101 (release_publisher t)" if "ends_within 100 t" for t :: "(app, error + unit) thread"
    using ends_change [OF that] by (simp add: release_publisher_def)
  have "ends_within (Suc 101) (batch_thread f g)"
    unfolding batch_thread_def query_def
    by (rule ends_within.awaits) (simp add: b r ends_within.returned)
  then show ?thesis by simp
qed

lemma ends_tick: "ends_within (Suc 102) (tick_thread f g)"
  unfolding tick_thread_def
  by (rule ends_within.awaits) (simp add: ends_batch ends_within.returned)

text \<open>The tables are as the program leaves them: the invariants of the database, and texts that fit their columns.\<close>

definition stored_ok :: "app \<Rightarrow> bool" where
  "stored_ok s \<longleftrightarrow> db_ok (app_db s) \<and> list_all row_fits (db_users (app_db s))"

definition texts_fit :: "db \<Rightarrow> bool" where
  "texts_fit d \<longleftrightarrow> (\<forall>u\<in>set (db_users d). row_fits u)"

lemma insert_user_fits: "insert_user d u = Inr d' \<Longrightarrow> texts_fit d \<Longrightarrow> texts_fit d'"
  by (auto simp: insert_user_def insert_row_def bindR_Inr_iff texts_fit_def row_fits_def split: if_splits)

lemma save_columns_fits: "save_columns g d stored u = Inr (v, d') \<Longrightarrow> texts_fit d \<Longrightarrow> texts_fit d'"
  by (auto simp: save_columns_def Let_def texts_fit_def row_fits_def update_where_def list_ex_iff split: if_splits)

lemma db_step_fits: "db_step d d' \<Longrightarrow> texts_fit d \<Longrightarrow> texts_fit d'"
proof (induction rule: db_step.induct)
  case (user_inserted d u d')
  then show ?case using insert_user_fits by blast
next
  case (user_saved g d stored u v d')
  then show ?case using save_columns_fits by blast
next
  case (deposit_settled g wid t p d e d')
  then show ?case by (auto elim!: settleTransaction_post simp: texts_fit_def)
next
  case (transfer_executed g r a b p d d')
  then have "a \<noteq> b" by (auto simp: same_def)
  with transfer_executed show ?case
    by (auto elim!: executeTransfer_posts simp: texts_fit_def transfer_posts_def)
qed (auto simp: texts_fit_def frame failTransaction_def failTransfer_def repo_deleteUser_def
      dest!: createTransaction_Inr createTransfer_Inr ensureWallet_Inr insert_Inr
      updateTransactionProviderRef_Inr)

text \<open>Every database the atomic writes reach is such.\<close>

lemma reachable_stored_ok:
  assumes "reach fresh_db db_step (app_db s)"
  shows "stored_ok s"
proof -
  have "texts_fit d" if "reach fresh_db db_step d" for d
    using that
    by (induction rule: reach.induct) (auto simp: fresh_db_def empty_db_def texts_fit_def dest: db_step_fits)
  then show ?thesis
    using assms money.always [OF assms] by (simp add: stored_ok_def texts_fit_def list_all_iff money_ok_def)
qed

lemma stored_fits: "stored_ok s \<Longrightarrow> findUserById (app_db s) i = Some u \<Longrightarrow> row_fits u"
  by (auto simp: stored_ok_def findUserById_def list_all_iff dest: find_SomeD)

text \<open>C7: No request hangs on the others, and each does what its service does. Whatever happens between
  its awaited calls, a transfer is answered after at most 9 of them, a deposit after 5, the
  settlement of a webhook after 5, an expiry after 2, a new wallet and a balance after 3, a
  registration after 5, a password change after 6, an update of an account after 4 and a deletion
  after 2, and a tick of the publisher ends after 103. Run without interruption, each gives the
  answer and the state of the method of the service; for the two that save a loaded user, from
  tables as the program leaves them.\<close>
theorem requests_end:
  "ends_within 9 (transfer_thread g uid mail tinp) \<and> ends_within 5 (deposit_thread g reg uid dinp)
   \<and> ends_within 5 (settle_thread g ref) \<and> ends_within 2 (fail_thread g ref reason)
   \<and> ends_within 3 (createWallet_thread g uid name cur) \<and> ends_within 3 (balance_thread g uid cur)
   \<and> ends_within 5 (register_thread hash sign g ri) \<and> ends_within 6 (changePassword_thread hash verify g uid ci)
   \<and> ends_within 4 (updateUser_thread g uid target patch role) \<and> ends_within 2 (deleteUser_thread uid target role)
   \<and> ends_within 103 (tick_thread f g)
   \<and> run_thread (transfer_thread g uid mail tinp) s = initiateTransfer g s uid mail tinp
   \<and> run_thread (deposit_thread g reg uid dinp) s = deposit g reg s uid dinp
   \<and> run_thread (settle_thread g ref) s = settleByProviderRef g s ref
   \<and> run_thread (fail_thread g ref reason) s = failByProviderRef g s ref reason
   \<and> run_thread (createWallet_thread g uid name cur) s = createWallet g s uid name cur
   \<and> run_thread (balance_thread g uid cur) s = getBalance g s uid cur
   \<and> run_thread (register_thread hash sign g ri) s = register hash sign g s ri
   \<and> (stored_ok s \<longrightarrow>
        run_thread (changePassword_thread hash verify g uid ci) s = changePassword hash verify g s uid ci
        \<and> run_thread (updateUser_thread g uid target patch role) s = svc_updateUserDetails g s uid target patch role)
   \<and> run_thread (deleteUser_thread uid target role) s = svc_deleteUser s uid target role
   \<and> run_thread (tick_thread f g) s = publishPendingEvents f g s"
proof -
  have n: "(9::nat) = Suc (Suc (Suc (Suc (Suc 4))))" "(6::nat) = Suc 5" "(5::nat) = Suc 4" "(4::nat) = Suc 3"
    "(3::nat) = Suc 2" "(2::nat) = Suc (Suc 0)" by simp_all
  have "ends_within 9 (transfer_thread g uid mail tinp)"
    unfolding transfer_thread_def n by (intro ends_intros)
  moreover have "ends_within 5 (deposit_thread g reg uid dinp)"
    unfolding deposit_thread_def n Let_def by (intro ends_intros)
  moreover have "ends_within 5 (settle_thread g ref)"
    unfolding settle_thread_def n by (intro ends_intros)
  moreover have "ends_within 2 (fail_thread g ref reason)"
    unfolding fail_thread_def n by (intro ends_intros)
  moreover have "ends_within 3 (createWallet_thread g uid name cur)"
    unfolding createWallet_thread_def ensureWallet_thread_def n Let_def by (intro ends_intros)
  moreover have "ends_within 3 (balance_thread g uid cur)"
    unfolding balance_thread_def n by (intro ends_intros)
  moreover have "ends_within 5 (register_thread hash sign g ri)"
    unfolding register_thread_def n by (intro ends_intros)
  moreover have "ends_within 6 (changePassword_thread hash verify g uid ci)"
    unfolding changePassword_thread_def n by (intro ends_intros ends_repo_update)
  moreover have "ends_within 4 (updateUser_thread g uid target patch role)"
    unfolding updateUser_thread_def n by (intro ends_intros ends_repo_update)
  moreover have "ends_within 2 (deleteUser_thread uid target role)"
    unfolding deleteUser_thread_def n by (intro ends_intros)
  moreover have "ends_within 103 (tick_thread f g)" using ends_tick by simp
  moreover have "run_thread (changePassword_thread hash verify g uid ci) s = changePassword hash verify g s uid ci
      \<and> run_thread (updateUser_thread g uid target patch role) s = svc_updateUserDetails g s uid target patch role"
    if "stored_ok s"
    using that stored_fits [OF that] by (simp add: stored_ok_def run_changePassword_thread run_updateUser_thread)
  ultimately show ?thesis
    by (simp add: run_transfer_thread run_deposit_thread run_settle_thread run_fail_thread run_createWallet_thread
        run_balance_thread run_register_thread run_deleteUser_thread run_tick_thread)
qed

theorem requests_end_witness:
  "run_thread (changePassword_thread Inr (\<lambda>h p. Inr (h = p)) (demo_ambient ''g'' 9) ''u1''
       \<lparr>oldPassword = ''wrong'', newPassword = ''12345''\<rparr>) demo_app
   = (Inl (Unauthorized ''Invalid credentials provided''), demo_app)"
proof -
  have ok: "stored_ok demo_app"
    using demo_db_ok by (simp add: stored_ok_def demo_app_def row_fits_def fits_def alice_def bob_def demo_rows)
  have "run_thread (changePassword_thread Inr (\<lambda>h p. Inr (h = p)) (demo_ambient ''g'' 9) ''u1''
       \<lparr>oldPassword = ''wrong'', newPassword = ''12345''\<rparr>) demo_app
     = changePassword Inr (\<lambda>h p. Inr (h = p)) (demo_ambient ''g'' 9) demo_app ''u1''
         \<lparr>oldPassword = ''wrong'', newPassword = ''12345''\<rparr>"
    using requests_end [where g = "demo_ambient ''g'' 9" and uid = "''u1''" and hash = Inr and s = demo_app
        and verify = "\<lambda>h p. Inr (h = p)" and ci = "\<lparr>oldPassword = ''wrong'', newPassword = ''12345''\<rparr>"] ok
    by (simp only: simp_thms)
  then show ?thesis
    by (simp add: changePassword_def svc_findById_def findUserById_def demo_app_def demo_rows alice_def)
qed

end
