(* ===== verification/Races.thy ===== *)
theory Races
  imports Pool WalletProperties UserProperties
begin

text \<open>
  What two overlapping requests can do to each other although each database transaction is
  atomic: a balance query that overlaps with a settlement leaves the old balance in the cache, and
  a password change that overlaps with another change of the account undoes that change.
\<close>

section \<open>Running one thread of a pool\<close>

lemma run_alone:
  assumes "i < length ts" "ts ! i = t" "run_thread t s = (x, s')"
  shows "resumed\<^sup>*\<^sup>* (ts, s) (ts[i := Return x], s')"
  using assms
proof (induction t arbitrary: ts s)
  case (Return a)
  then have "ts[i := Return x] = ts" "s' = s" by (simp_all add: list_update_same_conv)
  then show ?case by simp
next
  case (Await f)
  obtain t1 s1 where f: "f s = (t1, s1)" by (cases "f s")
  have "resumed (ts, s) (ts[i := t1], s1)" by (rule resumed.resume [OF Await.prems(1,2) f])
  moreover have "resumed\<^sup>*\<^sup>* (ts[i := t1], s1) ((ts[i := t1])[i := Return x], s')"
  proof (rule Await.IH [OF rangeI])
    show "t1 \<in> Basic_BNFs.fsts (f s)" by (simp add: f)
    show "run_thread t1 s1 = (x, s')" using Await.prems(3) by (simp add: f)
  qed (use Await.prems(1) in simp_all)
  ultimately show ?case by (simp add: converse_rtranclp_into_rtranclp)
qed

lemma resumed_query:
  "i < length ts \<Longrightarrow> ts ! i = query q k \<Longrightarrow> q s = x \<Longrightarrow> resumed (ts, s) (ts[i := k x], s)"
  using resumed.resume [of i ts "\<lambda>s. (k (q s), s)" s "k x" s] by (simp add: query_def)

lemma resumed_change: "i < length ts \<Longrightarrow> ts ! i = change f t \<Longrightarrow> resumed (ts, s) (ts[i := t], f s)"
  using resumed.resume [of i ts "\<lambda>s. (t, f s)" s t "f s"] by (simp add: change_def)

lemma map_change [simp]: "map_thread h (change f t) = change f (map_thread h t)"
  by (simp add: change_def fun_eq_iff)

section \<open>A settlement between the read and the write of the cache\<close>

text \<open>The cached balance can be out of date. When a balance query that found nothing in the cache has
  read the wallet, and a settlement (which drops the cache) runs before the query writes what it
  read, the old wallet is in the cache afterwards: every balance query is answered the balance from
  before the settlement until a minute after the first one.\<close>
theorem stale_balance_race:
  assumes "cache_get (app_cache s) (clock g) (balance_cache_key uid cur) = None"
    and "findByUserIdAndCurrency (app_db s) uid cur = Some w"
    and "settleByProviderRef g' s ref = (Inr (), s')"
    and "clock g2 < clock g + BALANCE_CACHE_TTL_MS"
  shows "\<exists>s2. resumed\<^sup>*\<^sup>* ([background (balance_thread g uid cur), background (settle_thread g' ref)], s)
       ([Return (), Return ()], s2)
     \<and> app_db s2 = app_db s' \<and> fst (getBalance g2 s2 uid cur) = Inr w"
proof -
  let ?k = "balance_cache_key uid cur"
  define store :: "app \<Rightarrow> app" where
    "store = (\<lambda>s. s\<lparr>app_cache := cache_set (app_cache s) (clock g) ?k w BALANCE_CACHE_TTL_MS\<rparr>)"
  let ?b = "background (balance_thread g uid cur)" and ?t = "background (settle_thread g' ref)"
  let ?rest = "change store (Return ())"
  define find_wallet :: "app \<Rightarrow> wallet option" where "find_wallet = (\<lambda>s. findByUserIdAndCurrency (app_db s) uid cur)"
  define found :: "wallet option \<Rightarrow> (app, unit) thread" where
    "found = (\<lambda>x. background (case x of None \<Rightarrow> Return (Inl (NotFound ''Wallet not found''))
       | Some w \<Rightarrow> change (\<lambda>s :: app. s\<lparr>app_cache := cache_set (app_cache s) (clock g) ?k w BALANCE_CACHE_TTL_MS\<rparr>)
                      (Return (Inr w))))"
  define cached :: "wallet option \<Rightarrow> (app, unit) thread" where
    "cached = (\<lambda>x. background (case x of Some w \<Rightarrow> Return (Inr w)
       | None \<Rightarrow> query find_wallet (\<lambda>x. case x of None \<Rightarrow> Return (Inl (NotFound ''Wallet not found''))
           | Some w \<Rightarrow> change (\<lambda>s :: app. s\<lparr>app_cache := cache_set (app_cache s) (clock g) ?k w BALANCE_CACHE_TTL_MS\<rparr>)
                          (Return (Inr w)))))"
  have b: "?b = query (\<lambda>s. cache_get (app_cache s) (clock g) ?k) cached"
    unfolding balance_thread_def cached_def find_wallet_def by simp
  have miss: "cached None = query find_wallet found" by (simp add: cached_def found_def)
  have hit: "found (Some w) = ?rest" by (simp add: found_def store_def)
  have "resumed ([?b, ?t], s) ([query find_wallet found, ?t], s)"
    using resumed_query [of 0 "[?b, ?t]" "\<lambda>s. cache_get (app_cache s) (clock g) ?k" cached s None] assms(1)
    by (simp add: b miss)
  moreover have "resumed ([query find_wallet found, ?t], s) ([?rest, ?t], s)"
    using resumed_query [of 0 "[query find_wallet found, ?t]" find_wallet found s "Some w"] assms(2)
    by (simp add: hit find_wallet_def)
  moreover have "resumed\<^sup>*\<^sup>* ([?rest, ?t], s) ([?rest, Return ()], s')"
    using run_alone [of 1 "[?rest, ?t]" ?t s "()" s'] run_background [of "\<lambda>_. ()" "settle_thread g' ref" s]
      run_settle_thread [of g' ref s] assms(3) by simp
  moreover have "resumed ([?rest, Return ()], s') ([Return (), Return ()], store s')"
    using resumed_change [of 0 "[?rest, Return ()]" store "Return ()" s'] by simp
  ultimately have "resumed\<^sup>*\<^sup>* ([?b, ?t], s) ([Return (), Return ()], store s')"
    by (meson converse_rtranclp_into_rtranclp rtranclp.rtrancl_into_rtrancl)
  moreover have "fst (getBalance g2 (store s') uid cur) = Inr w"
    using balance_cache.hit_before_expiry [OF assms(4)] by (simp add: getBalance_def store_def)
  ultimately show ?thesis by (intro exI [of _ "store s'"]) (simp add: store_def)
qed

theorem stale_balance_race_witness:
  "\<exists>s2. fst (getBalance (demo_ambient ''r'' 10) s2 ''u1'' ''EUR'') = Inr alice_wallet
     \<and> findByUserIdAndCurrency (app_db s2) ''u1'' ''EUR'' = Some (set_balance 9 15000 alice_wallet)
     \<and> wallet_balance alice_wallet = 10000"
proof -
  have c: "cache_get (app_cache demo_app) (clock (demo_ambient ''q'' 9)) (balance_cache_key ''u1'' ''EUR'') = None"
    by (simp add: demo_app_def cache_get_def)
  have f: "findByUserIdAndCurrency (app_db demo_app) ''u1'' ''EUR'' = Some alice_wallet"
    by (simp add: findByUserIdAndCurrency_def alice_wallet_def bob_wallet_def)
  have t: "clock (demo_ambient ''r'' 10) < clock (demo_ambient ''q'' 9) + BALANCE_CACHE_TTL_MS"
    by (simp add: demo_ambient_def BALANCE_CACHE_TTL_MS_def)
  from stale_balance_race [OF c f demo_settle t] obtain s2 where
    "app_db s2 = app_db demo_settled" "fst (getBalance (demo_ambient ''r'' 10) s2 ''u1'' ''EUR'') = Inr alice_wallet"
    by blast
  moreover have "findByUserIdAndCurrency (app_db demo_settled) ''u1'' ''EUR'' = Some (set_balance 9 15000 alice_wallet)"
    by (simp add: findByUserIdAndCurrency_def demo_settled_def demo_settled_db_def alice_wallet_def set_balance_def
        same_def demo_db_def)
  ultimately show ?thesis by (intro exI [of _ s2]) (simp add: alice_wallet_def)
qed

section \<open>Another change of an account between the load and the save of a password change\<close>

lemma overlapping_save:
  assumes "findUserById (app_db s) uid = Some u" "verify (user_password u) (oldPassword inp) = Inr True"
    and "hash (newPassword inp) = Inr h" "run_thread other s = (x, s')"
    and "run_thread (save_thread g (u\<lparr>user_password := h\<rparr>) (\<lambda>_. Return (Inr ''Password updated successfully''))) s' = (r, s2)"
  shows "resumed\<^sup>*\<^sup>* ([background (changePassword_thread hash verify g uid inp), background other], s)
    ([Return (), Return ()], s2)"
proof -
  let ?p = "\<lparr>patch_name = None, patch_email = None, patch_password = Some h, patch_role = None\<rparr>"
  let ?c = "background (changePassword_thread hash verify g uid inp)" and ?o = "background other"
  define k :: "users_row \<Rightarrow> (app, error + string) thread" where
    "k = (\<lambda>_. Return (Inr ''Password updated successfully''))"
  define loaded :: "users_row option \<Rightarrow> (app, unit) thread" where
    "loaded = (\<lambda>f. background (case f of None \<Rightarrow> Return (Inl TypeError) | Some v \<Rightarrow> save_thread g (apply_patch ?p v) k))"
  define hashed :: "error + string \<Rightarrow> (app, unit) thread" where
    "hashed = (\<lambda>x. background (case x of Inl e \<Rightarrow> Return (Inl e)
     | Inr hp \<Rightarrow> repo_update_thread g uid
         \<lparr>patch_name = None, patch_email = None, patch_password = Some hp, patch_role = None\<rparr> k))"
  define verified :: "error + bool \<Rightarrow> (app, unit) thread" where
    "verified = (\<lambda>x. background (case x of Inl e \<Rightarrow> Return (Inl e)
     | Inr isPasswordMatch \<Rightarrow>
         if \<not> isPasswordMatch then Return (Inl (Unauthorized ''Invalid credentials provided''))
         else call (hash (newPassword inp)) (\<lambda>x. case x of Inl e \<Rightarrow> Return (Inl e)
           | Inr hp \<Rightarrow> repo_update_thread g uid
               \<lparr>patch_name = None, patch_email = None, patch_password = Some hp, patch_role = None\<rparr> k)))"
  define checked :: "error + users_row \<Rightarrow> (app, unit) thread" where
    "checked = (\<lambda>x. background (case x of Inl e \<Rightarrow> Return (Inl e)
     | Inr user \<Rightarrow> call (verify (user_password user) (oldPassword inp)) (\<lambda>x. case x of Inl e \<Rightarrow> Return (Inl e)
         | Inr isPasswordMatch \<Rightarrow>
             if \<not> isPasswordMatch then Return (Inl (Unauthorized ''Invalid credentials provided''))
             else call (hash (newPassword inp)) (\<lambda>x. case x of Inl e \<Rightarrow> Return (Inl e)
               | Inr hp \<Rightarrow> repo_update_thread g uid
                   \<lparr>patch_name = None, patch_email = None, patch_password = Some hp, patch_role = None\<rparr> k))))"
  let ?save = "background (save_thread g (u\<lparr>user_password := h\<rparr>) k)"
  define find_user :: "app \<Rightarrow> users_row option" where "find_user = (\<lambda>s. findUserById (app_db s) uid)"
  have c: "?c = query (\<lambda>s. svc_findById s uid) checked"
    unfolding changePassword_thread_def checked_def k_def by simp
  have v: "checked (Inr u) = call (verify (user_password u) (oldPassword inp)) verified"
    by (simp add: checked_def verified_def)
  have hs: "verified (Inr True) = call (hash (newPassword inp)) hashed"
    by (simp add: verified_def hashed_def)
  have l: "hashed (Inr h) = query find_user loaded"
    by (simp add: hashed_def repo_update_thread_def loaded_def find_user_def)
  have sv: "loaded (Some u) = ?save" by (simp add: loaded_def apply_patch_def)
  have "resumed ([?c, ?o], s) ([checked (Inr u), ?o], s)"
    using resumed_query [of 0 "[?c, ?o]" "\<lambda>s. svc_findById s uid" checked s "Inr u"] assms(1)
    by (simp add: c svc_findById_def)
  moreover have "resumed ([checked (Inr u), ?o], s) ([verified (Inr True), ?o], s)"
    using resumed_query [of 0 "[checked (Inr u), ?o]" "\<lambda>_. verify (user_password u) (oldPassword inp)" verified s "Inr True"]
    by (simp add: v assms(2))
  moreover have "resumed ([verified (Inr True), ?o], s) ([query find_user loaded, ?o], s)"
    using resumed_query [of 0 "[verified (Inr True), ?o]" "\<lambda>_. hash (newPassword inp)" hashed s "Inr h"]
    by (simp add: hs l assms(3))
  moreover have "resumed ([query find_user loaded, ?o], s) ([?save, ?o], s)"
    using resumed_query [of 0 "[query find_user loaded, ?o]" find_user loaded s "Some u"] assms(1)
    by (simp add: sv find_user_def)
  moreover have "resumed\<^sup>*\<^sup>* ([?save, ?o], s) ([?save, Return ()], s')"
    using run_alone [of 1 "[?save, ?o]" ?o s "()" s'] run_background [of "\<lambda>_. ()" other s] assms(4) by simp
  moreover have "resumed\<^sup>*\<^sup>* ([?save, Return ()], s') ([Return (), Return ()], s2)"
    using run_alone [of 0 "[?save, Return ()]" ?save s' "()" s2]
      run_background [of "\<lambda>_. ()" "save_thread g (u\<lparr>user_password := h\<rparr>) k" s'] assms(5) by (simp add: k_def)
  ultimately show ?thesis
    by (meson converse_rtranclp_into_rtranclp rtranclp_trans)
qed

lemma find_user_id:
  assumes "db_ok d" "u \<in> set (db_users d)" "same d uid (entity_id u)"
  shows "findUserById d uid = Some u"
  using user_table.find_id [OF _ assms(2), of "db_coll d"] assms(1,3)
  by (simp add: findUserById_def has_id_def [abs_def] same_def db_ok_def)

text \<open>The row that is stored when the save has read the row of the loaded user again.\<close>

lemma save_columns_succeeds:
  assumes "db_ok d" "stored \<in> set (db_users d)" "entity_id u = entity_id stored" "user_email u = user_email stored"
    and "row_fits u"
  obtains v d' x where "save_columns g d stored u = Inr (v, d')" "findUserById d' (entity_id u) = Some x"
    "user_name x = user_name u" "user_role x = user_role u" "user_password x = user_password u"
proof (cases "u = stored")
  case True
  have "findUserById d (entity_id u) = Some u"
    using find_user_id [OF assms(1,2), of "entity_id u"] True by (simp add: same_def)
  then show thesis by (intro that [of u d u]) (simp_all add: save_columns_def True)
next
  case False
  let ?row = "write_changed (clock g) stored u" and ?mine = "has_id d (entity_id stored)"
  note hit = stored_once(1) [OF assms(1,2)]
  have row: "user_name (?row stored) = user_name u" "user_email (?row stored) = user_email u"
    "user_password (?row stored) = user_password u" "user_role (?row stored) = user_role u"
    by (simp_all add: write_changed_def assms(4))
  have one: "list_ex P (filter ?mine (db_users d)) \<longleftrightarrow> P stored" for P
    unfolding list_ex_iff hit by simp
  have rest: "\<not> list_ex (\<lambda>y. same d (user_email y) (user_email u)) (filter (\<lambda>x. \<not> ?mine x) (db_users d))"
  proof
    assume "list_ex (\<lambda>y. same d (user_email y) (user_email u)) (filter (\<lambda>x. \<not> ?mine x) (db_users d))"
    then obtain y where y: "y \<in> set (db_users d)" "\<not> ?mine y" "same d (user_email y) (user_email stored)"
      by (auto simp: list_ex_iff assms(4))
    have "unique_rows (user_conflict (db_coll d)) (db_users d)" using assms(1) by (simp add: db_ok_def)
    then have "y = stored"
      by (rule user_table.row_eq [OF _ y(1) assms(2)]) (use y(3) in \<open>simp add: user_conflict_def same_def\<close>)
    then show False using y(2) by (simp add: has_id_def same_def)
  qed
  let ?d = "d\<lparr>db_users := update_where ?mine ?row (db_users d)\<rparr>"
  have save: "save_columns g d stored u = Inr (u\<lparr>updated_at := clock g\<rparr>, ?d)"
    using False assms(5) rest by (simp add: save_columns_def Let_def assms(3) one row row_fits_def)
  have "db_ok ?d" by (rule save_columns_db_ok [OF save assms(1)])
  moreover have "?row stored \<in> set (db_users ?d)"
    using assms(2) by (auto simp: set_update_where has_id_def same_def)
  ultimately have "findUserById ?d (entity_id u) = Some (?row stored)"
    by (rule find_user_id) (simp add: same_def assms(3))
  with save row show thesis by (intro that)
qed

lemma insert_deleted:
  assumes "db_ok d" "u \<in> set (db_users d)" "same d uid (entity_id u)" "entity_id v = entity_id u"
    and "user_email v = user_email u" "row_fits v"
  shows "insert_user (repo_deleteUser d uid) v
    = Inr ((repo_deleteUser d uid)\<lparr>db_users := db_users (repo_deleteUser d uid) @ [v]\<rparr>)"
proof -
  have "unique_rows (user_conflict (db_coll d)) (db_users d)" using assms(1) by (simp add: db_ok_def)
  then have "x = u" if "x \<in> set (db_users d)" "user_conflict (db_coll d) x v" for x
    by (rule user_table.row_eq [OF _ that(1) assms(2)]) (use that(2) assms(4,5) in \<open>simp add: user_conflict_def\<close>)
  then have "\<not> list_ex (\<lambda>x. user_conflict (db_coll d) x v) (filter (\<lambda>x. \<not> has_id d uid x) (db_users d))"
    using assms(3) by (auto simp: list_ex_iff has_id_def same_def)
  then show ?thesis using assms(6)
    by (simp add: insert_user_def insert_row_def repo_deleteUser_def row_fits_def)
qed

lemma stale_save_update:
  assumes "db_ok (app_db s)" "findUserById (app_db s) uid = Some u" "row_fits u" "fits 255 h"
    and "verify (user_password u) (oldPassword inp) = Inr True" "hash (newPassword inp) = Inr h"
    and "svc_updateUserDetails g' s req uid patch role = (Inr res, s')"
  shows "\<exists>s2 v. resumed\<^sup>*\<^sup>* ([background (changePassword_thread hash verify g uid inp),
              background (updateUser_thread g' req uid patch role)], s) ([Return (), Return ()], s2)
       \<and> findUserById (app_db s2) uid = Some v \<and> user_role v = user_role u \<and> user_name v = user_name u
       \<and> user_password v = h"
proof -
  let ?e = "u\<lparr>user_password := h\<rparr>" and ?d = "app_db s"
  let ?k = "\<lambda>_ :: users_row. Return (Inr ''Password updated successfully'') :: (app, error + string) thread"
  have u: "u \<in> set (db_users ?d)" "same ?d uid (entity_id u)"
    using assms(2) by (auto simp: findUserById_def has_id_def same_def dest!: find_SomeD)
  have e: "row_fits ?e" using assms(3,4) by (simp add: row_fits_def)
  note overlap = overlapping_save [where verify = verify and hash = hash, OF assms(2,5,6)]
  from account_updated [OF assms(7)] assms(2) obtain new :: users_row where
    d': "app_db s' = ?d\<lparr>db_users := update_where (has_id ?d (entity_id u)) (\<lambda>_. new) (db_users ?d)\<rparr>"
    and new: "entity_id new = entity_id u" "user_email new = user_email u" by auto
  have "db_step\<^sup>*\<^sup>* ?d (app_db s')"
    using svc_updateUserDetails_steps [OF assms(1), of g' req uid patch role] assms(7) by simp
  then have ok: "db_ok (app_db s')" using assms(1) by (induction rule: rtranclp_induct) (auto intro: db_step_db_ok)
  have mem: "new \<in> set (db_users (app_db s'))" using u(1) by (auto simp: d' set_update_where has_id_def same_def)
  have sm: "same (app_db s') = same ?d" by (simp add: d' same_def fun_eq_iff)
  obtain v d2 x where sv: "save_columns g (app_db s') new ?e = Inr (v, d2)" "findUserById d2 (entity_id ?e) = Some x"
    "user_name x = user_name ?e" "user_role x = user_role ?e" "user_password x = user_password ?e"
    by (rule save_columns_succeeds [OF ok mem, of ?e g]) (use new e in simp_all)
  have coll: "db_coll d2 = db_coll ?d" using save_columns_frame(1) [OF sv(1)] by (simp add: d')
  have "findUserById (app_db s') (entity_id ?e) = Some new"
    by (rule find_user_id [OF ok mem]) (simp add: new same_def)
  then have run: "run_thread (save_thread g ?e ?k) s' = (Inr ''Password updated successfully'', s'\<lparr>app_db := d2\<rparr>)"
    by (simp add: save_thread_def sv(1) run_db_def)
  have "run_thread (updateUser_thread g' req uid patch role) s = (Inr res, s')"
    using run_updateUser_thread [OF assms(1), of uid g' req patch role] assms(2,3,7) by simp
  from overlap [OF this run]
  have "resumed\<^sup>*\<^sup>* ([background (changePassword_thread hash verify g uid inp),
            background (updateUser_thread g' req uid patch role)], s) ([Return (), Return ()], s'\<lparr>app_db := d2\<rparr>)" .
  moreover have "findUserById d2 uid = Some x"
    using sv(2) u(2) coll by (simp add: findUserById_def has_id_def [abs_def] same_def)
  ultimately show ?thesis using sv(3-5) by (intro exI [of _ "s'\<lparr>app_db := d2\<rparr>"] exI [of _ x]) simp
qed

lemma stale_save_deletion:
  assumes "db_ok (app_db s)" "findUserById (app_db s) uid = Some u" "row_fits u" "fits 255 h"
    and "verify (user_password u) (oldPassword inp) = Inr True" "hash (newPassword inp) = Inr h"
    and "svc_deleteUser s req2 uid role2 = (Inr (), s'')"
  shows "\<exists>s2. resumed\<^sup>*\<^sup>* ([background (changePassword_thread hash verify g uid inp),
              background (deleteUser_thread req2 uid role2)], s) ([Return (), Return ()], s2)
       \<and> findUserById (app_db s'') uid = None
       \<and> findUserById (app_db s2) uid = Some (u\<lparr>user_password := h\<rparr>)
       \<and> filter (\<lambda>w. same (app_db s) (wallet_user_id w) uid) (db_wallets (app_db s2)) = []"
proof -
  let ?e = "u\<lparr>user_password := h\<rparr>" and ?d = "app_db s"
  let ?k = "\<lambda>_ :: users_row. Return (Inr ''Password updated successfully'') :: (app, error + string) thread"
  have u: "u \<in> set (db_users ?d)" "same ?d uid (entity_id u)"
    using assms(2) by (auto simp: findUserById_def has_id_def same_def dest!: find_SomeD)
  have e: "row_fits ?e" using assms(3,4) by (simp add: row_fits_def)
  note overlap = overlapping_save [where verify = verify and hash = hash, OF assms(2,5,6)]
  let ?d2 = "repo_deleteUser ?d uid"
  have s'': "s'' = s\<lparr>app_db := ?d2\<rparr>"
    using assms(7) by (auto simp: svc_deleteUser_def update_db_def split: option.splits sum.splits)
  have gone: "findUserById ?d2 i = None" if "same ?d uid i" for i
    using that by (auto simp: findUserById_def find_None repo_deleteUser_def has_id_def same_def)
  have ins: "insert_user ?d2 ?e = Inr (?d2\<lparr>db_users := db_users ?d2 @ [?e]\<rparr>)" (is "_ = Inr ?d3")
    by (rule insert_deleted [OF assms(1) u]) (simp_all add: e)
  have run: "run_thread (save_thread g ?e ?k) s''
      = (Inr ''Password updated successfully'', s''\<lparr>app_db := ?d3\<rparr>)"
    using gone [OF u(2)] by (simp add: save_thread_def s'' run_db_def ins)
  from overlap [OF _ run, of "deleteUser_thread req2 uid role2" "Inr ()"]
  have "resumed\<^sup>*\<^sup>* ([background (changePassword_thread hash verify g uid inp),
            background (deleteUser_thread req2 uid role2)], s) ([Return (), Return ()], s''\<lparr>app_db := ?d3\<rparr>)"
    by (simp add: run_deleteUser_thread assms(7))
  moreover have "findUserById ?d3 uid = Some ?e"
    using gone [of uid] u(2) by (simp add: findUserById_def find_append has_id_def [abs_def] same_def frame)
  ultimately show ?thesis using gone [of uid]
    by (intro exI [of _ "s''\<lparr>app_db := ?d3\<rparr>"]) (simp add: s'' same_def repo_deleteUser_def)
qed

text \<open>C21: A stale save. When a password change has loaded the user, and a demotion by an administrator
  runs before it saves, the save writes the old role (and name) back along with the new password: the
  demotion succeeded and is undone. When a deletion runs in between, the save stores the deleted user
  again, with the same id and e-mail and without a wallet.\<close>
theorem stale_save_race:
  assumes "db_ok (app_db s)" "findUserById (app_db s) uid = Some u" "row_fits u" "fits 255 h"
    and "verify (user_password u) (oldPassword inp) = Inr True" "hash (newPassword inp) = Inr h"
    and "svc_updateUserDetails g' s req uid patch role = (Inr res, s')"
    and "svc_deleteUser s req2 uid role2 = (Inr (), s'')"
  shows "(\<exists>s2 v. resumed\<^sup>*\<^sup>* ([background (changePassword_thread hash verify g uid inp),
              background (updateUser_thread g' req uid patch role)], s) ([Return (), Return ()], s2)
       \<and> findUserById (app_db s2) uid = Some v \<and> user_role v = user_role u \<and> user_name v = user_name u
       \<and> user_password v = h)
   \<and> (\<exists>s2. resumed\<^sup>*\<^sup>* ([background (changePassword_thread hash verify g uid inp),
              background (deleteUser_thread req2 uid role2)], s) ([Return (), Return ()], s2)
       \<and> findUserById (app_db s'') uid = None
       \<and> findUserById (app_db s2) uid = Some (u\<lparr>user_password := h\<rparr>)
       \<and> filter (\<lambda>w. same (app_db s) (wallet_user_id w) uid) (db_wallets (app_db s2)) = [])"
  using stale_save_update [where verify = verify and hash = hash, OF assms(1-7)]
    stale_save_deletion [where verify = verify and hash = hash, OF assms(1-6,8)] by (rule conjI)

theorem stale_save_race_witness:
  "\<exists>(s2 :: app) (v :: users_row). findUserById (app_db s2) ''u2'' = Some v \<and> user_role v = Admin \<and> user_password v = ''h9''"
proof -
  define demote :: user_patch where
    "demote = \<lparr>patch_name = None, patch_email = None, patch_password = None, patch_role = Some User\<rparr>"
  define demoted :: users_row where "demoted = bob\<lparr>user_role := User, updated_at := 5\<rparr>"
  let ?i = "\<lparr>oldPassword = ''old'', newPassword = ''new''\<rparr>"
  have f: "findUserById (app_db demo_app) ''u2'' = Some bob" by (simp add: findUserById_def alice_def bob_def)
  have r: "row_fits bob" "fits 255 ''h9''" by (simp_all add: row_fits_def bob_def fits_def)
  have d: "svc_updateUserDetails (demo_ambient ''g'' 5) demo_app ''u1'' ''u2'' demote Admin
     = (Inr (mapResult demoted None None), demo_app\<lparr>app_db := demo_db\<lparr>db_users := [alice, demoted]\<rparr>\<rparr>)"
    by (simp add: svc_updateUserDetails_def findUserById_def demote_def demoted_def alice_def bob_def
        ensureCanUpdateUser_def ensureCanUpdateRole_def sanitizeUpdateData_def repo_updateUserDetails_def save_user_def
        apply_patch_def run_db_def Let_def fits_def update_where_def demo_ambient_def mapResult_def)
  have x: "svc_deleteUser demo_app ''u1'' ''u2'' Admin
      = (Inr (), demo_app\<lparr>app_db := repo_deleteUser (app_db demo_app) ''u2''\<rparr>)"
    by (simp add: svc_deleteUser_def findUserById_def ensureCanDeleteUser_def update_db_def alice_def bob_def)
  have ok: "db_ok (app_db demo_app)" by (simp add: demo_db_ok)
  let ?h = "\<lambda>_ :: string. Inr ''h9'' :: error + string" and ?v = "\<lambda>(_ :: string) (_ :: string). Inr True :: error + bool"
  have p: "?v (user_password bob) (oldPassword ?i) = Inr True" "?h (newPassword ?i) = Inr ''h9''" by simp_all
  from stale_save_race [where verify = ?v and hash = ?h and inp = ?i and g = "demo_ambient ''h'' 6", OF ok f r p d x]
  obtain s2 :: app and v :: users_row where "findUserById (app_db s2) ''u2'' = Some v" "user_role v = user_role bob"
    "user_password v = ''h9''" by blast
  then show ?thesis by (intro exI [of _ s2] exI [of _ v]) (simp add: bob_def)
qed

end
