(* ===== verification/PoolPrivacy.thy ===== *)
theory PoolPrivacy
  imports Races Privacy
begin

text \<open>
  The balance cache under interleaved requests: whatever overlaps with a balance query, what it
  answers is a wallet of the user who asks.
\<close>

section \<open>Threads that respect the owners of cache entries\<close>

text \<open>\<open>cache_owned\<close> speaks of the cache and of the collation of the database only.\<close>

definition owned_under :: "(string \<Rightarrow> string) \<Rightarrow> app \<Rightarrow> bool" where
  "owned_under c s \<longleftrightarrow> db_coll (app_db s) = c \<and> cache_owned s"

lemma owned_shrinks: "owned_under c s \<Longrightarrow> cache_shrinks s s' \<Longrightarrow> db_coll (app_db s') = c \<Longrightarrow> owned_under c s'"
  unfolding owned_under_def using cache_owned_shrinks by metis

text \<open>
  Every step taken in a state with owned entries leaves such a state, provided it keeps the
  collation, as all writes do; and the value returned at the end satisfies \<open>P\<close>.
\<close>

inductive careful :: "(string \<Rightarrow> string) \<Rightarrow> ('a \<Rightarrow> bool) \<Rightarrow> (app, 'a) thread \<Rightarrow> bool" for c where
  returned: "P a \<Longrightarrow> careful c P (Return a)"
| awaits: "(\<And>s. owned_under c s \<Longrightarrow> db_coll (app_db (snd (f s))) = c \<Longrightarrow> owned_under c (snd (f s))) \<Longrightarrow>
    (\<And>s. owned_under c s \<Longrightarrow> careful c P (fst (f s))) \<Longrightarrow> careful c P (Await f)"

inductive_cases careful_Return: "careful c P (Return a)"
inductive_cases careful_Await: "careful c P (Await f)"

lemma careful_query: "(\<And>s. owned_under c s \<Longrightarrow> careful c P (k (q s))) \<Longrightarrow> careful c P (query q k)"
  unfolding query_def by (rule careful.awaits) simp_all

lemma careful_change:
  "(\<And>s. owned_under c s \<Longrightarrow> db_coll (app_db (f s)) = c \<Longrightarrow> owned_under c (f s)) \<Longrightarrow> careful c P t \<Longrightarrow>
   careful c P (change f t)"
  unfolding change_def by (rule careful.awaits) simp_all

lemma careful_change_shrinks:
  "(\<And>s. cache_shrinks s (f s)) \<Longrightarrow> careful c P t \<Longrightarrow> careful c P (change f t)"
  by (rule careful_change) (auto intro: owned_shrinks)

lemma careful_attempt:
  assumes "\<And>s. app_cache (snd (m s)) = app_cache s" "\<And>e. P (Inl e)" "\<And>x. careful c P (k x)"
  shows "careful c P (attempt m k)"
  unfolding attempt_def
proof (rule careful.awaits)
  fix s assume own: "owned_under c s"
  let ?f = "\<lambda>s. case m s of (Inl e, s') \<Rightarrow> (Return (Inl e), s') | (Inr x, s') \<Rightarrow> (k x, s')"
  have eq: "snd (?f s) = snd (m s)" by (simp split: prod.split sum.split)
  show "owned_under c (snd (?f s))" if "db_coll (app_db (snd (?f s))) = c"
    using owned_shrinks [OF own, of "snd (m s)"] that assms(1) by (simp add: eq cache_same)
  show "careful c P (fst (?f s))"
    using assms(2,3) by (auto intro: careful.returned split: prod.split sum.split)
qed

lemma careful_run_db: "(\<And>e. P (Inl e)) \<Longrightarrow> (\<And>x. careful c P (k x)) \<Longrightarrow> careful c P (attempt (run_db m) k)"
  by (rule careful_attempt) simp_all

lemma careful_update_db: "(\<And>e. P (Inl e)) \<Longrightarrow> (\<And>x. careful c P (k x)) \<Longrightarrow> careful c P (attempt (update_db f) k)"
  by (rule careful_attempt) (simp_all add: update_db_def)

lemma careful_option:
  "(x = None \<Longrightarrow> careful c P a) \<Longrightarrow> (\<And>y. x = Some y \<Longrightarrow> careful c P (b y)) \<Longrightarrow>
   careful c P (case x of None \<Rightarrow> a | Some y \<Rightarrow> b y)"
  by (cases x) simp_all

lemma careful_if: "careful c P a \<Longrightarrow> careful c P b \<Longrightarrow> careful c P (if Q then a else b)"
  by simp

lemma careful_sum:
  "(\<And>e. x = Inl e \<Longrightarrow> careful c P (a e)) \<Longrightarrow> (\<And>y. x = Inr y \<Longrightarrow> careful c P (b y)) \<Longrightarrow>
   careful c P (case x of Inl e \<Rightarrow> a e | Inr y \<Rightarrow> b y)"
  by (cases x) simp_all

lemma invalidate_careful:
  "careful c P t \<Longrightarrow> careful c P (change (\<lambda>s. invalidateBalanceCache s i cur) t)"
  by (rule careful_change_shrinks) (simp_all add: cache_shrinks_def invalidateBalanceCache_def cache_del_def)

lemma idle_cache_careful:
  "(\<And>s. app_cache (f s) = app_cache s) \<Longrightarrow> careful c P t \<Longrightarrow> careful c P (change f t)"
  by (rule careful_change_shrinks) (simp_all add: cache_same)

lemmas careful_intros = careful.returned careful_query careful_run_db careful_update_db careful_option
  careful_if careful_sum invalidate_careful TrueI

lemma careful_map: "careful c (\<lambda>a. P (h a)) t \<Longrightarrow> careful c P (map_thread h t)"
proof (induction "\<lambda>a. P (h a)" t rule: careful.induct)
  case (awaits f)
  show ?case
    unfolding thread.map by (rule careful.awaits) (use awaits in \<open>simp_all add: comp_def\<close>)
qed (simp add: careful.returned)

section \<open>The handlers\<close>

abbreviation drops :: "(string \<Rightarrow> string) \<Rightarrow> (app, 'a) thread \<Rightarrow> bool" where
  "drops c t \<equiv> careful c (\<lambda>_. True) t"

lemma transfer_careful: "drops c (transfer_thread g uid mail inp)"
  unfolding transfer_thread_def by (intro careful_intros)

lemma deposit_careful: "drops c (deposit_thread g reg uid inp)"
  unfolding deposit_thread_def Let_def by (intro careful_intros)

lemma settle_careful: "drops c (settle_thread g ref)"
  unfolding settle_thread_def by (intro careful_intros)

lemma fail_careful: "drops c (fail_thread g ref reason)"
  unfolding fail_thread_def by (intro careful_intros)

lemma ensureWallet_careful: "drops c (ensureWallet_thread g uid cur name)"
  unfolding ensureWallet_thread_def Let_def by (intro careful_intros)

lemma createWallet_careful: "drops c (createWallet_thread g uid name cur)"
  unfolding createWallet_thread_def by (intro careful_intros ensureWallet_careful)

lemma repo_update_careful: "(\<And>x. drops c (k x)) \<Longrightarrow> drops c (repo_update_thread g i patch k)"
  unfolding repo_update_thread_def save_thread_def by (intro careful_intros)

lemma updateUser_careful: "drops c (updateUser_thread g req target patch role)"
  unfolding updateUser_thread_def by (intro careful_intros repo_update_careful)

lemma changePassword_careful: "drops c (changePassword_thread hash verify g uid inp)"
  unfolding changePassword_thread_def by (intro careful_intros repo_update_careful)

lemma deleteUser_careful: "drops c (deleteUser_thread req target role)"
  unfolding deleteUser_thread_def by (intro careful_intros)

lemma register_careful: "drops c (register_thread hash sign g inp)"
  unfolding register_thread_def svc_createUser_def [abs_def]
  by (intro careful_intros idle_cache_careful) (simp add: emit_def)

lemma publish_careful: "drops c (publish_thread f g events)"
proof (induction events)
  case (Cons e es)
  show ?case
    unfolding publish_thread.simps count_failure_def release_publisher_def Let_def
    by (intro careful_intros idle_cache_careful Cons.IH) simp_all
qed (simp add: release_publisher_def idle_cache_careful careful.returned)

lemma release_careful: "drops c t \<Longrightarrow> drops c (release_publisher t)"
  unfolding release_publisher_def by (intro idle_cache_careful) simp_all

lemma batch_careful: "drops c (batch_thread f g)"
  unfolding batch_thread_def
  by (intro careful_intros release_careful publish_careful)

lemma tick_careful: "drops c (tick_thread f g)"
  unfolding tick_thread_def
proof (rule careful.awaits)
  fix s assume own: "owned_under c s"
  let ?f = "\<lambda>s. if app_publisher_busy s then (Return (Inr ()), s)
     else (batch_thread f g, s\<lparr>app_publisher_busy := True\<rparr>)"
  show "owned_under c (snd (?f s))" using own by (simp add: owned_under_def cache_owned_def)
  show "drops c (fst (?f s))" by (simp add: careful.returned batch_careful)
qed

text \<open>The balance query is the only handler that fills the cache.\<close>

definition own_answer :: "(string \<Rightarrow> string) \<Rightarrow> answer \<Rightarrow> bool" where
  "own_answer c a \<longleftrightarrow> (\<forall>uid cur w. a = BalanceAnswer uid cur (Inr w) \<longrightarrow>
     c (wallet_user_id w) = c uid \<and> c (wallet_currency w) = c cur)"

lemma owned_hit:
  assumes "owned_under c s" "CHR '':'' \<notin> set uid" "cache_get (app_cache s) now (balance_cache_key uid cur) = Some w"
  shows "c (wallet_user_id w) = c uid \<and> c (wallet_currency w) = c cur"
proof -
  obtain e where "app_cache s (balance_cache_key uid cur) = Some (w, e)"
    using assms(3) by (auto simp: cache_get_def split: option.splits prod.splits if_splits)
  then obtain u k where "balance_cache_key uid cur = balance_cache_key u k" "CHR '':'' \<notin> set u"
    "same (app_db s) (wallet_user_id w) u" "same (app_db s) (wallet_currency w) k"
    using assms(1) unfolding owned_under_def cache_owned_def by blast
  with balance_cache_key_inject [OF assms(2)] assms(1) show ?thesis
    by (auto simp: same_def owned_under_def)
qed

lemma owned_store:
  assumes "owned_under c s" "CHR '':'' \<notin> set uid" "c (wallet_user_id w) = c uid" "c (wallet_currency w) = c cur"
  shows "owned_under c (s\<lparr>app_cache := cache_set (app_cache s) now (balance_cache_key uid cur) w ttl\<rparr>)"
  using assms unfolding owned_under_def cache_owned_def cache_set_def by (auto simp: same_def)

lemma balance_careful:
  assumes "CHR '':'' \<notin> set uid"
  shows "careful c (\<lambda>r. own_answer c (BalanceAnswer uid cur r)) (balance_thread g uid cur)"
  unfolding balance_thread_def
proof (intro careful_query careful_option careful.returned)
  fix s w assume "owned_under c s" "cache_get (app_cache s) (clock g) (balance_cache_key uid cur) = Some w"
  from owned_hit [OF this(1) assms this(2)] show "own_answer c (BalanceAnswer uid cur (Inr w))"
    by (simp add: own_answer_def)
next
  fix s w assume own: "owned_under c s" and w: "findByUserIdAndCurrency (app_db s) uid cur = Some w"
  have k: "c (wallet_user_id w) = c uid" "c (wallet_currency w) = c cur"
    using find_SomeD [OF w [unfolded findByUserIdAndCurrency_def]] own by (auto simp: same_def owned_under_def)
  show "careful c (\<lambda>r. own_answer c (BalanceAnswer uid cur r))
      (change (\<lambda>s. s\<lparr>app_cache := cache_set (app_cache s) (clock g) (balance_cache_key uid cur) w BALANCE_CACHE_TTL_MS\<rparr>)
        (Return (Inr w)))"
    by (intro careful_change careful.returned) (use k assms owned_store in \<open>simp_all add: own_answer_def\<close>)
qed (simp add: own_answer_def)

lemma served_careful: "drops c t \<Longrightarrow> careful c (own_answer c) (served t)"
  by (rule careful_map) (simp add: own_answer_def)

lemma asked_careful:
  "CHR '':'' \<notin> set uid \<Longrightarrow>
   careful c (own_answer c) (map_thread (BalanceAnswer uid cur) (balance_thread g uid cur))"
  by (rule careful_map) (rule balance_careful)

lemma arrival_careful: "arrival w t \<Longrightarrow> careful c (own_answer c) t"
  by (induction rule: arrival.induct)
    (auto intro!: served_careful asked_careful transfer_careful deposit_careful settle_careful
      fail_careful createWallet_careful ensureWallet_careful register_careful changePassword_careful
      updateUser_careful deleteUser_careful tick_careful)

section \<open>The pool\<close>

definition quiet_start :: "(app, answer) thread list \<times> world \<Rightarrow> bool" where
  "quiet_start = (\<lambda>(ts, s, h). pool_init (ts, s, h) \<and> app_cache s = (\<lambda>_. None))"

definition private_pool :: "(app, answer) thread list \<times> world \<Rightarrow> bool" where
  "private_pool = (\<lambda>(ts, s, h). pool_ok (ts, s, h) \<and> cache_owned s
     \<and> (\<forall>t\<in>set ts. careful (db_coll (app_db s)) (own_answer (db_coll (app_db s))) t))"

lemma world_step_coll: "world_step (s, h) (s', h') \<Longrightarrow> db_coll (app_db s') = db_coll (app_db s)"
  by (auto simp: world_step_def write_or_none_def dest: db_step_coll)

lemma resumed_careful:
  assumes "resumed (ts, s) (ts', s')" "owned_under c s" "db_coll (app_db s') = c"
    and "\<And>t. t \<in> set ts \<Longrightarrow> careful c P t"
  shows "owned_under c s' \<and> (\<forall>t\<in>set ts'. careful c P t)"
proof -
  from assms(1) obtain i f t where f: "i < length ts" "ts ! i = Await f" "f s = (t, s')" "ts' = ts[i := t]"
    by cases
  have "Await f \<in> set ts" using f(1,2) by (metis nth_mem)
  then have f': "careful c P (Await f)" by (rule assms(4))
  have fs: "fst (f s) = t" "snd (f s) = s'" using f(3) by simp_all
  from f' have "owned_under c s'" by (rule careful_Await) (use assms(2,3) fs in blast)
  moreover from f' have "careful c P t" by (rule careful_Await) (use assms(2) fs in blast)
  moreover have "set ts' \<subseteq> insert t (set ts)" unfolding f(4) by (rule set_update_subset_insert)
  ultimately show ?thesis using assms(4) by blast
qed

lemma private_step:
  assumes "private_pool (ts, s, h)" "pool_step (ts, s, h) (ts', s', h')"
  shows "private_pool (ts', s', h')"
proof -
  let ?c = "db_coll (app_db s)"
  have ok: "pool_ok (ts, s, h)" and own: "owned_under ?c s"
    and ts: "\<And>t. t \<in> set ts \<Longrightarrow> careful ?c (own_answer ?c) t"
    using assms(1) by (auto simp: private_pool_def owned_under_def)
  have ok': "pool_ok (ts', s', h')" by (rule pool.inv_step [OF ok assms(2)])
  from assms(2) have "owned_under ?c s' \<and> (\<forall>t\<in>set ts'. careful ?c (own_answer ?c) t)"
  proof cases
    case run
    have "db_coll (app_db s') = ?c" using resumed_world(1) [OF run(2,3) ok] by (rule world_step_coll)
    from resumed_careful [OF run(2) own this ts] show ?thesis .
  next
    case (arrive t)
    then show ?thesis using own ts arrival_careful by auto
  next
    case other
    then have "db_coll (app_db s') = ?c" by (auto intro: world_step_coll)
    moreover have "cache_shrinks s s'" using other by (simp add: cache_same)
    ultimately show ?thesis using owned_shrinks [OF own] ts other by simp
  qed
  then show ?thesis using ok' by (auto simp: private_pool_def owned_under_def)
qed

interpretation private_pool: invariant_system quiet_start pool_step private_pool
proof unfold_locales
  show "private_pool p" if "quiet_start p" for p
    using that pool.inv_init by (auto simp: quiet_start_def private_pool_def pool_init_def cache_owned_def)
  show "private_pool p'" if "private_pool p" "pool_step p p'" for p p'
    using that private_step by (cases p; cases p') auto
qed

text \<open>C25: A balance query is only ever answered with a wallet of the user who asks, in the currency asked
  for. Any number of requests of any users may overlap with it and with each other at every awaited
  call, filling, dropping and reading the same cache; the answer of every query that has ended, and
  the answer a query would get now, is the asking user's own. (Equality is that of the collation.)\<close>
theorem overlapping_balance_is_ones_own:
  assumes "reach quiet_start pool_step (ts, s, h)"
  shows "(\<forall>uid cur w. Return (BalanceAnswer uid cur (Inr w)) \<in> set ts \<longrightarrow>
       same (app_db s) (wallet_user_id w) uid \<and> same (app_db s) (wallet_currency w) cur)
    \<and> (\<forall>g uid cur w. CHR '':'' \<notin> set uid \<longrightarrow> fst (getBalance g s uid cur) = Inr w \<longrightarrow>
       same (app_db s) (wallet_user_id w) uid \<and> same (app_db s) (wallet_currency w) cur)"
proof -
  let ?c = "db_coll (app_db s)"
  have p: "private_pool (ts, s, h)" by (rule private_pool.always [OF assms])
  then have own: "owned_under ?c s" by (simp add: private_pool_def owned_under_def)
  have "same (app_db s) (wallet_user_id w) uid \<and> same (app_db s) (wallet_currency w) cur"
    if "Return (BalanceAnswer uid cur (Inr w)) \<in> set ts" for uid cur w
  proof -
    have "careful ?c (own_answer ?c) (Return (BalanceAnswer uid cur (Inr w)))"
      using p that by (auto simp: private_pool_def)
    then show ?thesis by (rule careful_Return) (simp add: own_answer_def same_def)
  qed
  moreover have "same (app_db s) (wallet_user_id w) uid \<and> same (app_db s) (wallet_currency w) cur"
    if "CHR '':'' \<notin> set uid" "fst (getBalance g s uid cur) = Inr w" for g uid cur w
  proof (cases "cache_get (app_cache s) (clock g) (balance_cache_key uid cur)")
    case None
    with that(2) have "findByUserIdAndCurrency (app_db s) uid cur = Some w"
      by (auto simp: getBalance_def Let_def split: option.splits)
    from find_SomeD [OF this [unfolded findByUserIdAndCurrency_def]] show ?thesis by simp
  next
    case (Some w')
    with that(2) have "w' = w" by (simp add: getBalance_def Let_def)
    with owned_hit [OF own that(1)] Some show ?thesis by (simp add: same_def)
  qed
  ultimately show ?thesis by blast
qed

section \<open>A concrete run\<close>

text \<open>Alice registers and gets her wallet; then her balance query is served.\<close>

lemma reach_reading:
  assumes "reach quiet_start pool_step (ts, s, h)" "resumed (ts, s) (ts', s')" "app_db s' = app_db s"
  shows "reach quiet_start pool_step (ts', s', h)"
proof -
  have "world_ok (s, h)" using private_pool.always [OF assms(1)] by (simp add: private_pool_def pool_ok_def)
  then have "remember h (app_db s') = h" by (simp add: assms(3) remember_idle world_okD)
  moreover have "fresh_rows h (app_db s) (app_db s')" by (simp add: assms(3) unchanged_fresh)
  ultimately have "pool_step (ts, s, h) (ts', s', h)" using pool_step.run [OF assms(2)] by metis
  with assms(1) show ?thesis by (rule reach_step)
qed

definition alice_query :: "(app, answer) thread" where
  "alice_query = map_thread (BalanceAnswer ''u'' ''EUR'') (balance_thread (demo_ambient ''q'' 3) ''u'' ''EUR'')"

lemma alice_arrives: "\<exists>h. reach quiet_start pool_step ([alice_query], demo_app\<lparr>app_db := run2\<rparr>, h)"
proof -
  define h0 where "h0 = \<lparr>seen_wallets = {}, seen_users = {}\<rparr>"
  define h1 where "h1 = remember h0 run1"
  define h2 where "h2 = remember h1 run2"
  let ?s1 = "demo_app\<lparr>app_db := run1\<rparr>" and ?s2 = "demo_app\<lparr>app_db := run2\<rparr>"
  have "quiet_start ([], first_app, h0)"
    by (simp add: quiet_start_def pool_init_def first_app_def fresh_db_def empty_db_def h0_def demo_app_def)
  then have "reach quiet_start pool_step ([], first_app, h0)" by (rule reach_init)
  moreover have "pool_step ([], first_app, h0) ([], ?s1, h1)"
    using db_step.user_inserted [OF createUser_Inr [OF run_create_user]]
    by (intro pool_step.other) (simp_all add: world_step_def write_or_none_def fresh_rows_def wallet_ids_def h0_def
        h1_def first_app_def run1_def empty_db_def)
  ultimately have one: "reach quiet_start pool_step ([], ?s1, h1)" by (rule reach_step)
  have "db_step run1 run2"
    by (rule db_step.wallet_ensured [OF run_create_wallet]) (simp_all add: literal_user_def fresh_wallet_def run_defs)
  moreover have "fresh_rows h1 run1 run2"
    by (simp add: fresh_rows_def wallet_ids_def user_ids_def h0_def h1_def remember_def fresh_wallet_def run_defs)
  ultimately have "pool_step ([], ?s1, h1) ([], ?s2, h2)"
    by (intro pool_step.other) (simp_all add: world_step_def write_or_none_def h2_def)
  with one have two: "reach quiet_start pool_step ([], ?s2, h2)" by (rule reach_step)
  have "arrival (?s2, h2) alice_query" unfolding alice_query_def by (rule arrival.balance) simp
  then have "pool_step ([], ?s2, h2) ([] @ [alice_query], ?s2, h2)" by (rule pool_step.arrive)
  with two have "reach quiet_start pool_step ([] @ [alice_query], ?s2, h2)" by (rule reach_step)
  then show ?thesis by auto
qed

lemma alice_answered:
  "\<exists>s h. reach quiet_start pool_step ([Return (BalanceAnswer ''u'' ''EUR'' (Inr run_wallet))], s, h)
     \<and> app_db s = run2"
proof -
  let ?s = "demo_app\<lparr>app_db := run2\<rparr>" and ?k = "balance_cache_key ''u'' ''EUR''" and ?h = "BalanceAnswer ''u'' ''EUR''"
  define store :: "wallet \<Rightarrow> app \<Rightarrow> app" where
    "store = (\<lambda>w s. s\<lparr>app_cache := cache_set (app_cache s) (clock (demo_ambient ''q'' 3)) ?k w BALANCE_CACHE_TTL_MS\<rparr>)"
  define finds :: "app \<Rightarrow> wallet option" where "finds = (\<lambda>s. findByUserIdAndCurrency (app_db s) ''u'' ''EUR'')"
  define found :: "wallet option \<Rightarrow> (app, error + wallet) thread" where
    "found = (\<lambda>x. case x of None \<Rightarrow> Return (Inl (NotFound ''Wallet not found''))
       | Some w \<Rightarrow> change (store w) (Return (Inr w)))"
  define cached :: "wallet option \<Rightarrow> (app, error + wallet) thread" where
    "cached = (\<lambda>x. case x of Some w \<Rightarrow> Return (Inr w) | None \<Rightarrow> query finds found)"
  have q: "balance_thread (demo_ambient ''q'' 3) ''u'' ''EUR''
      = query (\<lambda>s. cache_get (app_cache s) (clock (demo_ambient ''q'' 3)) ?k) cached"
    unfolding balance_thread_def cached_def found_def finds_def store_def by simp
  have f: "finds ?s = Some run_wallet" by (simp add: finds_def findByUserIdAndCurrency_def run_defs same_def)
  have "resumed ([alice_query], ?s) ([map_thread ?h (query finds found)], ?s)"
    using resumed_query [of 0 "[alice_query]" "\<lambda>s. cache_get (app_cache s) (clock (demo_ambient ''q'' 3)) ?k"
        "\<lambda>x. map_thread ?h (cached x)" ?s None]
    by (simp add: alice_query_def q demo_app_def cache_get_def cached_def)
  then have one: "\<exists>h. reach quiet_start pool_step ([map_thread ?h (query finds found)], ?s, h)"
    using alice_arrives reach_reading by blast
  have "resumed ([map_thread ?h (query finds found)], ?s) ([map_thread ?h (change (store run_wallet) (Return (Inr run_wallet)))], ?s)"
    using resumed_query [of 0 "[map_thread ?h (query finds found)]" finds "\<lambda>x. map_thread ?h (found x)" ?s "Some run_wallet"]
    by (simp add: f found_def)
  then have two: "\<exists>h. reach quiet_start pool_step ([map_thread ?h (change (store run_wallet) (Return (Inr run_wallet)))], ?s, h)"
    using one reach_reading by blast
  have three: "resumed ([map_thread ?h (change (store run_wallet) (Return (Inr run_wallet)))], ?s)
      ([Return (?h (Inr run_wallet))], store run_wallet ?s)"
    using resumed_change [of 0 "[map_thread ?h (change (store run_wallet) (Return (Inr run_wallet)))]" "store run_wallet"
        "Return (?h (Inr run_wallet))" ?s] by simp
  obtain h where "reach quiet_start pool_step ([map_thread ?h (change (store run_wallet) (Return (Inr run_wallet)))], ?s, h)"
    using two by blast
  from reach_reading [OF this three]
  have "reach quiet_start pool_step ([Return (?h (Inr run_wallet))], store run_wallet ?s, h)" by (simp add: store_def)
  moreover have "app_db (store run_wallet ?s) = run2" by (simp add: store_def)
  ultimately show ?thesis by (intro exI conjI)
qed

theorem overlapping_balance_is_ones_own_witness: "wallet_user_id run_wallet = ''u'' \<and> wallet_currency run_wallet = ''EUR''"
proof -
  obtain s h where r: "reach quiet_start pool_step ([Return (BalanceAnswer ''u'' ''EUR'' (Inr run_wallet))], s, h)"
    and d: "app_db s = run2" using alice_answered by blast
  have "same (app_db s) = (=)" by (simp add: d run_defs same_def fun_eq_iff)
  then show ?thesis using overlapping_balance_is_ones_own [OF r] by simp
qed

end
