(* ===== verification/TickExclusion.thy ===== *)
theory TickExclusion
  imports Pool
begin

text \<open>
  Cron starts a tick of the publisher every five seconds whether or not the last one has ended. The
  flag keeps the ticks apart: among all requests and ticks that overlap, at most one tick is between
  the test of the flag and the \<open>finally\<close> that releases it.
\<close>

section \<open>Outside and inside the guarded part\<close>

text \<open>
  A thread outside keeps the flag as it is until it sets it when it is free; a thread inside keeps
  it set until it releases it.
\<close>

inductive outside :: "(app, 'a) thread \<Rightarrow> bool" and inside :: "(app, 'a) thread \<Rightarrow> bool" where
  ended: "outside (Return a)"
| waits: "(\<And>s. app_publisher_busy (snd (f s)) = app_publisher_busy s \<and> outside (fst (f s))
      \<or> \<not> app_publisher_busy s \<and> app_publisher_busy (snd (f s)) \<and> inside (fst (f s))) \<Longrightarrow> outside (Await f)"
| works: "(\<And>s. app_publisher_busy s \<Longrightarrow> app_publisher_busy (snd (f s)) \<and> inside (fst (f s))
      \<or> \<not> app_publisher_busy (snd (f s)) \<and> outside (fst (f s))) \<Longrightarrow> inside (Await f)"

inductive_cases outside_Await: "outside (Await f)"
inductive_cases inside_Await: "inside (Await f)"

lemma outside_query: "(\<And>x. outside (k x)) \<Longrightarrow> outside (query q k)"
  unfolding query_def by (rule outside_inside.waits) simp

lemma outside_change: "(\<And>s. app_publisher_busy (f s) = app_publisher_busy s) \<Longrightarrow> outside t \<Longrightarrow> outside (change f t)"
  unfolding change_def by (rule outside_inside.waits) simp

lemma outside_attempt:
  assumes "\<And>s. app_publisher_busy (snd (m s)) = app_publisher_busy s" "\<And>x. outside (k x)"
  shows "outside (attempt m k)"
  unfolding attempt_def
proof (rule outside_inside.waits)
  fix s
  let ?f = "case m s of (Inl e, s') \<Rightarrow> (Return (Inl e), s') | (Inr x, s') \<Rightarrow> (k x, s')"
  have "snd ?f = snd (m s)" by (simp split: prod.split sum.split)
  moreover have "outside (fst ?f)" using assms(2) by (auto intro: outside_inside.ended split: prod.split sum.split)
  ultimately show "app_publisher_busy (snd ?f) = app_publisher_busy s \<and> outside (fst ?f)
      \<or> \<not> app_publisher_busy s \<and> app_publisher_busy (snd ?f) \<and> inside (fst ?f)"
    using assms(1) by simp
qed

lemma run_db_flag: "app_publisher_busy (snd (run_db m s)) = app_publisher_busy s"
  by (simp add: run_db_def split: sum.split)

lemma outside_run_db: "(\<And>x. outside (k x)) \<Longrightarrow> outside (attempt (run_db m) k)"
  by (rule outside_attempt) (simp_all add: run_db_flag)

lemma outside_update_db: "(\<And>x. outside (k x)) \<Longrightarrow> outside (attempt (update_db f) k)"
  by (rule outside_attempt) (simp_all add: update_db_def)

lemma outside_option: "outside a \<Longrightarrow> (\<And>y. outside (b y)) \<Longrightarrow> outside (case x of None \<Rightarrow> a | Some y \<Rightarrow> b y)"
  by (cases x) simp_all

lemma outside_if: "outside a \<Longrightarrow> outside b \<Longrightarrow> outside (if Q then a else b)"
  by simp

lemma outside_sum: "(\<And>e. outside (a e)) \<Longrightarrow> (\<And>y. outside (b y)) \<Longrightarrow> outside (case x of Inl e \<Rightarrow> a e | Inr y \<Rightarrow> b y)"
  by (cases x) simp_all

lemma invalidate_outside: "outside t \<Longrightarrow> outside (change (\<lambda>s. invalidateBalanceCache s i cur) t)"
  by (rule outside_change) (simp_all add: invalidateBalanceCache_def)

lemmas outside_intros = outside_inside.ended outside_query outside_run_db outside_update_db outside_option
  outside_if outside_sum invalidate_outside

lemma map_outside: "outside t \<Longrightarrow> outside (map_thread h t)" and map_inside: "inside t \<Longrightarrow> inside (map_thread h t)"
proof (induction rule: outside_inside.inducts)
  case (waits f)
  show ?case unfolding thread.map by (rule outside_inside.waits) (use waits in \<open>auto simp: comp_def\<close>)
next
  case (works f)
  show ?case unfolding thread.map by (rule outside_inside.works) (use works in \<open>auto simp: comp_def\<close>)
qed (simp add: outside_inside.ended)

section \<open>The handlers are outside, the loop of a tick is inside\<close>

lemma handlers_outside:
  "outside (transfer_thread g uid mail tinp)" "outside (deposit_thread g reg uid dinp)"
  "outside (settle_thread g ref)" "outside (fail_thread g ref reason)" "outside (deleteUser_thread uid target role)"
  unfolding transfer_thread_def deposit_thread_def settle_thread_def fail_thread_def deleteUser_thread_def Let_def
  by (intro outside_intros)+

lemma wallets_outside:
  "outside (ensureWallet_thread g uid cur name)" "outside (createWallet_thread g uid name cur)"
  unfolding createWallet_thread_def ensureWallet_thread_def Let_def by (intro outside_intros)+

lemma balance_outside: "outside (balance_thread g uid cur)"
  unfolding balance_thread_def by (intro outside_intros outside_change) simp

lemma repo_update_outside: "(\<And>x. outside (k x)) \<Longrightarrow> outside (repo_update_thread g i patch k)"
  unfolding repo_update_thread_def save_thread_def by (intro outside_intros)

lemma accounts_outside:
  "outside (updateUser_thread g req target patch role)" "outside (changePassword_thread hash verify g uid ci)"
  unfolding updateUser_thread_def changePassword_thread_def by (intro outside_intros repo_update_outside)+

lemma register_outside: "outside (register_thread hash sign g ri)"
  unfolding register_thread_def svc_createUser_def [abs_def]
  by (intro outside_intros outside_change) (simp add: emit_def)

lemma inside_release: "outside t \<Longrightarrow> inside (release_publisher t)"
  unfolding release_publisher_def change_def by (rule outside_inside.works) simp

lemma inside_change: "(\<And>s. app_publisher_busy (f s) = app_publisher_busy s) \<Longrightarrow> inside t \<Longrightarrow> inside (change f t)"
  unfolding change_def by (rule outside_inside.works) simp

lemma inside_update_db: "inside t \<Longrightarrow> inside (attempt (update_db f) (\<lambda>_. t))"
  unfolding attempt_def by (rule outside_inside.works) (simp add: update_db_def)

lemma inside_count: "inside t \<Longrightarrow> inside (count_failure f g i t)"
  by (simp add: count_failure_def inside_release inside_update_db outside_inside.ended)

lemma publish_inside: "inside (publish_thread f g events)"
proof (induction events)
  case (Cons e es)
  then show ?case by (simp add: Let_def inside_count inside_update_db inside_change)
qed (simp add: inside_release outside_inside.ended)

lemma batch_inside: "inside (batch_thread f g)"
  unfolding batch_thread_def query_def
  by (rule outside_inside.works) (simp add: publish_inside inside_release outside_inside.ended)

lemma tick_outside: "outside (tick_thread f g)"
proof -
  show ?thesis
    unfolding tick_thread_def by (intro outside_inside.waits) (simp add: outside_inside.ended batch_inside)
qed

lemma arrival_outside: "arrival w t \<Longrightarrow> outside t"
  by (induction rule: arrival.induct)
    (auto intro!: map_outside handlers_outside wallets_outside balance_outside accounts_outside register_outside
      tick_outside)

section \<open>At most one\<close>

text \<open>A thread that would release the flag, run from some state in which it is set.\<close>

definition holding :: "(app, 'a) thread \<Rightarrow> bool" where
  "holding t \<longleftrightarrow> (\<exists>s. app_publisher_busy s \<and> \<not> app_publisher_busy (snd (run_thread t s)))"

lemma outside_run: "outside t \<Longrightarrow> app_publisher_busy s \<Longrightarrow> app_publisher_busy (snd (run_thread t s))"
proof (induction t arbitrary: s)
  case (Await f)
  from Await.prems(1) have "app_publisher_busy (snd (f s)) = app_publisher_busy s \<and> outside (fst (f s))"
    by (rule outside_Await) (use Await.prems(2) in blast)
  moreover obtain t1 s1 where f: "f s = (t1, s1)" by (cases "f s")
  moreover have "app_publisher_busy (snd (run_thread t1 s1))" if "outside t1" "app_publisher_busy s1"
    by (rule Await.IH [OF rangeI [of f s] _ that]) (simp add: f)
  ultimately show ?case using Await.prems(2) by simp
qed simp

lemma outside_not_holding: "outside t \<Longrightarrow> \<not> holding t"
  by (auto simp: holding_def outside_run)

text \<open>A thread inside, left alone, releases the flag; one outside leaves it free when it finds it free.\<close>

lemma inside_run: "inside t \<Longrightarrow> app_publisher_busy s \<Longrightarrow> \<not> app_publisher_busy (snd (run_thread t s))"
  and outside_run_free: "outside t \<Longrightarrow> \<not> app_publisher_busy s \<Longrightarrow> \<not> app_publisher_busy (snd (run_thread t s))"
proof (induction t arbitrary: s)
  case (Await f)
  have free: "\<not> app_publisher_busy (snd (run_thread (Await f) s))"
    if "inside (fst (f s)) \<and> app_publisher_busy (snd (f s)) \<or> outside (fst (f s)) \<and> \<not> app_publisher_busy (snd (f s))" for s
  proof -
    obtain t1 s1 where f: "f s = (t1, s1)" by (cases "f s")
    have r: "t1 \<in> Basic_BNFs.fsts (f s)" by (simp add: f)
    have "\<not> app_publisher_busy (snd (run_thread t1 s1))"
      using that Await.IH(1) [OF rangeI [of f s] r] Await.IH(2) [OF rangeI [of f s] r] by (auto simp: f)
    then show ?thesis by (simp add: f)
  qed
  {
    case 1
    from 1(1) have "app_publisher_busy (snd (f s)) \<and> inside (fst (f s))
        \<or> \<not> app_publisher_busy (snd (f s)) \<and> outside (fst (f s))"
      using 1(2) by cases metis
    then show ?case by (intro free) blast
  next
    case 2
    from 2(1) have "app_publisher_busy (snd (f s)) = app_publisher_busy s \<and> outside (fst (f s))
        \<or> \<not> app_publisher_busy s \<and> app_publisher_busy (snd (f s)) \<and> inside (fst (f s))"
      by (rule outside_Await)
    then show ?case using 2(2) by (intro free) blast
  }
qed (auto elim: inside.cases)

lemma inside_holding: "inside t \<Longrightarrow> holding t"
  unfolding holding_def
  by (intro exI [of _ "first_app\<lparr>app_publisher_busy := True\<rparr>"]) (simp add: inside_run)

text \<open>One thread is inside exactly when the flag is set.\<close>

definition exclusive :: "(app, answer) thread list \<times> world \<Rightarrow> bool" where
  "exclusive = (\<lambda>(ts, s, h). if app_publisher_busy s
     then \<exists>i<length ts. inside (ts ! i) \<and> (\<forall>j<length ts. j \<noteq> i \<longrightarrow> outside (ts ! j))
     else \<forall>j<length ts. outside (ts ! j))"

lemma exclusive_resumed:
  assumes "resumed (ts, s) (ts', s')" "exclusive (ts, s, h)"
  shows "exclusive (ts', s', h')"
proof -
  from assms(1) obtain i f t where f: "i < length ts" "ts ! i = Await f" "f s = (t, s')" "ts' = ts[i := t]"
    by cases
  have fs: "fst (f s) = t" "snd (f s) = s'" using f(3) by simp_all
  show ?thesis
  proof (cases "app_publisher_busy s")
    case False
    then have all: "\<And>j. j < length ts \<Longrightarrow> outside (ts ! j)" using assms(2) by (simp add: exclusive_def)
    have "outside (Await f)" using all [OF f(1)] f(2) by simp
    then have "app_publisher_busy s' = app_publisher_busy s \<and> outside t \<or> app_publisher_busy s' \<and> inside t"
      by (rule outside_Await) (use fs in blast)
    then show ?thesis using False all f(1,4) by (auto simp: exclusive_def nth_list_update)
  next
    case True
    then obtain k where k: "k < length ts" "inside (ts ! k)" "\<And>j. j < length ts \<Longrightarrow> j \<noteq> k \<Longrightarrow> outside (ts ! j)"
      using assms(2) by (auto simp: exclusive_def)
    show ?thesis
    proof (cases "k = i")
      case True
      with k(2) f(2) have "inside (Await f)" by simp
      then have "app_publisher_busy s' \<and> inside t \<or> \<not> app_publisher_busy s' \<and> outside t"
        by (rule inside_Await) (use fs \<open>app_publisher_busy s\<close> in blast)
      then show ?thesis using True k(3) f(1,4) by (auto simp: exclusive_def nth_list_update)
    next
      case False
      then have "outside (Await f)" using k(3) [OF f(1)] f(2) by simp
      then have "app_publisher_busy s' \<and> outside t"
        by (rule outside_Await) (use fs \<open>app_publisher_busy s\<close> in blast)
      then show ?thesis using False k f(1,4) by (auto simp: exclusive_def nth_list_update intro!: exI [of _ k])
    qed
  qed
qed

lemma exclusive_arrive:
  assumes "outside t" "exclusive (ts, s, h)"
  shows "exclusive (ts @ [t], s, h)"
proof (cases "app_publisher_busy s")
  case True
  then obtain k where "k < length ts" "inside (ts ! k)" "\<And>j. j < length ts \<Longrightarrow> j \<noteq> k \<Longrightarrow> outside (ts ! j)"
    using assms(2) by (auto simp: exclusive_def)
  then show ?thesis using True assms(1)
    by (auto simp: exclusive_def nth_append less_Suc_eq intro!: exI [of _ k])
next
  case False
  then show ?thesis using assms by (auto simp: exclusive_def nth_append less_Suc_eq)
qed

definition free_start :: "(app, answer) thread list \<times> world \<Rightarrow> bool" where
  "free_start = (\<lambda>(ts, s, h). pool_init (ts, s, h) \<and> \<not> app_publisher_busy s)"

interpretation one_tick: invariant_system free_start pool_step exclusive
proof unfold_locales
  show "exclusive p" if "free_start p" for p
    using that by (auto simp: free_start_def pool_init_def exclusive_def)
  show "exclusive p'" if "exclusive p" "pool_step p p'" for p p'
    using that(2,1)
  proof cases
    case (run ts s ts' s' h)
    then show ?thesis using exclusive_resumed [OF run(3)] that(1) by blast
  next
    case (arrive w t ts)
    then show ?thesis using exclusive_arrive arrival_outside that(1) by (cases w) blast
  next
    case (other w w' ts)
    then show ?thesis using that(1) by (cases w; cases w') (simp add: exclusive_def)
  qed
qed

text \<open>C24: Ticks of the publisher exclude each other, and the flag says whether one is at work. Call a
  thread holding when, from some state with the flag set, it would release it: the part of a tick
  after the flag was set is holding, a tick that has not started is not. However many ticks are
  started and whatever overlaps with them, the flag is set exactly while some thread is holding, and
  then only one is, so no event is taken by two ticks at the same time. The holding thread releases
  the flag on every way it can end, whatever state it is resumed in, so the flag is never left set
  by a tick that is over and the next tick can run.\<close>
theorem ticks_exclude_each_other:
  assumes "reach free_start pool_step (ts, s, h)"
  shows "(app_publisher_busy s \<longleftrightarrow> (\<exists>i<length ts. holding (ts ! i)))
    \<and> (\<forall>i<length ts. \<forall>j<length ts. holding (ts ! i) \<longrightarrow> holding (ts ! j) \<longrightarrow> i = j)
    \<and> (\<forall>i<length ts. \<forall>s'. holding (ts ! i) \<longrightarrow> app_publisher_busy s' \<longrightarrow>
         \<not> app_publisher_busy (snd (run_thread (ts ! i) s')))
    \<and> (\<forall>f g. holding (served (batch_thread f g)) \<and> \<not> holding (served (tick_thread f g)))
    \<and> (\<forall>f g events. holding (served (publish_thread f g events)))"
proof -
  have e: "exclusive (ts, s, h)" by (rule one_tick.always [OF assms])
  have held: "inside (ts ! i) \<and> app_publisher_busy s" if "i < length ts" "holding (ts ! i)" for i
    using that e outside_not_holding unfolding exclusive_def by (auto split: if_splits)
  have "app_publisher_busy s \<longleftrightarrow> (\<exists>i<length ts. holding (ts ! i))"
    using e held inside_holding unfolding exclusive_def by (auto split: if_splits)
  moreover have "i = j" if "i < length ts" "j < length ts" "holding (ts ! i)" "holding (ts ! j)" for i j
    using e that held [OF that(1,3)] outside_not_holding unfolding exclusive_def by (auto split: if_splits)
  moreover have "\<not> app_publisher_busy (snd (run_thread (ts ! i) s'))"
    if "i < length ts" "holding (ts ! i)" "app_publisher_busy s'" for i s'
    using held [OF that(1,2)] that(3) inside_run by blast
  moreover have "holding (served (batch_thread f g)) \<and> \<not> holding (served (tick_thread f g))" for f g
    using inside_holding [OF map_inside [OF batch_inside]] outside_not_holding [OF map_outside [OF tick_outside]]
    by blast
  moreover have "holding (served (publish_thread f g events))" for f g events
    by (rule inside_holding [OF map_inside [OF publish_inside]])
  ultimately show ?thesis by blast
qed

text \<open>Two ticks have started; the first has taken the flag.\<close>

lemma two_ticks:
  "\<exists>s h. app_publisher_busy s \<and> reach free_start pool_step
     ([served (batch_thread f g), served (tick_thread f g)], s, h)"
proof -
  define h where "h = \<lparr>seen_wallets = {}, seen_users = {}\<rparr>"
  let ?t = "served (tick_thread f g)" and ?q = "served (batch_thread f g)"
  let ?s = "first_app\<lparr>app_publisher_busy := True\<rparr>"
  let ?f = "\<lambda>s. if app_publisher_busy s then (Return (Inr ()), s)
     else (batch_thread f g, s\<lparr>app_publisher_busy := True\<rparr>)"
  have start: "free_start ([], first_app, h)"
    by (simp add: free_start_def pool_init_def first_app_def fresh_db_def empty_db_def h_def demo_app_def)
  have a: "arrival (first_app, h) ?t" by (rule arrival.tick)
  have one: "pool_step ([], first_app, h) ([] @ [?t], first_app, h)" by (rule pool_step.arrive [OF a])
  have two: "pool_step ([] @ [?t], first_app, h) (([] @ [?t]) @ [?t], first_app, h)" by (rule pool_step.arrive [OF a])
  have ex: "?t = Await (map_prod (map_thread (\<lambda>_. Answered)) id \<circ> ?f)" by (simp add: tick_thread_def)
  have "resumed (([] @ [?t]) @ [?t], first_app) ((([] @ [?t]) @ [?t])[0 := ?q], ?s)"
    by (rule resumed.resume [of 0 _ "map_prod (map_thread (\<lambda>_. Answered)) id \<circ> ?f"])
      (use ex in \<open>simp_all add: first_app_def demo_app_def\<close>)
  moreover have "fresh_rows h (app_db first_app) (app_db ?s)" by (simp add: unchanged_fresh)
  ultimately have three: "pool_step (([] @ [?t]) @ [?t], first_app, h) ((([] @ [?t]) @ [?t])[0 := ?q], ?s, remember h (app_db ?s))"
    by (rule pool_step.run)
  have "reach free_start pool_step ([], first_app, h)" using start by (rule reach_init)
  then have "reach free_start pool_step ([] @ [?t], first_app, h)" using one by (rule reach_step)
  then have "reach free_start pool_step (([] @ [?t]) @ [?t], first_app, h)" using two by (rule reach_step)
  then have "reach free_start pool_step ((([] @ [?t]) @ [?t])[0 := ?q], ?s, remember h (app_db ?s))"
    using three by (rule reach_step)
  then show ?thesis by (intro exI [of _ ?s] exI [of _ "remember h (app_db ?s)"]) simp
qed

theorem ticks_exclude_each_other_witness:
  "\<exists>ts s h. reach free_start pool_step (ts, s, h) \<and> app_publisher_busy s \<and> length ts = 2 \<and> holding (ts ! 0) \<and> \<not> holding (ts ! 1)"
proof -
  define f :: faults where "f = \<lparr>find_fails = False, add_fails = (\<lambda>_. False), mark_fails = (\<lambda>_. False), retry_fails = (\<lambda>_. False)\<rparr>"
  define g where "g = demo_ambient ''g'' 5"
  define q where "q = served (batch_thread f g)"
  obtain s h where r: "reach free_start pool_step ([q, served (tick_thread f g)], s, h)" and b: "app_publisher_busy s"
    using two_ticks unfolding q_def by blast
  have "holding q" "\<not> holding (served (tick_thread f g))"
    unfolding q_def using ticks_exclude_each_other [OF r] by blast+
  then show ?thesis using r b by (intro exI [of _ "[q, served (tick_thread f g)]"] exI [of _ s] exI [of _ h]) simp
qed

end
