(* ===== verification/Modules.thy ===== *)
theory Modules
  imports AppState
begin

text \<open>
  The modules of the program as Nest reads them: what each \<open>@Module\<close> imports, declares and exports,
  what each constructor asks for, and which queue, clock or event a class waits for. Third-party
  modules are constructors of \<open>library_module\<close>; what they export is the parameter \<open>nest_library\<close>.
\<close>

section \<open>Tokens, modules and providers\<close>

text \<open>An injection token: a class or a symbol, \<open>@InjectRepository(entity)\<close>, \<open>@InjectQueue(name)\<close>.\<close>

datatype token = Named string | RepositoryOf string | QueueOf string

datatype library_module =
    ConfigModule
  | ConfigModule_forRoot bool
  | EventEmitterModule_forRoot
  | ScheduleModule_forRoot
  | PassportModule_register string
  | TypeOrmModule_forRootAsync "library_module list" "token list"
  | TypeOrmModule_forFeature "string list"
  | BullModule_forRootAsync "library_module list" "token list"
  | BullModule_registerQueue "string list"
  | BullBoardModule_forRoot string
  | BullBoardModule_forFeature "string list"
  | CacheModule_registerAsync "library_module list" "token list"
  | JwtModule_registerAsync "library_module list" "token list"

datatype module_import = Own string | Library library_module

datatype provider = Class string | UseClass token string | UseFactory token "token list"

text \<open>An export names a provider or an imported module, which is then exported in turn.\<close>

datatype module_export = ExportProvider token | ExportModule string

record nest_module =
  mod_name :: string
  mod_imports :: "module_import list"
  mod_controllers :: "string list"
  mod_providers :: "provider list"
  mod_exports :: "module_export list"

section \<open>Constructors\<close>

definition AppController_parameters :: "token list" where
  "AppController_parameters = [Named ''AppService'']"

definition UsersController_parameters :: "token list" where
  "UsersController_parameters = [Named ''UsersService'']"

definition UsersService_parameters :: "token list" where
  "UsersService_parameters = [Named ''UsersRepository'', Named ''UsersPolicy'']"

definition UsersRepository_parameters :: "token list" where
  "UsersRepository_parameters = [RepositoryOf ''Users'']"

definition AuthController_parameters :: "token list" where
  "AuthController_parameters = [Named ''AuthService'']"

definition AuthService_parameters :: "token list" where
  "AuthService_parameters = [Named ''UsersService'', Named ''JwtService'', Named ''EventEmitter2'']"

definition JwtStrategy_parameters :: "token list" where
  "JwtStrategy_parameters = [Named ''ConfigService'', Named ''UsersService'']"

definition JwtAuthGuard_parameters :: "token list" where
  "JwtAuthGuard_parameters = [Named ''Reflector'']"

definition RoleGuard_parameters :: "token list" where
  "RoleGuard_parameters = [Named ''Reflector'']"

definition JsonApiContentTypeInterceptor_parameters :: "token list" where
  "JsonApiContentTypeInterceptor_parameters = [Named ''Reflector'']"

definition WalletController_parameters :: "token list" where
  "WalletController_parameters = [Named ''WalletService'']"

definition StripeWebhookController_parameters :: "token list" where
  "StripeWebhookController_parameters = [Named ''WalletService'', Named ''ConfigService'']"

definition WalletService_parameters :: "token list" where
  "WalletService_parameters = [Named ''WalletRepository'', Named ''PaymentGatewayRegistry'',
     Named ''UsersRepository'', Named ''CACHE_MANAGER'']"

definition WalletRepository_parameters :: "token list" where
  "WalletRepository_parameters = [RepositoryOf ''Wallet'', RepositoryOf ''Transaction'', Named ''DataSource'']"

definition WalletEventListener_parameters :: "token list" where
  "WalletEventListener_parameters = [Named ''WalletRepository'']"

definition PaymentGatewayRegistry_parameters :: "token list" where
  "PaymentGatewayRegistry_parameters = [Named ''PAYMENT_GATEWAYS'']"

definition StripePaymentGateway_parameters :: "token list" where
  "StripePaymentGateway_parameters = [Named ''ConfigService'']"

definition TransfersController_parameters :: "token list" where
  "TransfersController_parameters = [Named ''TransfersService'']"

definition TransfersService_parameters :: "token list" where
  "TransfersService_parameters = [Named ''TransfersRepository'', Named ''WalletRepository'',
     Named ''WalletService'', Named ''UsersRepository'']"

definition TransfersRepository_parameters :: "token list" where
  "TransfersRepository_parameters = [RepositoryOf ''Transfer'', Named ''DataSource'']"

definition NotificationsService_parameters :: "token list" where
  "NotificationsService_parameters = [Named ''ConfigService'']"

definition DomainEventsProcessor_parameters :: "token list" where
  "DomainEventsProcessor_parameters = [QueueOf NOTIFICATIONS]"

definition NotificationsProcessor_parameters :: "token list" where
  "NotificationsProcessor_parameters = [Named ''NotificationsService'', QueueOf DEAD_LETTER]"

definition DeadLetterProcessor_parameters :: "token list" where
  "DeadLetterProcessor_parameters = [QueueOf NOTIFICATIONS, QueueOf DOMAIN_EVENTS]"

definition OutboxService_parameters :: "token list" where
  "OutboxService_parameters = [RepositoryOf ''OutboxEvent'']"

definition OutboxPublisher_parameters :: "token list" where
  "OutboxPublisher_parameters = [Named ''OutboxService'', QueueOf DOMAIN_EVENTS]"

text \<open>Every class Nest creates, with the parameters of its constructor; three classes have none.\<close>

definition injectable_classes :: "(string \<times> token list) list" where
  "injectable_classes =
    [(''AppController'', AppController_parameters), (''AppService'', []),
     (''UsersController'', UsersController_parameters), (''UsersService'', UsersService_parameters),
     (''UsersRepository'', UsersRepository_parameters), (''UsersPolicy'', []),
     (''AuthController'', AuthController_parameters), (''AuthService'', AuthService_parameters),
     (''JwtStrategy'', JwtStrategy_parameters), (''JwtAuthGuard'', JwtAuthGuard_parameters),
     (''RoleGuard'', RoleGuard_parameters),
     (''JsonApiContentTypeInterceptor'', JsonApiContentTypeInterceptor_parameters),
     (''JsonApiExceptionFilter'', []),
     (''WalletController'', WalletController_parameters),
     (''StripeWebhookController'', StripeWebhookController_parameters),
     (''WalletService'', WalletService_parameters), (''WalletRepository'', WalletRepository_parameters),
     (''WalletEventListener'', WalletEventListener_parameters),
     (''PaymentGatewayRegistry'', PaymentGatewayRegistry_parameters),
     (''StripePaymentGateway'', StripePaymentGateway_parameters),
     (''TransfersController'', TransfersController_parameters),
     (''TransfersService'', TransfersService_parameters),
     (''TransfersRepository'', TransfersRepository_parameters),
     (''NotificationsService'', NotificationsService_parameters),
     (''DomainEventsProcessor'', DomainEventsProcessor_parameters),
     (''NotificationsProcessor'', NotificationsProcessor_parameters),
     (''DeadLetterProcessor'', DeadLetterProcessor_parameters),
     (''OutboxService'', OutboxService_parameters), (''OutboxPublisher'', OutboxPublisher_parameters)]"

section \<open>Modules\<close>

definition DatabaseModule :: nest_module where
  "DatabaseModule = \<lparr>mod_name = ''DatabaseModule'',
     mod_imports = [Library (TypeOrmModule_forRootAsync [ConfigModule] [Named ''ConfigService''])],
     mod_controllers = [], mod_providers = [], mod_exports = []\<rparr>"

definition QueueModule :: nest_module where
  "QueueModule = \<lparr>mod_name = ''QueueModule'',
     mod_imports =
       [Library (BullModule_forRootAsync [ConfigModule] [Named ''ConfigService'']),
        Library (BullModule_registerQueue [DOMAIN_EVENTS, NOTIFICATIONS, DEAD_LETTER]),
        Library (BullBoardModule_forRoot ''/queues''),
        Library (BullBoardModule_forFeature [DOMAIN_EVENTS, NOTIFICATIONS, DEAD_LETTER])],
     mod_controllers = [], mod_providers = [Class ''DeadLetterProcessor''],
     mod_exports = [ExportModule ''BullModule'']\<rparr>"

definition OutboxModule :: nest_module where
  "OutboxModule = \<lparr>mod_name = ''OutboxModule'',
     mod_imports = [Library (TypeOrmModule_forFeature [''OutboxEvent'']), Own ''QueueModule'',
        Library ScheduleModule_forRoot],
     mod_controllers = [], mod_providers = [Class ''OutboxService'', Class ''OutboxPublisher''],
     mod_exports = [ExportProvider (Named ''OutboxService'')]\<rparr>"

definition UsersModule :: nest_module where
  "UsersModule = \<lparr>mod_name = ''UsersModule'',
     mod_imports = [Library (TypeOrmModule_forFeature [''Users''])],
     mod_controllers = [''UsersController''],
     mod_providers = [Class ''UsersService'', Class ''UsersRepository'', Class ''UsersPolicy''],
     mod_exports = [ExportProvider (Named ''UsersService''), ExportProvider (Named ''UsersRepository''),
        ExportProvider (Named ''UsersPolicy'')]\<rparr>"

definition AuthModule :: nest_module where
  "AuthModule = \<lparr>mod_name = ''AuthModule'',
     mod_imports = [Own ''UsersModule'', Library (PassportModule_register ''jwt''),
        Library (JwtModule_registerAsync [] [Named ''ConfigService''])],
     mod_controllers = [''AuthController''],
     mod_providers = [Class ''AuthService'', Class ''JwtStrategy''],
     mod_exports = [ExportProvider (Named ''AuthService'')]\<rparr>"

definition PaymentsModule :: nest_module where
  "PaymentsModule = \<lparr>mod_name = ''PaymentsModule'', mod_imports = [], mod_controllers = [],
     mod_providers = [Class ''StripePaymentGateway'', Class ''PaymentGatewayRegistry'',
        UseFactory (Named ''PAYMENT_GATEWAYS'') [Named ''StripePaymentGateway'']],
     mod_exports = [ExportProvider (Named ''PaymentGatewayRegistry'')]\<rparr>"

definition WalletModule :: nest_module where
  "WalletModule = \<lparr>mod_name = ''WalletModule'',
     mod_imports = [Library (TypeOrmModule_forFeature [''Wallet'', ''LedgerEntry'', ''Transaction'']),
        Own ''UsersModule'', Own ''PaymentsModule'',
        Library (CacheModule_registerAsync [ConfigModule] [Named ''ConfigService''])],
     mod_controllers = [''WalletController'', ''StripeWebhookController''],
     mod_providers = [Class ''WalletService'', Class ''WalletRepository'', Class ''WalletEventListener''],
     mod_exports = [ExportProvider (Named ''WalletService''), ExportProvider (Named ''WalletRepository'')]\<rparr>"

definition TransfersModule :: nest_module where
  "TransfersModule = \<lparr>mod_name = ''TransfersModule'',
     mod_imports = [Library (TypeOrmModule_forFeature [''Transfer'']), Own ''WalletModule'', Own ''UsersModule''],
     mod_controllers = [''TransfersController''],
     mod_providers = [Class ''TransfersService'', Class ''TransfersRepository''],
     mod_exports = [ExportProvider (Named ''TransfersService'')]\<rparr>"

definition NotificationsModule :: nest_module where
  "NotificationsModule = \<lparr>mod_name = ''NotificationsModule'',
     mod_imports = [Own ''QueueModule'', Library ConfigModule], mod_controllers = [],
     mod_providers = [Class ''NotificationsService'', Class ''DomainEventsProcessor'',
        Class ''NotificationsProcessor''],
     mod_exports = [ExportProvider (Named ''NotificationsService'')]\<rparr>"

definition AppModule :: nest_module where
  "AppModule = \<lparr>mod_name = ''AppModule'',
     mod_imports = [Library (ConfigModule_forRoot True), Own ''DatabaseModule'',
        Library EventEmitterModule_forRoot, Own ''AuthModule'', Own ''UsersModule'', Own ''WalletModule'',
        Own ''TransfersModule'', Own ''NotificationsModule'', Own ''OutboxModule'', Own ''QueueModule''],
     mod_controllers = [''AppController''],
     mod_providers = [Class ''AppService'', UseFactory (Named ''APP_PIPE'') [],
        UseClass (Named ''APP_INTERCEPTOR'') ''JsonApiContentTypeInterceptor'',
        UseClass (Named ''APP_FILTER'') ''JsonApiExceptionFilter'',
        UseClass (Named ''APP_GUARD'') ''JwtAuthGuard'', UseClass (Named ''APP_GUARD'') ''RoleGuard''],
     mod_exports = []\<rparr>"

text \<open>In the order in which Nest scans them: a module before its imports, and these in their order.\<close>

definition app_modules :: "nest_module list" where
  "app_modules = [AppModule, DatabaseModule, AuthModule, UsersModule, WalletModule, PaymentsModule,
     TransfersModule, NotificationsModule, QueueModule, OutboxModule]"

definition find_module :: "nest_module list \<Rightarrow> string \<Rightarrow> nest_module option" where
  "find_module ms n = find (\<lambda>m. mod_name m = n) ms"

section \<open>What waits for a queue, the clock or an event\<close>

definition DomainEventsProcessor_queue :: string where "DomainEventsProcessor_queue = DOMAIN_EVENTS"

definition NotificationsProcessor_queue :: string where "NotificationsProcessor_queue = NOTIFICATIONS"

definition DeadLetterProcessor_queue :: string where "DeadLetterProcessor_queue = DEAD_LETTER"

definition processor_queue :: "string \<Rightarrow> string option" where
  "processor_queue = map_of [(''DomainEventsProcessor'', DomainEventsProcessor_queue),
     (''NotificationsProcessor'', NotificationsProcessor_queue),
     (''DeadLetterProcessor'', DeadLetterProcessor_queue)]"

definition cron_classes :: "string list" where
  "cron_classes = [''OutboxPublisher'']"

definition event_listeners :: "(DomainEventName \<times> string) list" where
  "event_listeners = [(UserRegistered, ''WalletEventListener'')]"

end
