(* ===== verification/Wiring.thy ===== *)
theory Wiring
  imports Modules
begin

text \<open>
  What Nest documents of its modules, and that the modules of the program satisfy it: a class is
  created with providers of its own module, with what an imported module exports and with what a
  global module exports, once for each module that declares it.
\<close>

section \<open>What a module offers\<close>

text \<open>What third-party modules export, which of them are global, and the core of Nest.\<close>

record nest_library =
  lib_exports :: "library_module \<Rightarrow> token list"
  lib_global :: "library_module \<Rightarrow> bool"
  core_exports :: "token list"

text \<open>The part of it that the packages document and the program relies on.\<close>

fun documented_exports :: "library_module \<Rightarrow> token list" where
  "documented_exports ConfigModule = [Named ''ConfigService'']"
| "documented_exports (ConfigModule_forRoot g) = [Named ''ConfigService'']"
| "documented_exports EventEmitterModule_forRoot = [Named ''EventEmitter2'']"
| "documented_exports (TypeOrmModule_forRootAsync is ds) = [Named ''DataSource'']"
| "documented_exports (TypeOrmModule_forFeature es) = map RepositoryOf es"
| "documented_exports (BullModule_registerQueue qs) = map QueueOf qs"
| "documented_exports (CacheModule_registerAsync is ds) = [Named ''CACHE_MANAGER'']"
| "documented_exports (JwtModule_registerAsync is ds) = [Named ''JwtService'']"
| "documented_exports _ = []"

fun documented_global :: "library_module \<Rightarrow> bool" where
  "documented_global (ConfigModule_forRoot g) = g"
| "documented_global EventEmitterModule_forRoot = True"
| "documented_global (TypeOrmModule_forRootAsync is ds) = True"
| "documented_global _ = False"

definition documented_library :: "nest_library \<Rightarrow> bool" where
  "documented_library lib \<longleftrightarrow> (\<forall>l. set (documented_exports l) \<subseteq> set (lib_exports lib l))
     \<and> (\<forall>l. documented_global l \<longrightarrow> lib_global lib l) \<and> Named ''Reflector'' \<in> set (core_exports lib)"

definition plain_library :: nest_library where
  "plain_library = \<lparr>lib_exports = documented_exports, lib_global = documented_global,
     core_exports = [Named ''Reflector'']\<rparr>"

lemma plain_library_simps [simp]:
  "lib_exports plain_library = documented_exports" "lib_global plain_library = documented_global"
  "core_exports plain_library = [Named ''Reflector'']"
  by (simp_all add: plain_library_def)

lemma plain_library_documented: "documented_library plain_library"
  by (simp add: documented_library_def)

fun library_class :: "library_module \<Rightarrow> string" where
  "library_class ConfigModule = ''ConfigModule''"
| "library_class (ConfigModule_forRoot g) = ''ConfigModule''"
| "library_class EventEmitterModule_forRoot = ''EventEmitterModule''"
| "library_class ScheduleModule_forRoot = ''ScheduleModule''"
| "library_class (PassportModule_register s) = ''PassportModule''"
| "library_class (TypeOrmModule_forRootAsync is ds) = ''TypeOrmModule''"
| "library_class (TypeOrmModule_forFeature es) = ''TypeOrmModule''"
| "library_class (BullModule_forRootAsync is ds) = ''BullModule''"
| "library_class (BullModule_registerQueue qs) = ''BullModule''"
| "library_class (BullBoardModule_forRoot r) = ''BullBoardModule''"
| "library_class (BullBoardModule_forFeature qs) = ''BullBoardModule''"
| "library_class (CacheModule_registerAsync is ds) = ''CacheModule''"
| "library_class (JwtModule_registerAsync is ds) = ''JwtModule''"

fun import_class :: "module_import \<Rightarrow> string" where
  "import_class (Own n) = n"
| "import_class (Library l) = library_class l"

fun provided :: "provider \<Rightarrow> token" where
  "provided (Class c) = Named c"
| "provided (UseClass t c) = t"
| "provided (UseFactory t ds) = t"

text \<open>A module exports what it names: its own providers and, in turn, the exports of its imports.\<close>

inductive exports :: "nest_library \<Rightarrow> nest_module list \<Rightarrow> module_import \<Rightarrow> token \<Rightarrow> bool" for lib ms where
  library: "t \<in> set (lib_exports lib l) \<Longrightarrow> exports lib ms (Library l) t"
| own: "find_module ms n = Some m \<Longrightarrow> ExportProvider t \<in> set (mod_exports m)
    \<Longrightarrow> t \<in> provided ` set (mod_providers m) \<Longrightarrow> exports lib ms (Own n) t"
| again: "find_module ms n = Some m \<Longrightarrow> i \<in> set (mod_imports m)
    \<Longrightarrow> ExportModule (import_class i) \<in> set (mod_exports m) \<Longrightarrow> exports lib ms i t \<Longrightarrow> exports lib ms (Own n) t"

inductive_simps exports_library [simp]: "exports lib ms (Library l) t"

definition available :: "nest_library \<Rightarrow> nest_module list \<Rightarrow> nest_module \<Rightarrow> token \<Rightarrow> bool" where
  "available lib ms m t \<longleftrightarrow> t \<in> provided ` set (mod_providers m)
     \<or> (\<exists>i\<in>set (mod_imports m). exports lib ms i t)
     \<or> (\<exists>m'\<in>set ms. \<exists>l. Library l \<in> set (mod_imports m') \<and> lib_global lib l \<and> t \<in> set (lib_exports lib l))
     \<or> t \<in> set (core_exports lib)"

text \<open>The factory of a dynamic module is given what the imports of the dynamic module export.\<close>

fun factory_imports :: "library_module \<Rightarrow> library_module list" where
  "factory_imports (TypeOrmModule_forRootAsync is ds) = is"
| "factory_imports (BullModule_forRootAsync is ds) = is"
| "factory_imports (CacheModule_registerAsync is ds) = is"
| "factory_imports (JwtModule_registerAsync is ds) = is"
| "factory_imports _ = []"

fun factory_needs :: "library_module \<Rightarrow> token list" where
  "factory_needs (TypeOrmModule_forRootAsync is ds) = ds"
| "factory_needs (BullModule_forRootAsync is ds) = ds"
| "factory_needs (CacheModule_registerAsync is ds) = ds"
| "factory_needs (JwtModule_registerAsync is ds) = ds"
| "factory_needs _ = []"

definition factory_module :: "library_module \<Rightarrow> nest_module" where
  "factory_module l = \<lparr>mod_name = library_class l, mod_imports = map Library (factory_imports l),
     mod_controllers = [], mod_providers = [], mod_exports = []\<rparr>"

text \<open>What a provider or a controller is created from; a class that is not injectable has no list.\<close>

fun created_from :: "provider \<Rightarrow> token list option" where
  "created_from (Class c) = map_of injectable_classes c"
| "created_from (UseClass t c) = map_of injectable_classes c"
| "created_from (UseFactory t ds) = Some ds"

definition module_entries :: "nest_module \<Rightarrow> provider list" where
  "module_entries m = map Class (mod_controllers m) @ mod_providers m"

section \<open>Monotonicity, and a computable part of the relation\<close>

lemma exports_mono:
  assumes "exports plain_library ms i t" "documented_library lib"
  shows "exports lib ms i t"
  using assms
  by (induction rule: exports.induct)
    (auto simp: documented_library_def intro: exports.intros)

lemma available_mono:
  assumes "documented_library lib" "available plain_library ms m t"
  shows "available lib ms m t"
  using assms exports_mono
  by (fastforce simp: available_def documented_library_def)

definition offered :: "nest_module list \<Rightarrow> module_import \<Rightarrow> token list" where
  "offered ms i = (case i of
       Library l \<Rightarrow> documented_exports l
     | Own n \<Rightarrow> (case find_module ms n of
         None \<Rightarrow> []
       | Some m \<Rightarrow> filter (\<lambda>t. ExportProvider t \<in> set (mod_exports m)) (map provided (mod_providers m))
           @ concat (map (\<lambda>j. case j of
               Library l \<Rightarrow> if ExportModule (library_class l) \<in> set (mod_exports m) then documented_exports l else []
             | Own _ \<Rightarrow> []) (mod_imports m))))"

lemma offered_exports:
  assumes "t \<in> set (offered ms i)"
  shows "exports plain_library ms i t"
proof (cases i)
  case (Library l)
  then show ?thesis using assms by (simp add: offered_def)
next
  case (Own n)
  then obtain m where m: "find_module ms n = Some m"
    using assms by (cases "find_module ms n") (auto simp: offered_def)
  from assms consider "ExportProvider t \<in> set (mod_exports m)" "t \<in> provided ` set (mod_providers m)"
    | l where "Library l \<in> set (mod_imports m)" "ExportModule (library_class l) \<in> set (mod_exports m)"
        "t \<in> set (documented_exports l)"
    by (auto simp: offered_def Own m split: module_import.splits if_splits)
  then show ?thesis
  proof cases
    case 1
    then show ?thesis unfolding Own by (rule exports.own [OF m])
  next
    case 2
    from 2(2,3) show ?thesis unfolding Own by (auto intro: exports.again [OF m 2(1)])
  qed
qed

definition global_tokens :: "nest_module list \<Rightarrow> token list" where
  "global_tokens ms = Named ''Reflector'' # concat (map (\<lambda>m. concat (map (\<lambda>i. case i of
       Library l \<Rightarrow> if documented_global l then documented_exports l else [] | Own _ \<Rightarrow> []) (mod_imports m))) ms)"

definition reach :: "nest_module list \<Rightarrow> nest_module \<Rightarrow> token list" where
  "reach ms m = map provided (mod_providers m) @ concat (map (offered ms) (mod_imports m)) @ global_tokens ms"

lemma reach_available:
  assumes "t \<in> set (reach ms m)" "documented_library lib"
  shows "available lib ms m t"
proof -
  from assms(1) consider "t \<in> provided ` set (mod_providers m)"
    | i where "i \<in> set (mod_imports m)" "t \<in> set (offered ms i)"
    | "t = Named ''Reflector''"
    | m' l where "m' \<in> set ms" "Library l \<in> set (mod_imports m')" "documented_global l" "t \<in> set (documented_exports l)"
    by (fastforce simp: reach_def global_tokens_def split: module_import.splits if_splits)
  then have "available plain_library ms m t"
    by cases (auto simp: available_def intro: offered_exports)
  then show ?thesis by (rule available_mono [OF assms(2)])
qed

lemmas module_defs = AppModule_def DatabaseModule_def AuthModule_def UsersModule_def WalletModule_def
  TransfersModule_def NotificationsModule_def OutboxModule_def QueueModule_def PaymentsModule_def

section \<open>The modules of the program\<close>

definition imports_module :: "nest_module list \<Rightarrow> (string \<times> string) set" where
  "imports_module ms = {(a, b). \<exists>m. find_module ms a = Some m \<and> Own b \<in> set (mod_imports m)}"

definition resolved :: "nest_module list \<Rightarrow> nest_module \<Rightarrow> bool" where
  "resolved ms m \<longleftrightarrow>
     list_all (\<lambda>p. case created_from p of None \<Rightarrow> False
       | Some ts \<Rightarrow> list_all (\<lambda>t. t \<in> set (reach ms m)) ts) (module_entries m)
   \<and> list_all (\<lambda>i. case i of Own n \<Rightarrow> True
       | Library l \<Rightarrow> list_all (\<lambda>t. t \<in> set (reach ms (factory_module l))) (factory_needs l)) (mod_imports m)"

lemma app_resolved: "list_all (resolved app_modules) app_modules"
  by code_simp

lemma app_reachable:
  assumes "m \<in> set app_modules"
  shows "(''AppModule'', mod_name m) \<in> (imports_module app_modules)\<^sup>*"
proof -
  have direct: "(''AppModule'', n) \<in> (imports_module app_modules)\<^sup>*" if "Own n \<in> set (mod_imports AppModule)" for n
  proof -
    have "find_module app_modules ''AppModule'' = Some AppModule" by code_simp
    with that show ?thesis by (auto simp: imports_module_def)
  qed
  have "find_module app_modules ''WalletModule'' = Some WalletModule" by code_simp
  then have "(''WalletModule'', ''PaymentsModule'') \<in> imports_module app_modules"
    by (simp add: imports_module_def WalletModule_def)
  moreover have "(''AppModule'', ''WalletModule'') \<in> (imports_module app_modules)\<^sup>*"
    by (rule direct) (simp add: AppModule_def)
  ultimately have "(''AppModule'', ''PaymentsModule'') \<in> (imports_module app_modules)\<^sup>*" by simp
  moreover have "mod_name m \<in> {''AppModule'', ''PaymentsModule''} \<or> Own (mod_name m) \<in> set (mod_imports AppModule)"
    using assms by (auto simp: app_modules_def module_defs)
  ultimately show ?thesis using direct by auto
qed

text \<open>
  All providers and controllers in an order in which each is created after what it is created from.
  Tokens no module of the program provides are those of third-party modules.
\<close>

definition in_order :: "provider list \<Rightarrow> bool" where
  "in_order ps \<longleftrightarrow> (\<forall>k<length ps. \<forall>t\<in>set (the (created_from (ps ! k))).
     t \<in> provided ` set ps \<longrightarrow> t \<in> provided ` set (take k ps))"

fun check_order :: "token list \<Rightarrow> token list \<Rightarrow> provider list \<Rightarrow> bool" where
  "check_order all done [] \<longleftrightarrow> True"
| "check_order all done (p # ps) \<longleftrightarrow>
     list_all (\<lambda>t. t \<in> set all \<longrightarrow> t \<in> set done) (the (created_from p)) \<and> check_order all (provided p # done) ps"

lemma check_order_nth:
  assumes "check_order all done ps" "k < length ps" "t \<in> set (the (created_from (ps ! k)))" "t \<in> set all"
  shows "t \<in> set done \<union> provided ` set (take k ps)"
  using assms
proof (induction all "done" ps arbitrary: k rule: check_order.induct)
  case (2 all "done" p ps)
  then show ?case by (cases k) (fastforce simp: list_all_iff)+
qed simp

lemma check_order_sound: "check_order (map provided ps) [] ps \<Longrightarrow> in_order ps"
  using check_order_nth [of "map provided ps" "[]" ps] by (auto simp: in_order_def)

definition start_order :: "provider list" where
  "start_order = [Class ''AppService'', Class ''UsersRepository'', Class ''UsersPolicy'', Class ''UsersService'',
     Class ''AuthService'', Class ''JwtStrategy'', Class ''StripePaymentGateway'',
     UseFactory (Named ''PAYMENT_GATEWAYS'') [Named ''StripePaymentGateway''], Class ''PaymentGatewayRegistry'',
     Class ''WalletRepository'', Class ''WalletService'', Class ''WalletEventListener'',
     Class ''TransfersRepository'', Class ''TransfersService'', Class ''NotificationsService'',
     Class ''DomainEventsProcessor'', Class ''NotificationsProcessor'', Class ''DeadLetterProcessor'',
     Class ''OutboxService'', Class ''OutboxPublisher'', UseFactory (Named ''APP_PIPE'') [],
     UseClass (Named ''APP_INTERCEPTOR'') ''JsonApiContentTypeInterceptor'',
     UseClass (Named ''APP_FILTER'') ''JsonApiExceptionFilter'',
     UseClass (Named ''APP_GUARD'') ''JwtAuthGuard'', UseClass (Named ''APP_GUARD'') ''RoleGuard'',
     Class ''AppController'', Class ''UsersController'', Class ''AuthController'', Class ''WalletController'',
     Class ''StripeWebhookController'', Class ''TransfersController'']"

lemma start_order_complete: "set start_order = set (concat (map module_entries app_modules))"
  unfolding start_order_def app_modules_def module_defs module_entries_def by auto

lemma start_order_ok: "in_order start_order"
  by (rule check_order_sound) code_simp

text \<open>
  C36: the application can be created. Every provider and controller of every module is an
  injectable class or a factory and is given all its parameters by its own module, the exports of an
  imported module, a global module or the core of Nest; so is every factory of a dynamic module; all
  modules are imported from \<open>AppModule\<close>, directly or through others; and there is an order of all
  of them in which each comes after the ones of the program it is created from, so no parameter is
  missing and none is circular.
\<close>

theorem injection_resolves:
  assumes "documented_library lib"
  shows "(\<forall>m\<in>set app_modules. (''AppModule'', mod_name m) \<in> (imports_module app_modules)\<^sup>*
      \<and> (\<forall>p\<in>set (module_entries m). \<exists>ts. created_from p = Some ts \<and> (\<forall>t\<in>set ts. available lib app_modules m t))
      \<and> (\<forall>l. Library l \<in> set (mod_imports m)
            \<longrightarrow> (\<forall>t\<in>set (factory_needs l). available lib app_modules (factory_module l) t)))
    \<and> (\<exists>ps. set ps = set (concat (map module_entries app_modules)) \<and> in_order ps)"
proof -
  have "(\<exists>ts. created_from p = Some ts \<and> (\<forall>t\<in>set ts. available lib app_modules m t))"
    if "m \<in> set app_modules" "p \<in> set (module_entries m)" for m p
    using app_resolved that reach_available [OF _ assms]
    by (fastforce simp: list_all_iff resolved_def split: option.splits)
  moreover have "available lib app_modules (factory_module l) t"
    if "m \<in> set app_modules" "Library l \<in> set (mod_imports m)" "t \<in> set (factory_needs l)" for m l t
    using app_resolved that reach_available [OF _ assms] by (fastforce simp: list_all_iff resolved_def)
  ultimately show ?thesis using app_reachable start_order_complete start_order_ok by blast
qed

theorem injection_resolves_witness:
  "available plain_library app_modules WalletModule (Named ''UsersRepository'')"
proof -
  have "Class ''WalletService'' \<in> set (module_entries WalletModule)" "WalletModule \<in> set app_modules"
    by (simp_all add: module_entries_def WalletModule_def app_modules_def)
  moreover have "created_from (Class ''WalletService'') = Some WalletService_parameters" by code_simp
  moreover have "Named ''UsersRepository'' \<in> set WalletService_parameters" by (simp add: WalletService_parameters_def)
  ultimately show ?thesis using injection_resolves [OF plain_library_documented] by fastforce
qed

section \<open>What runs in the background\<close>

fun entry_class :: "provider \<Rightarrow> string option" where
  "entry_class (Class c) = Some c"
| "entry_class (UseClass t c) = Some c"
| "entry_class (UseFactory t ds) = None"

text \<open>Nest creates a class once for every module that declares it.\<close>

definition instances :: "string list" where
  "instances = List.map_filter entry_class (concat (map module_entries app_modules))"

text \<open>
  As documented: a \<open>@Cron\<close> method runs for every instance when \<open>ScheduleModule.forRoot()\<close> is
  imported, an \<open>@OnEvent\<close> method when \<open>EventEmitterModule.forRoot()\<close> is, and a \<open>@Processor\<close> takes the
  jobs of its queue when the connection is configured and the queue is registered.
\<close>

definition imported :: "(library_module \<Rightarrow> bool) \<Rightarrow> bool" where
  "imported P \<longleftrightarrow> list_ex (\<lambda>m. list_ex (\<lambda>i. case i of Library l \<Rightarrow> P l | Own n \<Rightarrow> False) (mod_imports m)) app_modules"

definition ticking :: "string list" where
  "ticking = (if imported (\<lambda>l. l = ScheduleModule_forRoot) then filter (\<lambda>c. c \<in> set cron_classes) instances else [])"

definition hearing :: "DomainEventName \<Rightarrow> string list" where
  "hearing event = (if imported (\<lambda>l. l = EventEmitterModule_forRoot)
     then filter (\<lambda>c. (event, c) \<in> set event_listeners) instances else [])"

definition working_on :: "string \<Rightarrow> string list" where
  "working_on q = (if imported (\<lambda>l. case l of BullModule_forRootAsync is ds \<Rightarrow> True | _ \<Rightarrow> False)
       \<and> imported (\<lambda>l. case l of BullModule_registerQueue qs \<Rightarrow> q \<in> set qs | _ \<Rightarrow> False)
     then filter (\<lambda>c. processor_queue c = Some q) instances else [])"

text \<open>
  Every injectable class of the program is declared by exactly one module, so what is kept in fields
  exists once in a process; the outbox is published by one scheduled class, a registration is heard
  by one listener, and each of the three queues has one processor.
\<close>

lemma background_work:
  shows "distinct instances" "set instances = set (map fst injectable_classes)"
    and "ticking = [''OutboxPublisher'']" "hearing UserRegistered = [''WalletEventListener'']"
    and "working_on DOMAIN_EVENTS = [''DomainEventsProcessor'']"
    and "working_on NOTIFICATIONS = [''NotificationsProcessor'']"
    and "working_on DEAD_LETTER = [''DeadLetterProcessor'']"
  by code_simp+

end
