(* ===== verification/Routes.thy ===== *)
theory Routes
  imports Startup ServerBooks Modules
begin

text \<open>
  The routes of the controllers as their decorators write them, and the way of a message to a
  handler. Express is a parameter: how it compares a literal part of a path, how it decodes a
  parameter, what it answers to \<open>OPTIONS\<close>, and which paths the dashboard of the queues takes.
\<close>

section \<open>Decorators\<close>

text \<open>\<open>@Controller(path)\<close>, and method, path and handler of each route in the order of the class.\<close>

type_synonym routes = "string \<times> (string \<times> string \<times> endpoint) list"

definition AppController_routes :: routes where
  "AppController_routes = ('''', [(''GET'', '''', BaseRoute)])"

definition UsersController_routes :: routes where
  "UsersController_routes = (''users'', [(''GET'', ''/me'', UserMe), (''GET'', ''/'', FindAllUsers),
     (''GET'', ''/:id'', FindUser), (''PATCH'', ''/:id'', UpdateUser), (''DELETE'', ''/:id'', DeleteUser)])"

definition AuthController_routes :: routes where
  "AuthController_routes = (''auth'', [(''POST'', ''/register'', Register), (''POST'', ''/login'', Login),
     (''POST'', ''/password'', ChangePassword)])"

definition WalletController_routes :: routes where
  "WalletController_routes = (''wallet'', [(''POST'', ''/'', CreateWallet), (''GET'', ''/:currency'', GetBalance),
     (''POST'', ''/deposit'', Deposit)])"

definition StripeWebhookController_routes :: routes where
  "StripeWebhookController_routes = (''stripe'', [(''POST'', ''webhook'', StripeWebhook)])"

definition TransfersController_routes :: routes where
  "TransfersController_routes = (''transfers'', [(''POST'', ''/'', InitiateTransfer)])"

definition controller_routes :: "string \<Rightarrow> routes option" where
  "controller_routes = map_of [(''AppController'', AppController_routes), (''UsersController'', UsersController_routes),
     (''AuthController'', AuthController_routes), (''WalletController'', WalletController_routes),
     (''StripeWebhookController'', StripeWebhookController_routes),
     (''TransfersController'', TransfersController_routes)]"

section \<open>Paths\<close>

fun split_slash :: "string \<Rightarrow> string list" where
  "split_slash [] = [[]]"
| "split_slash (c # cs) = (if c = CHR ''/'' then [] # split_slash cs
     else (case split_slash cs of [] \<Rightarrow> [[c]] | w # ws \<Rightarrow> (c # w) # ws))"

text \<open>Nest joins prefix, controller and route with single slashes.\<close>

definition pattern_segments :: "string \<Rightarrow> string list" where
  "pattern_segments p = filter (\<lambda>w. w \<noteq> []) (split_slash p)"

text \<open>One slash at the end of a requested path makes no difference.\<close>

definition request_segments :: "string \<Rightarrow> string list" where
  "request_segments p = (let ss = tl (split_slash p) in if ss \<noteq> [] \<and> last ss = [] then butlast ss else ss)"

definition route_table :: "string \<Rightarrow> (string \<times> string list \<times> endpoint) list" where
  "route_table version = concat (map (\<lambda>c. case controller_routes c of
       None \<Rightarrow> []
     | Some (path, rs) \<Rightarrow> map (\<lambda>(meth, p, e). (meth,
         pattern_segments (api_prefix version) @ pattern_segments path @ pattern_segments p, e)) rs)
     (concat (map mod_controllers app_modules)))"

section \<open>Express' router\<close>

record router =
  same_literal :: "string \<Rightarrow> string \<Rightarrow> bool"
  decode_param :: "string \<Rightarrow> error + string"
  options_response :: "message \<Rightarrow> http_response"
  dashboard :: "message \<Rightarrow> bool"

fun match_segments :: "router \<Rightarrow> string list \<Rightarrow> string list \<Rightarrow> (string \<times> string) list option" where
  "match_segments r [] [] = Some []"
| "match_segments r (p # ps) (x # xs) =
     (if starts_with '':'' p
      then if x = [] then None else map_option (Cons (tl p, x)) (match_segments r ps xs)
      else if same_literal r p x then match_segments r ps xs else None)"
| "match_segments r _ _ = None"

text \<open>A \<open>HEAD\<close> message takes the route of \<open>GET\<close>.\<close>

definition method_matches :: "string \<Rightarrow> string \<Rightarrow> bool" where
  "method_matches asked routed \<longleftrightarrow> asked = routed \<or> asked = ''HEAD'' \<and> routed = ''GET''"

fun first_route :: "router \<Rightarrow> (string \<times> string list \<times> endpoint) list \<Rightarrow> string \<Rightarrow> string list
    \<Rightarrow> (endpoint \<times> (string \<times> string) list) option" where
  "first_route r [] meth xs = None"
| "first_route r ((m, ps, e) # rs) meth xs =
     (case if method_matches meth m then match_segments r ps xs else None of
        Some vs \<Rightarrow> Some (e, vs)
      | None \<Rightarrow> first_route r rs meth xs)"

definition find_route :: "router \<Rightarrow> string \<Rightarrow> string \<Rightarrow> string \<Rightarrow> (endpoint \<times> (string \<times> string) list) option" where
  "find_route r version meth path = first_route r (route_table version) meth (request_segments path)"

section \<open>A message and its answer\<close>

fun decode_params :: "router \<Rightarrow> (string \<times> string) list \<Rightarrow> error + (string \<times> string) list" where
  "decode_params r [] = Inr []"
| "decode_params r ((k, v) # ps) =
     bindR (decode_param r v) (\<lambda>x. bindR (decode_params r ps) (\<lambda>xs. Inr ((k, x) # xs)))"

definition with_params :: "(string \<times> string) list \<Rightarrow> request \<Rightarrow> request" where
  "with_params vs rq = rq\<lparr>rq_id := or_else (map_of vs ''id'') '''', rq_currency := or_else (map_of vs ''currency'') ''''\<rparr>"

text \<open>The answer to a message; \<open>None\<close> when the dashboard of the queues takes it.\<close>

definition receive :: "express \<Rightarrow> router \<Rightarrow> string \<Rightarrow> environment \<Rightarrow> ambient \<Rightarrow> app \<Rightarrow> message \<Rightarrow> request
    \<Rightarrow> (http_response \<times> app) option" where
  "receive x r version env g s m rq =
     (case run_parsers (body_parsers x version) m of
        Inl err \<Rightarrow> Some (JsonApiExceptionFilter_catch (error_text env) err, s)
      | Inr b \<Rightarrow>
     if dashboard r m then None else
     (case find_route r version (msg_method m) (msg_path m) of
        None \<Rightarrow>
          if msg_method m = ''OPTIONS'' \<and> (\<exists>meth\<in>fst ` set (route_table version). find_route r version meth (msg_path m) \<noteq> None)
          then Some (options_response r m, s)
          else Some (JsonApiExceptionFilter_catch (error_text env)
            (NotFound (''Cannot '' @ msg_method m @ '' '' @ msg_path m @ msg_query m)), s)
      | Some (e, vs) \<Rightarrow>
     (case decode_params r vs of
        Inl err \<Rightarrow> Some (JsonApiExceptionFilter_catch (error_text env) err, s)
      | Inr ps \<Rightarrow> Some (serve env g s e (with_params ps (with_body b rq))))))"

section \<open>What reaches which handler\<close>

text \<open>The paths the README lists, with the value of their parameter.\<close>

fun endpoint_path :: "endpoint \<Rightarrow> string \<Rightarrow> string" where
  "endpoint_path BaseRoute v = ''''"
| "endpoint_path Register v = ''/auth/register''"
| "endpoint_path Login v = ''/auth/login''"
| "endpoint_path ChangePassword v = ''/auth/password''"
| "endpoint_path UserMe v = ''/users/me''"
| "endpoint_path FindAllUsers v = ''/users''"
| "endpoint_path FindUser v = ''/users/'' @ v"
| "endpoint_path UpdateUser v = ''/users/'' @ v"
| "endpoint_path DeleteUser v = ''/users/'' @ v"
| "endpoint_path CreateWallet v = ''/wallet''"
| "endpoint_path GetBalance v = ''/wallet/'' @ v"
| "endpoint_path Deposit v = ''/wallet/deposit''"
| "endpoint_path InitiateTransfer v = ''/transfers''"
| "endpoint_path StripeWebhook v = ''/stripe/webhook''"

definition endpoint_url :: "string \<Rightarrow> endpoint \<Rightarrow> string \<Rightarrow> string" where
  "endpoint_url version e v = ''/'' @ api_prefix version @ endpoint_path e v"

definition endpoint_params :: "endpoint \<Rightarrow> string \<Rightarrow> (string \<times> string) list" where
  "endpoint_params e v = (if e \<in> {FindUser, UpdateUser, DeleteUser} then [(''id'', v)]
     else if e = GetBalance then [(''currency'', v)] else [])"

text \<open>Express compares the literal parts of a path without regard to case.\<close>

definition documented_router :: "router \<Rightarrow> bool" where
  "documented_router r \<longleftrightarrow> (\<forall>p x. same_literal r p x \<longleftrightarrow> toLowerCase p = toLowerCase x)"

definition path_value :: "string \<Rightarrow> bool" where
  "path_value v \<longleftrightarrow> v \<noteq> [] \<and> CHR ''/'' \<notin> set v"

lemma split_slash_plain: "CHR ''/'' \<notin> set a \<Longrightarrow> split_slash a = [a]"
  by (induction a) auto

lemma split_slash_append: "CHR ''/'' \<notin> set a \<Longrightarrow> split_slash (a @ CHR ''/'' # b) = a # split_slash b"
  by (induction a) auto

definition version_segment :: "string \<Rightarrow> string" where
  "version_segment version = tl (tl (tl (tl (api_prefix version))))"

lemma version_segment: "api_prefix version = ''api/'' @ version_segment version" "CHR ''/'' \<notin> set (version_segment version)"
  "\<exists>n. version_segment version = CHR ''v'' # n"
  using prefix_no_slash [of "parseInt version"] by (auto simp: version_segment_def api_prefix_def)

lemma version_segments: "pattern_segments (api_prefix version) = [''api'', version_segment version]"
proof -
  have "split_slash (api_prefix version) = [''api'', version_segment version]"
    unfolding version_segment(1)
    using split_slash_append [of "''api''"] split_slash_plain [OF version_segment(2)] by simp
  moreover have "version_segment version \<noteq> []" using version_segment(3) [of version] by auto
  ultimately show ?thesis by (simp add: pattern_segments_def)
qed

text \<open>The segments of the documented paths.\<close>

fun endpoint_segments :: "endpoint \<Rightarrow> string \<Rightarrow> string list" where
  "endpoint_segments BaseRoute v = []"
| "endpoint_segments Register v = [''auth'', ''register'']"
| "endpoint_segments Login v = [''auth'', ''login'']"
| "endpoint_segments ChangePassword v = [''auth'', ''password'']"
| "endpoint_segments UserMe v = [''users'', ''me'']"
| "endpoint_segments FindAllUsers v = [''users'']"
| "endpoint_segments FindUser v = [''users'', v]"
| "endpoint_segments UpdateUser v = [''users'', v]"
| "endpoint_segments DeleteUser v = [''users'', v]"
| "endpoint_segments CreateWallet v = [''wallet'']"
| "endpoint_segments GetBalance v = [''wallet'', v]"
| "endpoint_segments Deposit v = [''wallet'', ''deposit'']"
| "endpoint_segments InitiateTransfer v = [''transfers'']"
| "endpoint_segments StripeWebhook v = [''stripe'', ''webhook'']"

lemma split_endpoint_path:
  assumes "path_value v" "CHR ''/'' \<notin> set w"
  shows "split_slash (w @ endpoint_path e v) = w # endpoint_segments e v"
  using assms(1) split_slash_append [OF assms(2)] split_slash_plain [of v] split_slash_plain [OF assms(2)]
  by (cases e) (auto simp: path_value_def)

lemma endpoint_url_segments:
  assumes "path_value v"
  shows "request_segments (endpoint_url version e v) = [''api'', version_segment version] @ endpoint_segments e v"
proof -
  obtain n where n: "version_segment version = CHR ''v'' # n" using version_segment(3) by blast
  have "split_slash (endpoint_url version e v) = [] # ''api'' # version_segment version # endpoint_segments e v"
    using split_slash_append [of "''api''" "version_segment version @ endpoint_path e v"]
      split_endpoint_path [OF assms version_segment(2), of version e]
    by (simp add: endpoint_url_def version_segment(1))
  moreover have "last (''api'' # version_segment version # endpoint_segments e v) \<noteq> []"
    using assms n by (cases e) (auto simp: path_value_def)
  ultimately show ?thesis by (simp add: request_segments_def)
qed

text \<open>The table, in the order in which Express tries it.\<close>

fun endpoint_pattern :: "endpoint \<Rightarrow> string list" where
  "endpoint_pattern GetBalance = [''wallet'', '':currency'']"
| "endpoint_pattern e = endpoint_segments e '':id''"

lemma route_table_entries:
  "route_table version = map (\<lambda>e. (http_method e, [''api'', version_segment version] @ endpoint_pattern e, e))
     [BaseRoute, Register, Login, ChangePassword, UserMe, FindAllUsers, FindUser, UpdateUser, DeleteUser,
      CreateWallet, GetBalance, Deposit, StripeWebhook, InitiateTransfer]"
proof -
  have "concat (map mod_controllers app_modules) = [''AppController'', ''AuthController'', ''UsersController'',
      ''WalletController'', ''StripeWebhookController'', ''TransfersController'']"
    by code_simp
  moreover have "map pattern_segments ['''', ''/'', ''users'', ''/me'', ''/:id'', ''auth'', ''/register'', ''/login'',
      ''/password'', ''wallet'', ''/:currency'', ''/deposit'', ''stripe'', ''webhook'', ''transfers'']
    = [[], [], [''users''], [''me''], ['':id''], [''auth''], [''register''], [''login''],
      [''password''], [''wallet''], ['':currency''], [''deposit''], [''stripe''], [''webhook''], [''transfers'']]"
    by code_simp
  ultimately show ?thesis
    by (simp add: route_table_def controller_routes_def AppController_routes_def UsersController_routes_def
        AuthController_routes_def WalletController_routes_def StripeWebhookController_routes_def
        TransfersController_routes_def version_segments http_method_def)
qed

lemma lower_words:
  "map toLowerCase [''api'', ''auth'', ''register'', ''login'', ''password'', ''users'', ''me'', ''wallet'', ''deposit'',
     ''stripe'', ''webhook'', ''transfers'']
   = [''api'', ''auth'', ''register'', ''login'', ''password'', ''users'', ''me'', ''wallet'', ''deposit'',
     ''stripe'', ''webhook'', ''transfers'']"
  by code_simp

lemma first_route_Some:
  assumes "first_route r rs meth xs = Some (e, vs)"
  shows "\<exists>m ps. (m, ps, e) \<in> set rs \<and> method_matches meth m \<and> match_segments r ps xs = Some vs"
  using assms
proof (induction r rs meth xs rule: first_route.induct)
  case (2 r m ps e' rs meth xs)
  show ?case
  proof (cases "if method_matches meth m then match_segments r ps xs else None")
    case None
    then have "first_route r rs meth xs = Some (e, vs)" using 2(2) by simp
    from 2(1) [OF None this] show ?thesis by auto
  next
    case (Some ws)
    then show ?thesis using 2(2) by (auto split: if_splits)
  qed
qed simp

lemma route_found:
  assumes "documented_router r" "path_value v" "e = FindUser \<Longrightarrow> toLowerCase v \<noteq> ''me''"
  shows "find_route r version (http_method e) (endpoint_url version e v) = Some (e, endpoint_params e v)"
proof -
  obtain n where "version_segment version = CHR ''v'' # n" using version_segment(3) by blast
  then show ?thesis
    using assms lower_words
    unfolding find_route_def endpoint_url_segments [OF assms(2)] route_table_entries
    by (cases e) (auto simp: documented_router_def method_matches_def http_method_def starts_with_def
        endpoint_params_def path_value_def)
qed

lemma match_Nil_iff: "match_segments r [] xs = Some vs \<longleftrightarrow> xs = [] \<and> vs = []"
  by (cases xs) auto

lemma match_Cons_iff:
  "match_segments r (p # ps) ys = Some vs \<longleftrightarrow> (\<exists>x xs. ys = x # xs \<and>
     (if starts_with '':'' p then x \<noteq> [] \<and> (\<exists>ws. match_segments r ps xs = Some ws \<and> vs = (tl p, x) # ws)
      else same_literal r p x \<and> match_segments r ps xs = Some vs))"
  by (cases ys) auto

lemma split_slash_words: "w \<in> set (split_slash p) \<Longrightarrow> CHR ''/'' \<notin> set w"
  by (induction p arbitrary: w) (auto split: if_splits list.splits)

lemma split_slash_nonempty [simp]: "split_slash p \<noteq> []"
  by (induction p) (auto split: list.splits)

lemma request_segments_words: "w \<in> set (request_segments p) \<Longrightarrow> CHR ''/'' \<notin> set w"
  using split_slash_words [of w p]
  by (auto simp: request_segments_def Let_def split: if_splits dest!: in_set_butlastD list.set_sel(2) [rotated])

lemma route_only:
  assumes "documented_router r" "find_route r version meth path = Some (e, vs)"
  shows "method_matches meth (http_method e) \<and> (\<exists>v. path_value v \<and> vs = endpoint_params e v
    \<and> map toLowerCase (request_segments path) = map toLowerCase (request_segments (endpoint_url version e v)))"
proof -
  obtain m ps where t: "(m, ps, e) \<in> set (route_table version)" "method_matches meth m"
    and ps: "match_segments r ps (request_segments path) = Some vs"
    using first_route_Some assms(2) unfolding find_route_def by blast
  from t(1) have m: "m = http_method e" "ps = [''api'', version_segment version] @ endpoint_pattern e"
    by (auto simp: route_table_entries)
  obtain n where n: "version_segment version = CHR ''v'' # n" using version_segment(3) by blast
  have "\<exists>v. path_value v \<and> vs = endpoint_params e v
    \<and> map toLowerCase (request_segments path) = map toLowerCase ([''api'', version_segment version] @ endpoint_segments e v)"
    using ps assms(1) n request_segments_words [of _ path] unfolding m
    by (intro exI [of _ "case vs of [] \<Rightarrow> ''x'' | (k, v) # _ \<Rightarrow> v"], cases e)
      (auto simp: match_Nil_iff match_Cons_iff documented_router_def starts_with_def endpoint_params_def path_value_def)
  then show ?thesis using t(2) m(1) endpoint_url_segments by metis
qed

text \<open>
  C35: the routes of the controllers are the paths the README lists. A message with the method
  and the path of an endpoint is given to the handler of this endpoint with the value in its path
  as parameter, for every version of the package and every value (but \<open>/users/me\<close>, which is one's
  own profile and not a user with the id \<open>me\<close>). Conversely a message that reaches a handler had the
  method of the endpoint (or \<open>HEAD\<close> for \<open>GET\<close>) and its path, up to the case of the letters and one
  slash at the end; the parameter is the text of the message, letter for letter. No route hides
  another one.
\<close>

theorem routes_roundtrip:
  assumes "documented_router r"
  shows "(path_value v \<and> (e = FindUser \<longrightarrow> toLowerCase v \<noteq> ''me'') \<longrightarrow>
      find_route r version (http_method e) (endpoint_url version e v) = Some (e, endpoint_params e v))
    \<and> (find_route r version meth path = Some (e, vs) \<longrightarrow>
      method_matches meth (http_method e) \<and> (\<exists>w. path_value w \<and> vs = endpoint_params e w
        \<and> map toLowerCase (request_segments path) = map toLowerCase (request_segments (endpoint_url version e w))))"
  using route_found [OF assms, of v e] route_only [OF assms, of version meth path e vs] by simp

definition plain_router :: router where
  "plain_router = \<lparr>same_literal = (\<lambda>p x. toLowerCase p = toLowerCase x), decode_param = Inr,
     options_response = (\<lambda>m. \<lparr>res_status = 200, res_content_type = None, res_body = JUndefined\<rparr>),
     dashboard = (\<lambda>m. mounted ''/queues'' (msg_path m))\<rparr>"

lemma plain_router_documented: "documented_router plain_router"
  by (simp add: documented_router_def plain_router_def)

theorem routes_roundtrip_witness:
  "find_route plain_router ''1.0.1'' ''GET'' ''/api/v1/wallet/eur'' = Some (GetBalance, [(''currency'', ''eur'')])"
proof -
  have "endpoint_url ''1.0.1'' GetBalance ''eur'' = ''/api/v1/wallet/eur''" by code_simp
  moreover have "path_value ''eur''" by (simp add: path_value_def)
  ultimately show ?thesis
    using routes_roundtrip [OF plain_router_documented, of "''eur''" GetBalance "''1.0.1''"]
    by (simp add: http_method_def endpoint_params_def)
qed

section \<open>Messages\<close>

lemma receive_cases:
  assumes "receive x r version env g s m rq = Some (res, s')"
  obtains "s' = s"
  | e vs ps b where "find_route r version (msg_method m) (msg_path m) = Some (e, vs)" "decode_params r vs = Inr ps"
      "run_parsers (body_parsers x version) m = Inr b"
      "(res, s') = serve env g s e (with_params ps (with_body b rq))"
  using assms unfolding receive_def
  by (auto split: sum.splits option.splits if_splits prod.splits)

lemma with_params_simps [simp]:
  "rq_body (with_params ps rq) = rq_body rq" "rq_authorization (with_params ps rq) = rq_authorization rq"
  "object_body (with_params ps rq) = object_body rq"
  by (simp_all add: with_params_def object_body_def)

lemma with_body_authorization [simp]: "rq_authorization (with_body b rq) = rq_authorization rq"
  by (simp add: with_body_def)

lemma unwrap_empty: "plain_object (unwrap PBody (JObj []))"
  by (simp add: unwrap_def jget_def is_object_def plain_object_def Let_def)

lemma serve_base_route: "snd (serve env g s BaseRoute rq) = s"
  by (simp add: serve_def split: sum.split)

text \<open>
  C5: whatever bytes arrive, the books are kept. The answer to any message, with any method, path
  and body (an object, when it is JSON), moves the database along the atomic writes and keeps the
  money invariant; and when it changes anything, the message had the path of a documented endpoint
  and, unless that endpoint is public, the token of a stored user.
\<close>

theorem messages_keep_books:
  assumes "documented env" "documented_router r" "money_ok (app_db s)" "fresh_wallet (app_db s) (uuid g 0)"
    and "\<And>v. run_parsers (body_parsers x version) m = Inr (JsonBody v) \<Longrightarrow> plain_object (unwrap PBody v)"
    and "receive x r version env g s m rq = Some (res, s')"
  shows "db_step\<^sup>*\<^sup>* (app_db s) (app_db s') \<and> money_ok (app_db s')
    \<and> (s' \<noteq> s \<longrightarrow> (\<exists>e w. method_matches (msg_method m) (http_method e)
        \<and> map toLowerCase (request_segments (msg_path m)) = map toLowerCase (request_segments (endpoint_url version e w))
        \<and> (e \<in> {Register, Login, StripeWebhook} \<or>
           Option.bind (check_token env (rq_authorization rq)) (findUserByEmail (app_db s)) \<noteq> None)))"
  using assms(6)
proof (cases rule: receive_cases)
  case 1
  then show ?thesis using assms(3) by simp
next
  case (2 e vs ps b)
  let ?rq = "with_params ps (with_body b rq)"
  have "object_body (with_body b rq)"
    using assms(5) 2(3) by (cases b) (simp_all add: object_body_def with_body_def unwrap_empty)
  then have steps: "steps_to s s'"
    using serve_steps [OF assms(1) _ assms(3,4), of e ?rq] 2(4) [symmetric] by (simp add: well_formed_def)
  have token: "e \<in> {BaseRoute, Register, Login, StripeWebhook} \<or>
      Option.bind (check_token env (rq_authorization rq)) (findUserByEmail (app_db s)) \<noteq> None" if "s' \<noteq> s"
    using serve_unauthenticated [of e env ?rq s g] that 2(4) [symmetric] by auto
  have "e \<noteq> BaseRoute" if "s' \<noteq> s"
    using serve_base_route [of env g s ?rq] that 2(4) [symmetric] by auto
  with token steps route_only [OF assms(2) 2(1)] money.along [OF steps assms(3)] show ?thesis by fast
qed

lemma receive_answers: "\<not> dashboard r m \<Longrightarrow> \<exists>res s'. receive x r version env g s m rq = Some (res, s')"
  by (auto simp: receive_def split: sum.split option.split prod.split)

definition demo_express :: express where
  "demo_express = \<lparr>media_type = (\<lambda>given kind. given = Some kind), parse_json = (\<lambda>_. Inr (JObj []))\<rparr>"

definition demo_message :: message where
  "demo_message = \<lparr>msg_method = ''POST'', msg_path = ''/api/v1/stripe/webhook'', msg_query = '''',
     msg_type = Some ''application/json'', msg_bytes = ''cs_2''\<rparr>"

theorem messages_keep_books_witness:
  "case receive demo_express plain_router ''1.0.1'' demo_env (demo_ambient ''s'' 9) demo_app demo_message (demo_http None) of
     None \<Rightarrow> False | Some (res, s') \<Rightarrow> db_step\<^sup>*\<^sup>* demo_db (app_db s') \<and> money_ok (app_db s')"
proof -
  let ?r = "receive demo_express plain_router ''1.0.1'' demo_env (demo_ambient ''s'' 9) demo_app demo_message (demo_http None)"
  have ok: "money_ok (app_db demo_app)" by (simp add: money_ok_def demo_db_ok demo_money)
  have fresh: "fresh_wallet (app_db demo_app) (uuid (demo_ambient ''s'' 9) 0)"
    by (simp add: fresh_wallet_def demo_ambient_def paid_entry_def)
  have body: "plain_object (unwrap PBody v)"
    if "run_parsers (body_parsers demo_express ''1.0.1'') demo_message = Inr (JsonBody v)" for v
    using that unwrap_empty
    by (auto simp: body_parsers_def raw_parser_def json_parser_def module_parser_def demo_express_def split: if_splits)
  have "\<not> dashboard plain_router demo_message"
    by (simp add: plain_router_def demo_message_def mounted_def starts_with_def)
  then obtain res s' where r: "?r = Some (res, s')" using receive_answers by blast
  show ?thesis
    using messages_keep_books [OF demo_env_documented plain_router_documented ok fresh body r] r by simp
qed

end
