(* ===== verification/Spec2Isabelle.thy ===== *)
theory Spec2Isabelle
  imports EndToEnd Locks OutboxProperties Privacy AuthProperties NotificationProperties ServerBooks
    Startup Bank Accounts PoolPrivacy TickExclusion Wiring Routes
begin

text \<open>
  A verification library for the Lior-Paris wallet, a NestJS server that keeps wallets in several
  currencies, takes deposits through Stripe Checkout, moves money between users and sends e-mails
  through an outbox and three queues. The program is under \<open>src/\<close>; paths below are relative to
  \<open>src/src/\<close>.

  \<^bold>\<open>The program and its parts.\<close> An HTTP request passes the two guards of \<open>features/auth\<close>, the
  content-type interceptor, the pipes of its route, the handler of its controller and, when
  something is thrown, the exception filter. The handler calls a service, the service a
  repository, and a repository statement or transaction changes the MySQL tables. A deposit asks
  Stripe for a checkout session and records a PENDING transaction; the webhook of the paid session
  credits the wallet, posts a ledger entry and writes an outbox event, all in one database
  transaction. A transfer writes a PENDING transfer row and then, in one database transaction that
  locks both wallets in the order of their ids, debits, credits, posts two ledger entries and
  writes an outbox event. A cron tick publishes outbox events to a BullMQ queue; its processor fans
  them out to the notification queue, whose processor sends e-mails and moves what it cannot send
  to the dead-letter queue. Balances are cached in Redis for one minute.

  \<^bold>\<open>State.\<close> Record \<open>db\<close> (Database) holds the six tables as lists of rows in the order of their
  insertion, and the collation that decides when MySQL takes two texts for equal, a parameter of
  which nothing is assumed. Record \<open>app\<close> (AppState) adds the Redis cache, the queues, the
  re-entrancy flag of the publisher and the emitted domain events not yet handled. A database
  statement or transaction has the type \<open>db \<Rightarrow> error + ('a \<times> db)\<close>: a failure has no effect, as
  after a rollback. A service call has the type \<open>app \<Rightarrow> (error + 'a) \<times> app\<close>: what was written
  before a later failure stays written. Clock, fresh ids and random bytes come from \<open>ambient\<close>.

  \<^bold>\<open>Theories that model the code.\<close>
  \<^item> Prelude: values that travel as JSON, exceptions, the two result types with their sequencing,
    rows and tables, and the locale \<open>invariant_system\<close> (a step relation and an invariant it keeps).
  \<^item> JsNumber: JavaScript numbers that are whole: rounding to a double, addition, safe integers,
    the range of a \<open>bigint\<close> column.
  \<^item> Entities, Database: \<open>shared/constants\<close>, \<open>shared/events\<close>, the entity classes, the unique
    indexes, column sizes and foreign keys; the locale \<open>keyed_table\<close>, interpreted for all six
    tables.
  \<^item> AppState: cache and queues (\<open>infrastructure/queue\<close>); the locale \<open>ttl_cache\<close>.
  \<^item> WalletTags: \<open>shared/utils/generate-wallet-tag.ts\<close>.
  \<^item> Payments: \<open>features/payments\<close>, the registry and the Stripe gateway.
  \<^item> WalletRepository, WalletService: \<open>features/wallet\<close>, with listener, deposits, balance query and
    the Stripe webhook; the locale \<open>webhook_gateway\<close>.
  \<^item> Users, Auth: \<open>features/users\<close> and \<open>features/auth\<close>.
  \<^item> Transfers: \<open>features/transfers\<close>.
  \<^item> Outbox: \<open>infrastructure/outbox\<close>.
  \<^item> Texts, Notifications: the texts of e-mails and amounts, the processors of
    \<open>features/notifications\<close> and \<open>infrastructure/queue\<close>.
  \<^item> Schemas: the DTO classes with their decorators and the Zod schemas, as data, and what it means
    that a value satisfies them.
  \<^item> Http, Controllers, Server: \<open>shared/filters\<close>, \<open>shared/pipes\<close>, \<open>shared/interceptors\<close>,
    \<open>shared/jsonapi\<close>, \<open>shared/pagination\<close>, every controller, and \<open>serve\<close>, the way of a request
    through all of them.
  \<^item> Bootstrap, Startup: what \<open>main.ts\<close>, the module files and \<open>infrastructure/database\<close> compute from the
    environment, the log levels, \<open>scripts/seed-admin.ts\<close>, when the server listens and when it exits,
    and the body parsers a message passes before \<open>serve\<close>.
  \<^item> Modules: every \<open>@Module\<close>, the parameters of every constructor, and which class waits for which
    queue, clock or event.
  \<^item> Routes: method, path and handler of every route, and \<open>receive\<close>, the way of a message through
    body parsers and router to \<open>serve\<close>, with what is proved of it: the routes are the paths of the
    README, and any message keeps the books.
  \<^item> Threads, AccountThreads, PublisherThread: the handlers and the tick once more, cut at every
    awaited call, as values of the type \<open>thread\<close>; run without interruption, each is proved equal to
    the handler above. A call of Argon, of a gateway or of the signing of tokens is a step that
    touches no state (\<open>call\<close>), so others may run while it is awaited; a database transaction is one
    step. A save of a loaded user is here two statements, as TypeORM documents it.

  \<^bold>\<open>Theories that prove.\<close>
  \<^item> Ledger, TransferLaws: the effect of one posted entry and of a transfer on balances, ledger and
    predicates (\<open>audited\<close>, \<open>solvent\<close>, \<open>in_range\<close>).
  \<^item> Interleaving, Invariants, Money: \<open>db_step\<close>, every write of the program as an atomic step that
    may act on stale reads, and the invariants of all databases that such steps reach, whatever the
    interleaving. Bank: these steps refine an abstract bank.
  \<^item> WalletProperties, Webhook, Deposits, EndToEnd: settlement, webhook and deposit handler, from
    the request to the credited wallet.
  \<^item> TransferProperties, TransferReplay: what a transfer moves, and what repeating it does.
  \<^item> Refinement, ServerBooks: handlers, listener calls and ticks, and then every request of the
    server, are sequences of \<open>db_step\<close>.
  \<^item> Concurrency, Pool: rely and guarantee of the threads, and a pool of any number of them whose
    statements interleave in any order; the books hold in every state it reaches, and every request
    ends after a bounded number of its own awaited calls and, undisturbed, does what the service
    does. PoolPrivacy: in such a pool, too, a balance query is answered with the asking user's wallet.
    TickExclusion: ticks of the publisher that overlap exclude each other, and the flag is set
    exactly while one of them is at work. Races: what the stale reads between statements do let
    happen.
  \<^item> Locks: concurrent transfers and settlements as a step relation on held and wanted row locks.
  \<^item> OutboxProperties, NotificationProperties: the publisher under any failures, how many undisturbed
    ticks drain the outbox, what becomes of an event that failed five times, delivery of mails and the bound on the work of the queues.
  \<^item> Privacy, UserProperties, AuthProperties: the cache never mixes users; who may change and delete
    whom; registration, login, tokens and guards.
  \<^item> ServerProperties, Views: refused requests, the error document of every exception a request
    raises, hidden passwords, pages.
  \<^item> InputProperties: what a body that reached a handler satisfies. Accounts: which request changes
    which account.
  \<^item> Wiring: every constructor is given its parameters, nothing is circular, and what the imported
    modules start in the background.
  \<^item> TextProperties, BootstrapProperties: what the text of an amount is and that it is read back as
    the amount, what a wallet tag is, the seed script.
  \<^item> Scenario: one concrete database, application state and set of parameters on which the
    witnesses evaluate the properties.

  \<^bold>\<open>Contracts.\<close> \<open>invariant_system\<close> is instantiated by \<open>money\<close> and \<open>books\<close> (databases under any
  interleaving), \<open>program\<close> (handlers), \<open>privacy\<close> (cache), \<open>locks\<close> (row locks), \<open>server\<close> (requests)
  and \<open>pool\<close>, \<open>private_pool\<close> and \<open>one_tick\<close> (requests that interleave). \<open>keyed_table\<close> is the contract of a table with unique indexes, \<open>ttl_cache\<close> that of the balance
  cache, \<open>webhook_gateway\<close> that of a payment provider that confirms payments later by a webhook.

  \<^bold>\<open>Parameters and hypotheses.\<close> Third-party code is an argument of the definitions that use it:
  Stripe's session creation and signature check, opossum's \<open>fire\<close>, argon2, signing and checking of
  tokens, SendGrid, refusals of Redis and of statements during a tick, class-validator, Zod's
  \<open>parse\<close>, Express' parsing and its comparison of paths, the exports of third-party modules,
  passport-jwt, the connections, the conversion \<open>Number(text)\<close>. Six hypotheses about
  them have names: \<open>documented_library\<close> (which tokens the imported packages export and which of their
  modules are global), \<open>documented_router\<close> (the literal parts of a path are compared without regard
  to case), \<open>transparent_breaker\<close> (a result that came through the breaker is the result of the call),
  \<open>argon_law\<close> (a hash verifies against the password it was made of) and \<open>documented\<close> (what
  class-validator or Zod lets through satisfies the decorators or the schema it was checked against;
  what each takes for an e-mail address is a parameter of its own),
  all with an instance in a witness, and \<open>needs_payload\<close> (Stripe refuses an empty payload), used by
  one theorem of Startup.

  \<^bold>\<open>Bounds.\<close> An amount below 2 to the 52 prints exactly. Balances that stay within the safe
  integers of JavaScript are added without rounding; the audit law is stated for these and
  \<open>to_double\<close> models what happens beyond. A page has at most 100 rows. An outbox row is given up
  after 5 attempts; a queue job is tried 3 times. A new notification weighs 16 worker steps, which
  bounds every run of the workers, so no fuel is needed. All recursion is structural or has a
  proved measure.

  \<^bold>\<open>Simplified.\<close> \<open>constructEvent\<close> is a function of payload, signature and secret: Stripe's tolerance for
  the age of a signature is not in it, and a redelivery is one with the same signature. The query
  values \<open>page\<close> and \<open>limit\<close> are whole numbers or not a number; fractional and infinite ones are left
  out. A character is a UTF-16 unit below 256. The release of the publisher's flag is a step of its
  own, which adds interleavings and hides none.

  \<^bold>\<open>Not modelled.\<close> The state machine of opossum, BullMQ's back-off and retention and what the dashboard of Bull Board does,
  all of them third-party; the log lines of handlers (they change no state), container files and tests. MySQL
  is modelled at the granularity of statements and transactions: isolation inside a transaction is
  taken from the row locks, and stale reads between them are covered by \<open>db_step\<close>. One server
  process is modelled: a second one would have a publisher flag of its own.
\<close>

end
